(* ===== verification/Prelude.thy ===== *)
theory Prelude
  imports Main "HOL-Library.AList" "HOL-Library.Sublist"
begin

text \<open>
  What the components share: the JavaScript values they are written with
  (strings, insertion-ordered \<open>Map\<close>s), results that may be errors, and the
  interface of a forward-only cursor.

  A JavaScript \<open>Map\<close> iterates in insertion order and \<open>set\<close> on a present key keeps
  the key's position, so it is an association list with distinct keys, updated by
  \<^const>\<open>AList.update\<close> and \<^const>\<open>AList.delete\<close>. Strings are character lists; the
  identifiers the program handles (hex hashes, chain addresses, keys) are ASCII.
\<close>

named_theorems jsmap_simps \<open>lookup, membership and size after a Map operation\<close>
named_theorems invar_intros \<open>operations that keep a component's invariant\<close>

section \<open>Strings\<close>

definition lower_char :: "char \<Rightarrow> char" where
  "lower_char c = (let n = (of_char c :: nat) in if 65 \<le> n \<and> n \<le> 90 then char_of (n + 32) else c)"

definition toLowerCase :: "string \<Rightarrow> string" where
  "toLowerCase s = map lower_char s"

definition startsWith :: "string \<Rightarrow> string \<Rightarrow> bool" where
  "startsWith s p = prefix p s"

fun str_includes :: "string \<Rightarrow> string \<Rightarrow> bool" where
  "str_includes [] t = (t = [])"
| "str_includes (c # s) t = (startsWith (c # s) t \<or> str_includes s t)"

fun decimal :: "nat \<Rightarrow> string" where
  "decimal n = (if n < 10 then [char_of (48 + n)] else decimal (n div 10) @ [char_of (48 + n mod 10)])"

declare decimal.simps [simp del]

definition number_string :: "int \<Rightarrow> string" where
  "number_string i = (if i < 0 then CHR ''-'' # decimal (nat (- i)) else decimal (nat i))"

text \<open>Character functions are evaluated on the bits.\<close>

lemma lower_char_code [code]:
  "lower_char (Char b0 b1 b2 b3 b4 b5 b6 b7) =
     (if \<not> b7 \<and> b6 \<and> \<not> b5 \<and> (b0 \<or> b1 \<or> b2 \<or> b3 \<or> b4) \<and> \<not> (b4 \<and> b3 \<and> (b2 \<or> b1 \<and> b0))
      then Char b0 b1 b2 b3 b4 True b6 b7 else Char b0 b1 b2 b3 b4 b5 b6 b7)"
  unfolding lower_char_def Let_def
  by (cases b7; cases b6; cases b5; cases b4; cases b3; cases b2; cases b1; cases b0; simp add: char_of_def bit_iff_odd)

lemma length_toLowerCase [simp]: "length (toLowerCase s) = length s"
  by (simp add: toLowerCase_def)

lemma toLowerCase_append [simp]: "toLowerCase (s @ t) = toLowerCase s @ toLowerCase t"
  by (simp add: toLowerCase_def)

lemma lower_char_idem [simp]: "lower_char (lower_char c) = lower_char c"
  by (auto simp: lower_char_def Let_def)

lemma toLowerCase_idem [simp]: "toLowerCase (toLowerCase s) = toLowerCase s"
  by (simp add: toLowerCase_def)

lemma str_includes_iff: "str_includes s t \<longleftrightarrow> (\<exists>u v. s = u @ t @ v)"
proof -
  have "str_includes s t = sublist t s"
    by (induction s) (auto simp: startsWith_def sublist_Cons_right)
  then show ?thesis by (simp add: sublist_def)
qed

lemma decimal_nonempty [simp]: "decimal n \<noteq> []"
  by (subst decimal.simps) simp

lemma decimal_step:
  "n < 10 \<Longrightarrow> decimal n = [char_of (48 + n)]"
  "\<not> n < 10 \<Longrightarrow> decimal n = decimal (n div 10) @ [char_of (48 + n mod 10)]"
  by (subst decimal.simps, simp)+

section \<open>Missing values\<close>

text \<open>\<open>x ?? d\<close>.\<close>

definition or_default :: "'a option \<Rightarrow> 'a \<Rightarrow> 'a" where
  "or_default x d = (case x of None \<Rightarrow> d | Some y \<Rightarrow> y)"

text \<open>The truth value of an optional string: missing and empty strings are false.\<close>

definition truthy :: "string option \<Rightarrow> bool" where
  "truthy v = (v \<noteq> None \<and> v \<noteq> Some [])"

lemma or_default_simps [simp]: "or_default None d = d" "or_default (Some y) d = y"
  by (simp_all add: or_default_def)

lemma find_append_case:
  "find P (xs @ ys) = (case find P xs of None \<Rightarrow> find P ys | Some x \<Rightarrow> Some x)"
  by (induction xs) auto

section \<open>Insertion-ordered maps\<close>

type_synonym ('k, 'v) jsmap = "('k \<times> 'v) list"

abbreviation jm_get :: "('k, 'v) jsmap \<Rightarrow> 'k \<Rightarrow> 'v option" where
  "jm_get m k \<equiv> map_of m k"

abbreviation jm_set :: "'k \<Rightarrow> 'v \<Rightarrow> ('k, 'v) jsmap \<Rightarrow> ('k, 'v) jsmap" where
  "jm_set \<equiv> AList.update"

abbreviation jm_delete :: "'k \<Rightarrow> ('k, 'v) jsmap \<Rightarrow> ('k, 'v) jsmap" where
  "jm_delete \<equiv> AList.delete"

definition jm_has :: "('k, 'v) jsmap \<Rightarrow> 'k \<Rightarrow> bool" where
  "jm_has m k = (k \<in> set (map fst m))"

definition jm_wf :: "('k, 'v) jsmap \<Rightarrow> bool" where
  "jm_wf m = distinct (map fst m)"

lemma jm_has_iff_get: "jm_has m k \<longleftrightarrow> jm_get m k \<noteq> None"
  by (simp add: jm_has_def map_of_eq_None_iff)

lemma jm_get_set [jsmap_simps]: "jm_get (jm_set k v m) k' = (if k' = k then Some v else jm_get m k')"
  by (simp add: update_conv')

lemma jm_get_delete [jsmap_simps]: "jm_get (jm_delete k m) k' = (if k' = k then None else jm_get m k')"
  by (simp add: delete_conv')

lemma jm_has_set [jsmap_simps]: "jm_has (jm_set k v m) k' \<longleftrightarrow> k' = k \<or> jm_has m k'"
  by (simp add: jm_has_iff_get jm_get_set)

lemma jm_has_delete [jsmap_simps]: "jm_has (jm_delete k m) k' \<longleftrightarrow> k' \<noteq> k \<and> jm_has m k'"
  by (simp add: jm_has_iff_get jm_get_delete)

lemma jm_wf_Nil [simp, intro]: "jm_wf []"
  by (simp add: jm_wf_def)

lemma jm_wf_set [simp, intro, invar_intros]: "jm_wf m \<Longrightarrow> jm_wf (jm_set k v m)"
  by (simp add: jm_wf_def distinct_update)

lemma jm_wf_delete [simp, intro, invar_intros]: "jm_wf m \<Longrightarrow> jm_wf (jm_delete k m)"
  by (simp add: jm_wf_def distinct_delete)

lemma jm_wf_filter [simp, intro, invar_intros]: "jm_wf m \<Longrightarrow> jm_wf (filter P m)"
  by (simp add: jm_wf_def distinct_map_filter)

lemma length_jm_set [jsmap_simps]:
  "length (jm_set k v m) = (if jm_has m k then length m else Suc (length m))"
  by (induction m) (auto simp: jm_has_def)

lemma jm_delete_absent: "\<not> jm_has m k \<Longrightarrow> jm_delete k m = m"
  by (simp add: jm_has_def delete_id)

lemma length_jm_delete_le: "length (jm_delete k m) \<le> length m"
  by (simp add: length_delete_le)

lemma length_jm_delete [jsmap_simps]:
  assumes "jm_wf m"
  shows "length (jm_delete k m) = (if jm_has m k then length m - 1 else length m)"
  using assms
proof (induction m)
  case Nil
  then show ?case by (simp add: jm_has_def)
next
  case (Cons p m)
  then have wf: "jm_wf m" and p: "fst p \<notin> set (map fst m)"
    by (auto simp: jm_wf_def)
  show ?case
  proof (cases "fst p = k")
    case True
    with p show ?thesis by (cases p) (simp add: jm_has_def delete_id)
  next
    case False
    have "k \<in> set (map fst m) \<Longrightarrow> length m \<noteq> 0" by auto
    with Cons.IH [OF wf] False show ?thesis
      by (cases p) (auto simp: jm_has_def)
  qed
qed

lemma set_jm_set:
  assumes "jm_wf m"
  shows "set (jm_set k v m) = insert (k, v) {p \<in> set m. fst p \<noteq> k}"
  using assms by (induction m) (auto simp: jm_wf_def image_iff)

lemma set_jm_delete: "set (jm_delete k m) = {p \<in> set m. fst p \<noteq> k}"
  by (auto simp: AList.delete_eq)

lemma jm_get_in_set: "jm_wf m \<Longrightarrow> jm_get m k = Some v \<longleftrightarrow> (k, v) \<in> set m"
  by (simp add: jm_wf_def)

end
