(* ===== verification/Transaction_Contract.thy ===== *)
theory Transaction_Contract
  imports Prelude
begin

text \<open>
  \<open>coordinator/src/persistence/transaction-contract.ts\<close> and the \<open>transaction\<close> method of
  \<open>PostgresDatabase\<close> in \<open>coordinator/src/persistence/db.ts\<close>: the retry loop and the
  transaction boundary every multi-statement write of the repository goes through.

  A callback is a function of the attempt number and of the stored state; it returns the
  state its statements leave behind and a result, \<open>Inl\<close> the message of the exception it threw.
  What the engine answers to \<open>BEGIN\<close> and \<open>COMMIT\<close> is an argument, one answer per attempt.
\<close>

type_synonym ('s, 'a) callback = "nat \<Rightarrow> 's \<Rightarrow> 's \<times> (string + 'a)"

record tx_engine =
  begin_error :: "nat \<Rightarrow> string option"
  commit_error :: "nat \<Rightarrow> string option"

definition explicitTokens :: "string list" where
  "explicitTokens = [''sqlite_busy'', ''sqlite_locked'', ''database is locked'', ''deadlock'',
     ''lock timeout'']"

definition default_retryableErrors :: "string list" where
  "default_retryableErrors = [''SQLITE_BUSY'', ''SQLITE_LOCKED'', ''database is locked'',
     ''deadlock'', ''lock timeout'']"

definition default_maxAttempts :: nat where
  "default_maxAttempts = 3"

definition shouldRetry :: "string list \<Rightarrow> string \<Rightarrow> bool" where
  "shouldRetry retryableErrors message =
     (let lowered = toLowerCase message
      in if list_ex (str_includes lowered) explicitTokens then True
         else list_ex (\<lambda>token. str_includes lowered (toLowerCase token)) retryableErrors)"

text \<open>The loop of \<open>runWithRetry\<close>: \<open>attempt\<close> counts the attempts made, \<open>lastError\<close> is the
  message last caught. The loop ends without an attempt only when \<open>maxAttempts\<close> is zero.\<close>

function runWithRetry_loop ::
    "nat \<Rightarrow> string list \<Rightarrow> ('s, 'a) callback \<Rightarrow> nat \<Rightarrow> string \<Rightarrow> 's \<Rightarrow> 's \<times> (string + 'a)" where
  "runWithRetry_loop maxAttempts retryableErrors fn attempt lastError s =
     (if attempt < maxAttempts then
        (case fn (attempt + 1) s of
           (s', Inr result) \<Rightarrow> (s', Inr result)
         | (s', Inl message) \<Rightarrow>
             if \<not> shouldRetry retryableErrors message then (s', Inl message)
             else runWithRetry_loop maxAttempts retryableErrors fn (attempt + 1) message s')
      else (s, Inl lastError))"
  by pat_completeness auto
termination
  by (relation "measure (\<lambda>(maxAttempts, _, _, attempt, _, _). maxAttempts - attempt)") auto

declare runWithRetry_loop.simps [simp del]

definition runWithRetry ::
    "nat \<Rightarrow> string list \<Rightarrow> ('s, 'a) callback \<Rightarrow> 's \<Rightarrow> 's \<times> (string + 'a)" where
  "runWithRetry maxAttempts retryableErrors fn s =
     runWithRetry_loop maxAttempts retryableErrors fn 0 ''undefined'' s"

text \<open>\<open>BEGIN IMMEDIATE\<close> stands outside the \<open>try\<close>; a throw of the callback or of \<open>COMMIT\<close>
  rolls the connection back. A failing \<open>ROLLBACK\<close> is swallowed: the connection is gone and
  its uncommitted work with it.\<close>

definition runInSyncTransaction :: "tx_engine \<Rightarrow> ('s, 'a) callback \<Rightarrow> ('s, 'a) callback" where
  "runInSyncTransaction eng fn n s =
     (case begin_error eng n of
        Some e \<Rightarrow> (s, Inl e)
      | None \<Rightarrow>
          (case fn n s of
             (s', Inl e) \<Rightarrow> (s, Inl e)
           | (s', Inr result) \<Rightarrow>
               (case commit_error eng n of
                  Some e \<Rightarrow> (s, Inl e)
                | None \<Rightarrow> (s', Inr result))))"

text \<open>The Postgres transaction runs on a client checked out of the pool, handed to the
  callback as \<open>scoped\<close>. Statements issued on that client are undone by \<open>ROLLBACK\<close>; statements
  issued on the pool commit on their own. The argument \<open>route\<close> says on which connection a
  callback that was handed \<open>scoped\<close> issues its statements.\<close>

datatype connection = Ambient | Scoped

definition pg_transaction ::
    "tx_engine \<Rightarrow> (connection \<Rightarrow> connection) \<Rightarrow> ('s, 'a) callback \<Rightarrow> ('s, 'a) callback" where
  "pg_transaction eng route fn n s =
     (case begin_error eng n of
        Some e \<Rightarrow> (s, Inl e)
      | None \<Rightarrow>
          (let (s', r) = fn n s;
               rolledBack = (if route Scoped = Scoped then s else s')
           in case r of
                Inl e \<Rightarrow> (rolledBack, Inl e)
              | Inr result \<Rightarrow>
                  (case commit_error eng n of
                     Some e \<Rightarrow> (rolledBack, Inl e)
                   | None \<Rightarrow> (s', Inr result))))"

text \<open>What the connection offers, and the three branches of \<open>runInTransaction\<close>. The native
  branch is \<open>db.transaction(() => fn())\<close>: the callback drops the connection it is handed, and
  the statements of the repository stay prepared against the ambient one.\<close>

datatype database_kind = NativeTransaction | SyncExec | NoTransaction

definition runInTransaction ::
    "nat \<Rightarrow> string list \<Rightarrow> tx_engine \<Rightarrow> database_kind \<Rightarrow> ('s, 'a) callback \<Rightarrow> 's
     \<Rightarrow> 's \<times> (string + 'a)" where
  "runInTransaction maxAttempts retryableErrors eng kind fn =
     (case kind of
        NativeTransaction \<Rightarrow>
          runWithRetry maxAttempts retryableErrors (pg_transaction eng (\<lambda>_. Ambient) fn)
      | SyncExec \<Rightarrow> runWithRetry maxAttempts retryableErrors (runInSyncTransaction eng fn)
      | NoTransaction \<Rightarrow> runWithRetry maxAttempts retryableErrors fn)"

section \<open>Lemmas\<close>

text \<open>A callback that undoes its own failures. The retry loop then runs every attempt from the
  initial state.\<close>

locale atomic_callback =
  fixes fn :: "('s, 'a) callback"
  assumes fail_restores: "fn n s = (s', Inl e) \<Longrightarrow> s' = s"
begin

lemma loop_outcome:
  "runWithRetry_loop m toks fn k l s = (s', r) \<Longrightarrow>
     (case r of Inl e \<Rightarrow> s' = s | Inr a \<Rightarrow> \<exists>n. k < n \<and> n \<le> m \<and> fn n s = (s', Inr a))"
proof (induction "m - k" arbitrary: k l)
  case 0
  then show ?case by (auto simp: runWithRetry_loop.simps)
next
  case (Suc d)
  then have k: "k < m" by simp
  obtain t q where f: "fn (k + 1) s = (t, q)" by (cases "fn (k + 1) s") auto
  show ?case
  proof (cases q)
    case (Inr a)
    with f k Suc.prems have "r = Inr a \<and> t = s'" by (simp add: runWithRetry_loop.simps)
    with f k Inr show ?thesis by (auto intro!: exI [of _ "k + 1"])
  next
    case (Inl e)
    with f have t: "t = s" by (simp add: fail_restores)
    show ?thesis
    proof (cases "shouldRetry toks e")
      case False
      with f k Inl t Suc.prems show ?thesis by (auto simp: runWithRetry_loop.simps [of m])
    next
      case True
      with f k Inl t Suc.prems have "runWithRetry_loop m toks fn (k + 1) e s = (s', r)"
        by (simp add: runWithRetry_loop.simps [of m toks fn k])
      moreover have "d = m - (k + 1)" using Suc.hyps(2) by simp
      ultimately have "case r of Inl e \<Rightarrow> s' = s
          | Inr a \<Rightarrow> \<exists>n. k + 1 < n \<and> n \<le> m \<and> fn n s = (s', Inr a)"
        by (intro Suc.hyps(1))
      then show ?thesis by (cases r) (auto intro: Suc_lessD)
    qed
  qed
qed

lemma retry_outcome:
  "runWithRetry m toks fn s = (s', r) \<Longrightarrow>
     (case r of Inl e \<Rightarrow> s' = s | Inr a \<Rightarrow> \<exists>n. 1 \<le> n \<and> n \<le> m \<and> fn n s = (s', Inr a))"
  using loop_outcome [of m toks 0 "''undefined''" s s' r]
  by (auto simp: runWithRetry_def Suc_le_eq split: sum.splits)

end

interpretation sync_tx: atomic_callback "runInSyncTransaction eng fn"
  by unfold_locales (auto simp: runInSyncTransaction_def split: option.splits prod.splits sum.splits)

text \<open>The Postgres transaction would be atomic if the callback used the connection it is
  handed.\<close>

interpretation scoped_pg_tx: atomic_callback "pg_transaction eng (\<lambda>c. c) fn"
  by unfold_locales
    (auto simp: pg_transaction_def Let_def split: option.splits prod.splits sum.splits)

lemma sync_transaction_success:
  "runInSyncTransaction eng fn n s = (s', Inr a) \<longleftrightarrow>
     begin_error eng n = None \<and> commit_error eng n = None \<and> fn n s = (s', Inr a)"
  by (auto simp: runInSyncTransaction_def split: option.splits prod.splits sum.splits)

text \<open>A first attempt that succeeds is the result; a first failure that is not retryable too.\<close>

lemma runWithRetry_first:
  assumes "0 < m" and "fn 1 s = (s', r)" and "\<And>e. r = Inl e \<Longrightarrow> \<not> shouldRetry toks e"
  shows "runWithRetry m toks fn s = (s', r)"
  using assms by (auto simp: runWithRetry_def runWithRetry_loop.simps [of m] split: sum.splits)

section \<open>Properties\<close>

text \<open>C8. A repository write inside a SQLite transaction is all or nothing, retries included:
  when \<open>runInTransaction\<close> throws, the stored state is exactly what it was before the call, and
  when it returns, the stored state and the result are those of one single attempt run from
  the initial state and committed.\<close>

theorem sqlite_transaction_atomic:
  assumes "runInTransaction m toks eng SyncExec fn s = (s', r)"
  shows "case r of
           Inl e \<Rightarrow> s' = s
         | Inr a \<Rightarrow> \<exists>n. 1 \<le> n \<and> n \<le> m \<and> begin_error eng n = None \<and> commit_error eng n = None
                       \<and> fn n s = (s', Inr a)"
  using assms sync_tx.retry_outcome [of m toks eng fn s s' r]
  by (auto simp: runInTransaction_def sync_transaction_success split: sum.splits)

theorem sqlite_transaction_atomic_witness:
  "runInTransaction 3 default_retryableErrors \<lparr>begin_error = (\<lambda>n. if n = 1 then Some ''SQLITE_BUSY'' else None),
        commit_error = (\<lambda>_. None)\<rparr> SyncExec (\<lambda>n s. (s + 1, Inr n)) (0::nat) = (1, Inr 2)
   \<and> (\<exists>n. 1 \<le> n \<and> n \<le> (3::nat) \<and> ((0::nat) + 1, Inr n :: string + nat) = (1, Inr 2))"
proof -
  let ?eng = "\<lparr>begin_error = (\<lambda>n. if n = 1 then Some ''SQLITE_BUSY'' else None),
        commit_error = (\<lambda>_. None)\<rparr>"
  have run: "runInTransaction 3 default_retryableErrors ?eng SyncExec (\<lambda>n s. (s + 1, Inr n)) (0::nat)
      = (1, Inr 2)"
    by code_simp
  show ?thesis using run sqlite_transaction_atomic [OF run] by auto
qed

text \<open>A Postgres transaction does not protect the repository: \<open>runInTransaction\<close> hands the
  callback no connection, so its statements run on the pool and commit one by one. A callback
  whose second statement fails leaves the first one applied although the call throws, where
  the same callback on the scoped connection, or under SQLite, leaves no trace.\<close>

theorem postgres_transaction_not_atomic:
  fixes upd :: "'s \<Rightarrow> 's" and s :: 's
  defines "eng \<equiv> \<lparr>begin_error = (\<lambda>_. None), commit_error = (\<lambda>_. None)\<rparr>"
    and "fn \<equiv> (\<lambda>n s. (upd s, Inl ''insert failed'')) :: ('s, unit) callback"
  shows "runInTransaction 3 default_retryableErrors eng NativeTransaction fn s
           = (upd s, Inl ''insert failed'')
         \<and> runInTransaction 3 default_retryableErrors eng SyncExec fn s = (s, Inl ''insert failed'')
         \<and> runWithRetry 3 default_retryableErrors (pg_transaction eng (\<lambda>c. c) fn) s
           = (s, Inl ''insert failed'')"
proof -
  have "\<not> shouldRetry default_retryableErrors ''insert failed''"
    by code_simp
  then show ?thesis
    unfolding runInTransaction_def
    by (auto intro!: runWithRetry_first
        simp: eng_def fn_def pg_transaction_def runInSyncTransaction_def)
qed

end
