(* ===== verification/Transition_Tables.thy ===== *)
theory Transition_Tables
  imports Prelude
begin

text \<open>
  Several parts of the program keep a lifecycle as a table from a state to the list
  of its successors (\<open>ORDER_STATUS_TRANSITIONS\<close> in the SDK and in the coordinator,
  \<open>ALLOWED_TRANSITIONS\<close> of the relayer's transaction store,
  \<open>LIFECYCLE_TRANSITIONS\<close> of the resolver). This theory states once what such a
  table promises when its states can be ranked: no state is entered twice and every
  run is short. The tables of the program are instances of the locale.
\<close>

fun table_path :: "('s \<Rightarrow> 's list) \<Rightarrow> 's \<Rightarrow> 's list \<Rightarrow> bool" where
  "table_path nexts s [] = True"
| "table_path nexts s (t # ts) = (t \<in> set (nexts s) \<and> table_path nexts t ts)"

definition table_reaches :: "('s \<Rightarrow> 's list) \<Rightarrow> 's \<Rightarrow> 's \<Rightarrow> bool" where
  "table_reaches nexts s t \<longleftrightarrow> (\<exists>ts. table_path nexts s ts \<and> last (s # ts) = t)"

lemma table_path_append:
  "table_path nexts s (ts @ us) \<longleftrightarrow> table_path nexts s ts \<and> table_path nexts (last (s # ts)) us"
  by (induction ts arbitrary: s) auto

lemma table_reaches_refl [simp]: "table_reaches nexts s s"
  unfolding table_reaches_def by (rule exI [of _ "[]"]) simp

lemma table_reaches_step:
  assumes "table_reaches nexts s t" and "u \<in> set (nexts t)"
  shows "table_reaches nexts s u"
proof -
  from assms(1) obtain ts where "table_path nexts s ts" and "last (s # ts) = t"
    by (auto simp: table_reaches_def)
  with assms(2) have "table_path nexts s (ts @ [u])" and "last (s # ts @ [u]) = u"
    by (simp_all add: table_path_append)
  then show ?thesis unfolding table_reaches_def by blast
qed

lemma table_reaches_trans:
  assumes "table_reaches nexts s t" and "table_reaches nexts t u"
  shows "table_reaches nexts s u"
proof -
  from assms obtain ts us where "table_path nexts s ts" "last (s # ts) = t"
    and "table_path nexts t us" "last (t # us) = u"
    by (auto simp: table_reaches_def)
  then have "table_path nexts s (ts @ us) \<and> last (s # ts @ us) = u"
    by (cases us) (auto simp: table_path_append)
  then show ?thesis unfolding table_reaches_def by blast
qed

locale transition_table =
  fixes nexts :: "'s \<Rightarrow> 's list"
begin

lemma stuck_path: "nexts s = [] \<Longrightarrow> table_path nexts s ts \<Longrightarrow> ts = []"
  by (cases ts) auto

lemma stuck_reaches: "nexts s = [] \<Longrightarrow> table_reaches nexts s t \<Longrightarrow> t = s"
  using stuck_path [of s] by (fastforce simp: table_reaches_def)

end

locale ranked_table = transition_table nexts
  for nexts :: "'s \<Rightarrow> 's list" +
  fixes rank :: "'s \<Rightarrow> nat" and top :: nat
  assumes rank_up: "t \<in> set (nexts s) \<Longrightarrow> rank s < rank t"
    and rank_top: "rank s \<le> top"
begin

lemma path_ranks: "table_path nexts s ts \<Longrightarrow> t \<in> set ts \<Longrightarrow> rank s < rank t"
proof (induction ts arbitrary: s)
  case Nil
  then show ?case by simp
next
  case (Cons u ts)
  then have "rank s < rank u" by (simp add: rank_up)
  moreover have "t = u \<or> rank u < rank t" using Cons by auto
  ultimately show ?case by auto
qed

lemma path_no_return: "table_path nexts s ts \<Longrightarrow> s \<notin> set ts"
  using path_ranks by blast

lemma path_distinct: "table_path nexts s ts \<Longrightarrow> distinct (s # ts)"
proof (induction ts arbitrary: s)
  case Nil
  then show ?case by simp
next
  case (Cons t ts)
  then have "table_path nexts t ts" by simp
  then have "distinct (t # ts)" by (rule Cons.IH)
  moreover have "s \<notin> set (t # ts)" using Cons.prems by (rule path_no_return)
  ultimately show ?case by simp
qed

lemma path_length: "table_path nexts s ts \<Longrightarrow> rank s + length ts \<le> top"
proof (induction ts arbitrary: s)
  case Nil
  then show ?case by (simp add: rank_top)
next
  case (Cons t ts)
  then have "rank s < rank t" and "rank t + length ts \<le> top"
    by (auto dest: rank_up)
  then show ?case by simp
qed

lemma reaches_rank:
  assumes "table_reaches nexts s t"
  shows "s = t \<or> rank s < rank t"
proof -
  from assms obtain ts where ts: "table_path nexts s ts" "last (s # ts) = t"
    by (auto simp: table_reaches_def)
  show ?thesis
  proof (cases "ts = []")
    case False
    with ts(2) have "t \<in> set ts" by auto
    with ts(1) show ?thesis by (simp add: path_ranks)
  qed (use ts in simp)
qed

lemma reaches_antisym:
  assumes "table_reaches nexts s t" and "table_reaches nexts t s"
  shows "s = t"
  using reaches_rank [OF assms(1)] reaches_rank [OF assms(2)] by auto

end

end
