(* ===== verification/Order_Machine.thy ===== *)
theory Order_Machine
  imports Transition_Tables
begin

text \<open>
  The order lifecycle. The SDK (\<open>packages/sdk/src/state-machine/index.ts\<close>) declares
  the canonical table and its guards; the coordinator
  (\<open>coordinator/src/state-machine/order-machine.ts\<close>) carries its own copy, which the
  rest of the coordinator uses. Both are modelled as written and shown to agree.
\<close>

datatype order_status =
    Announced | Src_locked | Dst_locked | Secret_revealed | Completed
  | Refunded | Failed | Expired | Cancelled | Abandoned

datatype chain = Ethereum | Stellar | Solana

text \<open>Chains compare as the strings they are in the source: \<open>ORDER BY chain\<close> is alphabetical.\<close>

fun chain_name :: "chain \<Rightarrow> string" where
  "chain_name Ethereum = ''ethereum''"
| "chain_name Stellar = ''stellar''"
| "chain_name Solana = ''solana''"

fun chain_rank :: "chain \<Rightarrow> nat" where
  "chain_rank Ethereum = 0"
| "chain_rank Solana = 1"
| "chain_rank Stellar = 2"

instantiation chain :: linorder
begin

definition less_eq_chain :: "chain \<Rightarrow> chain \<Rightarrow> bool" where
  "less_eq_chain a b = (chain_rank a \<le> chain_rank b)"

definition less_chain :: "chain \<Rightarrow> chain \<Rightarrow> bool" where
  "less_chain a b = (chain_rank a < chain_rank b)"

instance
proof
  fix a b :: chain
  show "a \<le> b \<Longrightarrow> b \<le> a \<Longrightarrow> a = b"
    by (cases a; cases b) (simp_all add: less_eq_chain_def)
qed (auto simp: less_eq_chain_def less_chain_def)

end

text \<open>The six directions of the SDK; the coordinator accepts the first four.\<close>

datatype direction = Eth_to_xlm | Xlm_to_eth | Eth_to_sol | Sol_to_eth | Xlm_to_sol | Sol_to_xlm

definition ORDER_STATUSES :: "order_status list" where
  "ORDER_STATUSES = [Announced, Src_locked, Dst_locked, Secret_revealed, Completed,
     Refunded, Failed, Expired, Cancelled, Abandoned]"

definition TERMINAL_ORDER_STATUSES :: "order_status list" where
  "TERMINAL_ORDER_STATUSES = [Completed, Refunded, Failed, Cancelled, Abandoned]"

section \<open>The SDK's machine\<close>

fun sdk_TRANSITIONS :: "order_status \<Rightarrow> order_status list" where
  "sdk_TRANSITIONS Announced = [Src_locked, Cancelled, Abandoned, Failed, Expired]"
| "sdk_TRANSITIONS Src_locked = [Dst_locked, Secret_revealed, Refunded, Failed, Expired]"
| "sdk_TRANSITIONS Dst_locked = [Secret_revealed, Refunded, Failed, Expired]"
| "sdk_TRANSITIONS Secret_revealed = [Completed, Refunded, Failed]"
| "sdk_TRANSITIONS Completed = []"
| "sdk_TRANSITIONS Refunded = []"
| "sdk_TRANSITIONS Failed = []"
| "sdk_TRANSITIONS Expired = [Refunded, Failed]"
| "sdk_TRANSITIONS Cancelled = []"
| "sdk_TRANSITIONS Abandoned = []"

text \<open>The reason a transition was refused; \<open>NoReason\<close> is the absent third argument.\<close>

datatype transition_reason =
    NoReason | SourceNeverLocked | DestinationNeverLocked | SecretNeverRevealed
  | RefundBeforeSourceLock | IsTerminalState order_status

datatype invalid_transition = InvalidTransitionError order_status order_status transition_reason

definition sdk_canTransition :: "order_status \<Rightarrow> order_status \<Rightarrow> bool" where
  "sdk_canTransition src dst = (dst \<in> set (sdk_TRANSITIONS src))"

definition sdk_requireTransition :: "order_status \<Rightarrow> order_status \<Rightarrow> invalid_transition + unit" where
  "sdk_requireTransition src dst =
     (if \<not> sdk_canTransition src dst then Inl (InvalidTransitionError src dst NoReason) else Inr ())"

definition sdk_isTerminal :: "order_status \<Rightarrow> bool" where
  "sdk_isTerminal s = (length (sdk_TRANSITIONS s) = 0)"

definition sdk_nextStatesOf :: "order_status \<Rightarrow> order_status list" where
  "sdk_nextStatesOf s = sdk_TRANSITIONS s"

text \<open>The optional context object: every field may be missing.\<close>

record guard_context =
  srcLocked :: "bool option"
  dstLocked :: "bool option"
  secretRevealed :: "bool option"

definition ctx_flag :: "(guard_context \<Rightarrow> bool option) \<Rightarrow> guard_context option \<Rightarrow> bool" where
  "ctx_flag field ctx = (case ctx of None \<Rightarrow> False | Some c \<Rightarrow> field c = Some True)"

definition validateTransitionGuards ::
    "order_status \<Rightarrow> order_status \<Rightarrow> guard_context option \<Rightarrow> invalid_transition + unit" where
  "validateTransitionGuards src dst ctx =
     (if dst = Completed \<and> \<not> ctx_flag srcLocked ctx
        then Inl (InvalidTransitionError src dst SourceNeverLocked)
      else if dst = Completed \<and> \<not> ctx_flag dstLocked ctx
        then Inl (InvalidTransitionError src dst DestinationNeverLocked)
      else if dst = Completed \<and> \<not> ctx_flag secretRevealed ctx
        then Inl (InvalidTransitionError src dst SecretNeverRevealed)
      else if dst = Refunded \<and> src = Announced
        then Inl (InvalidTransitionError src dst RefundBeforeSourceLock)
      else if sdk_isTerminal src \<and> src \<noteq> dst
        then Inl (InvalidTransitionError src dst (IsTerminalState src))
      else Inr ())"

definition requireValidTransition ::
    "order_status \<Rightarrow> order_status \<Rightarrow> guard_context option \<Rightarrow> invalid_transition + unit" where
  "requireValidTransition src dst ctx =
     (case sdk_requireTransition src dst of
        Inl e \<Rightarrow> Inl e
      | Inr _ \<Rightarrow> validateTransitionGuards src dst ctx)"

section \<open>The coordinator's machine\<close>

fun TRANSITIONS :: "order_status \<Rightarrow> order_status list" where
  "TRANSITIONS Announced = [Src_locked, Cancelled, Abandoned, Failed, Expired]"
| "TRANSITIONS Src_locked = [Dst_locked, Secret_revealed, Refunded, Failed, Expired]"
| "TRANSITIONS Dst_locked = [Secret_revealed, Refunded, Failed, Expired]"
| "TRANSITIONS Secret_revealed = [Completed, Refunded, Failed]"
| "TRANSITIONS Completed = []"
| "TRANSITIONS Refunded = []"
| "TRANSITIONS Failed = []"
| "TRANSITIONS Expired = [Refunded, Failed]"
| "TRANSITIONS Cancelled = []"
| "TRANSITIONS Abandoned = []"

definition canTransition :: "order_status \<Rightarrow> order_status \<Rightarrow> bool" where
  "canTransition src dst = (dst \<in> set (TRANSITIONS src))"

text \<open>\<open>requireTransition\<close> counts a refused transition before it throws: the new
  counter value comes with the result.\<close>

definition requireTransition ::
    "nat \<Rightarrow> order_status \<Rightarrow> order_status \<Rightarrow> nat \<times> (invalid_transition + unit)" where
  "requireTransition invalidCount src dst =
     (if \<not> canTransition src dst
      then (invalidCount + 1, Inl (InvalidTransitionError src dst NoReason))
      else (invalidCount, Inr ()))"

definition isTerminal :: "order_status \<Rightarrow> bool" where
  "isTerminal s = (length (TRANSITIONS s) = 0)"

section \<open>Lemmas\<close>

text \<open>The rank of a status: how far along the lifecycle it is.\<close>

fun status_rank :: "order_status \<Rightarrow> nat" where
  "status_rank Announced = 0"
| "status_rank Src_locked = 1"
| "status_rank Dst_locked = 2"
| "status_rank Secret_revealed = 3"
| "status_rank Expired = 3"
| "status_rank _ = 4"

lemma TRANSITIONS_rank: "t \<in> set (TRANSITIONS s) \<Longrightarrow> status_rank s < status_rank t"
  by (cases s) auto

lemma status_rank_le: "status_rank s \<le> 4"
  by (cases s) auto

interpretation order_table: ranked_table TRANSITIONS status_rank 4
  by unfold_locales (auto simp: TRANSITIONS_rank status_rank_le)

lemma canTransition_rank: "canTransition s t \<Longrightarrow> status_rank s < status_rank t"
  by (simp add: canTransition_def TRANSITIONS_rank)

lemma canTransition_neq: "canTransition s t \<Longrightarrow> s \<noteq> t"
  by (auto dest: canTransition_rank)

lemma isTerminal_iff: "isTerminal s \<longleftrightarrow> s \<in> {Completed, Refunded, Failed, Cancelled, Abandoned}"
  by (cases s) (simp_all add: isTerminal_def)

lemma terminal_no_transition: "isTerminal s \<Longrightarrow> \<not> canTransition s t"
  by (cases s) (auto simp: canTransition_def isTerminal_def)

lemma sdk_TRANSITIONS_eq: "sdk_TRANSITIONS s = TRANSITIONS s"
  by (cases s) simp_all

lemma sdk_isTerminal_eq: "sdk_isTerminal s = isTerminal s"
  by (simp add: sdk_isTerminal_def isTerminal_def sdk_TRANSITIONS_eq)

lemma sdk_canTransition_eq: "sdk_canTransition s t = canTransition s t"
  by (simp add: sdk_canTransition_def canTransition_def sdk_TRANSITIONS_eq)

text \<open>What a status can be reached from: the transitions into it.\<close>

lemma canTransition_into:
  "canTransition s Src_locked \<longleftrightarrow> s = Announced"
  "canTransition s Dst_locked \<longleftrightarrow> s = Src_locked"
  "canTransition s Secret_revealed \<longleftrightarrow> s = Src_locked \<or> s = Dst_locked"
  "canTransition s Completed \<longleftrightarrow> s = Secret_revealed"
  "canTransition s Cancelled \<longleftrightarrow> s = Announced"
  "canTransition s Abandoned \<longleftrightarrow> s = Announced"
  "canTransition s Expired \<longleftrightarrow> s = Announced \<or> s = Src_locked \<or> s = Dst_locked"
  "\<not> canTransition s Announced"
  by (cases s; simp add: canTransition_def)+

lemma all_order_statuses: "set ORDER_STATUSES = UNIV"
proof -
  have "s \<in> set ORDER_STATUSES" for s
    by (cases s) (simp_all add: ORDER_STATUSES_def)
  then show ?thesis by blast
qed

section \<open>Properties\<close>

text \<open>C19. The coordinator's copy of the lifecycle conforms to the SDK's: the two machines
  allow exactly the same transitions and agree on which statuses are terminal, and the
  terminal statuses are exactly the SDK's published list.\<close>

theorem order_machines_conform:
  "sdk_canTransition = canTransition \<and> sdk_isTerminal = isTerminal
   \<and> {s. isTerminal s} = set TERMINAL_ORDER_STATUSES"
proof (intro conjI ext)
  show "sdk_canTransition s t = canTransition s t" for s t by (rule sdk_canTransition_eq)
  show "sdk_isTerminal s = isTerminal s" for s by (rule sdk_isTerminal_eq)
  show "{s. isTerminal s} = set TERMINAL_ORDER_STATUSES"
    by (auto simp: TERMINAL_ORDER_STATUSES_def isTerminal_iff)
qed

text \<open>Every run of the lifecycle is finite and never revisits a status: a sequence of
  allowed transitions out of any status has at most four steps and no repetition, and one
  that starts in a terminal status is empty.\<close>

theorem order_lifecycle_bounded:
  assumes "table_path TRANSITIONS s ts"
  shows "length ts \<le> 4 \<and> distinct (s # ts) \<and> (isTerminal s \<longrightarrow> ts = [])"
proof (intro conjI impI)
  show "length ts \<le> 4" using order_table.path_length [OF assms] by simp
  show "distinct (s # ts)" by (rule order_table.path_distinct [OF assms])
  show "ts = []" if "isTerminal s"
    using that by (intro order_table.stuck_path [OF _ assms]) (simp add: isTerminal_def)
qed

theorem order_lifecycle_bounded_witness:
  "table_path TRANSITIONS Announced [Src_locked, Dst_locked, Secret_revealed, Completed]
   \<and> length [Src_locked, Dst_locked, Secret_revealed, Completed] \<le> 4"
proof -
  have p: "table_path TRANSITIONS Announced [Src_locked, Dst_locked, Secret_revealed, Completed]"
    by simp
  show ?thesis using p order_lifecycle_bounded [OF p] by blast
qed

text \<open>The full SDK validation accepts a transition exactly when the table allows it and,
  for \<open>completed\<close>, the context proves both locks and the reveal; the other two guards never
  refuse anything the table allows.\<close>

theorem requireValidTransition_iff:
  "requireValidTransition src dst ctx = Inr () \<longleftrightarrow>
     sdk_canTransition src dst \<and>
     (dst = Completed \<longrightarrow>
        (\<exists>c. ctx = Some c \<and> srcLocked c = Some True \<and> dstLocked c = Some True
             \<and> secretRevealed c = Some True))"
proof (cases "sdk_canTransition src dst")
  case True
  then have "\<not> sdk_isTerminal src"
    by (simp add: sdk_canTransition_eq sdk_isTerminal_eq) (metis terminal_no_transition)
  moreover have "\<not> (dst = Refunded \<and> src = Announced)"
    using True by (auto simp: sdk_canTransition_def)
  ultimately show ?thesis
    using True
    by (simp add: requireValidTransition_def sdk_requireTransition_def
        validateTransitionGuards_def ctx_flag_def split: option.splits)
next
  case False
  then show ?thesis
    by (simp add: requireValidTransition_def sdk_requireTransition_def)
qed

text \<open>The hypothesis of C3's \<open>completed\<close> case can hold.\<close>

theorem requireValidTransition_iff_witness:
  "requireValidTransition Secret_revealed Completed
     (Some \<lparr>srcLocked = Some True, dstLocked = Some True, secretRevealed = Some True\<rparr>) = Inr ()"
  using requireValidTransition_iff [of Secret_revealed Completed
      "Some \<lparr>srcLocked = Some True, dstLocked = Some True, secretRevealed = Some True\<rparr>"]
  by (simp add: sdk_canTransition_def)

end
