(* ===== verification/Orders_Schema.thy ===== *)
theory Orders_Schema
  imports Order_Machine
begin

text \<open>
  The coordinator's database as \<open>coordinator/src/persistence/schema.sql\<close> and the row types of
  \<open>orders-repo.ts\<close> declare it, and the SQL statements the repository is built from.

  A table is the list of its rows in insertion order; a table with a primary key that is
  written by upsert is an insertion-ordered map. \<open>SELECT\<close> of one row is \<^const>\<open>find\<close>, an
  \<open>UPDATE\<close> maps over the rows its \<open>WHERE\<close> selects and counts them. Timestamps are unix seconds;
  the instant \<open>now\<close> of a statement is an argument. Block, ledger and slot numbers are naturals.
  The \<open>CHECK\<close>s on timestamps, which only a clock running backwards can violate, are not
  modelled; the other constraints are: \<open>UNIQUE\<close> and \<open>CHECK\<close> failures are errors.
\<close>

record order_row =
  rowId :: nat
  publicId :: string
  direction :: direction
  status :: order_status
  hashlock :: string
  srcChain :: chain
  srcAddress :: string
  srcAsset :: string
  srcAmount :: string
  srcSafetyDeposit :: string
  srcOrderId :: "string option"
  srcLockTx :: "string option"
  srcLockBlock :: "nat option"
  srcTimelock :: "int option"
  dstChain :: chain
  dstAddress :: string
  dstAsset :: string
  dstAmount :: string
  dstOrderId :: "string option"
  dstLockTx :: "string option"
  dstLockBlock :: "nat option"
  dstTimelock :: "int option"
  preimage :: "string option"
  preimageEncVersion :: "nat option"
  secretRevealedTx :: "string option"
  resolverAddress :: "string option"
  lastEthBlock :: "nat option"
  lastSorobanLedger :: "nat option"
  lastSolanaSlot :: "nat option"
  createdAt :: int
  updatedAt :: int
  archivedAt :: "int option"
  cancellationReason :: "string option"

record announce_input =
  ai_direction :: direction
  ai_hashlock :: string
  ai_srcChain :: chain
  ai_srcAddress :: string
  ai_srcAsset :: string
  ai_srcAmount :: string
  ai_srcSafetyDeposit :: string
  ai_dstChain :: chain
  ai_dstAddress :: string
  ai_dstAsset :: string
  ai_dstAmount :: string

text \<open>The closed set of event types the schema admits, and the outcomes the repository writes.\<close>

datatype event_type =
    Status_transitioned | Status_no_op | Src_lock_transitioned | Src_lock_no_op
  | Dst_lock_transitioned | Dst_lock_no_op | Secret_revealed_transitioned | Secret_revealed_no_op
  | Cancel_transitioned | Cancel_no_op | Abandon_transitioned | Abandon_no_op
  | Src_lock_rolled_back | Dst_lock_rolled_back

datatype event_outcome =
    Transitioned | No_op_already_at_target | No_op_terminal | No_op_idempotent
  | No_op_not_src_locked | No_op_not_dst_locked

record event_payload =
  ep_actor :: string
  fromStatus :: order_status
  toStatus :: order_status
  outcome :: event_outcome
  ep_txHash :: "string option"
  ep_blockNumber :: "nat option"
  ep_reason :: "string option"
  triggeredAt :: int

record order_event =
  evId :: nat
  evOrderId :: nat
  evType :: event_type
  payload :: event_payload
  evCreatedAt :: int

datatype event_chain = EvEthereum | EvSoroban | EvSolana

datatype chain_event = OrderCreated | OrderClaimed | OrderRefunded

record processed_event =
  peChain :: event_chain
  peType :: chain_event
  peOrderId :: "nat option"
  peCreatedAt :: int

datatype recovery_marker = Clean | Pending_replay | Recovering

record soroban_checkpoint =
  lastSafeLedger :: nat
  effectiveCursor :: "string option"
  recoveryMarker :: recovery_marker
  cpUpdatedAt :: int

record db =
  orders :: "order_row list"
  nextOrderId :: nat
  order_events :: "order_event list"
  nextEventId :: nat
  processed_events :: "(string, processed_event) jsmap"
  chain_cursors :: "(chain, nat \<times> int) jsmap"
  soroban_checkpoints :: "(string, soroban_checkpoint) jsmap"

definition empty_db :: db where
  "empty_db = \<lparr>orders = [], nextOrderId = 1, order_events = [], nextEventId = 1,
     processed_events = [], chain_cursors = [], soroban_checkpoints = []\<rparr>"

text \<open>The error codes of the repository's exceptions, and the engine's constraint failures.\<close>

datatype repo_error =
    BadHashlock
  | UniqueViolation
  | CheckViolation
  | NOT_FOUND string
  | STALE_STATUS string order_status
  | INVALID_TRANSITION string order_status

section \<open>Statements\<close>

definition select_by_public_id :: "string \<Rightarrow> db \<Rightarrow> order_row option" where
  "select_by_public_id pid d = find (\<lambda>r. publicId r = pid) (orders d)"

definition update_where ::
    "(order_row \<Rightarrow> bool) \<Rightarrow> (order_row \<Rightarrow> order_row) \<Rightarrow> db \<Rightarrow> db \<times> nat" where
  "update_where P f d =
     (d\<lparr>orders := map (\<lambda>r. if P r then f r else r) (orders d)\<rparr>, length (filter P (orders d)))"

abbreviation update_order :: "string \<Rightarrow> (order_row \<Rightarrow> order_row) \<Rightarrow> db \<Rightarrow> db" where
  "update_order pid f d \<equiv> fst (update_where (\<lambda>r. publicId r = pid) f d)"

definition insert_event :: "nat \<Rightarrow> event_type \<Rightarrow> event_payload \<Rightarrow> int \<Rightarrow> db \<Rightarrow> db" where
  "insert_event oid ty p now d =
     d\<lparr>order_events := order_events d @
          [\<lparr>evId = nextEventId d, evOrderId = oid, evType = ty, payload = p, evCreatedAt = now\<rparr>],
       nextEventId := nextEventId d + 1\<rparr>"

end
