(* ===== verification/Orders_Repo.thy ===== *)
theory Orders_Repo
  imports Orders_Schema "HOL-Library.Product_Lexorder"
begin

text \<open>
  \<open>OrdersRepository\<close> of \<open>coordinator/src/persistence/orders-repo.ts\<close>: one function per method, over
  the tables of \<open>Orders_Schema\<close>. A method that throws returns \<open>Inl\<close> and no database: its
  statements run inside \<open>atomic\<close>, whose transaction (theory \<open>Transaction_Contract\<close>) discards them.
  \<open>now\<close> is the unix second of the call. The order of rows that compare equal under an
  \<open>ORDER BY\<close> is left open by SQL; the model takes insertion order.
\<close>

section \<open>Public ids\<close>

definition is_hex_char :: "char \<Rightarrow> bool" where
  "is_hex_char c = (let n = (of_char c :: nat)
     in (48 \<le> n \<and> n \<le> 57) \<or> (97 \<le> n \<and> n \<le> 102) \<or> (65 \<le> n \<and> n \<le> 70))"

definition is_hashlock :: "string \<Rightarrow> bool" where
  "is_hashlock h = (startsWith h ''0x'' \<and> length h = 66 \<and> list_all is_hex_char (drop 2 h))"

definition orderIdFromHashlock :: "string \<Rightarrow> repo_error + string" where
  "orderIdFromHashlock h =
     (if \<not> is_hashlock h then Inl BadHashlock else Inr (''wf_'' @ toLowerCase h))"

section \<open>The processed-event ledger\<close>

text \<open>\<open>INSERT ... ON CONFLICT DO NOTHING\<close>: the second component is \<open>changes > 0\<close>.\<close>

definition repo_claimEvent ::
    "int \<Rightarrow> string \<Rightarrow> event_chain \<Rightarrow> chain_event \<Rightarrow> nat option \<Rightarrow> db \<Rightarrow> db \<times> bool" where
  "repo_claimEvent now eventKey ch ty oid d =
     (if jm_has (processed_events d) eventKey then (d, False)
      else (d\<lparr>processed_events := jm_set eventKey
                 \<lparr>peChain = ch, peType = ty, peOrderId = oid, peCreatedAt = now\<rparr>
                 (processed_events d)\<rparr>, True))"

definition repo_hasProcessedEvent :: "string \<Rightarrow> db \<Rightarrow> bool" where
  "repo_hasProcessedEvent eventKey d = (jm_get (processed_events d) eventKey \<noteq> None)"

definition repo_countProcessedEvents :: "db \<Rightarrow> nat" where
  "repo_countProcessedEvents d = length (processed_events d)"

section \<open>The event trail\<close>

definition appendTransitionEvent ::
    "int \<Rightarrow> nat \<Rightarrow> event_type \<Rightarrow> event_payload \<Rightarrow> db \<Rightarrow> db" where
  "appendTransitionEvent now oid ty p d = insert_event oid ty p now d"

definition event_of ::
    "string \<Rightarrow> order_status \<Rightarrow> order_status \<Rightarrow> event_outcome \<Rightarrow> int \<Rightarrow> event_payload" where
  "event_of act fromS toS out now = \<lparr>ep_actor = act, fromStatus = fromS, toStatus = toS,
     outcome = out, ep_txHash = None, ep_blockNumber = None, ep_reason = None, triggeredAt = now\<rparr>"

definition repo_findTransitionEvents ::
    "string \<Rightarrow> db \<Rightarrow> (event_type \<times> event_payload \<times> int) list" where
  "repo_findTransitionEvents pid d =
     map (\<lambda>e. (evType e, payload e, evCreatedAt e))
       (filter (\<lambda>e. list_ex (\<lambda>r. rowId r = evOrderId e \<and> publicId r = pid) (orders d))
          (order_events d))"

section \<open>Announce\<close>

text \<open>The \<open>INSERT\<close>: the schema's \<open>CHECK\<close> on \<open>direction\<close> and \<open>UNIQUE\<close> on \<open>public_id\<close> may refuse it.\<close>

definition announced_row :: "int \<Rightarrow> nat \<Rightarrow> string \<Rightarrow> announce_input \<Rightarrow> order_row" where
  "announced_row now i pid inp =
     \<lparr>rowId = i, publicId = pid, direction = ai_direction inp, status = Announced,
      hashlock = ai_hashlock inp, srcChain = ai_srcChain inp, srcAddress = ai_srcAddress inp,
      srcAsset = ai_srcAsset inp, srcAmount = ai_srcAmount inp,
      srcSafetyDeposit = ai_srcSafetyDeposit inp, srcOrderId = None, srcLockTx = None,
      srcLockBlock = None, srcTimelock = None, dstChain = ai_dstChain inp,
      dstAddress = ai_dstAddress inp, dstAsset = ai_dstAsset inp, dstAmount = ai_dstAmount inp,
      dstOrderId = None, dstLockTx = None, dstLockBlock = None, dstTimelock = None,
      preimage = None, preimageEncVersion = None, secretRevealedTx = None, resolverAddress = None,
      lastEthBlock = None, lastSorobanLedger = None, lastSolanaSlot = None,
      createdAt = now, updatedAt = now, archivedAt = None, cancellationReason = None\<rparr>"

definition repo_announce :: "int \<Rightarrow> announce_input \<Rightarrow> db \<Rightarrow> repo_error + (db \<times> order_row)" where
  "repo_announce now inp d =
     (case orderIdFromHashlock (ai_hashlock inp) of
        Inl e \<Rightarrow> Inl e
      | Inr pid \<Rightarrow>
          if ai_direction inp \<notin> {Eth_to_xlm, Xlm_to_eth, Eth_to_sol, Sol_to_eth}
            then Inl CheckViolation
          else if list_ex (\<lambda>r. publicId r = pid) (orders d) then Inl UniqueViolation
          else let row = announced_row now (nextOrderId d) pid inp
               in Inr (d\<lparr>orders := orders d @ [row], nextOrderId := nextOrderId d + 1\<rparr>, row))"

section \<open>Finders\<close>

definition repo_findByPublicId :: "string \<Rightarrow> db \<Rightarrow> order_row option" where
  "repo_findByPublicId pid d = select_by_public_id pid d"

definition repo_findByHashlock :: "string \<Rightarrow> db \<Rightarrow> order_row option" where
  "repo_findByHashlock h d = find (\<lambda>r. hashlock r = h) (orders d)"

definition repo_findBySrcOrderId :: "chain \<Rightarrow> string \<Rightarrow> db \<Rightarrow> order_row option" where
  "repo_findBySrcOrderId ch oid d =
     find (\<lambda>r. srcChain r = ch \<and> srcOrderId r = Some oid) (orders d)"

definition repo_findByDstOrderId :: "chain \<Rightarrow> string \<Rightarrow> db \<Rightarrow> order_row option" where
  "repo_findByDstOrderId ch oid d =
     find (\<lambda>r. dstChain r = ch \<and> dstOrderId r = Some oid) (orders d)"

definition address_rows :: "string \<Rightarrow> db \<Rightarrow> order_row list" where
  "address_rows addr d = filter (\<lambda>r. srcAddress r = addr \<or> dstAddress r = addr) (orders d)"

definition repo_findByAddress :: "string \<Rightarrow> nat \<Rightarrow> nat \<Rightarrow> db \<Rightarrow> order_row list" where
  "repo_findByAddress addr limit offset d =
     take limit (drop offset (sort_key (\<lambda>r. - createdAt r) (address_rows addr d)))"

definition repo_findByStatus :: "order_status \<Rightarrow> nat \<Rightarrow> db \<Rightarrow> order_row list" where
  "repo_findByStatus st limit d =
     take limit (sort_key (\<lambda>r. - createdAt r) (filter (\<lambda>r. status r = st) (orders d)))"

text \<open>Cursor pagination. The cursor is the decoded \<open>CursorInfo\<close>; its base64url text form is not
  modelled.\<close>

record cursor_info =
  ciCreatedAt :: int
  ciId :: nat

definition page_key :: "order_row \<Rightarrow> int \<times> int" where
  "page_key r = (- createdAt r, - int (rowId r))"

definition after_cursor :: "cursor_info \<Rightarrow> order_row \<Rightarrow> bool" where
  "after_cursor c r = (createdAt r < ciCreatedAt c \<or> (createdAt r = ciCreatedAt c \<and> rowId r < ciId c))"

definition repo_findByAddressWithCursor ::
    "string \<Rightarrow> nat \<Rightarrow> cursor_info option \<Rightarrow> db \<Rightarrow> order_row list \<times> cursor_info option" where
  "repo_findByAddressWithCursor addr limit cursor d =
     (let fetchLimit = limit + 1;
          rows = (case cursor of
                    None \<Rightarrow> take fetchLimit (sort_key page_key (address_rows addr d))
                  | Some c \<Rightarrow> take fetchLimit
                      (sort_key page_key (filter (after_cursor c) (address_rows addr d))));
          hasMore = (length rows > limit);
          pageRows = (if hasMore then take limit rows else rows);
          nextCursor = (if hasMore \<and> pageRows \<noteq> []
             then Some \<lparr>ciCreatedAt = createdAt (last pageRows), ciId = rowId (last pageRows)\<rparr>
             else None)
      in (pageRows, nextCursor))"

section \<open>Status and lock writes\<close>

definition repo_setStatus ::
    "int \<Rightarrow> string \<Rightarrow> order_status \<Rightarrow> string \<Rightarrow> order_status option \<Rightarrow> db \<Rightarrow> repo_error + db" where
  "repo_setStatus now pid st act expectedStatus d =
     (let order = select_by_public_id pid d;
          write = (\<lambda>r. r\<lparr>status := st, updatedAt := now\<rparr>)
      in case (expectedStatus, order) of
           (None, Some r) \<Rightarrow>
             if status r = st then
               Inr (appendTransitionEvent now (rowId r) Status_no_op
                      (event_of act (status r) st No_op_already_at_target now) d)
             else
               Inr (appendTransitionEvent now (rowId r) Status_transitioned
                      (event_of act (status r) st Transitioned now) (update_order pid write d))
         | (None, None) \<Rightarrow> Inl (NOT_FOUND pid)
         | (Some expected, _) \<Rightarrow>
             (let (d', changes) =
                update_where (\<lambda>r. publicId r = pid \<and> status r = expected) write d
              in if changes = 0 then
                   (case order of
                      None \<Rightarrow> Inl (NOT_FOUND pid)
                    | Some r \<Rightarrow> Inl (STALE_STATUS pid (status r)))
                 else
                   (case order of
                      None \<Rightarrow> Inr d'
                    | Some r \<Rightarrow>
                        Inr (appendTransitionEvent now (rowId r) Status_transitioned
                          (event_of act (status r) st Transitioned now) d'))))"

definition nextLockStatus :: "order_status \<Rightarrow> order_status \<Rightarrow> order_status" where
  "nextLockStatus current target = (if canTransition current target then target else current)"

record lock_input =
  li_publicId :: string
  li_orderId :: string
  li_txHash :: string
  li_blockNumber :: nat
  li_timelock :: int

definition lock_event ::
    "lock_input \<Rightarrow> string \<Rightarrow> order_status \<Rightarrow> order_status \<Rightarrow> event_outcome \<Rightarrow> int \<Rightarrow> event_payload" where
  "lock_event inp act fromS toS out now =
     (event_of act fromS toS out now)
       \<lparr>ep_txHash := Some (li_txHash inp), ep_blockNumber := Some (li_blockNumber inp)\<rparr>"

definition repo_recordSrcLock :: "int \<Rightarrow> lock_input \<Rightarrow> string \<Rightarrow> db \<Rightarrow> db" where
  "repo_recordSrcLock now inp act d =
     (case select_by_public_id (li_publicId inp) d of
        None \<Rightarrow> d
      | Some r \<Rightarrow>
          if isTerminal (status r) then
            appendTransitionEvent now (rowId r) Src_lock_no_op
              (lock_event inp act (status r) (status r) No_op_terminal now) d
          else
            let st = nextLockStatus (status r) Src_locked;
                write = (\<lambda>r. r\<lparr>srcOrderId := Some (li_orderId inp),
                   srcLockTx := Some (li_txHash inp), srcLockBlock := Some (li_blockNumber inp),
                   srcTimelock := Some (li_timelock inp), status := st, updatedAt := now\<rparr>)
            in appendTransitionEvent now (rowId r)
                 (if st = status r then Src_lock_no_op else Src_lock_transitioned)
                 (lock_event inp act (status r) st
                    (if st = status r then No_op_already_at_target else Transitioned) now)
                 (update_order (li_publicId inp) write d))"

definition repo_recordDstLock :: "int \<Rightarrow> lock_input \<Rightarrow> string option \<Rightarrow> string \<Rightarrow> db \<Rightarrow> db" where
  "repo_recordDstLock now inp resolver act d =
     (case select_by_public_id (li_publicId inp) d of
        None \<Rightarrow> d
      | Some r \<Rightarrow>
          if isTerminal (status r) then
            appendTransitionEvent now (rowId r) Dst_lock_no_op
              (lock_event inp act (status r) (status r) No_op_terminal now) d
          else
            let st = nextLockStatus (status r) Dst_locked;
                write = (\<lambda>r. r\<lparr>dstOrderId := Some (li_orderId inp),
                   dstLockTx := Some (li_txHash inp), dstLockBlock := Some (li_blockNumber inp),
                   dstTimelock := Some (li_timelock inp), resolverAddress := resolver,
                   status := st, updatedAt := now\<rparr>)
            in appendTransitionEvent now (rowId r)
                 (if st = status r then Dst_lock_no_op else Dst_lock_transitioned)
                 (lock_event inp act (status r) st
                    (if st = status r then No_op_already_at_target else Transitioned) now)
                 (update_order (li_publicId inp) write d))"

text \<open>The schema admits only \<open>NULL\<close> and \<open>1\<close> as \<open>preimage_enc_version\<close>.\<close>

definition repo_recordSecretRevealed ::
    "int \<Rightarrow> string \<Rightarrow> string \<Rightarrow> string \<Rightarrow> nat option \<Rightarrow> string \<Rightarrow> db \<Rightarrow> repo_error + db" where
  "repo_recordSecretRevealed now pid pre tx encVersion act d =
     (case select_by_public_id pid d of
        None \<Rightarrow> Inr d
      | Some r \<Rightarrow>
          let ev = (\<lambda>toS out. (event_of act (status r) toS out now)\<lparr>ep_txHash := Some tx\<rparr>)
          in if isTerminal (status r) then
               Inr (appendTransitionEvent now (rowId r) Secret_revealed_no_op
                      (ev (status r) No_op_terminal) d)
             else if preimage r = Some pre then
               Inr (appendTransitionEvent now (rowId r) Secret_revealed_no_op
                      (ev (status r) No_op_idempotent) d)
             else if encVersion \<noteq> None \<and> encVersion \<noteq> Some 1 then Inl CheckViolation
             else
               Inr (appendTransitionEvent now (rowId r) Secret_revealed_transitioned
                      (ev Secret_revealed Transitioned)
                      (update_order pid
                         (\<lambda>r. r\<lparr>preimage := Some pre, preimageEncVersion := encVersion,
                            secretRevealedTx := Some tx, status := Secret_revealed,
                            updatedAt := now\<rparr>) d)))"

section \<open>Rollbacks\<close>

definition repo_rollbackSrcLock :: "int \<Rightarrow> string \<Rightarrow> string \<Rightarrow> db \<Rightarrow> db" where
  "repo_rollbackSrcLock now pid act d =
     (case select_by_public_id pid d of
        None \<Rightarrow> d
      | Some r \<Rightarrow>
          let (d', changes) = update_where (\<lambda>r. publicId r = pid \<and> status r = Src_locked)
                (\<lambda>r. r\<lparr>srcOrderId := None, srcLockTx := None, srcLockBlock := None,
                   srcTimelock := None, status := Announced, updatedAt := now\<rparr>) d
          in if changes = 0 then
               appendTransitionEvent now (rowId r) Src_lock_rolled_back
                 (event_of act (status r) (status r) No_op_not_src_locked now) d'
             else
               appendTransitionEvent now (rowId r) Src_lock_rolled_back
                 (event_of act (status r) Announced Transitioned now) d')"

definition repo_rollbackDstLock :: "int \<Rightarrow> string \<Rightarrow> string \<Rightarrow> db \<Rightarrow> db" where
  "repo_rollbackDstLock now pid act d =
     (case select_by_public_id pid d of
        None \<Rightarrow> d
      | Some r \<Rightarrow>
          let (d', changes) = update_where (\<lambda>r. publicId r = pid \<and> status r = Dst_locked)
                (\<lambda>r. r\<lparr>dstOrderId := None, dstLockTx := None, dstLockBlock := None,
                   dstTimelock := None, resolverAddress := None, status := Src_locked,
                   updatedAt := now\<rparr>) d
          in if changes = 0 then
               appendTransitionEvent now (rowId r) Dst_lock_rolled_back
                 (event_of act (status r) (status r) No_op_not_dst_locked now) d'
             else
               appendTransitionEvent now (rowId r) Dst_lock_rolled_back
                 (event_of act (status r) Src_locked Transitioned now) d')"

section \<open>Archival, cancellation and abandonment\<close>

definition repo_findStaleAnnounced :: "int \<Rightarrow> int \<Rightarrow> db \<Rightarrow> order_row list" where
  "repo_findStaleAnnounced now retentionWindowSeconds d =
     (let cutoff = now - retentionWindowSeconds
      in filter (\<lambda>r. status r = Announced \<and> srcOrderId r = None \<and> archivedAt r = None
                     \<and> createdAt r < cutoff) (orders d))"

definition repo_archiveOrder :: "int \<Rightarrow> string \<Rightarrow> db \<Rightarrow> db" where
  "repo_archiveOrder now pid d =
     fst (update_where (\<lambda>r. publicId r = pid \<and> archivedAt r = None)
            (\<lambda>r. r\<lparr>archivedAt := Some now, updatedAt := now\<rparr>) d)"

definition repo_unarchiveOrder :: "int \<Rightarrow> string \<Rightarrow> db \<Rightarrow> db" where
  "repo_unarchiveOrder now pid d =
     fst (update_where (\<lambda>r. publicId r = pid \<and> archivedAt r \<noteq> None)
            (\<lambda>r. r\<lparr>archivedAt := None, updatedAt := now\<rparr>) d)"

definition repo_cancelOrder :: "int \<Rightarrow> string \<Rightarrow> string \<Rightarrow> string \<Rightarrow> db \<Rightarrow> repo_error + db" where
  "repo_cancelOrder now pid rsn act d =
     (case select_by_public_id pid d of
        None \<Rightarrow> Inl (NOT_FOUND pid)
      | Some r \<Rightarrow>
          let ev = (\<lambda>toS out. (event_of act (status r) toS out now)\<lparr>ep_reason := Some rsn\<rparr>)
          in if isTerminal (status r) then
               Inr (appendTransitionEvent now (rowId r) Cancel_no_op (ev (status r) No_op_terminal) d)
             else if \<not> canTransition (status r) Cancelled then
               Inl (INVALID_TRANSITION pid (status r))
             else
               Inr (appendTransitionEvent now (rowId r) Cancel_transitioned (ev Cancelled Transitioned)
                      (update_order pid (\<lambda>r. r\<lparr>status := Cancelled,
                         cancellationReason := Some rsn, updatedAt := now\<rparr>) d)))"

definition repo_abandonOrder :: "int \<Rightarrow> string \<Rightarrow> string \<Rightarrow> string \<Rightarrow> db \<Rightarrow> db" where
  "repo_abandonOrder now pid rsn act d =
     (case select_by_public_id pid d of
        None \<Rightarrow> d
      | Some r \<Rightarrow>
          let ev = (\<lambda>toS out. (event_of act (status r) toS out now)\<lparr>ep_reason := Some rsn\<rparr>)
          in if isTerminal (status r) then
               appendTransitionEvent now (rowId r) Abandon_no_op (ev (status r) No_op_terminal) d
             else if \<not> canTransition (status r) Abandoned then d
             else
               appendTransitionEvent now (rowId r) Abandon_transitioned (ev Abandoned Transitioned)
                 (update_order pid (\<lambda>r. r\<lparr>status := Abandoned, cancellationReason := Some rsn,
                    archivedAt := Some now, updatedAt := now\<rparr>) d))"

section \<open>Positions\<close>

text \<open>\<open>MAX\<close> of an empty selection is \<open>NULL\<close>, read as 0.\<close>

definition max_block :: "nat option list \<Rightarrow> nat" where
  "max_block bs = fold max (map the (filter (\<lambda>b. b \<noteq> None) bs)) 0"

definition repo_getLastProcessedBlock :: "chain \<Rightarrow> db \<Rightarrow> nat" where
  "repo_getLastProcessedBlock ch d =
     max (max_block (map srcLockBlock (filter (\<lambda>r. srcChain r = ch) (orders d))))
         (max_block (map dstLockBlock (filter (\<lambda>r. dstChain r = ch) (orders d))))"

definition repo_getChainCursor :: "chain \<Rightarrow> db \<Rightarrow> nat" where
  "repo_getChainCursor ch d =
     (case jm_get (chain_cursors d) ch of None \<Rightarrow> 0 | Some (pos, _) \<Rightarrow> pos)"

definition repo_setChainCursor :: "int \<Rightarrow> chain \<Rightarrow> nat \<Rightarrow> db \<Rightarrow> db" where
  "repo_setChainCursor now ch pos d =
     d\<lparr>chain_cursors := jm_set ch
         (case jm_get (chain_cursors d) ch of
            None \<Rightarrow> (pos, now)
          | Some (old, _) \<Rightarrow> (max old pos, now)) (chain_cursors d)\<rparr>"

fun order_cursor :: "chain \<Rightarrow> order_row \<Rightarrow> nat option" where
  "order_cursor Ethereum r = lastEthBlock r"
| "order_cursor Stellar r = lastSorobanLedger r"
| "order_cursor Solana r = lastSolanaSlot r"

fun set_order_cursor :: "chain \<Rightarrow> nat \<Rightarrow> order_row \<Rightarrow> order_row" where
  "set_order_cursor Ethereum n r = r\<lparr>lastEthBlock := Some n\<rparr>"
| "set_order_cursor Stellar n r = r\<lparr>lastSorobanLedger := Some n\<rparr>"
| "set_order_cursor Solana n r = r\<lparr>lastSolanaSlot := Some n\<rparr>"

definition repo_updateOrderCursor :: "int \<Rightarrow> string \<Rightarrow> chain \<Rightarrow> nat \<Rightarrow> db \<Rightarrow> db" where
  "repo_updateOrderCursor now pid ch pos d =
     update_order pid
       (\<lambda>r. (set_order_cursor ch
          (max (case order_cursor ch r of None \<Rightarrow> 0 | Some n \<Rightarrow> n) pos) r)\<lparr>updatedAt := now\<rparr>) d"

definition repo_getMinActiveOrderCursor :: "chain \<Rightarrow> db \<Rightarrow> nat option" where
  "repo_getMinActiveOrderCursor ch d =
     (let active = filter (\<lambda>r. (srcChain r = ch \<or> dstChain r = ch)
              \<and> status r \<notin> {Completed, Refunded, Failed, Expired, Cancelled, Abandoned}
              \<and> (case order_cursor ch r of None \<Rightarrow> False | Some n \<Rightarrow> n > 0)) (orders d)
      in case map (\<lambda>r. the (order_cursor ch r)) active of
           [] \<Rightarrow> None
         | n # ns \<Rightarrow> Some (fold min ns n))"

section \<open>Soroban checkpoints\<close>

definition repo_getSorobanCheckpoint :: "string \<Rightarrow> db \<Rightarrow> soroban_checkpoint option" where
  "repo_getSorobanCheckpoint cid d = jm_get (soroban_checkpoints d) cid"

definition repo_saveSorobanCheckpoint ::
    "int \<Rightarrow> string \<Rightarrow> nat \<Rightarrow> string option \<Rightarrow> recovery_marker \<Rightarrow> db \<Rightarrow> db" where
  "repo_saveSorobanCheckpoint now cid ledger cur marker d =
     d\<lparr>soroban_checkpoints := jm_set cid
         \<lparr>lastSafeLedger =
            (case jm_get (soroban_checkpoints d) cid of
               None \<Rightarrow> ledger
             | Some cp \<Rightarrow> if ledger > lastSafeLedger cp then ledger else lastSafeLedger cp),
          effectiveCursor = cur, recoveryMarker = marker, cpUpdatedAt = now\<rparr>
         (soroban_checkpoints d)\<rparr>"

definition repo_markSorobanRecovery :: "int \<Rightarrow> string \<Rightarrow> recovery_marker \<Rightarrow> db \<Rightarrow> db \<times> nat" where
  "repo_markSorobanRecovery now cid marker d =
     (case jm_get (soroban_checkpoints d) cid of
        None \<Rightarrow> (d, 0)
      | Some cp \<Rightarrow>
          (d\<lparr>soroban_checkpoints :=
               jm_set cid (cp\<lparr>recoveryMarker := marker, cpUpdatedAt := now\<rparr>) (soroban_checkpoints d)\<rparr>,
           1))"

section \<open>Scans\<close>

definition repo_findExpiredCandidates :: "int \<Rightarrow> db \<Rightarrow> order_row list" where
  "repo_findExpiredCandidates nowSeconds d =
     filter (\<lambda>r. status r \<in> {Src_locked, Dst_locked}
        \<and> ((case srcTimelock r of None \<Rightarrow> False | Some t \<Rightarrow> t < nowSeconds)
           \<or> (case dstTimelock r of None \<Rightarrow> False | Some t \<Rightarrow> t < nowSeconds))) (orders d)"

definition repo_findOrdersMissingSecret ::
    "db \<Rightarrow> (string \<times> string option \<times> string \<times> order_status) list" where
  "repo_findOrdersMissingSecret d =
     map (\<lambda>r. (publicId r, srcOrderId r, hashlock r, status r))
       (filter (\<lambda>r. status r \<in> {Src_locked, Dst_locked} \<and> preimage r = None) (orders d))"

definition repo_getOrderLedgerCursor ::
    "string \<Rightarrow> db \<Rightarrow> (nat option \<times> nat option \<times> nat option) option" where
  "repo_getOrderLedgerCursor pid d =
     map_option (\<lambda>r. (lastEthBlock r, lastSorobanLedger r, lastSolanaSlot r))
       (select_by_public_id pid d)"

text \<open>The \<open>update\<close> object of \<open>advanceOrderLedgerCursor\<close> gives a position per chain, or none; a
  missing or zero position contributes no assignment.\<close>

definition advance_cursor :: "nat option \<Rightarrow> nat option \<Rightarrow> nat option" where
  "advance_cursor upd stored =
     (case upd of
        None \<Rightarrow> stored
      | Some n \<Rightarrow> if n > 0 then (case stored of None \<Rightarrow> Some n | Some m \<Rightarrow> Some (max m n)) else stored)"

definition repo_advanceOrderLedgerCursor ::
    "int \<Rightarrow> string \<Rightarrow> nat option \<Rightarrow> nat option \<Rightarrow> nat option \<Rightarrow> db \<Rightarrow> db" where
  "repo_advanceOrderLedgerCursor now pid eth soroban sol d =
     (if \<not> list_ex (\<lambda>u. case u of None \<Rightarrow> False | Some n \<Rightarrow> n > 0) [eth, soroban, sol] then d
      else update_order pid
        (\<lambda>r. r\<lparr>lastEthBlock := advance_cursor eth (lastEthBlock r),
               lastSorobanLedger := advance_cursor soroban (lastSorobanLedger r),
               lastSolanaSlot := advance_cursor sol (lastSolanaSlot r), updatedAt := now\<rparr>) d)"

definition clamp_limit :: "nat \<Rightarrow> nat" where
  "clamp_limit limit = min (max limit 1) 1000"

definition repo_listOrderLedgerCursors :: "nat \<Rightarrow> db \<Rightarrow> order_row list" where
  "repo_listOrderLedgerCursors limit d =
     take (clamp_limit limit) (sort_key (\<lambda>r. - updatedAt r)
       (filter (\<lambda>r. archivedAt r = None
          \<and> (lastEthBlock r \<noteq> None \<or> lastSorobanLedger r \<noteq> None \<or> lastSolanaSlot r \<noteq> None))
          (orders d)))"

definition repo_findNonTerminalSample :: "nat \<Rightarrow> db \<Rightarrow> order_row list" where
  "repo_findNonTerminalSample limit d =
     take (clamp_limit limit) (sort_key (\<lambda>r. - updatedAt r)
       (filter (\<lambda>r. status r \<notin> {Completed, Refunded, Failed, Cancelled, Abandoned}
          \<and> archivedAt r = None) (orders d)))"

definition repo_listChainCursors :: "db \<Rightarrow> (chain \<times> nat \<times> int) list" where
  "repo_listChainCursors d = sort_key fst (chain_cursors d)"
end
