(* ===== verification/Orders_Laws.thy ===== *)
theory Orders_Laws
  imports Orders_Repo
begin

text \<open>
  The invariant of the coordinator's database and the contract every write of the repository
  keeps: a write touches one order, leaves its identity alone and, when it changes the status,
  appends an event that says from which status to which. The locales \<open>order_op\<close> and \<open>quiet_op\<close>
  state that contract once; every writing method of the repository is an interpretation.
\<close>

section \<open>Lookup after an update\<close>

definition public_ids :: "db \<Rightarrow> string list" where
  "public_ids d = map publicId (orders d)"

definition keeps_identity :: "(order_row \<Rightarrow> order_row) \<Rightarrow> bool" where
  "keeps_identity f \<longleftrightarrow> (\<forall>r. rowId (f r) = rowId r \<and> publicId (f r) = publicId r
     \<and> hashlock (f r) = hashlock r \<and> createdAt (f r) = createdAt r
     \<and> srcAddress (f r) = srcAddress r \<and> dstAddress (f r) = dstAddress r)"

lemma keeps_identityD:
  assumes "keeps_identity f"
  shows "rowId (f r) = rowId r" and "publicId (f r) = publicId r" and "hashlock (f r) = hashlock r"
    and "createdAt (f r) = createdAt r" and "srcAddress (f r) = srcAddress r"
    and "dstAddress (f r) = dstAddress r"
  using assms by (auto simp: keeps_identity_def)

lemma select_Some_iff:
  assumes "distinct (public_ids d)"
  shows "select_by_public_id pid d = Some r \<longleftrightarrow> r \<in> set (orders d) \<and> publicId r = pid"
proof -
  have "find (\<lambda>r. publicId r = pid) rs = Some r \<longleftrightarrow> r \<in> set rs \<and> publicId r = pid"
    if "distinct (map publicId rs)" for rs
    using that by (induction rs) (auto simp: image_iff)
  with assms show ?thesis by (simp add: select_by_public_id_def public_ids_def)
qed

lemma select_SomeD: "select_by_public_id pid d = Some r \<Longrightarrow> r \<in> set (orders d) \<and> publicId r = pid"
  by (auto simp: select_by_public_id_def find_Some_iff)

lemma select_None_iff: "select_by_public_id pid d = None \<longleftrightarrow> (\<forall>r\<in>set (orders d). publicId r \<noteq> pid)"
  by (auto simp: select_by_public_id_def find_None_iff)

lemma orders_update_order:
  "orders (update_order pid f d) = map (\<lambda>r. if publicId r = pid then f r else r) (orders d)"
  by (simp add: update_where_def)

lemma update_order_tables [simp]:
  "order_events (update_order pid f d) = order_events d"
  "nextEventId (update_order pid f d) = nextEventId d"
  "nextOrderId (update_order pid f d) = nextOrderId d"
  "processed_events (update_order pid f d) = processed_events d"
  "chain_cursors (update_order pid f d) = chain_cursors d"
  "soroban_checkpoints (update_order pid f d) = soroban_checkpoints d"
  by (simp_all add: update_where_def)

lemma append_event_tables [simp]:
  "orders (appendTransitionEvent now i ty p d) = orders d"
  "nextOrderId (appendTransitionEvent now i ty p d) = nextOrderId d"
  "processed_events (appendTransitionEvent now i ty p d) = processed_events d"
  "chain_cursors (appendTransitionEvent now i ty p d) = chain_cursors d"
  "soroban_checkpoints (appendTransitionEvent now i ty p d) = soroban_checkpoints d"
  "public_ids (appendTransitionEvent now i ty p d) = public_ids d"
  by (simp_all add: appendTransitionEvent_def insert_event_def public_ids_def)

lemma select_append_event [simp]:
  "select_by_public_id pid (appendTransitionEvent now i ty p d) = select_by_public_id pid d"
  by (simp add: select_by_public_id_def)

lemma find_map_update:
  assumes "\<And>r. publicId (f r) = publicId r"
  shows "find (\<lambda>r. publicId r = q) (map (\<lambda>r. if publicId r = pid then f r else r) rs) =
         map_option (\<lambda>r. if q = pid then f r else r) (find (\<lambda>r. publicId r = q) rs)"
  by (induction rs) (auto simp: assms)

lemma select_update_order:
  assumes "keeps_identity f"
  shows "select_by_public_id q (update_order pid f d) =
         map_option (\<lambda>r. if q = pid then f r else r) (select_by_public_id q d)"
  using find_map_update [OF keeps_identityD(2) [OF assms]]
  by (simp add: select_by_public_id_def update_where_def)

text \<open>An \<open>UPDATE\<close> guarded by more than the public id is an update of that order by a function
  that does nothing when the guard fails; it changes no row exactly then.\<close>

lemma update_where_guard:
  "fst (update_where (\<lambda>r. publicId r = pid \<and> Q r) f d) =
     update_order pid (\<lambda>r. if Q r then f r else r) d"
  by (auto simp: update_where_def)

lemma update_where_changes:
  assumes "distinct (public_ids d)" and "select_by_public_id pid d = Some r"
  shows "snd (update_where (\<lambda>r. publicId r = pid \<and> Q r) f d) = 0 \<longleftrightarrow> \<not> Q r"
proof -
  have "filter (\<lambda>r. publicId r = pid \<and> Q r) (orders d) = [] \<longleftrightarrow> \<not> Q r"
    using assms by (auto simp: select_Some_iff filter_empty_conv)
       (metis assms(2) option.inject select_Some_iff)
  then show ?thesis by (simp add: update_where_def)
qed

lemma update_order_id:
  assumes "distinct (public_ids d)" and "select_by_public_id pid d = Some r" and "f r = r"
  shows "update_order pid f d = d"
proof -
  have "map (\<lambda>r. if publicId r = pid then f r else r) (orders d) = orders d"
    using assms by (intro map_idI) (metis select_Some_iff option.inject)
  then show ?thesis by (simp add: update_where_def)
qed

section \<open>The invariant\<close>

definition wf_db :: "db \<Rightarrow> bool" where
  "wf_db d \<longleftrightarrow>
     distinct (public_ids d) \<and> sorted_wrt (<) (map rowId (orders d))
     \<and> (\<forall>r\<in>set (orders d). rowId r < nextOrderId d)
     \<and> (\<forall>r\<in>set (orders d). is_hashlock (hashlock r) \<and> publicId r = ''wf_'' @ toLowerCase (hashlock r))
     \<and> (\<forall>e\<in>set (order_events d). \<exists>r\<in>set (orders d). rowId r = evOrderId e)
     \<and> sorted_wrt (<) (map evId (order_events d))
     \<and> (\<forall>e\<in>set (order_events d). evId e < nextEventId d)
     \<and> jm_wf (processed_events d) \<and> jm_wf (chain_cursors d) \<and> jm_wf (soroban_checkpoints d)"

text \<open>Replaying a list of events from a status: every event must start where the last one
  ended.\<close>

fun replay_trail :: "order_status \<Rightarrow> event_payload list \<Rightarrow> order_status option" where
  "replay_trail s [] = Some s"
| "replay_trail s (p # ps) = (if fromStatus p = s then replay_trail (toStatus p) ps else None)"

definition trail_of :: "nat \<Rightarrow> db \<Rightarrow> event_payload list" where
  "trail_of i d = map payload (filter (\<lambda>e. evOrderId e = i) (order_events d))"

definition trail_ok :: "db \<Rightarrow> bool" where
  "trail_ok d \<longleftrightarrow> (\<forall>r\<in>set (orders d). replay_trail Announced (trail_of (rowId r) d) = Some (status r))"

lemma replay_trail_append:
  "replay_trail s (ps @ qs) = Option.bind (replay_trail s ps) (\<lambda>t. replay_trail t qs)"
  by (induction ps arbitrary: s) auto

lemma trail_of_append_event:
  "trail_of j (appendTransitionEvent now i ty p d) = trail_of j d @ (if i = j then [p] else [])"
  by (simp add: trail_of_def appendTransitionEvent_def insert_event_def)

lemma trail_of_update_order [simp]: "trail_of i (update_order pid f d) = trail_of i d"
  by (simp add: trail_of_def)

lemma wf_db_distinct: "wf_db d \<Longrightarrow> distinct (public_ids d)"
  by (simp add: wf_db_def)

lemma wf_db_rowId_inj:
  assumes "wf_db d" "r \<in> set (orders d)" "q \<in> set (orders d)" "rowId r = rowId q"
  shows "r = q"
proof -
  from assms(1) have "distinct (map rowId (orders d))"
    by (simp add: wf_db_def strict_sorted_iff)
  with assms(2-) show ?thesis by (auto simp: distinct_map inj_on_def)
qed

section \<open>The contract of a write\<close>

text \<open>A logged write of one order: nothing, or an update of the order that keeps its identity,
  together with an event that records the status before and after.\<close>

definition order_step :: "string \<Rightarrow> db \<Rightarrow> db \<Rightarrow> bool" where
  "order_step pid d d' \<longleftrightarrow> d' = d \<or>
     (\<exists>r f now ty p. select_by_public_id pid d = Some r \<and> keeps_identity f
        \<and> fromStatus p = status r \<and> toStatus p = status (f r)
        \<and> d' = appendTransitionEvent now (rowId r) ty p (update_order pid f d))"

text \<open>A quiet write: an update that keeps the identity and the status, with no event.\<close>

definition quiet_step :: "string \<Rightarrow> db \<Rightarrow> db \<Rightarrow> bool" where
  "quiet_step pid d d' \<longleftrightarrow>
     (\<exists>f. keeps_identity f \<and> (\<forall>r. status (f r) = status r) \<and> d' = update_order pid f d)"

lemma order_step_refl [intro, simp]: "order_step pid d d"
  by (simp add: order_step_def)

lemma order_stepI:
  assumes "select_by_public_id pid d = Some r" "keeps_identity f" "fromStatus p = status r"
    and "toStatus p = status (f r)"
  shows "order_step pid d (appendTransitionEvent now (rowId r) ty p (update_order pid f d))"
  using assms unfolding order_step_def by blast

lemma keeps_identity_id [simp]: "keeps_identity (\<lambda>r. r)"
  by (simp add: keeps_identity_def)

lemma update_order_ident [simp]: "update_order pid (\<lambda>r. r) d = d"
  by (simp add: update_where_def)

lemma order_step_event_only:
  assumes "select_by_public_id pid d = Some r" "fromStatus p = status r" "toStatus p = status r"
  shows "order_step pid d (appendTransitionEvent now (rowId r) ty p d)"
  using order_stepI [where f = "\<lambda>r. r", OF assms(1) keeps_identity_id assms(2,3)] by simp

lemma wf_db_update_order:
  assumes "wf_db d" and "keeps_identity f"
  shows "wf_db (update_order pid f d)"
proof -
  note keep = keeps_identityD [OF assms(2)]
  have ids: "public_ids (update_order pid f d) = public_ids d"
    "map rowId (orders (update_order pid f d)) = map rowId (orders d)"
    by (auto simp: public_ids_def orders_update_order keep)
  then have rows: "rowId ` set (orders (update_order pid f d)) = rowId ` set (orders d)"
    by (metis list.set_map)
  have ref: "(\<exists>r\<in>set rs. rowId r = i) \<longleftrightarrow> i \<in> rowId ` set rs" for i rs by auto
  have row: "P (rowId r) \<and> Q (hashlock r) (publicId r)"
    if "r \<in> set (orders (update_order pid f d))"
      and "\<forall>r\<in>set (orders d). P (rowId r) \<and> Q (hashlock r) (publicId r)" for r P Q
    using that by (auto simp: orders_update_order keep)
  have "\<forall>r\<in>set (orders (update_order pid f d)). rowId r < nextOrderId d"
    using assms(1) row [of _ "\<lambda>i. i < nextOrderId d" "\<lambda>_ _. True"] by (simp add: wf_db_def)
  moreover have "\<forall>r\<in>set (orders (update_order pid f d)).
      is_hashlock (hashlock r) \<and> publicId r = ''wf_'' @ toLowerCase (hashlock r)"
    using assms(1) row [of _ "\<lambda>_. True" "\<lambda>h q. is_hashlock h \<and> q = ''wf_'' @ toLowerCase h"]
    by (simp add: wf_db_def)
  ultimately show ?thesis
    using assms(1) unfolding wf_db_def ids ref rows update_order_tables by blast
qed

lemma wf_db_append_event:
  assumes "wf_db d" and "r \<in> set (orders d)"
  shows "wf_db (appendTransitionEvent now (rowId r) ty p d)"
  using assms
  by (auto simp: wf_db_def appendTransitionEvent_def insert_event_def public_ids_def
      sorted_wrt_append less_SucI)

lemma order_step_wf:
  assumes "order_step pid d d'" and "wf_db d"
  shows "wf_db d'"
proof (cases "d' = d")
  case False
  with assms(1) obtain r f now ty p where r: "select_by_public_id pid d = Some r" and f: "keeps_identity f"
    and d': "d' = appendTransitionEvent now (rowId r) ty p (update_order pid f d)"
    unfolding order_step_def by blast
  from select_SomeD [OF r] have "f r \<in> set (orders (update_order pid f d))"
    by (auto simp: orders_update_order)
  moreover have "rowId (f r) = rowId r" by (rule keeps_identityD(1) [OF f])
  ultimately show ?thesis
    unfolding d' using wf_db_append_event [OF wf_db_update_order [OF assms(2) f]] by metis
qed (use assms in simp)

lemma order_step_trail:
  assumes "order_step pid d d'" and "wf_db d" and "trail_ok d"
  shows "trail_ok d'"
proof (cases "d' = d")
  case False
  with assms(1) obtain r f now ty p where r: "select_by_public_id pid d = Some r" and f: "keeps_identity f"
    and p: "fromStatus p = status r" "toStatus p = status (f r)"
    and d': "d' = appendTransitionEvent now (rowId r) ty p (update_order pid f d)"
    unfolding order_step_def by blast
  from select_SomeD [OF r] have rin: "r \<in> set (orders d)" and rpid: "publicId r = pid" by auto
  have "replay_trail Announced (trail_of (rowId q') d') = Some (status q')"
    if "q' \<in> set (orders d')" for q'
  proof -
    from that obtain q where q: "q \<in> set (orders d)" and q': "q' = (if publicId q = pid then f q else q)"
      by (auto simp: d' orders_update_order)
    have ok: "replay_trail Announced (trail_of (rowId q) d) = Some (status q)"
      using assms(3) q by (simp add: trail_ok_def)
    show ?thesis
    proof (cases "q = r")
      case True
      with ok rpid p q' show ?thesis
        by (simp add: d' trail_of_append_event replay_trail_append keeps_identityD(1) [OF f])
    next
      case False
      with q rin have "rowId r \<noteq> rowId q" using wf_db_rowId_inj [OF assms(2)] by metis
      moreover have "publicId q \<noteq> pid"
        using q r False select_Some_iff [OF wf_db_distinct [OF assms(2)], of pid q] by auto
      ultimately show ?thesis using ok q' by (simp add: d' trail_of_append_event)
    qed
  qed
  then show ?thesis by (simp add: trail_ok_def)
qed (use assms in simp)

lemma order_step_frame:
  assumes "order_step pid d d'" and "q \<noteq> pid"
  shows "select_by_public_id q d' = select_by_public_id q d"
  using assms by (auto simp: order_step_def select_update_order option.map_ident)

lemma quiet_step_wf: "quiet_step pid d d' \<Longrightarrow> wf_db d \<Longrightarrow> wf_db d'"
  by (auto simp: quiet_step_def wf_db_update_order)

lemma quiet_step_trail: "quiet_step pid d d' \<Longrightarrow> trail_ok d \<Longrightarrow> trail_ok d'"
  by (auto simp: quiet_step_def trail_ok_def orders_update_order keeps_identityD)

lemma quiet_step_frame:
  assumes "quiet_step pid d d'" and "q \<noteq> pid"
  shows "select_by_public_id q d' = select_by_public_id q d"
  using assms by (auto simp: quiet_step_def select_update_order option.map_ident)

locale order_op =
  fixes op :: "db \<Rightarrow> db" and pid :: string
  assumes op_step: "wf_db d \<Longrightarrow> order_step pid d (op d)"
begin

lemma op_wf: "wf_db d \<Longrightarrow> wf_db (op d)"
  using op_step order_step_wf by blast

lemma op_trail: "wf_db d \<Longrightarrow> trail_ok d \<Longrightarrow> trail_ok (op d)"
  using op_step order_step_trail by blast

lemma op_frame: "wf_db d \<Longrightarrow> q \<noteq> pid \<Longrightarrow> select_by_public_id q (op d) = select_by_public_id q d"
  using op_step order_step_frame by blast

end

locale quiet_op =
  fixes op :: "db \<Rightarrow> db" and pid :: string
  assumes op_quiet: "quiet_step pid d (op d)"
begin

lemma op_wf: "wf_db d \<Longrightarrow> wf_db (op d)"
  using op_quiet quiet_step_wf by blast

lemma op_trail: "trail_ok d \<Longrightarrow> trail_ok (op d)"
  using op_quiet quiet_step_trail by blast

lemma op_frame: "q \<noteq> pid \<Longrightarrow> select_by_public_id q (op d) = select_by_public_id q d"
  using op_quiet quiet_step_frame by blast

end

text \<open>The database after a call that may throw: a throw rolls the transaction back.\<close>

definition settle :: "db \<Rightarrow> 'e + db \<Rightarrow> db" where
  "settle d r = (case r of Inl _ \<Rightarrow> d | Inr d' \<Rightarrow> d')"

lemma settle_simps [simp]: "settle d (Inl e) = d" "settle d (Inr d') = d'"
  by (simp_all add: settle_def)

lemma event_of_sel [simp]:
  "fromStatus (event_of a s t out now) = s" "toStatus (event_of a s t out now) = t"
  "fromStatus (lock_event inp a s t out now) = s" "toStatus (lock_event inp a s t out now) = t"
  by (simp_all add: event_of_def lock_event_def)

text \<open>The guarded updates of \<open>setStatus\<close> and of the rollbacks, as one order write.\<close>

lemma guarded_write_step:
  assumes "wf_db d" and "select_by_public_id pid d = Some r" and "keeps_identity f"
    and "snd (update_where (\<lambda>r. publicId r = pid \<and> Q r) f d) \<noteq> 0"
    and "fromStatus p = status r" and "toStatus p = status (f r)"
  shows "order_step pid d (appendTransitionEvent now (rowId r) ty p
           (fst (update_where (\<lambda>r. publicId r = pid \<and> Q r) f d)))"
proof -
  have "Q r"
    using assms(4) update_where_changes [OF wf_db_distinct [OF assms(1)] assms(2), of Q f] by simp
  moreover have "keeps_identity (\<lambda>r. if Q r then f r else r)"
    using assms(3) by (simp add: keeps_identity_def)
  ultimately show ?thesis
    unfolding update_where_guard using assms(2,5,6) by (intro order_stepI) simp_all
qed

lemma guarded_write_none:
  assumes "wf_db d" and "select_by_public_id pid d = Some r"
    and "snd (update_where (\<lambda>r. publicId r = pid \<and> Q r) f d) = 0"
  shows "fst (update_where (\<lambda>r. publicId r = pid \<and> Q r) f d) = d"
proof -
  have "\<not> Q r"
    using assms(3) update_where_changes [OF wf_db_distinct [OF assms(1)] assms(2), of Q f] by simp
  then show ?thesis
    unfolding update_where_guard
    by (intro update_order_id [OF wf_db_distinct [OF assms(1)] assms(2)]) simp
qed

lemma recordSrcLock_step: "order_step (li_publicId inp) d (repo_recordSrcLock now inp act d)"
  unfolding repo_recordSrcLock_def Let_def
  by (auto split: option.split intro!: order_step_event_only order_stepI simp: keeps_identity_def)

lemma recordDstLock_step: "order_step (li_publicId inp) d (repo_recordDstLock now inp res act d)"
  unfolding repo_recordDstLock_def Let_def
  by (auto split: option.split intro!: order_step_event_only order_stepI simp: keeps_identity_def)

lemma recordSecretRevealed_step:
  "order_step pid d (settle d (repo_recordSecretRevealed now pid pre tx enc act d))"
  unfolding repo_recordSecretRevealed_def Let_def
  by (auto split: option.split intro!: order_step_event_only order_stepI simp: keeps_identity_def)

lemma cancelOrder_step: "order_step pid d (settle d (repo_cancelOrder now pid rsn act d))"
  unfolding repo_cancelOrder_def Let_def
  by (auto split: option.split intro!: order_step_event_only order_stepI simp: keeps_identity_def)

lemma abandonOrder_step: "order_step pid d (repo_abandonOrder now pid rsn act d)"
  unfolding repo_abandonOrder_def Let_def
  by (auto split: option.split intro!: order_step_event_only order_stepI simp: keeps_identity_def)

lemma rollbackSrcLock_step:
  assumes "wf_db d"
  shows "order_step pid d (repo_rollbackSrcLock now pid act d)"
  using assms unfolding repo_rollbackSrcLock_def Let_def split_beta
  by (auto split: option.split intro!: order_step_event_only guarded_write_step
      simp: keeps_identity_def guarded_write_none)

lemma rollbackDstLock_step:
  assumes "wf_db d"
  shows "order_step pid d (repo_rollbackDstLock now pid act d)"
  using assms unfolding repo_rollbackDstLock_def Let_def split_beta
  by (auto split: option.split intro!: order_step_event_only guarded_write_step
      simp: keeps_identity_def guarded_write_none)

lemma update_where_absent:
  assumes "select_by_public_id pid d = None"
  shows "snd (update_where (\<lambda>r. publicId r = pid \<and> Q r) f d) = 0"
  using assms by (auto simp: update_where_def select_None_iff filter_empty_conv)

lemma setStatus_step:
  assumes "wf_db d"
  shows "order_step pid d (settle d (repo_setStatus now pid st act ex d))"
proof (cases "select_by_public_id pid d")
  case None
  then show ?thesis
    by (auto simp: repo_setStatus_def Let_def split_beta update_where_absent split: option.split)
next
  case (Some r)
  have keep: "keeps_identity (\<lambda>r. r\<lparr>status := st, updatedAt := now\<rparr>)"
    by (simp add: keeps_identity_def)
  show ?thesis
  proof (cases ex)
    case None
    with Some show ?thesis
      by (auto simp: repo_setStatus_def keep intro!: order_step_event_only order_stepI)
  next
    case ex: (Some e)
    with Some show ?thesis
      by (auto simp: repo_setStatus_def Let_def split_beta
          intro!: guarded_write_step [OF assms Some keep])
  qed
qed

lemma quiet_stepI:
  assumes "keeps_identity f" and "\<And>r. status (f r) = status r"
  shows "quiet_step pid d (update_order pid f d)"
  using assms unfolding quiet_step_def by blast

lemma guarded_quiet:
  assumes "keeps_identity f" and "\<And>r. status (f r) = status r"
  shows "quiet_step pid d (fst (update_where (\<lambda>r. publicId r = pid \<and> Q r) f d))"
  unfolding update_where_guard quiet_step_def
  using assms by (intro exI [of _ "\<lambda>r. if Q r then f r else r"]) (simp add: keeps_identity_def)

lemma archiveOrder_quiet: "quiet_step pid d (repo_archiveOrder now pid d)"
  unfolding repo_archiveOrder_def by (intro guarded_quiet) (simp_all add: keeps_identity_def)

lemma unarchiveOrder_quiet: "quiet_step pid d (repo_unarchiveOrder now pid d)"
  unfolding repo_unarchiveOrder_def by (intro guarded_quiet) (simp_all add: keeps_identity_def)

lemma set_order_cursor_keeps:
  "keeps_identity (\<lambda>r. (set_order_cursor ch (g r) r)\<lparr>updatedAt := now\<rparr>)"
  "status ((set_order_cursor ch n r)\<lparr>updatedAt := now\<rparr>) = status r"
  by (cases ch; simp add: keeps_identity_def)+

lemma updateOrderCursor_quiet: "quiet_step pid d (repo_updateOrderCursor now pid ch pos d)"
  unfolding repo_updateOrderCursor_def by (rule quiet_stepI) (rule set_order_cursor_keeps)+

lemma advanceOrderLedgerCursor_quiet:
  "quiet_step pid d (repo_advanceOrderLedgerCursor now pid eth soroban sol d)"
proof (cases "list_ex (\<lambda>u. case u of None \<Rightarrow> False | Some n \<Rightarrow> n > 0) [eth, soroban, sol]")
  case False
  then have "repo_advanceOrderLedgerCursor now pid eth soroban sol d = update_order pid (\<lambda>r. r) d"
    by (simp add: repo_advanceOrderLedgerCursor_def)
  then show ?thesis unfolding quiet_step_def using keeps_identity_id by blast
next
  case True
  let ?f = "\<lambda>r. r\<lparr>lastEthBlock := advance_cursor eth (lastEthBlock r),
     lastSorobanLedger := advance_cursor soroban (lastSorobanLedger r),
     lastSolanaSlot := advance_cursor sol (lastSolanaSlot r), updatedAt := now\<rparr>"
  have "repo_advanceOrderLedgerCursor now pid eth soroban sol d = update_order pid ?f d"
    using True by (simp add: repo_advanceOrderLedgerCursor_def)
  moreover have "keeps_identity ?f \<and> (\<forall>r. status (?f r) = status r)"
    by (simp add: keeps_identity_def)
  ultimately show ?thesis unfolding quiet_step_def by blast
qed

interpretation setStatus_op:
  order_op "\<lambda>d. settle d (repo_setStatus now pid st act ex d)" pid
  by unfold_locales (rule setStatus_step)

interpretation recordSrcLock_op: order_op "repo_recordSrcLock now inp act" "li_publicId inp"
  by unfold_locales (rule recordSrcLock_step)

interpretation recordDstLock_op: order_op "repo_recordDstLock now inp res act" "li_publicId inp"
  by unfold_locales (rule recordDstLock_step)

interpretation recordSecretRevealed_op:
  order_op "\<lambda>d. settle d (repo_recordSecretRevealed now pid pre tx enc act d)" pid
  by unfold_locales (rule recordSecretRevealed_step)

interpretation rollbackSrcLock_op: order_op "repo_rollbackSrcLock now pid act" pid
  by unfold_locales (rule rollbackSrcLock_step)

interpretation rollbackDstLock_op: order_op "repo_rollbackDstLock now pid act" pid
  by unfold_locales (rule rollbackDstLock_step)

interpretation cancelOrder_op: order_op "\<lambda>d. settle d (repo_cancelOrder now pid rsn act d)" pid
  by unfold_locales (rule cancelOrder_step)

interpretation abandonOrder_op: order_op "repo_abandonOrder now pid rsn act" pid
  by unfold_locales (rule abandonOrder_step)

interpretation archiveOrder_op: quiet_op "repo_archiveOrder now pid" pid
  by unfold_locales (rule archiveOrder_quiet)

interpretation unarchiveOrder_op: quiet_op "repo_unarchiveOrder now pid" pid
  by unfold_locales (rule unarchiveOrder_quiet)

interpretation updateOrderCursor_op: quiet_op "repo_updateOrderCursor now pid ch pos" pid
  by unfold_locales (rule updateOrderCursor_quiet)

interpretation advanceOrderLedgerCursor_op:
  quiet_op "repo_advanceOrderLedgerCursor now pid eth soroban sol" pid
  by unfold_locales (rule advanceOrderLedgerCursor_quiet)

section \<open>Reachable databases\<close>

text \<open>One step is one call of a writing method, with any arguments; calls that throw leave the
  database alone and need no rule.\<close>

inductive repo_step :: "db \<Rightarrow> db \<Rightarrow> bool" where
  announce: "repo_announce now inp d = Inr (d', row) \<Longrightarrow> repo_step d d'"
| setStatus: "repo_setStatus now pid st act ex d = Inr d' \<Longrightarrow> repo_step d d'"
| recordSrcLock: "repo_step d (repo_recordSrcLock now inp act d)"
| recordDstLock: "repo_step d (repo_recordDstLock now inp res act d)"
| recordSecretRevealed: "repo_recordSecretRevealed now pid pre tx enc act d = Inr d' \<Longrightarrow> repo_step d d'"
| rollbackSrcLock: "repo_step d (repo_rollbackSrcLock now pid act d)"
| rollbackDstLock: "repo_step d (repo_rollbackDstLock now pid act d)"
| archiveOrder: "repo_step d (repo_archiveOrder now pid d)"
| unarchiveOrder: "repo_step d (repo_unarchiveOrder now pid d)"
| cancelOrder: "repo_cancelOrder now pid rsn act d = Inr d' \<Longrightarrow> repo_step d d'"
| abandonOrder: "repo_step d (repo_abandonOrder now pid rsn act d)"
| updateOrderCursor: "repo_step d (repo_updateOrderCursor now pid ch pos d)"
| advanceOrderLedgerCursor: "repo_step d (repo_advanceOrderLedgerCursor now pid eth soroban sol d)"
| claimEvent: "repo_step d (fst (repo_claimEvent now key ech ety oid d))"
| setChainCursor: "repo_step d (repo_setChainCursor now ch pos d)"
| saveSorobanCheckpoint: "repo_step d (repo_saveSorobanCheckpoint now cid ledger cur marker d)"
| markSorobanRecovery: "repo_step d (fst (repo_markSorobanRecovery now cid marker d))"

inductive repo_reachable :: "db \<Rightarrow> bool" where
  init: "repo_reachable empty_db"
| step: "repo_reachable d \<Longrightarrow> repo_step d d' \<Longrightarrow> repo_reachable d'"

lemma announce_cases:
  assumes "repo_announce now inp d = Inr (d', row)"
  shows "is_hashlock (ai_hashlock inp)
    \<and> row = announced_row now (nextOrderId d) (''wf_'' @ toLowerCase (ai_hashlock inp)) inp
    \<and> d' = d\<lparr>orders := orders d @ [row], nextOrderId := nextOrderId d + 1\<rparr>
    \<and> (\<forall>r\<in>set (orders d). publicId r \<noteq> ''wf_'' @ toLowerCase (ai_hashlock inp))"
  using assms
  by (auto simp: repo_announce_def orderIdFromHashlock_def Let_def list_ex_iff
      split: sum.splits if_splits)

lemma announced_row_sel [simp]:
  "rowId (announced_row now i pid inp) = i" "publicId (announced_row now i pid inp) = pid"
  "status (announced_row now i pid inp) = Announced"
  "hashlock (announced_row now i pid inp) = ai_hashlock inp"
  by (simp_all add: announced_row_def)

lemma announce_wf:
  assumes "repo_announce now inp d = Inr (d', row)" and "wf_db d"
  shows "wf_db d'"
  using announce_cases [OF assms(1)] assms(2)
  by (auto simp: wf_db_def public_ids_def sorted_wrt_append less_SucI image_iff)

lemma announce_trail:
  assumes "repo_announce now inp d = Inr (d', row)" and "wf_db d" and "trail_ok d"
  shows "trail_ok d'"
proof -
  note new = announce_cases [OF assms(1)]
  have "trail_of i d' = trail_of i d" for i
    using new by (simp add: trail_of_def)
  moreover have "trail_of (nextOrderId d) d = []"
    using assms(2) by (fastforce simp: trail_of_def wf_db_def filter_empty_conv)
  ultimately show ?thesis using assms(3) new by (simp add: trail_ok_def)
qed

definition repo_invar :: "db \<Rightarrow> bool" where
  "repo_invar d \<longleftrightarrow> wf_db d \<and> trail_ok d"

text \<open>Writes of the other tables leave the orders and their trail alone.\<close>

lemma repo_invar_tables:
  assumes "repo_invar d" and "jm_wf pe" and "jm_wf cc" and "jm_wf sc"
  shows "repo_invar (d\<lparr>processed_events := pe, chain_cursors := cc, soroban_checkpoints := sc\<rparr>)"
  using assms by (simp add: repo_invar_def wf_db_def trail_ok_def trail_of_def public_ids_def)

lemma repo_invar_maps:
  assumes "repo_invar d"
  shows "jm_wf pe \<Longrightarrow> repo_invar (d\<lparr>processed_events := pe\<rparr>)"
    and "jm_wf cc \<Longrightarrow> repo_invar (d\<lparr>chain_cursors := cc\<rparr>)"
    and "jm_wf sc \<Longrightarrow> repo_invar (d\<lparr>soroban_checkpoints := sc\<rparr>)"
proof -
  have maps: "jm_wf (processed_events d)" "jm_wf (chain_cursors d)" "jm_wf (soroban_checkpoints d)"
    using assms by (auto simp: repo_invar_def wf_db_def)
  show "jm_wf pe \<Longrightarrow> repo_invar (d\<lparr>processed_events := pe\<rparr>)"
    using repo_invar_tables [OF assms _ maps(2,3)] by simp
  show "jm_wf cc \<Longrightarrow> repo_invar (d\<lparr>chain_cursors := cc\<rparr>)"
    using repo_invar_tables [OF assms maps(1) _ maps(3)] by simp
  show "jm_wf sc \<Longrightarrow> repo_invar (d\<lparr>soroban_checkpoints := sc\<rparr>)"
    using repo_invar_tables [OF assms maps(1,2)] by simp
qed

lemma repo_invarD:
  assumes "repo_invar d"
  shows "wf_db d" and "trail_ok d" and "jm_wf (processed_events d)" and "jm_wf (chain_cursors d)"
    and "jm_wf (soroban_checkpoints d)"
  using assms by (auto simp: repo_invar_def wf_db_def)

lemma order_step_invar: "order_step pid d d' \<Longrightarrow> repo_invar d \<Longrightarrow> repo_invar d'"
  unfolding repo_invar_def using order_step_wf order_step_trail by blast

lemma quiet_step_invar: "quiet_step pid d d' \<Longrightarrow> repo_invar d \<Longrightarrow> repo_invar d'"
  unfolding repo_invar_def using quiet_step_wf quiet_step_trail by blast

lemma repo_step_invar:
  assumes "repo_step d d'" and "repo_invar d"
  shows "repo_invar d'"
  using assms
proof (cases rule: repo_step.cases)
  case (announce now inp row)
  with assms(2) show ?thesis unfolding repo_invar_def using announce_wf announce_trail by blast
next
  case (setStatus now pid st act ex)
  then have "order_step pid d d'"
    using setStatus_step [OF repo_invarD(1) [OF assms(2)], of pid now st act ex] by simp
  then show ?thesis using assms(2) by (rule order_step_invar)
next
  case (recordSecretRevealed now pid pre tx enc act)
  then have "order_step pid d d'"
    using recordSecretRevealed_step [of pid d now pre tx enc act] by simp
  then show ?thesis using assms(2) by (rule order_step_invar)
next
  case (cancelOrder now pid rsn act)
  then have "order_step pid d d'" using cancelOrder_step [of pid d now rsn act] by simp
  then show ?thesis using assms(2) by (rule order_step_invar)
qed (use assms(2) repo_invarD [OF assms(2)] in
      \<open>auto intro: order_step_invar recordSrcLock_step recordDstLock_step rollbackSrcLock_step
        rollbackDstLock_step abandonOrder_step quiet_step_invar archiveOrder_quiet
        unarchiveOrder_quiet updateOrderCursor_quiet advanceOrderLedgerCursor_quiet
        simp: repo_claimEvent_def repo_setChainCursor_def repo_saveSorobanCheckpoint_def
        repo_markSorobanRecovery_def repo_invar_maps split: option.split\<close>)

lemma repo_reachable_invar: "repo_reachable d \<Longrightarrow> repo_invar d"
proof (induction rule: repo_reachable.induct)
  case init
  show ?case
    by (simp add: repo_invar_def wf_db_def trail_ok_def empty_db_def public_ids_def)
next
  case (step d d')
  then show ?case using repo_step_invar by blast
qed

end
