(* ===== verification/Ledger_Interfaces.thy ===== *)
theory Ledger_Interfaces
  imports Prelude
begin

text \<open>
  Two interfaces several components share. A \<^emph>\<open>claim ledger\<close> hands an event to the first caller
  that presents its key and to nobody after; the durable \<open>processed_events\<close> table and the
  reconciler's in-memory seen set are instances. A \<^emph>\<open>forward cursor\<close> keeps a position per key
  that only moves up; the chain cursors, the Soroban checkpoints, the per-order ledger cursors
  and the in-memory ledger cursor are instances.
\<close>

section \<open>Claim ledgers\<close>

fun claim_run :: "('a \<Rightarrow> 's \<Rightarrow> 's \<times> bool) \<Rightarrow> 'a list \<Rightarrow> 's \<Rightarrow> 's \<times> bool list" where
  "claim_run claim [] s = (s, [])"
| "claim_run claim (x # xs) s =
     (let (s', b) = claim x s; (s'', bs) = claim_run claim xs s' in (s'', b # bs))"

definition winners :: "('a \<Rightarrow> 'k) \<Rightarrow> 'k \<Rightarrow> 'a list \<Rightarrow> bool list \<Rightarrow> nat" where
  "winners key k xs bs = length (filter (\<lambda>(x, b). key x = k \<and> b) (zip xs bs))"

locale claim_ledger =
  fixes has :: "'s \<Rightarrow> 'k \<Rightarrow> bool" and claim :: "'a \<Rightarrow> 's \<Rightarrow> 's \<times> bool" and key :: "'a \<Rightarrow> 'k"
  assumes claim_wins: "snd (claim x s) \<longleftrightarrow> \<not> has s (key x)"
    and has_claim: "has (fst (claim x s)) k \<longleftrightarrow> k = key x \<or> has s k"
begin

lemma claim_run_exactly_once:
  "winners key k xs (snd (claim_run claim xs s)) = (if k \<in> key ` set xs \<and> \<not> has s k then 1 else 0)"
proof (induction xs arbitrary: s)
  case Nil
  show ?case by (simp add: winners_def)
next
  case (Cons x xs)
  obtain s' b where xb: "claim x s = (s', b)" by (cases "claim x s") auto
  have b: "b \<longleftrightarrow> \<not> has s (key x)" and has: "has s' k \<longleftrightarrow> k = key x \<or> has s k"
    using claim_wins [of x s] has_claim [of x s k] xb by auto
  have "winners key k (x # xs) (snd (claim_run claim (x # xs) s)) =
        (if key x = k \<and> b then 1 else 0) + winners key k xs (snd (claim_run claim xs s'))"
    by (simp add: xb split_beta winners_def)
  then show ?case using Cons.IH [of s'] b has by auto
qed

lemma claim_run_has: "has (fst (claim_run claim xs s)) k \<longleftrightarrow> k \<in> key ` set xs \<or> has s k"
proof (induction xs arbitrary: s)
  case (Cons x xs)
  show ?case
    using Cons.IH [of "fst (claim x s)"] has_claim [of x s k] by (auto simp: split_beta)
qed simp

end

section \<open>Forward cursors\<close>

fun advance_run :: "('k \<Rightarrow> nat \<Rightarrow> 's \<Rightarrow> 's) \<Rightarrow> ('k \<times> nat) list \<Rightarrow> 's \<Rightarrow> 's" where
  "advance_run advance [] s = s"
| "advance_run advance ((k, n) # xs) s = advance_run advance xs (advance k n s)"

definition best_position :: "'k \<Rightarrow> ('k \<times> nat) list \<Rightarrow> nat \<Rightarrow> nat" where
  "best_position k xs n = fold max (map snd (filter (\<lambda>x. fst x = k) xs)) n"

text \<open>\<open>ok\<close> says which states and keys the law speaks of; the operation keeps it.\<close>

locale forward_cursor =
  fixes ok :: "'s \<Rightarrow> 'k \<Rightarrow> bool" and read :: "'s \<Rightarrow> 'k \<Rightarrow> nat" and advance :: "'k \<Rightarrow> nat \<Rightarrow> 's \<Rightarrow> 's"
  assumes ok_advance: "ok s k \<Longrightarrow> ok (advance j n s) k"
    and read_advance: "ok s k \<Longrightarrow> read (advance j n s) k = (if j = k then max (read s k) n else read s k)"
begin

lemma advance_forward: "ok s k \<Longrightarrow> read s k \<le> read (advance j n s) k"
  by (simp add: read_advance)

lemma advance_reaches: "ok s k \<Longrightarrow> n \<le> read (advance k n s) k"
  by (simp add: read_advance)

lemma advance_idem: "ok s k \<Longrightarrow> read (advance j n (advance j n s)) k = read (advance j n s) k"
  by (simp add: read_advance ok_advance)

lemma run_read:
  "ok s k \<Longrightarrow> read (advance_run advance xs s) k = best_position k xs (read s k)"
proof (induction xs arbitrary: s)
  case Nil
  then show ?case by (simp add: best_position_def)
next
  case (Cons x xs)
  obtain j n where x: "x = (j, n)" by (cases x)
  from Cons.prems have "ok (advance j n s) k" by (rule ok_advance)
  from Cons.IH [OF this] show ?case
    using Cons.prems by (simp add: x read_advance best_position_def max.commute)
qed

text \<open>Writers may interleave in any order: only the positions written matter.\<close>

lemma run_order_irrelevant:
  assumes "ok s k" and "set xs = set ys"
  shows "read (advance_run advance xs s) k = read (advance_run advance ys s) k"
proof -
  have "fold max zs n = Max (insert n (set zs))" for zs :: "nat list" and n
    by (simp add: Max.set_eq_fold [of n zs, symmetric])
  moreover have "set (map snd (filter (\<lambda>x. fst x = k) xs)) = set (map snd (filter (\<lambda>x. fst x = k) ys))"
    using assms(2) by simp
  ultimately show ?thesis
    using assms(1) by (simp only: run_read best_position_def)
qed

end

end
