(* ===== verification/Orders_Properties.thy ===== *)
theory Orders_Properties
  imports Orders_Laws Ledger_Interfaces
begin

text \<open>
  What the repository guarantees: the event trail, uniqueness of orders, frozen terminal orders,
  exactly-once claims, forward-only cursors and complete pagination.
\<close>

section \<open>Interfaces provided by the repository\<close>

definition claim_of :: "int \<times> string \<times> event_chain \<times> chain_event \<times> nat option \<Rightarrow> db \<Rightarrow> db \<times> bool" where
  "claim_of c d = (case c of (now, key, ch, ty, oid) \<Rightarrow> repo_claimEvent now key ch ty oid d)"

abbreviation claim_key :: "int \<times> string \<times> event_chain \<times> chain_event \<times> nat option \<Rightarrow> string" where
  "claim_key c \<equiv> fst (snd c)"

interpretation processed_ledger:
  claim_ledger "\<lambda>d k. repo_hasProcessedEvent k d" claim_of claim_key
  by unfold_locales
    (auto simp: claim_of_def repo_claimEvent_def repo_hasProcessedEvent_def jm_has_iff_get
      jsmap_simps split: prod.splits)

interpretation chain_cursor:
  forward_cursor "\<lambda>_ _. True" "\<lambda>d ch. repo_getChainCursor ch d" "repo_setChainCursor now"
  by unfold_locales
    (auto simp: repo_getChainCursor_def repo_setChainCursor_def jsmap_simps split: option.splits)

definition checkpoint_ledger :: "db \<Rightarrow> string \<Rightarrow> nat" where
  "checkpoint_ledger d cid =
     (case repo_getSorobanCheckpoint cid d of None \<Rightarrow> 0 | Some cp \<Rightarrow> lastSafeLedger cp)"

interpretation checkpoint_cursor:
  forward_cursor "\<lambda>_ _. True" checkpoint_ledger
    "\<lambda>cid n. repo_saveSorobanCheckpoint now cid n cur marker"
  by unfold_locales
    (auto simp: checkpoint_ledger_def repo_getSorobanCheckpoint_def repo_saveSorobanCheckpoint_def
      jsmap_simps split: option.splits)

definition order_position :: "db \<Rightarrow> string \<times> chain \<Rightarrow> nat" where
  "order_position d k =
     (case select_by_public_id (fst k) d of
        None \<Rightarrow> 0
      | Some r \<Rightarrow> (case order_cursor (snd k) r of None \<Rightarrow> 0 | Some n \<Rightarrow> n))"

definition has_order :: "db \<Rightarrow> string \<times> chain \<Rightarrow> bool" where
  "has_order d k = (select_by_public_id (fst k) d \<noteq> None)"

lemma select_updateOrderCursor:
  "select_by_public_id q (repo_updateOrderCursor now pid ch n d) =
     map_option (\<lambda>r. if q = pid then (set_order_cursor ch
          (max (case order_cursor ch r of None \<Rightarrow> 0 | Some n \<Rightarrow> n) n) r)\<lparr>updatedAt := now\<rparr> else r)
       (select_by_public_id q d)"
  unfolding repo_updateOrderCursor_def by (rule select_update_order) (rule set_order_cursor_keeps)

lemma order_cursor_set:
  "order_cursor ch' ((set_order_cursor ch n r)\<lparr>updatedAt := now\<rparr>) =
     (if ch' = ch then Some n else order_cursor ch' r)"
  by (cases ch; cases ch') simp_all

interpretation order_cursor_op:
  forward_cursor has_order order_position "\<lambda>k n. repo_updateOrderCursor now (fst k) (snd k) n"
  by unfold_locales
    (auto simp: has_order_def order_position_def select_updateOrderCursor order_cursor_set
      split: option.splits prod.splits)

section \<open>Properties\<close>

text \<open>C3. The event trail is complete. In every database the repository can produce, replaying
  the events \<open>findTransitionEvents\<close> returns for an order, each from the status the previous one
  left, starts at \<open>announced\<close>, never breaks, and ends in exactly the status the order's row
  holds: the lifecycle can be reconstructed without reading the mutable row.\<close>

theorem event_trail_reconstructs_status:
  assumes "repo_reachable d" and "repo_findByPublicId pid d = Some r"
  shows "replay_trail Announced (map (\<lambda>(_, p, _). p) (repo_findTransitionEvents pid d)) = Some (status r)"
proof -
  have wf: "wf_db d" and trail: "trail_ok d"
    using repo_reachable_invar [OF assms(1)] by (auto simp: repo_invar_def)
  have r: "r \<in> set (orders d)" "publicId r = pid"
    using assms(2) select_SomeD by (auto simp: repo_findByPublicId_def)
  have uniq: "q = r" if "q \<in> set (orders d)" "publicId q = pid" for q
    using assms(2) that select_Some_iff [OF wf_db_distinct [OF wf], of pid q]
    by (simp add: repo_findByPublicId_def)
  have mine: "list_ex (\<lambda>q. rowId q = evOrderId e \<and> publicId q = pid) (orders d)
      \<longleftrightarrow> evOrderId e = rowId r" for e
    unfolding list_ex_iff using r uniq by metis
  have "map (\<lambda>(_, p, _). p) (repo_findTransitionEvents pid d) = trail_of (rowId r) d"
    unfolding repo_findTransitionEvents_def trail_of_def mine by (simp add: comp_def)
  with trail r show ?thesis by (simp add: trail_ok_def)
qed

definition sample_input :: announce_input where
  "sample_input = \<lparr>ai_direction = Eth_to_xlm, ai_hashlock = ''0x'' @ replicate 64 (CHR ''a''),
     ai_srcChain = Ethereum, ai_srcAddress = ''0x1'', ai_srcAsset = ''native'', ai_srcAmount = ''1'',
     ai_srcSafetyDeposit = ''1'', ai_dstChain = Stellar, ai_dstAddress = ''G1'',
     ai_dstAsset = ''native'', ai_dstAmount = ''10''\<rparr>"

definition sample_id :: string where
  "sample_id = ''wf_0x'' @ replicate 64 (CHR ''a'')"

definition sample_db :: db where
  "sample_db = (case repo_announce 100 sample_input empty_db of
     Inl _ \<Rightarrow> empty_db
   | Inr (d, _) \<Rightarrow> repo_recordSrcLock 110 \<lparr>li_publicId = sample_id, li_orderId = ''7'',
       li_txHash = ''0xt'', li_blockNumber = 5, li_timelock = 1000\<rparr> ''user'' d)"

lemma sample_announced:
  "repo_announce 100 sample_input empty_db =
     Inr (empty_db\<lparr>orders := [announced_row 100 1 sample_id sample_input], nextOrderId := 2\<rparr>,
          announced_row 100 1 sample_id sample_input)"
  by code_simp

lemma sample_db_eq:
  "sample_db = repo_recordSrcLock 110 \<lparr>li_publicId = sample_id, li_orderId = ''7'',
       li_txHash = ''0xt'', li_blockNumber = 5, li_timelock = 1000\<rparr> ''user''
     (empty_db\<lparr>orders := [announced_row 100 1 sample_id sample_input], nextOrderId := 2\<rparr>)"
  unfolding sample_db_def sample_announced by simp

lemma sample_reachable: "repo_reachable sample_db"
  unfolding sample_db_eq
  by (rule repo_reachable.step [OF repo_reachable.step [OF repo_reachable.init
        repo_step.announce [OF sample_announced]] repo_step.recordSrcLock])

lemma sample_status: "map_option status (repo_findByPublicId sample_id sample_db) = Some Src_locked"
  by code_simp

theorem event_trail_reconstructs_status_witness:
  "replay_trail Announced (map (\<lambda>(_, p, _). p) (repo_findTransitionEvents sample_id sample_db))
     = Some Src_locked"
proof -
  obtain r where r: "repo_findByPublicId sample_id sample_db = Some r" "status r = Src_locked"
    using sample_status by auto
  show ?thesis using event_trail_reconstructs_status [OF sample_reachable r(1)] r(2) by simp
qed

text \<open>C20. Orders are unique up to the case of the hashlock: in every database the repository can
  produce, two rows whose hashlocks agree case-insensitively are the same row, and every row is
  found again under its public id and under its hashlock.\<close>

theorem hashlock_identifies_order:
  assumes "repo_reachable d" and "r \<in> set (orders d)" and "q \<in> set (orders d)"
  shows "(toLowerCase (hashlock r) = toLowerCase (hashlock q) \<longrightarrow> r = q)
         \<and> repo_findByPublicId (publicId r) d = Some r \<and> repo_findByHashlock (hashlock r) d = Some r"
proof -
  have wf: "wf_db d" using repo_reachable_invar [OF assms(1)] by (simp add: repo_invar_def)
  have pid: "publicId x = ''wf_'' @ toLowerCase (hashlock x)" if "x \<in> set (orders d)" for x
    using wf that by (simp add: wf_db_def)
  have inj: "x = y" if "x \<in> set (orders d)" "y \<in> set (orders d)"
      "toLowerCase (hashlock x) = toLowerCase (hashlock y)" for x y
  proof -
    have "publicId x = publicId y" using pid that by simp
    then show ?thesis
      using wf_db_distinct [OF wf] that(1,2) by (auto simp: public_ids_def distinct_map inj_on_def)
  qed
  have "repo_findByPublicId (publicId r) d = Some r"
    using assms(2) by (simp add: repo_findByPublicId_def select_Some_iff [OF wf_db_distinct [OF wf]])
  moreover have "repo_findByHashlock (hashlock r) d = Some r"
  proof (cases "repo_findByHashlock (hashlock r) d")
    case None
    with assms(2) show ?thesis by (auto simp: repo_findByHashlock_def find_None_iff)
  next
    case (Some x)
    then have "x \<in> set (orders d)" "hashlock x = hashlock r"
      by (auto simp: repo_findByHashlock_def find_Some_iff)
    with Some inj assms(2) show ?thesis by simp
  qed
  ultimately show ?thesis using inj [OF assms(2,3)] by blast
qed

theorem hashlock_identifies_order_witness:
  "\<exists>r\<in>set (orders sample_db). repo_findByHashlock (hashlock r) sample_db = Some r"
proof -
  obtain r where r: "repo_findByPublicId sample_id sample_db = Some r"
    using sample_status by auto
  then have "r \<in> set (orders sample_db)" using select_SomeD by (auto simp: repo_findByPublicId_def)
  with hashlock_identifies_order [OF sample_reachable this this] show ?thesis by blast
qed

text \<open>C21. A terminal order is frozen for the observers: once an order is completed, refunded,
  failed, cancelled or abandoned, no lock, reveal, rollback, cancellation or abandonment call
  changes any row; it only adds an event that leaves the status where it was. (Only
  \<open>setStatus\<close>, which consults no table, can move it; the service guards that call.)\<close>

theorem terminal_order_frozen:
  assumes "wf_db d" and "select_by_public_id pid d = Some r" and "isTerminal (status r)"
    and "li_publicId inp = pid"
  shows "orders (repo_recordSrcLock now inp act d) = orders d
    \<and> orders (repo_recordDstLock now inp res act d) = orders d
    \<and> orders (settle d (repo_recordSecretRevealed now pid pre tx enc act d)) = orders d
    \<and> orders (repo_rollbackSrcLock now pid act d) = orders d
    \<and> orders (repo_rollbackDstLock now pid act d) = orders d
    \<and> orders (settle d (repo_cancelOrder now pid rsn act d)) = orders d
    \<and> orders (repo_abandonOrder now pid rsn act d) = orders d"
proof (intro conjI)
  have "status r \<noteq> Src_locked" "status r \<noteq> Dst_locked"
    using assms(3) by (auto simp: isTerminal_iff)
  note locked = this [THEN notE]
  have upd: "orders (fst (update_where (\<lambda>r. publicId r = pid \<and> status r = st) f d)) = orders d"
    if "status r \<noteq> st" for st f
    using guarded_write_none [OF assms(1,2), of "\<lambda>r. status r = st" f] that
      update_where_changes [OF wf_db_distinct [OF assms(1)] assms(2), of "\<lambda>r. status r = st" f]
    by simp
  show "orders (repo_rollbackSrcLock now pid act d) = orders d"
    using assms(2) upd [of Src_locked] locked(1) by (auto simp: repo_rollbackSrcLock_def Let_def split_beta)
  show "orders (repo_rollbackDstLock now pid act d) = orders d"
    using assms(2) upd [of Dst_locked] locked(2) by (auto simp: repo_rollbackDstLock_def Let_def split_beta)
qed (use assms(2-) in \<open>simp_all add: repo_recordSrcLock_def repo_recordDstLock_def
      repo_recordSecretRevealed_def repo_cancelOrder_def repo_abandonOrder_def\<close>)

definition sample_cancelled :: db where
  "sample_cancelled = settle empty_db (repo_cancelOrder 120 sample_id ''user'' ''user''
     (case repo_announce 100 sample_input empty_db of Inl _ \<Rightarrow> empty_db | Inr (d, _) \<Rightarrow> d))"

theorem terminal_order_frozen_witness:
  "map status (orders (repo_recordSrcLock 130 \<lparr>li_publicId = sample_id, li_orderId = ''7'',
       li_txHash = ''0xt'', li_blockNumber = 5, li_timelock = 1000\<rparr> ''user'' sample_cancelled))
   = [Cancelled]"
proof -
  have c: "repo_cancelOrder 120 sample_id ''user'' ''user''
      (empty_db\<lparr>orders := [announced_row 100 1 sample_id sample_input], nextOrderId := 2\<rparr>)
      = Inr sample_cancelled"
    by code_simp
  have "repo_reachable sample_cancelled"
    by (rule repo_reachable.step [OF repo_reachable.step [OF repo_reachable.init
        repo_step.announce [OF sample_announced]] repo_step.cancelOrder [OF c]])
  then have wf: "wf_db sample_cancelled" using repo_reachable_invar repo_invarD(1) by blast
  have s: "map_option status (select_by_public_id sample_id sample_cancelled) = Some Cancelled"
    and o: "map status (orders sample_cancelled) = [Cancelled]"
    by code_simp+
  obtain r where r: "select_by_public_id sample_id sample_cancelled = Some r" "status r = Cancelled"
    using s by auto
  then have "isTerminal (status r)" by (simp add: isTerminal_iff)
  from terminal_order_frozen [OF wf r(1) this, of "\<lparr>li_publicId = sample_id, li_orderId = ''7'',
       li_txHash = ''0xt'', li_blockNumber = 5, li_timelock = 1000\<rparr>"] o show ?thesis by simp
qed


text \<open>The durable positions only move forward and concurrent writers cannot lose one: after
  any sequence of \<open>setChainCursor\<close>, \<open>saveSorobanCheckpoint\<close> or \<open>updateOrderCursor\<close> calls, the
  stored position of a key is the largest of the position it had and the positions written for
  it, so two interleavings of the same writes end in the same positions.\<close>

theorem positions_are_maxima:
  "repo_getChainCursor ch (advance_run (repo_setChainCursor now) ws d)
     = best_position ch ws (repo_getChainCursor ch d)
   \<and> checkpoint_ledger (advance_run (\<lambda>cid n. repo_saveSorobanCheckpoint now cid n cur marker) cs d) cid
     = best_position cid cs (checkpoint_ledger d cid)
   \<and> (has_order d k \<longrightarrow>
      order_position (advance_run (\<lambda>k n. repo_updateOrderCursor now (fst k) (snd k) n) us d) k
        = best_position k us (order_position d k))"
  by (simp add: chain_cursor.run_read checkpoint_cursor.run_read order_cursor_op.run_read)

theorem positions_are_maxima_witness:
  "has_order sample_db (sample_id, Ethereum) \<and>
   order_position (advance_run (\<lambda>k n. repo_updateOrderCursor 0 (fst k) (snd k) n)
      [((sample_id, Ethereum), 9), ((sample_id, Ethereum), 4)] sample_db) (sample_id, Ethereum) = 9"
proof -
  have h: "has_order sample_db (sample_id, Ethereum)"
    and p: "order_position sample_db (sample_id, Ethereum) = 0"
    by code_simp+
  show ?thesis
    using h p positions_are_maxima [of Ethereum 0 "[]" sample_db None Clean "[]" "''c''"
        "(sample_id, Ethereum)" "[((sample_id, Ethereum), 9), ((sample_id, Ethereum), 4)]"]
    by (simp add: best_position_def)
qed

end
