(* ===== verification/Orders_Pagination.thy ===== *)
theory Orders_Pagination
  imports Orders_Properties
begin

text \<open>
  Cursor pagination of \<open>findByAddressWithCursor\<close>: following \<open>nextCursor\<close> from the first page visits
  every order of an address exactly once, newest first.
\<close>

text \<open>A client that follows the cursors, at most \<open>n\<close> pages.\<close>

fun fetch_pages :: "nat \<Rightarrow> string \<Rightarrow> nat \<Rightarrow> cursor_info option \<Rightarrow> db \<Rightarrow> order_row list list" where
  "fetch_pages 0 addr limit cursor d = []"
| "fetch_pages (Suc n) addr limit cursor d =
     (case repo_findByAddressWithCursor addr limit cursor d of
        (rows, None) \<Rightarrow> [rows]
      | (rows, Some c) \<Rightarrow> rows # fetch_pages n addr limit (Some c) d)"

definition cursor_at :: "order_row \<Rightarrow> cursor_info" where
  "cursor_at r = \<lparr>ciCreatedAt = createdAt r, ciId = rowId r\<rparr>"

definition history :: "string \<Rightarrow> db \<Rightarrow> order_row list" where
  "history addr d = sort_key page_key (address_rows addr d)"

lemma after_cursor_at: "after_cursor (cursor_at x) r \<longleftrightarrow> page_key x < page_key r"
  by (auto simp: after_cursor_def cursor_at_def page_key_def less_prod_def)

lemma history_strict:
  assumes "wf_db d"
  shows "sorted_wrt (\<lambda>x y. page_key x < page_key y) (history addr d)"
proof -
  have "distinct (map page_key (address_rows addr d))"
  proof -
    have "distinct (map rowId (orders d))"
      using assms by (simp add: wf_db_def strict_sorted_iff)
    then show ?thesis
      by (auto simp: address_rows_def page_key_def distinct_map inj_on_def intro: distinct_filter)
  qed
  then have "distinct (map page_key (history addr d))"
    by (simp add: history_def distinct_map)
  moreover have "sorted (map page_key (history addr d))"
    by (simp add: history_def)
  ultimately have "sorted_wrt (<) (map page_key (history addr d))"
    by (simp add: strict_sorted_iff)
  then show ?thesis by (simp add: sorted_wrt_map)
qed

lemma filter_after:
  assumes "sorted_wrt (\<lambda>x y. page_key x < page_key y) (xs @ x # ys)"
  shows "filter (after_cursor (cursor_at x)) (xs @ x # ys) = ys"
  using assms by (auto simp: sorted_wrt_append after_cursor_at filter_empty_conv filter_id_conv)

text \<open>A page that starts after a prefix of the history is the next piece of it.\<close>

lemma page_after:
  assumes "wf_db d" and "history addr d = xs @ ys" and "0 < limit"
    and "cur = (if xs = [] then None else Some (cursor_at (last xs)))"
  shows "repo_findByAddressWithCursor addr limit cur d =
           (take limit ys,
            if length ys > limit then Some (cursor_at (last (take limit ys))) else None)"
proof -
  have rest: "(case cur of
        None \<Rightarrow> sort_key page_key (address_rows addr d)
      | Some c \<Rightarrow> sort_key page_key (filter (after_cursor c) (address_rows addr d))) = ys"
  proof (cases "xs = []")
    case True
    with assms show ?thesis by (simp add: history_def)
  next
    case False
    then have xs: "xs = butlast xs @ [last xs]" by simp
    with assms(2) have "filter (after_cursor (cursor_at (last xs))) (history addr d) = ys"
      using filter_after [of "butlast xs" "last xs" ys] history_strict [OF assms(1), of addr]
      by (metis append.assoc append_Cons append_Nil)
    with False assms(4) show ?thesis by (simp add: history_def filter_sort)
  qed
  have rows: "(case cur of
        None \<Rightarrow> take (limit + 1) (sort_key page_key (address_rows addr d))
      | Some c \<Rightarrow> take (limit + 1) (sort_key page_key (filter (after_cursor c) (address_rows addr d))))
    = take (limit + 1) ys"
    using rest by (cases cur) simp_all
  show ?thesis
    using assms(3) unfolding repo_findByAddressWithCursor_def Let_def rows
    by (auto simp: cursor_at_def min_def)
qed

lemma fetch_pages_rest:
  assumes "wf_db d" and "0 < limit"
  shows "history addr d = xs @ ys \<Longrightarrow> cur = (if xs = [] then None else Some (cursor_at (last xs)))
     \<Longrightarrow> length ys < n \<Longrightarrow> concat (fetch_pages n addr limit cur d) = ys"
proof (induction n arbitrary: xs ys cur)
  case 0
  then show ?case by simp
next
  case (Suc n)
  note page = page_after [OF assms(1) Suc.prems(1) assms(2) Suc.prems(2)]
  show ?case
  proof (cases "length ys > limit")
    case False
    with page show ?thesis by simp
  next
    case True
    then have t: "take limit ys \<noteq> []" using assms(2) by auto
    have "concat (fetch_pages n addr limit (Some (cursor_at (last (take limit ys)))) d) = drop limit ys"
      using Suc.prems t assms(2) True
      by (intro Suc.IH [where xs = "xs @ take limit ys"]) auto
    with page True show ?thesis by simp
  qed
qed

lemma page_length: "length (fst (repo_findByAddressWithCursor addr limit cur d)) \<le> limit"
  by (simp add: repo_findByAddressWithCursor_def Let_def)

lemma fetch_pages_length: "p \<in> set (fetch_pages n addr limit cur d) \<Longrightarrow> length p \<le> limit"
proof (induction n arbitrary: cur)
  case (Suc n)
  obtain rows nxt where page: "repo_findByAddressWithCursor addr limit cur d = (rows, nxt)"
    by (cases "repo_findByAddressWithCursor addr limit cur d")
  then have "length rows \<le> limit" using page_length [of addr limit cur d] by simp
  with Suc page show ?case by (cases nxt) auto
qed simp

text \<open>C10. Pagination loses nothing and repeats nothing. With a positive page size, a client that
  follows \<open>nextCursor\<close> until it is null receives, over all pages, exactly the orders whose source
  or destination address is the queried one, each once, from newest to oldest (ties by
  descending id), in pages of at most the requested size.\<close>

theorem pagination_complete:
  fixes addr :: string
  assumes "repo_reachable d" and "0 < limit" and "length (orders d) < n"
  defines "pages \<equiv> fetch_pages n addr limit None d"
  shows "set (concat pages) = {r \<in> set (orders d). srcAddress r = addr \<or> dstAddress r = addr}
    \<and> sorted_wrt (\<lambda>r q. createdAt r > createdAt q \<or> (createdAt r = createdAt q \<and> rowId r > rowId q))
         (concat pages)
    \<and> distinct (concat pages) \<and> (\<forall>p\<in>set pages. length p \<le> limit)"
proof (intro conjI)
  have wf: "wf_db d" using repo_reachable_invar [OF assms(1)] by (simp add: repo_invar_def)
  have len: "length (history addr d) < n"
    using le_less_trans [OF length_filter_le assms(3)] by (simp add: history_def address_rows_def)
  have all: "concat pages = history addr d"
    unfolding pages_def using fetch_pages_rest [OF wf assms(2), of addr "[]" "history addr d"] len by simp
  show "set (concat pages) = {r \<in> set (orders d). srcAddress r = addr \<or> dstAddress r = addr}"
    by (simp add: all history_def address_rows_def)
  note strict = history_strict [OF wf, of addr]
  show "sorted_wrt (\<lambda>r q. createdAt r > createdAt q \<or> (createdAt r = createdAt q \<and> rowId r > rowId q))
         (concat pages)"
    unfolding all by (rule sorted_wrt_mono_rel [OF _ strict]) (auto simp: page_key_def less_prod_def)
  show "distinct (concat pages)"
    using wf unfolding all
    by (simp add: history_def address_rows_def wf_db_def strict_sorted_iff distinct_map)
  show "\<forall>p\<in>set pages. length p \<le> limit"
    using fetch_pages_length by (auto simp: pages_def)
qed

theorem pagination_complete_witness:
  "map (map publicId) (fetch_pages 2 ''G1'' 1 None sample_db) = [[sample_id]]"
proof -
  have len: "length (orders sample_db) < 2" by code_simp
  have "map (map publicId) (fetch_pages 2 ''G1'' 1 None sample_db) = [[sample_id]]" by code_simp
  then show ?thesis using pagination_complete [OF sample_reachable zero_less_one len, of "''G1''"] by simp
qed

end
