(* ===== verification/History_Cache.thy ===== *)
theory History_Cache
  imports Orders_Repo
begin

text \<open>
  \<open>HistoryCache\<close> of \<open>coordinator/src/services/history-cache.ts\<close>: pages of order history keyed by
  address, limit and cursor, with a time to live and a size bound. \<open>now\<close> is \<open>Date.now()\<close> in
  milliseconds. The timer that calls \<open>cleanup\<close> is not modelled; its body is.
\<close>

type_synonym history_result = "order_row list \<times> string option"

record cached_result =
  result :: history_result
  expiresAt :: int

record history_cache =
  entries :: "(string, cached_result) jsmap"
  ttlMs :: int
  maxSize :: nat

definition new_HistoryCache :: "int option \<Rightarrow> nat option \<Rightarrow> history_cache" where
  "new_HistoryCache ttl cap = \<lparr>entries = [],
     ttlMs = (case ttl of None \<Rightarrow> 60000 | Some t \<Rightarrow> t),
     maxSize = (case cap of None \<Rightarrow> 1000 | Some n \<Rightarrow> n)\<rparr>"

text \<open>An absent and an empty cursor both read \<open>first\<close>.\<close>

definition makeCacheKey :: "string \<Rightarrow> nat \<Rightarrow> string option \<Rightarrow> string" where
  "makeCacheKey address limit cursor =
     toLowerCase address @ '':'' @ decimal limit @ '':'' @
     (case cursor of None \<Rightarrow> ''first'' | Some c \<Rightarrow> if c = '''' then ''first'' else c)"

definition hc_get ::
    "int \<Rightarrow> string \<Rightarrow> nat \<Rightarrow> string option \<Rightarrow> history_cache \<Rightarrow> history_cache \<times> history_result option" where
  "hc_get now address limit cursor c =
     (let key = makeCacheKey address limit cursor
      in case jm_get (entries c) key of
           None \<Rightarrow> (c, None)
         | Some cached \<Rightarrow>
             if now \<ge> expiresAt cached then (c\<lparr>entries := jm_delete key (entries c)\<rparr>, None)
             else (c, Some (result cached)))"

text \<open>A full cache drops its oldest entry first, even when the key to store is present.\<close>

definition hc_evict :: "history_cache \<Rightarrow> history_cache" where
  "hc_evict c =
     (if length (entries c) \<ge> maxSize c then
        (case entries c of
           [] \<Rightarrow> c
         | (oldestKey, _) # _ \<Rightarrow>
             if oldestKey \<noteq> '''' then c\<lparr>entries := jm_delete oldestKey (entries c)\<rparr> else c)
      else c)"

definition hc_set ::
    "int \<Rightarrow> string \<Rightarrow> nat \<Rightarrow> string option \<Rightarrow> history_result \<Rightarrow> history_cache \<Rightarrow> history_cache" where
  "hc_set now address limit cursor res c =
     (let c' = hc_evict c; key = makeCacheKey address limit cursor
      in c'\<lparr>entries := jm_set key \<lparr>result = res, expiresAt = now + ttlMs c'\<rparr> (entries c')\<rparr>)"

definition hc_invalidateAddress :: "string \<Rightarrow> history_cache \<Rightarrow> history_cache" where
  "hc_invalidateAddress address c =
     c\<lparr>entries := filter (\<lambda>(key, _). \<not> startsWith key (toLowerCase address @ '':'')) (entries c)\<rparr>"

definition hc_clear :: "history_cache \<Rightarrow> history_cache" where
  "hc_clear c = c\<lparr>entries := []\<rparr>"

definition hc_cleanup :: "int \<Rightarrow> history_cache \<Rightarrow> history_cache" where
  "hc_cleanup now c = c\<lparr>entries := filter (\<lambda>(_, cached). \<not> now > expiresAt cached) (entries c)\<rparr>"

definition hc_getStats :: "history_cache \<Rightarrow> nat \<times> nat \<times> int" where
  "hc_getStats c = (length (entries c), maxSize c, ttlMs c)"

definition hc_destroy :: "history_cache \<Rightarrow> history_cache" where
  "hc_destroy c = c\<lparr>entries := []\<rparr>"

section \<open>Lemmas\<close>

text \<open>The invariant: keys are distinct and nonempty and the size bound holds; a bound of zero
  still lets one entry in.\<close>

definition hc_ok :: "history_cache \<Rightarrow> bool" where
  "hc_ok c \<longleftrightarrow> jm_wf (entries c) \<and> (\<forall>p\<in>set (entries c). fst p \<noteq> '''')
     \<and> length (entries c) \<le> max 1 (maxSize c)"

lemma makeCacheKey_nonempty [simp]: "makeCacheKey a l cur \<noteq> ''''"
  by (simp add: makeCacheKey_def)

lemma makeCacheKey_prefix: "startsWith (makeCacheKey a l cur) (toLowerCase a @ '':'')"
  by (simp add: startsWith_def makeCacheKey_def prefix_def)

lemma hc_evict_params [simp]: "maxSize (hc_evict c) = maxSize c" "ttlMs (hc_evict c) = ttlMs c"
  by (auto simp: hc_evict_def split: list.splits)

lemma hc_evict_subset: "set (entries (hc_evict c)) \<subseteq> set (entries c)"
  by (auto simp: hc_evict_def set_jm_delete split: list.splits)

lemma hc_evict_room:
  assumes "hc_ok c"
  shows "hc_ok (hc_evict c)
    \<and> (length (entries (hc_evict c)) < maxSize c \<or> entries (hc_evict c) = [])"
proof (cases "entries c")
  case Nil
  with assms show ?thesis by (auto simp: hc_evict_def)
next
  case (Cons p ps)
  obtain k v where p: "p = (k, v)" by (cases p)
  have "jm_delete k (entries c) = ps"
    using assms Cons p by (auto simp: hc_ok_def jm_wf_def delete_id)
  moreover have "ps = [] \<or> Suc (length ps) \<le> maxSize c"
    using assms Cons by (cases ps) (auto simp: hc_ok_def max_def split: if_splits)
  ultimately show ?thesis
    using assms Cons p by (auto simp: hc_evict_def hc_ok_def jm_wf_def)
qed

lemma hc_ok_new: "hc_ok (new_HistoryCache t n)"
  by (simp add: hc_ok_def new_HistoryCache_def)

lemma hc_ok_get: "hc_ok c \<Longrightarrow> hc_ok (fst (hc_get now a l cur c))"
  using length_jm_delete_le [of "makeCacheKey a l cur" "entries c"]
  by (auto simp: hc_ok_def hc_get_def Let_def set_jm_delete split: option.splits)

lemma hc_ok_set:
  assumes "hc_ok c"
  shows "hc_ok (hc_set now a l cur res c)"
proof -
  have e: "hc_ok (hc_evict c)"
    and room: "length (entries (hc_evict c)) < maxSize c \<or> entries (hc_evict c) = []"
    using hc_evict_room [OF assms] by auto
  then have wf: "jm_wf (entries (hc_evict c))" by (simp add: hc_ok_def)
  show ?thesis
    using e room by (auto simp: hc_ok_def hc_set_def Let_def set_jm_set [OF wf] length_jm_set)
qed

lemma hc_ok_filter: "hc_ok c \<Longrightarrow> hc_ok (c\<lparr>entries := filter P (entries c)\<rparr>)"
  using le_trans [OF length_filter_le] by (auto simp: hc_ok_def)

lemma hc_ok_invalidate: "hc_ok c \<Longrightarrow> hc_ok (hc_invalidateAddress a c)"
  unfolding hc_invalidateAddress_def by (rule hc_ok_filter)

lemma hc_ok_cleanup: "hc_ok c \<Longrightarrow> hc_ok (hc_cleanup now c)"
  unfolding hc_cleanup_def by (rule hc_ok_filter)

lemma hc_ok_clear: "hc_ok c \<Longrightarrow> hc_ok (hc_clear c)"
  by (simp add: hc_ok_def hc_clear_def)

lemma set_entries_get: "set (entries (fst (hc_get now a l cur c))) \<subseteq> set (entries c)"
  by (auto simp: hc_get_def Let_def set_jm_delete split: option.splits)

lemma set_entries_set:
  assumes "hc_ok c"
  shows "set (entries (hc_set now a l cur res c)) \<subseteq>
    insert (makeCacheKey a l cur, \<lparr>result = res, expiresAt = now + ttlMs c\<rparr>) (set (entries c))"
proof -
  have "jm_wf (entries (hc_evict c))" using hc_evict_room [OF assms] by (simp add: hc_ok_def)
  then show ?thesis using hc_evict_subset [of c] by (auto simp: hc_set_def Let_def set_jm_set)
qed

lemma hc_get_set_same:
  "now < t + ttlMs c \<Longrightarrow> snd (hc_get now a l cur (hc_set t a l cur res c)) = Some res"
  by (simp add: hc_get_def hc_set_def Let_def jsmap_simps)

lemma hc_get_entry:
  assumes "snd (hc_get now a l cur c) = Some res"
  shows "\<exists>cached. (makeCacheKey a l cur, cached) \<in> set (entries c) \<and> result cached = res
           \<and> now < expiresAt cached"
  using assms by (auto simp: hc_get_def Let_def split: option.splits if_splits dest: map_of_SomeD)

lemma hc_get_invalidated: "snd (hc_get now a l cur (hc_invalidateAddress a c)) = None"
proof -
  have "jm_get (entries (hc_invalidateAddress a c)) (makeCacheKey a l cur) = None"
    using makeCacheKey_prefix [of a l cur]
    by (auto simp: hc_invalidateAddress_def map_of_eq_None_iff)
  then show ?thesis by (simp add: hc_get_def Let_def)
qed

section \<open>Properties\<close>

text \<open>C22. The cache stays within its bound and never serves stale time: from a fresh cache,
  every operation keeps at most \<open>maxSize\<close> entries (one, when \<open>maxSize\<close> is zero); a hit is an
  entry that has not expired; a page just stored is served until its time to live has passed;
  and after an address is invalidated no page of it is served, whatever the limit and cursor.\<close>

theorem history_cache_contract:
  assumes "hc_ok c"
  shows "hc_ok (hc_set t a l cur res c) \<and> hc_ok (fst (hc_get now a l cur c))
    \<and> hc_ok (hc_invalidateAddress a c) \<and> hc_ok (hc_cleanup now c)
    \<and> (snd (hc_get now a l cur (hc_set t a l cur res c)) = (if now < t + ttlMs c then Some res else None))
    \<and> snd (hc_get now a l' cur' (hc_invalidateAddress a c)) = None"
  using assms hc_ok_set hc_ok_get hc_ok_invalidate hc_ok_cleanup hc_get_invalidated
  by (simp add: hc_get_def hc_set_def Let_def jsmap_simps)

theorem history_cache_contract_witness:
  "hc_ok (new_HistoryCache None (Some 1)) \<and>
   snd (hc_get 59999 ''0xA'' 10 None (hc_set 0 ''0xA'' 10 None ([], None) (new_HistoryCache None (Some 1))))
     = Some ([], None)"
  using history_cache_contract [OF hc_ok_new [of None "Some 1"], of 0 "''0xA''" 10 None "([], None)" 59999]
    hc_ok_new [of None "Some 1"]
  by (simp add: new_HistoryCache_def)

end
