(* ===== verification/Sse_Events.thy ===== *)
theory Sse_Events
  imports Orders_Schema
begin

text \<open>
  The typed server-sent events of \<open>coordinator/src/sse/event-builders.ts\<close>: payload shapes and the
  builder functions. The broker stamps the id; \<open>now\<close> is \<open>Date.now()\<close>. The text frame is a
  rendering of these values and is not modelled.
\<close>

datatype sse_event_type =
    SseOrderCreated | SseOrderClaimed | SseOrderRefunded | SseSecretRevealed | SseStatusChanged
  | SsePing | SseShutdown | SseReplayGap

definition TERMINAL_SSE_EVENT_TYPES :: "sse_event_type list" where
  "TERMINAL_SSE_EVENT_TYPES = [SseOrderRefunded, SseShutdown]"

text \<open>One constructor per payload interface, fields in source order.\<close>

datatype sse_data =
    OrderCreatedData string order_status chain "string option" nat int int
  | OrderClaimedData string order_status chain "string option" nat int "string option" int
  | OrderRefundedData string order_status "string option" int
  | SecretRevealedData string string "string option" int
  | StatusChangedData string order_status "order_status option" int
  | ReplayGapData string
  | NoData

record sse_payload =
  sp_event :: sse_event_type
  sp_data :: sse_data
  sp_timestamp :: int

definition or_zero :: "'a::zero option \<Rightarrow> 'a" where
  "or_zero x = (case x of None \<Rightarrow> 0 | Some n \<Rightarrow> n)"

definition buildOrderCreatedPayload :: "int \<Rightarrow> order_row \<Rightarrow> sse_payload" where
  "buildOrderCreatedPayload now r =
     \<lparr>sp_event = SseOrderCreated,
      sp_data = OrderCreatedData (publicId r) Src_locked (srcChain r) (srcLockTx r)
        (or_zero (srcLockBlock r)) (or_zero (srcTimelock r)) now,
      sp_timestamp = now\<rparr>"

definition buildOrderClaimedPayload :: "int \<Rightarrow> order_row \<Rightarrow> sse_payload" where
  "buildOrderClaimedPayload now r =
     (let st = (if status r = Secret_revealed then Secret_revealed else Dst_locked)
      in \<lparr>sp_event = SseOrderClaimed,
          sp_data = OrderClaimedData (publicId r) st (dstChain r) (dstLockTx r)
            (or_zero (dstLockBlock r)) (or_zero (dstTimelock r)) (resolverAddress r) now,
          sp_timestamp = now\<rparr>)"

definition buildOrderRefundedPayload :: "int \<Rightarrow> string \<Rightarrow> string option \<Rightarrow> sse_payload" where
  "buildOrderRefundedPayload now oid tx =
     \<lparr>sp_event = SseOrderRefunded, sp_data = OrderRefundedData oid Refunded tx now, sp_timestamp = now\<rparr>"

definition buildSecretRevealedPayload :: "int \<Rightarrow> string \<Rightarrow> string \<Rightarrow> string option \<Rightarrow> sse_payload" where
  "buildSecretRevealedPayload now oid pre tx =
     \<lparr>sp_event = SseSecretRevealed, sp_data = SecretRevealedData oid pre tx now, sp_timestamp = now\<rparr>"

definition buildStatusChangedPayload ::
    "int \<Rightarrow> string \<Rightarrow> order_status \<Rightarrow> order_status option \<Rightarrow> sse_payload" where
  "buildStatusChangedPayload now oid st prev =
     \<lparr>sp_event = SseStatusChanged, sp_data = StatusChangedData oid st prev now, sp_timestamp = now\<rparr>"

definition buildReplayGapPayload :: "int \<Rightarrow> string \<Rightarrow> sse_payload" where
  "buildReplayGapPayload now oid =
     \<lparr>sp_event = SseReplayGap,
      sp_data = ReplayGapData
        (''Events missed. Re-fetch current order state via GET /api/orders/'' @ oid),
      sp_timestamp = now\<rparr>"

definition buildShutdownPayload :: "int \<Rightarrow> sse_payload" where
  "buildShutdownPayload now = \<lparr>sp_event = SseShutdown, sp_data = NoData, sp_timestamp = now\<rparr>"

end
