(* ===== verification/Order_Service.thy ===== *)
theory Order_Service
  imports History_Cache Sse_Events
begin

text \<open>
  \<open>OrderService\<close> of \<open>coordinator/src/services/order-service.ts\<close>: the guards in front of the
  repository, the phase snapshot, the history cache, the event broadcasts and the audit log.

  The state holds the database, the cache and the module-level snapshot; the optional broker
  and audit repository are represented by what the service handed them, or \<open>None\<close> when absent.
  Prometheus counters and log lines are not modelled. A call reads the clock once (\<open>ctx_now\<close>,
  milliseconds; the database stores seconds) and runs to completion; interleavings of the
  parts of a call that an \<open>await\<close> separates are treated in theory \<open>Service_Races\<close>.
\<close>

datatype audit_event_type =
    Order_announced | Order_src_locked | Order_dst_locked | Order_secret_revealed
  | Order_completed | Order_refunded | Order_failed | Order_expired
  | Order_src_lock_rolled_back | Order_dst_lock_rolled_back

text \<open>An audit entry with its payload; the rollback entries leave the hashlock, direction and
  chains empty, here \<open>None\<close>.\<close>

record audit_entry =
  ae_type :: audit_event_type
  ae_orderId :: string
  ae_hashlock :: string
  ae_direction :: "direction option"
  ae_fromStatus :: "order_status option"
  ae_toStatus :: order_status
  ae_srcChain :: "chain option"
  ae_dstChain :: "chain option"
  ae_txHash :: "string option"
  ae_blockNumber :: "nat option"
  ae_resolverAddress :: "string option"
  ae_detail :: "string option"
  ae_requestId :: "string option"

definition buildOrderAuditEntry ::
    "audit_event_type \<Rightarrow> order_row \<Rightarrow> order_status option \<Rightarrow> order_status \<Rightarrow> string option
     \<Rightarrow> audit_entry" where
  "buildOrderAuditEntry ty r fromS toS rid =
     \<lparr>ae_type = ty, ae_orderId = publicId r, ae_hashlock = hashlock r,
      ae_direction = Some (direction r), ae_fromStatus = fromS, ae_toStatus = toS,
      ae_srcChain = Some (srcChain r), ae_dstChain = Some (dstChain r), ae_txHash = None,
      ae_blockNumber = None, ae_resolverAddress = None, ae_detail = None, ae_requestId = rid\<rparr>"

record svc =
  repo :: db
  historyCache :: history_cache
  phaseCounts :: "(direction \<times> order_status, int) jsmap"
  broadcasts :: "(string \<times> sse_payload) list option"
  auditLog :: "audit_entry list option"

record call_ctx =
  ctx_now :: int
  ctx_requestId :: "string option"

definition ctx_seconds :: "call_ctx \<Rightarrow> int" where
  "ctx_seconds ctx = ctx_now ctx div 1000"

datatype svc_error =
    DuplicateHashlock string
  | UnknownOrder string
  | ConflictingLock string
  | ConflictingPreimage string
  | TerminalOrder string order_status
  | WrongStatus order_status
  | RepoFailure repo_error

definition new_OrderService ::
    "bool \<Rightarrow> int option \<Rightarrow> bool \<Rightarrow> bool \<Rightarrow> db \<Rightarrow> svc" where
  "new_OrderService enableCache cacheTtlMs withBroker withAudit d =
     \<lparr>repo = d,
      historyCache = (if enableCache then new_HistoryCache cacheTtlMs None
                      else new_HistoryCache (Some 0) None),
      phaseCounts = [],
      broadcasts = (if withBroker then Some [] else None),
      auditLog = (if withAudit then Some [] else None)\<rparr>"

section \<open>Side effects\<close>

definition incrementPhaseSnapshot ::
    "direction \<Rightarrow> order_status \<Rightarrow> int \<Rightarrow> svc \<Rightarrow> svc" where
  "incrementPhaseSnapshot dir phase delta s =
     s\<lparr>phaseCounts := jm_set (dir, phase)
         (max ((case jm_get (phaseCounts s) (dir, phase) of None \<Rightarrow> 0 | Some n \<Rightarrow> n) + delta) 0)
         (phaseCounts s)\<rparr>"

definition directionCounts :: "direction \<Rightarrow> svc \<Rightarrow> (order_status \<times> int) list" where
  "directionCounts dir s =
     map (\<lambda>p. (p, case jm_get (phaseCounts s) (dir, p) of None \<Rightarrow> 0 | Some n \<Rightarrow> n))
       [Announced, Src_locked, Dst_locked, Secret_revealed, Expired]"

definition recordTransition :: "direction \<Rightarrow> order_status \<Rightarrow> order_status \<Rightarrow> svc \<Rightarrow> svc" where
  "recordTransition dir fromS toS s =
     incrementPhaseSnapshot dir toS 1 (incrementPhaseSnapshot dir fromS (-1) s)"

definition broadcast :: "string \<Rightarrow> sse_payload \<Rightarrow> svc \<Rightarrow> svc" where
  "broadcast oid p s = s\<lparr>broadcasts := map_option (\<lambda>l. l @ [(oid, p)]) (broadcasts s)\<rparr>"

definition svc_audit :: "audit_entry \<Rightarrow> svc \<Rightarrow> svc" where
  "svc_audit e s = s\<lparr>auditLog := map_option (\<lambda>l. l @ [e]) (auditLog s)\<rparr>"

definition invalidate_both :: "order_row \<Rightarrow> svc \<Rightarrow> svc" where
  "invalidate_both r s =
     s\<lparr>historyCache := hc_invalidateAddress (dstAddress r)
          (hc_invalidateAddress (srcAddress r) (historyCache s))\<rparr>"

section \<open>Announce and reads\<close>

definition svc_announce :: "call_ctx \<Rightarrow> announce_input \<Rightarrow> svc \<Rightarrow> svc_error + (svc \<times> order_row)" where
  "svc_announce ctx inp s =
     (case repo_findByHashlock (ai_hashlock inp) (repo s) of
        Some existing \<Rightarrow> Inl (DuplicateHashlock (publicId existing))
      | None \<Rightarrow>
          (case repo_announce (ctx_seconds ctx) inp (repo s) of
             Inl e \<Rightarrow> Inl (RepoFailure e)
           | Inr (d, order) \<Rightarrow>
               let s1 = incrementPhaseSnapshot (direction order) Announced 1 (s\<lparr>repo := d\<rparr>);
                   s2 = invalidate_both order s1;
                   s3 = svc_audit (buildOrderAuditEntry Order_announced order None Announced
                          (ctx_requestId ctx)) s2
               in Inr (s3, order)))"

definition svc_get :: "string \<Rightarrow> svc \<Rightarrow> order_row option" where
  "svc_get pid s = repo_findByPublicId pid (repo s)"

definition svc_history ::
    "call_ctx \<Rightarrow> string \<Rightarrow> nat option \<Rightarrow> nat option \<Rightarrow> svc \<Rightarrow> svc \<times> order_row list" where
  "svc_history ctx address limit offset s =
     (let finalLimit = min (max (or_default limit 50) 1) 200;
          finalOffset = or_default offset 0;
          cursorForCache = ''offset:'' @ decimal finalOffset;
          (c, cached) = hc_get (ctx_now ctx) address finalLimit (Some cursorForCache) (historyCache s);
          s1 = s\<lparr>historyCache := c\<rparr>
      in case cached of
           Some (rows, _) \<Rightarrow> (s1, rows)
         | None \<Rightarrow>
             let rows = repo_findByAddress address finalLimit finalOffset (repo s1)
             in (if length rows > 0
                 then s1\<lparr>historyCache := hc_set (ctx_now ctx) address finalLimit
                           (Some cursorForCache) (rows, None) c\<rparr>
                 else s1, rows))"

text \<open>The text form of a cursor is the codec's: an argument, \<open>decode\<close> failing with \<open>None\<close>.\<close>

record cursor_codec =
  encodeCursor :: "cursor_info \<Rightarrow> string"
  decodeCursor :: "string \<Rightarrow> cursor_info option"

definition repo_page ::
    "cursor_codec \<Rightarrow> string \<Rightarrow> nat \<Rightarrow> string option \<Rightarrow> db \<Rightarrow> history_result option" where
  "repo_page codec address limit cursor d =
     (let page = (\<lambda>c. let (rows, nxt) = repo_findByAddressWithCursor address limit c d
                      in Some (rows, map_option (encodeCursor codec) nxt))
      in case cursor of
           None \<Rightarrow> page None
         | Some t \<Rightarrow> if t = '''' then None
                     else (case decodeCursor codec t of None \<Rightarrow> None | Some c \<Rightarrow> page (Some c)))"

definition svc_historyWithCursor ::
    "cursor_codec \<Rightarrow> call_ctx \<Rightarrow> string \<Rightarrow> nat \<Rightarrow> string option \<Rightarrow> svc \<Rightarrow> svc \<times> history_result option" where
  "svc_historyWithCursor codec ctx address limit cursor s =
     (let finalLimit = min (max limit 1) 200;
          (c, cached) = hc_get (ctx_now ctx) address finalLimit cursor (historyCache s);
          s1 = s\<lparr>historyCache := c\<rparr>
      in case cached of
           Some res \<Rightarrow> (s1, Some res)
         | None \<Rightarrow>
             (case repo_page codec address finalLimit cursor (repo s1) of
                None \<Rightarrow> (s1, None)
              | Some res \<Rightarrow>
                  (if length (fst res) > 0
                   then s1\<lparr>historyCache := hc_set (ctx_now ctx) address finalLimit cursor res c\<rparr>
                   else s1, Some res)))"

definition svc_findByHashlock :: "string \<Rightarrow> svc \<Rightarrow> order_row option" where
  "svc_findByHashlock h s = repo_findByHashlock h (repo s)"

definition svc_findBySrcOrderId :: "chain \<Rightarrow> string \<Rightarrow> svc \<Rightarrow> order_row option" where
  "svc_findBySrcOrderId ch oid s = repo_findBySrcOrderId ch oid (repo s)"

section \<open>Locks\<close>

text \<open>The guards of \<open>recordSrcLock\<close>, in source order; \<open>Inr None\<close> is the silent return for an exact
  duplicate, \<open>Inr (Some r)\<close> lets the write proceed.\<close>

definition srcLock_guard :: "lock_input \<Rightarrow> db \<Rightarrow> svc_error + order_row option" where
  "srcLock_guard inp d =
     (case repo_findByPublicId (li_publicId inp) d of
        None \<Rightarrow> Inl (UnknownOrder (li_publicId inp))
      | Some r \<Rightarrow>
          if srcOrderId r = Some (li_orderId inp) \<and> srcLockTx r = Some (li_txHash inp) then Inr None
          else if srcOrderId r \<noteq> None then Inl (ConflictingLock (li_publicId inp))
          else if isTerminal (status r) then Inl (TerminalOrder (li_publicId inp) (status r))
          else if \<not> canTransition (status r) Src_locked \<and> status r \<noteq> Src_locked
            then Inl (WrongStatus (status r))
          else Inr (Some r))"

definition svc_recordSrcLock :: "call_ctx \<Rightarrow> lock_input \<Rightarrow> string \<Rightarrow> svc \<Rightarrow> svc_error + svc" where
  "svc_recordSrcLock ctx inp act s =
     (case srcLock_guard inp (repo s) of
        Inl e \<Rightarrow> Inl e
      | Inr None \<Rightarrow> Inr s
      | Inr (Some order) \<Rightarrow>
          let d1 = repo_recordSrcLock (ctx_seconds ctx) inp act (repo s);
              d2 = (if li_blockNumber inp > 0
                    then repo_updateOrderCursor (ctx_seconds ctx) (li_publicId inp) (srcChain order)
                           (li_blockNumber inp) d1
                    else d1);
              s1 = recordTransition (direction order) (status order) Src_locked (s\<lparr>repo := d2\<rparr>);
              s2 = broadcast (li_publicId inp)
                     (buildOrderCreatedPayload (ctx_now ctx)
                        (order\<lparr>srcLockTx := Some (li_txHash inp),
                               srcLockBlock := Some (li_blockNumber inp),
                               srcTimelock := Some (li_timelock inp)\<rparr>)) s1;
              s3 = invalidate_both order s2
          in Inr (svc_audit
               ((buildOrderAuditEntry Order_src_locked order (Some (status order)) Src_locked
                   (ctx_requestId ctx))
                  \<lparr>ae_txHash := Some (li_txHash inp), ae_blockNumber := Some (li_blockNumber inp),
                   ae_detail := Some (''actor='' @ act)\<rparr>) s3))"

definition dstLock_guard :: "lock_input \<Rightarrow> db \<Rightarrow> svc_error + order_row option" where
  "dstLock_guard inp d =
     (case repo_findByPublicId (li_publicId inp) d of
        None \<Rightarrow> Inl (UnknownOrder (li_publicId inp))
      | Some r \<Rightarrow>
          if dstOrderId r = Some (li_orderId inp) \<and> dstLockTx r = Some (li_txHash inp) then Inr None
          else if dstOrderId r \<noteq> None then Inl (ConflictingLock (li_publicId inp))
          else if isTerminal (status r) then Inl (TerminalOrder (li_publicId inp) (status r))
          else if \<not> canTransition (status r) Dst_locked \<and> status r \<noteq> Dst_locked
            then Inl (WrongStatus (status r))
          else Inr (Some r))"

definition svc_recordDstLock ::
    "call_ctx \<Rightarrow> lock_input \<Rightarrow> string option \<Rightarrow> string \<Rightarrow> svc \<Rightarrow> svc_error + svc" where
  "svc_recordDstLock ctx inp resolver act s =
     (case dstLock_guard inp (repo s) of
        Inl e \<Rightarrow> Inl e
      | Inr None \<Rightarrow> Inr s
      | Inr (Some order) \<Rightarrow>
          let d1 = repo_recordDstLock (ctx_seconds ctx) inp resolver act (repo s);
              d2 = (if li_blockNumber inp > 0
                    then repo_updateOrderCursor (ctx_seconds ctx) (li_publicId inp) (dstChain order)
                           (li_blockNumber inp) d1
                    else d1);
              s1 = recordTransition (direction order) (status order) Dst_locked (s\<lparr>repo := d2\<rparr>);
              s2 = broadcast (li_publicId inp)
                     (buildOrderClaimedPayload (ctx_now ctx)
                        (order\<lparr>status := Dst_locked, dstLockTx := Some (li_txHash inp),
                               dstLockBlock := Some (li_blockNumber inp),
                               dstTimelock := Some (li_timelock inp),
                               resolverAddress := resolver\<rparr>)) s1;
              s3 = invalidate_both order s2
          in Inr (svc_audit
               ((buildOrderAuditEntry Order_dst_locked order (Some (status order)) Dst_locked
                   (ctx_requestId ctx))
                  \<lparr>ae_txHash := Some (li_txHash inp), ae_blockNumber := Some (li_blockNumber inp),
                   ae_resolverAddress := resolver, ae_detail := Some (''actor='' @ act)\<rparr>) s3))"

section \<open>Secret and status\<close>

definition secret_guard :: "string \<Rightarrow> string \<Rightarrow> db \<Rightarrow> svc_error + order_row option" where
  "secret_guard pid pre d =
     (case repo_findByPublicId pid d of
        None \<Rightarrow> Inl (UnknownOrder pid)
      | Some r \<Rightarrow>
          if preimage r = Some pre then Inr None
          else if preimage r \<noteq> None then Inl (ConflictingPreimage pid)
          else if isTerminal (status r) then Inl (TerminalOrder pid (status r))
          else if \<not> canTransition (status r) Secret_revealed \<and> status r \<noteq> Secret_revealed
            then Inl (WrongStatus (status r))
          else Inr (Some r))"

text \<open>The repository is called without the actor, so it records its default.\<close>

definition svc_recordSecret ::
    "call_ctx \<Rightarrow> string \<Rightarrow> string \<Rightarrow> string \<Rightarrow> nat option \<Rightarrow> string \<Rightarrow> svc \<Rightarrow> svc_error + svc" where
  "svc_recordSecret ctx pid pre tx encVersion act s =
     (case secret_guard pid pre (repo s) of
        Inl e \<Rightarrow> Inl e
      | Inr None \<Rightarrow> Inr s
      | Inr (Some order) \<Rightarrow>
          (case repo_recordSecretRevealed (ctx_seconds ctx) pid pre tx encVersion ''system'' (repo s) of
             Inl e \<Rightarrow> Inl (RepoFailure e)
           | Inr d \<Rightarrow>
               let s1 = recordTransition (direction order) (status order) Secret_revealed (s\<lparr>repo := d\<rparr>);
                   s2 = broadcast pid (buildSecretRevealedPayload (ctx_now ctx) pid pre (Some tx)) s1;
                   s3 = invalidate_both order s2
               in Inr (svc_audit
                    ((buildOrderAuditEntry Order_secret_revealed order (Some (status order))
                        Secret_revealed (ctx_requestId ctx))
                       \<lparr>ae_txHash := Some tx, ae_detail := Some (''actor='' @ act)\<rparr>) s3)))"

definition status_guard :: "string \<Rightarrow> order_status \<Rightarrow> db \<Rightarrow> svc_error + order_row option" where
  "status_guard pid st d =
     (case repo_findByPublicId pid d of
        None \<Rightarrow> Inl (UnknownOrder pid)
      | Some r \<Rightarrow>
          if status r = st then Inr None
          else if isTerminal (status r) then Inl (TerminalOrder pid (status r))
          else if \<not> canTransition (status r) st then Inl (WrongStatus (status r))
          else Inr (Some r))"

definition status_audit_type :: "order_status \<Rightarrow> audit_event_type" where
  "status_audit_type st =
     (if st = Refunded then Order_refunded else if st = Completed then Order_completed
      else if st = Expired then Order_expired else Order_failed)"

text \<open>The part of \<open>markStatus\<close> after its guards, given the row they read.\<close>

definition markStatus_write ::
    "call_ctx \<Rightarrow> string \<Rightarrow> order_status \<Rightarrow> string \<Rightarrow> order_row \<Rightarrow> svc \<Rightarrow> svc_error + svc" where
  "markStatus_write ctx pid st act order s =
     (case repo_setStatus (ctx_seconds ctx) pid st ''system'' None (repo s) of
        Inl e \<Rightarrow> Inl (RepoFailure e)
      | Inr d \<Rightarrow>
          let s1 = recordTransition (direction order) (status order) st (s\<lparr>repo := d\<rparr>);
              s2 = broadcast pid
                     (if st = Refunded then buildOrderRefundedPayload (ctx_now ctx) pid None
                      else buildStatusChangedPayload (ctx_now ctx) pid st (Some (status order))) s1;
              s3 = invalidate_both order s2
          in Inr (svc_audit
               ((buildOrderAuditEntry (status_audit_type st) order (Some (status order)) st
                   (ctx_requestId ctx))\<lparr>ae_detail := Some (''actor='' @ act)\<rparr>) s3))"

definition svc_markStatus ::
    "call_ctx \<Rightarrow> string \<Rightarrow> order_status \<Rightarrow> string \<Rightarrow> svc \<Rightarrow> svc_error + svc" where
  "svc_markStatus ctx pid st act s =
     (case status_guard pid st (repo s) of
        Inl e \<Rightarrow> Inl e
      | Inr None \<Rightarrow> Inr s
      | Inr (Some order) \<Rightarrow> markStatus_write ctx pid st act order s)"

section \<open>Rollbacks, delegators and the expiry scan\<close>

definition rollback_audit ::
    "audit_event_type \<Rightarrow> string \<Rightarrow> order_status \<Rightarrow> order_status \<Rightarrow> string option \<Rightarrow> audit_entry" where
  "rollback_audit ty pid fromS toS rid =
     \<lparr>ae_type = ty, ae_orderId = pid, ae_hashlock = '''', ae_direction = None,
      ae_fromStatus = Some fromS, ae_toStatus = toS, ae_srcChain = None, ae_dstChain = None,
      ae_txHash = None, ae_blockNumber = None, ae_resolverAddress = None,
      ae_detail = Some ''reorg or duplicate event triggered rollback'', ae_requestId = rid\<rparr>"

definition svc_rollbackSrcLock :: "call_ctx \<Rightarrow> string \<Rightarrow> svc \<Rightarrow> svc" where
  "svc_rollbackSrcLock ctx pid s =
     svc_audit (rollback_audit Order_src_lock_rolled_back pid Src_locked Announced (ctx_requestId ctx))
       (s\<lparr>repo := repo_rollbackSrcLock (ctx_seconds ctx) pid ''system'' (repo s)\<rparr>)"

definition svc_rollbackDstLock :: "call_ctx \<Rightarrow> string \<Rightarrow> svc \<Rightarrow> svc" where
  "svc_rollbackDstLock ctx pid s =
     svc_audit (rollback_audit Order_dst_lock_rolled_back pid Dst_locked Src_locked (ctx_requestId ctx))
       (s\<lparr>repo := repo_rollbackDstLock (ctx_seconds ctx) pid ''system'' (repo s)\<rparr>)"

definition svc_claimEvent ::
    "call_ctx \<Rightarrow> string \<Rightarrow> event_chain \<Rightarrow> chain_event \<Rightarrow> nat option \<Rightarrow> svc \<Rightarrow> svc \<times> bool" where
  "svc_claimEvent ctx key ch ty oid s =
     (let (d, won) = repo_claimEvent (ctx_seconds ctx) key ch ty oid (repo s) in (s\<lparr>repo := d\<rparr>, won))"

definition svc_setChainCursor :: "call_ctx \<Rightarrow> chain \<Rightarrow> nat \<Rightarrow> svc \<Rightarrow> svc" where
  "svc_setChainCursor ctx ch pos s = s\<lparr>repo := repo_setChainCursor (ctx_seconds ctx) ch pos (repo s)\<rparr>"

definition svc_updateOrderCursor :: "call_ctx \<Rightarrow> string \<Rightarrow> chain \<Rightarrow> nat \<Rightarrow> svc \<Rightarrow> svc" where
  "svc_updateOrderCursor ctx pid ch pos s =
     s\<lparr>repo := repo_updateOrderCursor (ctx_seconds ctx) pid ch pos (repo s)\<rparr>"

definition svc_advanceOrderLedgerCursor ::
    "call_ctx \<Rightarrow> string \<Rightarrow> nat option \<Rightarrow> nat option \<Rightarrow> nat option \<Rightarrow> svc \<Rightarrow> svc" where
  "svc_advanceOrderLedgerCursor ctx pid eth soroban sol s =
     s\<lparr>repo := repo_advanceOrderLedgerCursor (ctx_seconds ctx) pid eth soroban sol (repo s)\<rparr>"

definition svc_saveSorobanCheckpoint ::
    "call_ctx \<Rightarrow> string \<Rightarrow> nat \<Rightarrow> string option \<Rightarrow> recovery_marker \<Rightarrow> svc \<Rightarrow> svc" where
  "svc_saveSorobanCheckpoint ctx cid ledger cur marker s =
     s\<lparr>repo := repo_saveSorobanCheckpoint (ctx_seconds ctx) cid ledger cur marker (repo s)\<rparr>"

definition svc_markSorobanRecovery :: "call_ctx \<Rightarrow> string \<Rightarrow> recovery_marker \<Rightarrow> svc \<Rightarrow> svc \<times> nat" where
  "svc_markSorobanRecovery ctx cid marker s =
     (let (d, n) = repo_markSorobanRecovery (ctx_seconds ctx) cid marker (repo s) in (s\<lparr>repo := d\<rparr>, n))"

fun expire_loop :: "call_ctx \<Rightarrow> order_row list \<Rightarrow> nat \<Rightarrow> svc \<Rightarrow> svc \<times> nat" where
  "expire_loop ctx [] count s = (s, count)"
| "expire_loop ctx (order # rest) count s =
     (if status order = Expired then expire_loop ctx rest count s
      else if isTerminal (status order) then expire_loop ctx rest count s
      else (case svc_markStatus ctx (publicId order) Expired ''expiry_scan'' s of
              Inl _ \<Rightarrow> expire_loop ctx rest count s
            | Inr s' \<Rightarrow> expire_loop ctx rest (count + 1) s'))"

definition svc_expireStaleOrders :: "call_ctx \<Rightarrow> int option \<Rightarrow> svc \<Rightarrow> svc \<times> nat" where
  "svc_expireStaleOrders ctx nowSeconds s =
     (let now = (case nowSeconds of None \<Rightarrow> ctx_seconds ctx | Some n \<Rightarrow> n)
      in expire_loop ctx (repo_findExpiredCandidates now (repo s)) 0 s)"

end
