(* ===== verification/Service_Properties.thy ===== *)
theory Service_Properties
  imports Service_Laws Orders_Properties
begin

text \<open>
  The order service implements the lifecycle: every call refines the row specification of
  \<open>Service_Laws\<close>, and what that gives over any number of calls.
\<close>

section \<open>Every call implements the specification\<close>

lemma announce_rows_step:
  assumes "repo_announce now inp d = Inr (d', row)"
  shows "rows_step d d'"
  using announce_cases [OF assms]
  by (auto simp: rows_step_def select_by_public_id_def find_append_case)

lemma svc_step_rows_step:
  assumes "svc_step codec s s'"
  shows "rows_step (repo s) (repo s')"
  using assms
proof (cases rule: svc_step.cases)
  case (announce ctx inp row)
  then show ?thesis using announce_svc_cases announce_rows_step by blast
next
  case (recordSrcLock ctx inp act)
  then show ?thesis using recordSrcLock_cases [OF recordSrcLock] recordSrcLock_rows_step by auto
next
  case (recordDstLock ctx inp res act)
  then show ?thesis using recordDstLock_cases [OF recordDstLock] recordDstLock_rows_step by auto
next
  case (recordSecret ctx pid pre tx enc act)
  then show ?thesis using recordSecret_cases [OF recordSecret] recordSecretRevealed_rows_step by auto
next
  case (markStatus ctx pid st act)
  then show ?thesis using markStatus_cases [OF markStatus] setStatus_rows_step by auto
next
  case (expireStaleOrders ctx t)
  then show ?thesis
    using expire_rows_step [OF expire_loop_rows] by (simp add: svc_expireStaleOrders_def Let_def)
next
  case (updateOrderCursor ctx pid ch pos)
  then show ?thesis
    using db_effect_rows_step [OF updateOrderCursor_effect] row_step_cursor [OF row_step_refl]
    by (simp add: svc_updateOrderCursor_def)
qed (simp_all add: svc_rollbackSrcLock_def svc_rollbackDstLock_def svc_claimEvent_def split_beta
      svc_setChainCursor_def svc_advanceOrderLedgerCursor_def svc_saveSorobanCheckpoint_def
      svc_markSorobanRecovery_def rollbackSrcLock_rows_step rollbackDstLock_rows_step
      claimEvent_rows_step setChainCursor_rows_step advanceOrderLedgerCursor_rows_step
      saveSorobanCheckpoint_rows_step markSorobanRecovery_rows_step)

text \<open>Stability over any number of calls.\<close>

definition row_stable :: "order_row \<Rightarrow> order_row \<Rightarrow> bool" where
  "row_stable r q \<longleftrightarrow> same_identity r q \<and> (preimage r \<noteq> None \<longrightarrow> preimage q = preimage r)
     \<and> (isTerminal (status r) \<longrightarrow> status q = status r
          \<and> (srcOrderId r \<noteq> None \<longrightarrow> src_lock_of q = src_lock_of r)
          \<and> (dstOrderId r \<noteq> None \<longrightarrow> dst_lock_of q = dst_lock_of r))"

lemma terminal_no_rollback: "isTerminal a \<Longrightarrow> \<not> rollback_edge a b \<and> a \<noteq> Src_locked \<and> a \<noteq> Dst_locked"
  by (cases a) (simp_all add: rollback_edge_def isTerminal_def)

lemma row_step_stable:
  assumes "row_step r q"
  shows "row_stable r q"
proof (cases "isTerminal (status r)")
  case True
  with assms show ?thesis
    using terminal_no_transition [OF True] terminal_no_rollback [OF True]
    by (simp add: row_step_def row_stable_def)
next
  case False
  with assms show ?thesis by (simp add: row_step_def row_stable_def)
qed

lemma row_stable_trans: "row_stable r q \<Longrightarrow> row_stable q p \<Longrightarrow> row_stable r p"
  by (auto simp: row_stable_def same_identity_def src_lock_of_def dst_lock_of_def)

lemma svc_steps_stable:
  assumes "svc_steps codec s s'" and "svc_get pid s = Some r"
  shows "\<exists>q. svc_get pid s' = Some q \<and> row_stable r q"
  using assms
proof (induction rule: svc_steps.induct)
  case (none s)
  then show ?case by (simp add: row_stable_def same_identity_def)
next
  case (more s s' s'')
  then obtain q where q: "svc_get pid s' = Some q" "row_stable r q" by blast
  with svc_step_rows_step [OF more.hyps(2)] obtain p where "svc_get pid s'' = Some p" "row_step q p"
    by (auto simp: rows_step_def svc_get_def repo_findByPublicId_def)
  with q show ?case using row_step_stable row_stable_trans by blast
qed

section \<open>Reachability\<close>

lemma markStatus_repo_steps:
  assumes "svc_markStatus ctx pid st act s = Inr s'"
  shows "repo_steps (repo s) (repo s')"
  using markStatus_cases [OF assms]
proof
  assume "\<exists>r. status_guard pid st (repo s) = Inr (Some r)
    \<and> repo_setStatus (ctx_seconds ctx) pid st ''system'' None (repo s) = Inr (repo s')"
  then show ?thesis using repo_step.setStatus by blast
qed simp

lemma expire_loop_repo_steps: "repo_steps (repo s) (repo (fst (expire_loop ctx os n s)))"
proof (induction os arbitrary: n s)
  case (Cons r os)
  show ?case
  proof (cases "svc_markStatus ctx (publicId r) Expired ''expiry_scan'' s")
    case (Inr s')
    then show ?thesis
      using Cons.IH rtranclp_trans [OF markStatus_repo_steps [OF Inr] Cons.IH] by simp
  qed (use Cons.IH in simp)
qed simp

lemmas repo_step_single =
  r_into_rtranclp [of repo_step, OF repo_step.rollbackSrcLock] r_into_rtranclp [of repo_step, OF repo_step.rollbackDstLock]
  r_into_rtranclp [of repo_step, OF repo_step.claimEvent] r_into_rtranclp [of repo_step, OF repo_step.setChainCursor]
  r_into_rtranclp [of repo_step, OF repo_step.advanceOrderLedgerCursor]
  r_into_rtranclp [of repo_step, OF repo_step.saveSorobanCheckpoint]
  r_into_rtranclp [of repo_step, OF repo_step.markSorobanRecovery] r_into_rtranclp [of repo_step, OF repo_step.updateOrderCursor]

lemma svc_step_repo_steps:
  assumes "svc_step codec s s'"
  shows "repo_steps (repo s) (repo s')"
  using assms
proof (cases rule: svc_step.cases)
  case (announce ctx inp row)
  then show ?thesis using announce_svc_cases repo_step.announce by blast
next
  case (recordSrcLock ctx inp act)
  have "repo_steps (repo s) (repo_recordSrcLock (ctx_seconds ctx) inp act (repo s))"
    by (rule r_into_rtranclp) (rule repo_step.recordSrcLock)
  note both = this rtranclp.rtrancl_into_rtrancl [OF this repo_step.updateOrderCursor]
  show ?thesis using recordSrcLock_cases [OF recordSrcLock] both by auto
next
  case (recordDstLock ctx inp res act)
  have "repo_steps (repo s) (repo_recordDstLock (ctx_seconds ctx) inp res act (repo s))"
    by (rule r_into_rtranclp) (rule repo_step.recordDstLock)
  note both = this rtranclp.rtrancl_into_rtrancl [OF this repo_step.updateOrderCursor]
  show ?thesis using recordDstLock_cases [OF recordDstLock] both by auto
next
  case (recordSecret ctx pid pre tx enc act)
  then show ?thesis using recordSecret_cases repo_step.recordSecretRevealed by blast
next
  case (markStatus ctx pid st act)
  then show ?thesis by (rule markStatus_repo_steps)
next
  case (expireStaleOrders ctx t)
  then show ?thesis using expire_loop_repo_steps by (simp add: svc_expireStaleOrders_def Let_def)
qed (simp_all add: svc_rollbackSrcLock_def svc_rollbackDstLock_def svc_claimEvent_def split_beta
      svc_setChainCursor_def svc_advanceOrderLedgerCursor_def svc_saveSorobanCheckpoint_def
      svc_markSorobanRecovery_def svc_updateOrderCursor_def repo_step_single)

lemma repo_steps_reachable: "repo_steps d d' \<Longrightarrow> repo_reachable d \<Longrightarrow> repo_reachable d'"
  by (induction rule: rtranclp_induct) (auto intro: repo_reachable.step)

lemma svc_steps_reachable:
  "svc_steps codec s s' \<Longrightarrow> repo_reachable (repo s) \<Longrightarrow> repo_reachable (repo s')"
  by (induction rule: svc_steps.induct) (auto intro: repo_steps_reachable svc_step_repo_steps)

section \<open>Properties\<close>

text \<open>C2. Every call of the order service that returns implements the order lifecycle, for every
  order: the status stays, moves along the table, or is rolled back one lock; the terms of the
  swap (hashlock, chains, addresses, assets, amounts) never change; a recorded preimage is never
  replaced; and the data of a recorded lock stays until that lock is rolled back, so the first
  lock wins over any later one.\<close>

theorem service_refines_lifecycle:
  assumes "svc_step codec s s'" and "svc_get pid s = Some r"
  shows "\<exists>q. svc_get pid s' = Some q \<and> same_identity r q
     \<and> (status q = status r \<or> canTransition (status r) (status q) \<or> rollback_edge (status r) (status q))
     \<and> (preimage r \<noteq> None \<longrightarrow> preimage q = preimage r)
     \<and> (srcOrderId r \<noteq> None \<longrightarrow> src_lock_of q = src_lock_of r
          \<or> (status r = Src_locked \<and> status q = Announced \<and> srcOrderId q = None))
     \<and> (dstOrderId r \<noteq> None \<longrightarrow> dst_lock_of q = dst_lock_of r
          \<or> (status r = Dst_locked \<and> status q = Src_locked \<and> dstOrderId q = None))"
  using svc_step_rows_step [OF assms(1)] assms(2)
  unfolding rows_step_def svc_get_def repo_findByPublicId_def row_step_def by blast

definition sample_svc :: svc where
  "sample_svc = new_OrderService True None True True sample_db"

definition sample_ctx :: call_ctx where
  "sample_ctx = \<lparr>ctx_now = 200000, ctx_requestId = None\<rparr>"

text \<open>A codec for the samples: one position, one text.\<close>

definition sample_codec :: cursor_codec where
  "sample_codec = \<lparr>encodeCursor = (\<lambda>c. decimal (ciId c)), decodeCursor = (\<lambda>_. None)\<rparr>"

lemma sample_svc_status: "map_option status (svc_get sample_id sample_svc) = Some Src_locked"
  by code_simp

theorem service_refines_lifecycle_witness:
  "\<exists>q. svc_get sample_id (svc_rollbackSrcLock sample_ctx sample_id sample_svc) = Some q
     \<and> (status q = Src_locked \<or> canTransition Src_locked (status q) \<or> rollback_edge Src_locked (status q))"
proof -
  obtain r where r: "svc_get sample_id sample_svc = Some r" "status r = Src_locked"
    using sample_svc_status by auto
  show ?thesis
    using service_refines_lifecycle [OF svc_step.rollbackSrcLock r(1), of sample_ctx sample_id] r(2)
    by auto
qed

text \<open>A finished order stays finished: after any sequence of service calls, an order that was
  completed, refunded, failed, cancelled or abandoned is still there with the same status, the
  same terms, the same recorded locks and the same preimage.\<close>

theorem terminal_orders_stay:
  assumes "svc_steps codec s s'" and "svc_get pid s = Some r" and "isTerminal (status r)"
  shows "\<exists>q. svc_get pid s' = Some q \<and> status q = status r \<and> same_identity r q
     \<and> (preimage r \<noteq> None \<longrightarrow> preimage q = preimage r)
     \<and> (srcOrderId r \<noteq> None \<longrightarrow> src_lock_of q = src_lock_of r)
     \<and> (dstOrderId r \<noteq> None \<longrightarrow> dst_lock_of q = dst_lock_of r)"
  using svc_steps_stable [OF assms(1,2)] assms(3) by (auto simp: row_stable_def)

theorem terminal_orders_stay_witness:
  "\<exists>q. svc_get sample_id (svc_rollbackSrcLock sample_ctx sample_id
         (new_OrderService True None True True sample_cancelled)) = Some q \<and> status q = Cancelled"
proof -
  let ?s = "new_OrderService True None True True sample_cancelled"
  have "map_option status (svc_get sample_id ?s) = Some Cancelled" by code_simp
  then obtain r where r: "svc_get sample_id ?s = Some r" "status r = Cancelled" by auto
  have "svc_steps sample_codec ?s (svc_rollbackSrcLock sample_ctx sample_id ?s)"
    by (rule svc_steps.more [OF svc_steps.none svc_step.rollbackSrcLock])
  moreover have "isTerminal (status r)" using r(2) by (simp add: isTerminal_iff)
  ultimately show ?thesis using terminal_orders_stay [OF _ r(1)] r(2) by metis
qed

text \<open>The orders the scan is for: locked, and past one of their timelocks.\<close>

definition timelock_due :: "int \<Rightarrow> order_row \<Rightarrow> bool" where
  "timelock_due now r \<longleftrightarrow> status r \<in> {Src_locked, Dst_locked}
     \<and> (case (srcTimelock r, dstTimelock r) of
          (None, None) \<Rightarrow> False
        | (Some t, None) \<Rightarrow> t < now
        | (None, Some u) \<Rightarrow> u < now
        | (Some t, Some u) \<Rightarrow> min t u < now)"

lemma candidates_due: "repo_findExpiredCandidates now d = filter (timelock_due now) (orders d)"
  unfolding repo_findExpiredCandidates_def timelock_due_def
  by (rule filter_cong) (auto split: option.splits)

lemma markStatus_locked:
  assumes "select_by_public_id pid (repo s) = Some r" and "status r \<in> {Src_locked, Dst_locked}"
  shows "\<exists>s'. svc_markStatus ctx pid Expired act s = Inr s'
    \<and> db_effect pid (\<lambda>r. r\<lparr>status := Expired, updatedAt := ctx_seconds ctx\<rparr>) (repo s) (repo s')"
proof -
  have g: "status_guard pid Expired (repo s) = Inr (Some r)"
    using assms by (auto simp: status_guard_def repo_findByPublicId_def isTerminal_iff canTransition_into)
  obtain d where d: "repo_setStatus (ctx_seconds ctx) pid Expired ''system'' None (repo s) = Inr d"
    using assms by (auto simp: repo_setStatus_def Let_def)
  show ?thesis
    using g d setStatus_effect [OF g d] by (simp add: svc_markStatus_def markStatus_write_def Let_def)
qed

lemma expire_loop_exact:
  assumes "distinct (map publicId os)"
    and "\<And>r. r \<in> set os \<Longrightarrow> select_by_public_id (publicId r) (repo s) = Some r \<and> status r \<in> {Src_locked, Dst_locked}"
  shows "snd (expire_loop ctx os n s) = n + length os
    \<and> (\<forall>pid. select_by_public_id pid (repo (fst (expire_loop ctx os n s))) =
        map_option (\<lambda>r. if pid \<in> publicId ` set os then r\<lparr>status := Expired, updatedAt := ctx_seconds ctx\<rparr> else r)
          (select_by_public_id pid (repo s)))"
  using assms
proof (induction os arbitrary: n s)
  case (Cons r os)
  have r: "select_by_public_id (publicId r) (repo s) = Some r" "status r \<in> {Src_locked, Dst_locked}"
    using Cons.prems(2) [of r] by simp_all
  then obtain s' where s': "svc_markStatus ctx (publicId r) Expired ''expiry_scan'' s = Inr s'"
    and e: "db_effect (publicId r) (\<lambda>r. r\<lparr>status := Expired, updatedAt := ctx_seconds ctx\<rparr>) (repo s) (repo s')"
    using markStatus_locked by blast
  have loop: "expire_loop ctx (r # os) n s = expire_loop ctx os (n + 1) s'"
    using s' r(2) by (auto simp: isTerminal_iff)
  have "select_by_public_id (publicId q) (repo s') = Some q \<and> status q \<in> {Src_locked, Dst_locked}" if "q \<in> set os" for q
  proof -
    have "publicId q \<noteq> publicId r" using that Cons.prems(1) by (metis distinct.simps(2) image_eqI list.set_map list.simps(9))
    then show ?thesis using that e Cons.prems(2) [of q] by (simp add: db_effect_def)
  qed
  from Cons.IH [OF _ this] Cons.prems(1) have IH: "snd (expire_loop ctx os (n + 1) s') = n + 1 + length os"
    "select_by_public_id pid (repo (fst (expire_loop ctx os (n + 1) s'))) =
      map_option (\<lambda>r. if pid \<in> publicId ` set os then r\<lparr>status := Expired, updatedAt := ctx_seconds ctx\<rparr> else r)
        (select_by_public_id pid (repo s'))" for pid
    by auto
  show ?case
    unfolding loop using IH e Cons.prems(1)
    by (auto simp: db_effect_def option.map_comp comp_def intro!: option.map_cong)
qed (simp add: option.map_ident)

text \<open>The expiry scan does exactly what it is for: it sets every order that is locked and past one
  of its timelocks to \<open>expired\<close>, leaves every other order alone (one whose secret is revealed in
  particular), and returns the number of orders it expired.\<close>

theorem expiry_scan_effect:
  assumes "repo_reachable (repo s)"
  shows "svc_get pid (fst (svc_expireStaleOrders ctx (Some now) s)) =
      map_option (\<lambda>r. if timelock_due now r then r\<lparr>status := Expired, updatedAt := ctx_seconds ctx\<rparr> else r)
        (svc_get pid s)
    \<and> snd (svc_expireStaleOrders ctx (Some now) s) = length (filter (timelock_due now) (orders (repo s)))"
proof -
  let ?os = "filter (timelock_due now) (orders (repo s))"
  have dist: "distinct (public_ids (repo s))"
    using repo_reachable_invar [OF assms] by (simp add: repo_invar_def wf_db_def)
  then have "distinct (map publicId ?os)" by (simp add: public_ids_def distinct_map_filter)
  moreover have "select_by_public_id (publicId r) (repo s) = Some r \<and> status r \<in> {Src_locked, Dst_locked}"
    if "r \<in> set ?os" for r
    using that by (auto simp: select_Some_iff [OF dist] timelock_due_def)
  ultimately have loop: "snd (expire_loop ctx ?os 0 s) = length ?os"
    "select_by_public_id pid (repo (fst (expire_loop ctx ?os 0 s))) =
      map_option (\<lambda>r. if pid \<in> publicId ` set ?os then r\<lparr>status := Expired, updatedAt := ctx_seconds ctx\<rparr> else r)
        (select_by_public_id pid (repo s))"
    using expire_loop_exact [of ?os s ctx 0] by auto
  have "pid \<in> publicId ` set ?os \<longleftrightarrow> timelock_due now r" if "select_by_public_id pid (repo s) = Some r" for r
    using that dist by (auto simp: select_Some_iff public_ids_def distinct_map inj_on_def)
  then show ?thesis
    using loop
    by (auto simp: svc_expireStaleOrders_def Let_def candidates_due svc_get_def repo_findByPublicId_def
        intro!: option.map_cong)
qed

theorem expiry_scan_effect_witness:
  "map_option status (svc_get sample_id (fst (svc_expireStaleOrders sample_ctx (Some 2000) sample_svc)))
     = Some Expired
   \<and> snd (svc_expireStaleOrders sample_ctx (Some 2000) sample_svc) = 1"
proof -
  have "map_option status (map_option (\<lambda>r. if timelock_due 2000 r
      then r\<lparr>status := Expired, updatedAt := ctx_seconds sample_ctx\<rparr> else r) (svc_get sample_id sample_svc)) = Some Expired"
    and "length (filter (timelock_due 2000) (orders (repo sample_svc))) = 1"
    by code_simp+
  moreover have "repo_reachable (repo sample_svc)"
    using sample_reachable by (simp add: sample_svc_def new_OrderService_def)
  ultimately show ?thesis using expiry_scan_effect [of sample_svc sample_id sample_ctx 2000] by simp
qed

end
