(* ===== verification/Service_Cache.thy ===== *)
theory Service_Cache
  imports Service_Properties
begin

text \<open>
  Coherence of the history cache with the database: what a cached page says is what the
  repository would answer now. Fields that the bookkeeping of the reconciler touches without
  invalidating (ledger cursors, \<open>updatedAt\<close>, \<open>archivedAt\<close>) are left out of the comparison.
\<close>

definition visible :: "order_row \<Rightarrow> order_row" where
  "visible r = r\<lparr>lastEthBlock := None, lastSorobanLedger := None, lastSolanaSlot := None,
     updatedAt := 0, archivedAt := None\<rparr>"

text \<open>The two kinds of history request, the key each is cached under and its true answer.\<close>

datatype page_request = OffsetPage string nat nat | CursorPage string nat "string option"

fun req_address :: "page_request \<Rightarrow> string" where
  "req_address (OffsetPage a l n) = a"
| "req_address (CursorPage a l c) = a"

fun req_key :: "page_request \<Rightarrow> string" where
  "req_key (OffsetPage a l n) = makeCacheKey a l (Some (''offset:'' @ decimal n))"
| "req_key (CursorPage a l c) = makeCacheKey a l c"

fun req_answer :: "cursor_codec \<Rightarrow> db \<Rightarrow> page_request \<Rightarrow> history_result option" where
  "req_answer codec d (OffsetPage a l n) = Some (repo_findByAddress a l n d, None)"
| "req_answer codec d (CursorPage a l c) = repo_page codec a l c d"

definition view_result :: "history_result \<Rightarrow> history_result" where
  "view_result res = (map visible (fst res), snd res)"

definition coherent :: "cursor_codec \<Rightarrow> svc \<Rightarrow> bool" where
  "coherent codec s \<longleftrightarrow> hc_ok (historyCache s) \<and>
     (\<forall>(k, c) \<in> set (entries (historyCache s)). \<exists>req. req_key req = k \<and>
        map_option view_result (req_answer codec (repo s) req) = Some (view_result (result c)))"

section \<open>Answers depend on the visible rows of the address\<close>

lemma visible_sel [simp]:
  "createdAt (visible r) = createdAt r" "rowId (visible r) = rowId r" "publicId (visible r) = publicId r"
  "page_key (visible r) = page_key r" "after_cursor c (visible r) = after_cursor c r"
  "srcAddress (visible r) = srcAddress r" "dstAddress (visible r) = dstAddress r"
  by (simp_all add: visible_def page_key_def after_cursor_def)

lemma map_sort_key:
  assumes "\<And>x. k (f x) = k x"
  shows "map f (sort_key k xs) = sort_key k (map f xs)"
proof -
  have ins: "map f (insort_key k x ys) = insort_key k (f x) (map f ys)" for x ys
    by (induction ys) (simp_all add: assms)
  show ?thesis by (induction xs) (simp_all add: ins)
qed

lemma map_visible_filter:
  "map visible (filter (after_cursor c) xs) = filter (after_cursor c) (map visible xs)"
  by (simp add: filter_map comp_def)

definition page_of :: "nat \<Rightarrow> cursor_info option \<Rightarrow> order_row list \<Rightarrow> order_row list \<times> cursor_info option" where
  "page_of limit cursor xs =
     (let rows = take (limit + 1) (sort_key page_key
            (case cursor of None \<Rightarrow> xs | Some c \<Rightarrow> filter (after_cursor c) xs));
          pageRows = (if length rows > limit then take limit rows else rows)
      in (pageRows, if length rows > limit \<and> pageRows \<noteq> []
           then Some \<lparr>ciCreatedAt = createdAt (last pageRows), ciId = rowId (last pageRows)\<rparr> else None))"

lemma findByAddressWithCursor_page_of:
  "repo_findByAddressWithCursor a l c d = page_of l c (address_rows a d)"
  by (simp add: repo_findByAddressWithCursor_def page_of_def Let_def split: option.split)

lemma page_of_visible: "page_of l c (map visible xs) = apfst (map visible) (page_of l c xs)"
proof -
  have src: "(case c of None \<Rightarrow> map visible xs | Some k \<Rightarrow> filter (after_cursor k) (map visible xs)) =
        map visible (case c of None \<Rightarrow> xs | Some k \<Rightarrow> filter (after_cursor k) xs)"
    by (simp add: map_visible_filter split: option.split)
  show ?thesis
    unfolding page_of_def src
    by (simp add: Let_def map_sort_key [symmetric] take_map last_map)
qed

lemma answer_visible:
  assumes "map visible (address_rows (req_address req) d') = map visible (address_rows (req_address req) d)"
  shows "map_option view_result (req_answer codec d' req) = map_option view_result (req_answer codec d req)"
proof (cases req)
  case (OffsetPage a l n)
  then show ?thesis
    using assms
    by (simp add: repo_findByAddress_def view_result_def take_map [symmetric] drop_map [symmetric]
        map_sort_key)
next
  case (CursorPage a l cur)
  have page: "apfst (map visible) (page_of l c (address_rows a d')) =
              apfst (map visible) (page_of l c (address_rows a d))" for c
    using assms CursorPage by (simp add: page_of_visible [symmetric])
  have "map visible (fst (page_of l c (address_rows a d'))) = map visible (fst (page_of l c (address_rows a d)))"
    and "snd (page_of l c (address_rows a d')) = snd (page_of l c (address_rows a d))" for c
    using page [of c] by (simp_all add: apfst_def map_prod_def prod_eq_iff split_beta)
  then show ?thesis
    using CursorPage
    by (simp add: repo_page_def view_result_def findByAddressWithCursor_page_of Let_def split_beta
        split: option.split)
qed

section \<open>Writes that touch one order\<close>

definition touches :: "string \<Rightarrow> db \<Rightarrow> db \<Rightarrow> bool" where
  "touches pid d d' \<longleftrightarrow> (\<exists>f. keeps_identity f \<and>
     orders d' = map (\<lambda>r. if publicId r = pid then f r else r) (orders d))"

lemma touches_refl: "touches pid d d"
  unfolding touches_def by (intro exI [of _ "\<lambda>r. r"]) simp

lemma order_step_touches: "order_step pid d d' \<Longrightarrow> touches pid d d'"
  unfolding order_step_def by (elim disjE) (auto simp: touches_refl touches_def orders_update_order)

lemma quiet_step_touches: "quiet_step pid d d' \<Longrightarrow> touches pid d d'"
  unfolding quiet_step_def touches_def by (auto simp: orders_update_order)

lemma touches_trans:
  assumes "touches pid d d'" and "touches pid d' d''"
  shows "touches pid d d''"
proof -
  from assms obtain f g where f: "keeps_identity f" and g: "keeps_identity g"
    and d': "orders d' = map (\<lambda>r. if publicId r = pid then f r else r) (orders d)"
    and d'': "orders d'' = map (\<lambda>r. if publicId r = pid then g r else r) (orders d')"
    unfolding touches_def by blast
  have "keeps_identity (\<lambda>r. g (f r))" using f g by (simp add: keeps_identity_def)
  moreover have "orders d'' = map (\<lambda>r. if publicId r = pid then g (f r) else r) (orders d)"
    unfolding d'' d' by (simp add: keeps_identityD(2) [OF f])
  ultimately show ?thesis unfolding touches_def by blast
qed

lemma touches_address_rows:
  assumes "touches pid d d'" and "wf_db d" and "select_by_public_id pid d = Some r"
    and "a \<noteq> srcAddress r" and "a \<noteq> dstAddress r"
  shows "address_rows a d' = address_rows a d"
proof -
  from assms(1) obtain f where f: "keeps_identity f"
    and d': "orders d' = map (\<lambda>r. if publicId r = pid then f r else r) (orders d)"
    unfolding touches_def by blast
  have "q = r" if "q \<in> set (orders d)" "publicId q = pid" for q
    using assms(3) that select_Some_iff [OF wf_db_distinct [OF assms(2)], of pid q] by simp
  then have off: "srcAddress q \<noteq> a \<and> dstAddress q \<noteq> a" if "q \<in> set (orders d)" "publicId q = pid" for q
    using that assms(4,5) by auto
  have "filter (\<lambda>r. srcAddress r = a \<or> dstAddress r = a)
           (map (\<lambda>r. if publicId r = pid then f r else r) rs) =
         filter (\<lambda>r. srcAddress r = a \<or> dstAddress r = a) rs"
    if "\<And>q. q \<in> set rs \<Longrightarrow> publicId q = pid \<Longrightarrow> srcAddress q \<noteq> a \<and> dstAddress q \<noteq> a" for rs
    using that by (induction rs) (auto simp: keeps_identityD [OF f])
  with off show ?thesis by (simp add: address_rows_def d')
qed

section \<open>Preservation\<close>

lemma lower_prefix_neq:
  assumes "req_key req = k" and "\<not> startsWith k (toLowerCase b @ '':'')"
  shows "req_address req \<noteq> b"
  using assms makeCacheKey_prefix by (cases req) auto

lemma coherent_invalidate:
  assumes "coherent codec s"
    and "\<And>a. a \<noteq> srcAddress r \<Longrightarrow> a \<noteq> dstAddress r \<Longrightarrow> address_rows a d' = address_rows a (repo s)"
    and "repo s' = d'"
    and "historyCache s' = hc_invalidateAddress (dstAddress r) (hc_invalidateAddress (srcAddress r) (historyCache s))"
  shows "coherent codec s'"
proof -
  have "\<exists>req. req_key req = k \<and>
      map_option view_result (req_answer codec (repo s') req) = Some (view_result (result c))"
    if kc: "(k, c) \<in> set (entries (historyCache s'))" for k c
  proof -
    have old: "(k, c) \<in> set (entries (historyCache s))"
      and ns: "\<not> startsWith k (toLowerCase (srcAddress r) @ '':'')"
      and nd: "\<not> startsWith k (toLowerCase (dstAddress r) @ '':'')"
      using kc assms(4) by (auto simp: hc_invalidateAddress_def)
    from assms(1) old obtain req where req: "req_key req = k"
      "map_option view_result (req_answer codec (repo s) req) = Some (view_result (result c))"
      by (auto simp: coherent_def)
    have "address_rows (req_address req) d' = address_rows (req_address req) (repo s)"
      using assms(2) lower_prefix_neq [OF req(1) ns] lower_prefix_neq [OF req(1) nd] by blast
    then show ?thesis using req answer_visible [of req d' "repo s" codec] assms(3) by auto
  qed
  moreover have "hc_ok (historyCache s')"
    using assms(1,4) by (simp add: coherent_def hc_ok_invalidate)
  ultimately show ?thesis by (auto simp: coherent_def)
qed

lemma coherent_quiet:
  assumes "coherent codec s" and "historyCache s' = historyCache s"
    and "\<And>a. map visible (address_rows a (repo s')) = map visible (address_rows a (repo s))"
  shows "coherent codec s'"
proof -
  have "map_option view_result (req_answer codec (repo s') req) =
        map_option view_result (req_answer codec (repo s) req)" for req
    by (rule answer_visible) (rule assms(3))
  with assms(1,2) show ?thesis by (simp add: coherent_def)
qed

lemma coherent_store:
  assumes "coherent codec s" and "req_answer codec (repo s) req = Some res" and "repo s' = repo s"
    and "set (entries (historyCache s')) \<subseteq> insert (req_key req, c) (set (entries (historyCache s)))"
    and "result c = res" and "hc_ok (historyCache s')"
  shows "coherent codec s'"
  unfolding coherent_def
proof (intro conjI ballI, rule assms(6))
  fix e assume "e \<in> set (entries (historyCache s'))"
  then have "e = (req_key req, c) \<or> e \<in> set (entries (historyCache s))" using assms(4) by blast
  then show "case e of (k, c) \<Rightarrow> \<exists>req. req_key req = k \<and>
      map_option view_result (req_answer codec (repo s') req) = Some (view_result (result c))"
  proof
    assume "e = (req_key req, c)"
    then show ?thesis using assms(2,3,5) by (cases res) (auto intro!: exI [of _ req])
  next
    assume "e \<in> set (entries (historyCache s))"
    then show ?thesis using assms(1,3) by (auto simp: coherent_def)
  qed
qed

lemma coherent_shrink:
  assumes "coherent codec s" and "repo s' = repo s" and "hc_ok (historyCache s')"
    and "set (entries (historyCache s')) \<subseteq> set (entries (historyCache s))"
  shows "coherent codec s'"
  using assms by (auto simp: coherent_def)

lemma history_coherent:
  assumes "coherent codec s"
  shows "coherent codec (fst (svc_history ctx addr limit offset s))"
proof -
  let ?l = "min (max (or_default limit 50) 1) 200" and ?o = "or_default offset 0"
  let ?cur = "Some (''offset:'' @ decimal ?o)"
  let ?g = "hc_get (ctx_now ctx) addr ?l ?cur (historyCache s)"
  let ?rows = "repo_findByAddress addr ?l ?o (repo s)"
  have ok: "hc_ok (historyCache s)" using assms by (simp add: coherent_def)
  have get: "coherent codec (s\<lparr>historyCache := fst ?g\<rparr>)"
    by (rule coherent_shrink [OF assms]) (simp_all add: hc_ok_get ok set_entries_get)
  have set: "coherent codec (s\<lparr>historyCache := hc_set (ctx_now ctx) addr ?l ?cur (?rows, None) (fst ?g)\<rparr>)"
  proof (rule coherent_store [OF get, where req = "OffsetPage addr ?l ?o" and res = "(?rows, None)"
        and c = "\<lparr>result = (?rows, None), expiresAt = ctx_now ctx + ttlMs (fst ?g)\<rparr>"])
    show "set (entries (historyCache (s\<lparr>historyCache := hc_set (ctx_now ctx) addr ?l ?cur (?rows, None) (fst ?g)\<rparr>)))
      \<subseteq> insert (req_key (OffsetPage addr ?l ?o), \<lparr>result = (?rows, None), expiresAt = ctx_now ctx + ttlMs (fst ?g)\<rparr>)
          (set (entries (historyCache (s\<lparr>historyCache := fst ?g\<rparr>))))"
      using set_entries_set [OF hc_ok_get [OF ok]] by simp
  qed (simp_all add: hc_ok_set hc_ok_get ok)
  show ?thesis
    using get set by (simp add: svc_history_def Let_def split_beta split: option.split)
qed

lemma historyWithCursor_coherent:
  assumes "coherent codec s"
  shows "coherent codec (fst (svc_historyWithCursor codec ctx addr limit cursor s))"
proof -
  let ?l = "min (max limit 1) 200"
  let ?g = "hc_get (ctx_now ctx) addr ?l cursor (historyCache s)"
  have ok: "hc_ok (historyCache s)" using assms by (simp add: coherent_def)
  have get: "coherent codec (s\<lparr>historyCache := fst ?g\<rparr>)"
    by (rule coherent_shrink [OF assms]) (simp_all add: hc_ok_get ok set_entries_get)
  have set: "coherent codec (s\<lparr>historyCache := hc_set (ctx_now ctx) addr ?l cursor res (fst ?g)\<rparr>)"
    if "repo_page codec addr ?l cursor (repo s) = Some res" for res
  proof (rule coherent_store [OF get, where req = "CursorPage addr ?l cursor" and res = res
        and c = "\<lparr>result = res, expiresAt = ctx_now ctx + ttlMs (fst ?g)\<rparr>"])
    show "set (entries (historyCache (s\<lparr>historyCache := hc_set (ctx_now ctx) addr ?l cursor res (fst ?g)\<rparr>)))
      \<subseteq> insert (req_key (CursorPage addr ?l cursor), \<lparr>result = res, expiresAt = ctx_now ctx + ttlMs (fst ?g)\<rparr>)
          (set (entries (historyCache (s\<lparr>historyCache := fst ?g\<rparr>))))"
      using set_entries_set [OF hc_ok_get [OF ok]] by simp
  qed (simp_all add: hc_ok_set hc_ok_get ok that del: One_nat_def)
  show ?thesis
    using get set by (simp add: svc_historyWithCursor_def Let_def split_beta split: option.split)
qed

text \<open>Bookkeeping writes do not show in a page.\<close>

lemma visible_address_rows:
  assumes "orders d' = map g (orders d)" and "\<And>r. visible (g r) = visible r"
  shows "map visible (address_rows a d') = map visible (address_rows a d)"
proof -
  have adr: "srcAddress (g r) = srcAddress r \<and> dstAddress (g r) = dstAddress r" for r
    using arg_cong [OF assms(2), of srcAddress r] arg_cong [OF assms(2), of dstAddress r] by simp
  have "map visible (filter (\<lambda>r. srcAddress r = a \<or> dstAddress r = a) (map g rs)) =
        map visible (filter (\<lambda>r. srcAddress r = a \<or> dstAddress r = a) rs)" for rs
    by (induction rs) (simp_all add: adr assms(2))
  then show ?thesis by (simp add: address_rows_def assms(1))
qed

lemma updateOrderCursor_visible:
  "map visible (address_rows a (repo_updateOrderCursor now pid ch pos d)) = map visible (address_rows a d)"
  unfolding repo_updateOrderCursor_def
  by (rule visible_address_rows [OF orders_update_order]) (cases ch; simp add: visible_def)

lemma advanceOrderLedgerCursor_visible:
  "map visible (address_rows a (repo_advanceOrderLedgerCursor now pid eth soroban sol d))
     = map visible (address_rows a d)"
proof -
  have "map visible (address_rows a (update_order pid
      (\<lambda>r. r\<lparr>lastEthBlock := advance_cursor eth (lastEthBlock r),
             lastSorobanLedger := advance_cursor soroban (lastSorobanLedger r),
             lastSolanaSlot := advance_cursor sol (lastSolanaSlot r), updatedAt := now\<rparr>) d))
     = map visible (address_rows a d)"
    by (rule visible_address_rows [OF orders_update_order]) (simp add: visible_def)
  then show ?thesis by (simp add: repo_advanceOrderLedgerCursor_def)
qed

lemma address_rows_tables [simp]:
  "address_rows a (d\<lparr>processed_events := x\<rparr>) = address_rows a d"
  "address_rows a (d\<lparr>chain_cursors := y\<rparr>) = address_rows a d"
  "address_rows a (d\<lparr>soroban_checkpoints := z\<rparr>) = address_rows a d"
  by (simp_all add: address_rows_def)

lemma announce_address_rows:
  assumes "repo_announce now inp d = Inr (d', row)" and "a \<noteq> srcAddress row" and "a \<noteq> dstAddress row"
  shows "address_rows a d' = address_rows a d"
  using announce_cases [OF assms(1)] assms(2,3) by (simp add: address_rows_def)

text \<open>A write guarded by a lookup, followed by invalidation of both addresses of the row read.\<close>

lemma coherent_write:
  assumes "coherent codec s" and "wf_db (repo s)" and "select_by_public_id pid (repo s) = Some r"
    and "touches pid (repo s) (repo s')"
    and "historyCache s' = hc_invalidateAddress (dstAddress r) (hc_invalidateAddress (srcAddress r) (historyCache s))"
  shows "coherent codec s'"
  by (rule coherent_invalidate [OF assms(1) _ refl assms(5)])
     (rule touches_address_rows [OF assms(4,2,3)])

lemma invalidate_both_cache:
  "historyCache (invalidate_both r s) =
     hc_invalidateAddress (dstAddress r) (hc_invalidateAddress (srcAddress r) (historyCache s))"
  by (simp add: invalidate_both_def)

lemma announce_coherent:
  assumes "coherent codec s" and "svc_announce ctx inp s = Inr (s', row)"
  shows "coherent codec s'"
proof (rule coherent_invalidate [OF assms(1) _ refl])
  show "address_rows a (repo s') = address_rows a (repo s)"
    if "a \<noteq> srcAddress row" "a \<noteq> dstAddress row" for a
    using announce_address_rows [OF announce_svc_cases [OF assms(2)] that] .
  show "historyCache s' = hc_invalidateAddress (dstAddress row)
          (hc_invalidateAddress (srcAddress row) (historyCache s))"
    using assms(2)
    by (auto simp: svc_announce_def Let_def split_beta invalidate_both_cache split: option.splits sum.splits)
qed

lemma recordSrcLock_coherent:
  assumes "coherent codec s" and "wf_db (repo s)" and "svc_recordSrcLock ctx inp act s = Inr s'"
  shows "coherent codec s'"
proof (cases "srcLock_guard inp (repo s)")
  case (Inr order)
  show ?thesis
  proof (cases order)
    case None
    with assms Inr show ?thesis by (simp add: svc_recordSrcLock_def)
  next
    case (Some r)
    have "touches (li_publicId inp) (repo s) (repo s')"
      using recordSrcLock_cases [OF assms(3)] touches_refl
        order_step_touches [OF recordSrcLock_step]
        touches_trans [OF order_step_touches [OF recordSrcLock_step]
          quiet_step_touches [OF updateOrderCursor_quiet]] by auto
    moreover have "historyCache s' =
        hc_invalidateAddress (dstAddress r) (hc_invalidateAddress (srcAddress r) (historyCache s))"
      using assms(3) Inr Some by (auto simp: svc_recordSrcLock_def Let_def invalidate_both_cache)
    ultimately show ?thesis
      using srcLock_guard_Some Inr Some by (intro coherent_write [OF assms(1,2)]) auto
  qed
qed (use assms in \<open>simp add: svc_recordSrcLock_def\<close>)

lemma recordDstLock_coherent:
  assumes "coherent codec s" and "wf_db (repo s)" and "svc_recordDstLock ctx inp res act s = Inr s'"
  shows "coherent codec s'"
proof (cases "dstLock_guard inp (repo s)")
  case (Inr order)
  show ?thesis
  proof (cases order)
    case None
    with assms Inr show ?thesis by (simp add: svc_recordDstLock_def)
  next
    case (Some r)
    have "touches (li_publicId inp) (repo s) (repo s')"
      using recordDstLock_cases [OF assms(3)] touches_refl
        order_step_touches [OF recordDstLock_step]
        touches_trans [OF order_step_touches [OF recordDstLock_step]
          quiet_step_touches [OF updateOrderCursor_quiet]] by auto
    moreover have "historyCache s' =
        hc_invalidateAddress (dstAddress r) (hc_invalidateAddress (srcAddress r) (historyCache s))"
      using assms(3) Inr Some by (auto simp: svc_recordDstLock_def Let_def invalidate_both_cache)
    ultimately show ?thesis
      using dstLock_guard_Some Inr Some by (intro coherent_write [OF assms(1,2)]) auto
  qed
qed (use assms in \<open>simp add: svc_recordDstLock_def\<close>)

lemma recordSecret_coherent:
  assumes "coherent codec s" and "wf_db (repo s)" and "svc_recordSecret ctx pid pre tx enc act s = Inr s'"
  shows "coherent codec s'"
proof (cases "secret_guard pid pre (repo s)")
  case (Inr order)
  show ?thesis
  proof (cases order)
    case None
    with assms Inr show ?thesis by (simp add: svc_recordSecret_def)
  next
    case (Some r)
    have "touches pid (repo s) (repo s')"
      using recordSecret_cases [OF assms(3)] touches_refl
        order_step_touches [OF recordSecretRevealed_step [of pid "repo s" "ctx_seconds ctx" pre tx enc "''system''"]]
      by auto
    moreover have "historyCache s' =
        hc_invalidateAddress (dstAddress r) (hc_invalidateAddress (srcAddress r) (historyCache s))"
      using assms(3) Inr Some
      by (auto simp: svc_recordSecret_def Let_def invalidate_both_cache split: sum.splits)
    ultimately show ?thesis
      using secret_guard_Some Inr Some by (intro coherent_write [OF assms(1,2)]) auto
  qed
qed (use assms in \<open>simp add: svc_recordSecret_def\<close>)

lemma markStatus_coherent:
  assumes "coherent codec s" and "wf_db (repo s)" and "svc_markStatus ctx pid st act s = Inr s'"
  shows "coherent codec s' \<and> wf_db (repo s')"
proof (cases "status_guard pid st (repo s)")
  case (Inr order)
  show ?thesis
  proof (cases order)
    case None
    with assms Inr show ?thesis by (simp add: svc_markStatus_def)
  next
    case (Some r)
    have step: "order_step pid (repo s) (repo s')"
      using markStatus_cases [OF assms(3)]
        setStatus_step [OF assms(2), of pid "ctx_seconds ctx" st "''system''" None] by auto
    have "historyCache s' =
        hc_invalidateAddress (dstAddress r) (hc_invalidateAddress (srcAddress r) (historyCache s))"
      using assms(3) Inr Some
      by (auto simp: svc_markStatus_def markStatus_write_def Let_def invalidate_both_cache split: sum.splits)
    then have "coherent codec s'"
      using status_guard_Some Inr Some order_step_touches [OF step]
      by (intro coherent_write [OF assms(1,2)]) auto
    with order_step_wf [OF step assms(2)] show ?thesis by blast
  qed
qed (use assms in \<open>simp add: svc_markStatus_def\<close>)

lemma expire_loop_coherent:
  "coherent codec s \<Longrightarrow> wf_db (repo s) \<Longrightarrow> coherent codec (fst (expire_loop ctx os n s))"
proof (induction os arbitrary: n s)
  case (Cons r os)
  show ?case
  proof (cases "svc_markStatus ctx (publicId r) Expired ''expiry_scan'' s")
    case (Inr s')
    then have "coherent codec s' \<and> wf_db (repo s')"
      using markStatus_coherent [OF Cons.prems] by blast
    with Inr Cons show ?thesis by simp
  qed (use Cons in simp)
qed simp

section \<open>Runs without rollbacks\<close>

definition is_rollback :: "svc \<Rightarrow> svc \<Rightarrow> bool" where
  "is_rollback s s' \<longleftrightarrow>
     (\<exists>ctx pid. s' = svc_rollbackSrcLock ctx pid s \<or> s' = svc_rollbackDstLock ctx pid s)"

inductive forward_steps :: "cursor_codec \<Rightarrow> svc \<Rightarrow> svc \<Rightarrow> bool" for codec :: cursor_codec where
  start: "forward_steps codec s s"
| forward: "forward_steps codec s s' \<Longrightarrow> svc_step codec s' s'' \<Longrightarrow> \<not> is_rollback s' s''
    \<Longrightarrow> forward_steps codec s s''"

lemma svc_step_coherent:
  assumes "svc_step codec s s'" and "\<not> is_rollback s s'" and "coherent codec s" and "wf_db (repo s)"
  shows "coherent codec s'"
  using assms(1)
proof (cases rule: svc_step.cases)
  case (rollbackSrcLock ctx pid)
  then show ?thesis using assms(2) by (auto simp: is_rollback_def)
next
  case (rollbackDstLock ctx pid)
  then show ?thesis using assms(2) by (auto simp: is_rollback_def)
next
  case (expireStaleOrders ctx t)
  then show ?thesis
    using expire_loop_coherent [OF assms(3,4)] by (simp add: svc_expireStaleOrders_def Let_def)
next
  case (announce ctx inp row)
  with assms(3) show ?thesis by (rule announce_coherent)
next
  case (recordSrcLock ctx inp act)
  with assms(3,4) show ?thesis by (rule recordSrcLock_coherent)
next
  case (recordDstLock ctx inp res act)
  with assms(3,4) show ?thesis by (rule recordDstLock_coherent)
next
  case (recordSecret ctx pid pre tx enc act)
  with assms(3,4) show ?thesis by (rule recordSecret_coherent)
next
  case (markStatus ctx pid st act)
  then show ?thesis using markStatus_coherent [OF assms(3,4)] by blast
next
  case (history ctx addr limit offset)
  then show ?thesis using history_coherent [OF assms(3)] by simp
next
  case (historyWithCursor ctx addr lim cursor)
  then show ?thesis using historyWithCursor_coherent [OF assms(3)] by simp
qed (auto intro!: coherent_quiet [OF assms(3)]
      simp: svc_claimEvent_def split_beta svc_setChainCursor_def svc_updateOrderCursor_def
      svc_advanceOrderLedgerCursor_def svc_saveSorobanCheckpoint_def svc_markSorobanRecovery_def
      repo_claimEvent_def repo_setChainCursor_def repo_saveSorobanCheckpoint_def
      repo_markSorobanRecovery_def updateOrderCursor_visible advanceOrderLedgerCursor_visible
      split: option.splits)

lemma forward_steps_invar:
  assumes "forward_steps codec s s'" and "coherent codec s" and "repo_reachable (repo s)"
  shows "coherent codec s' \<and> repo_reachable (repo s')"
  using assms
proof (induction rule: forward_steps.induct)
  case (forward s s' s'')
  then have s': "coherent codec s'" "repo_reachable (repo s')" by auto
  then have "wf_db (repo s')" using repo_reachable_invar by (simp add: repo_invar_def)
  then show ?case
    using svc_step_coherent [OF forward.hyps(2,3) s'(1)]
      repo_steps_reachable [OF svc_step_repo_steps [OF forward.hyps(2)] s'(2)] by blast
qed simp

lemma coherent_new: "coherent codec (new_OrderService e ttl b a d)"
  by (simp add: coherent_def new_OrderService_def hc_ok_new) (simp add: new_HistoryCache_def)

section \<open>Properties\<close>


definition warm_svc :: svc where
  "warm_svc = fst (svc_history sample_ctx ''0x1'' None None sample_svc)"

lemma warm_hit:
  "map_option (\<lambda>res. map (\<lambda>r. (publicId r, status r)) (fst res))
     (snd (hc_get 200001 ''0x1'' 50 (Some ''offset:0'') (historyCache warm_svc)))
   = Some [(sample_id, Src_locked)]"
  by code_simp


text \<open>A rollback leaves the cache stale: neither \<open>rollbackSrcLock\<close> nor \<open>rollbackDstLock\<close> of the
  service invalidates the addresses of the order. Once a page is cached, a rolled-back order is
  served as still locked although its row says \<open>announced\<close>; the same rollback is not broadcast.\<close>

theorem rollback_leaves_stale_page:
  "let s = svc_rollbackSrcLock sample_ctx sample_id warm_svc;
       page = snd (svc_history \<lparr>ctx_now = 200001, ctx_requestId = None\<rparr> ''0x1'' None None s)
   in map (\<lambda>r. (publicId r, status r)) page = [(sample_id, Src_locked)]
      \<and> map_option status (svc_get sample_id s) = Some Announced
      \<and> broadcasts s = broadcasts warm_svc"
  by code_simp

text \<open>The cache key folds the case of the address while the query does not: after a page of
  one address is cached, a request for an address that differs only in case is answered with
  that page, although the repository has no order for it.\<close>

theorem cache_key_folds_case:
  "let s = fst (svc_history sample_ctx ''G1'' None None sample_svc);
       page = snd (svc_history \<lparr>ctx_now = 200001, ctx_requestId = None\<rparr> ''g1'' None None s)
   in map publicId page = [sample_id] \<and> repo_findByAddress ''g1'' 50 0 (repo s) = []"
  by code_simp

end
