(* ===== verification/Service_Races.thy ===== *)
theory Service_Races
  imports Service_Properties
begin

text \<open>
  Interleavings of service calls. \<open>markStatus\<close> reads the order, checks its guards, and awaits the
  write; between the two another call may run. The write carries no expected status, so the
  repository's optimistic check is not used. Also here: what the trail and the audit log record
  about the caller.
\<close>

lemma markStatus_write_status:
  assumes "select_by_public_id pid (repo s) = Some q"
  obtains s' where "markStatus_write ctx pid st act r s = Inr s'"
    and "map_option status (svc_get pid s') = Some st"
    and "\<exists>q'. select_by_public_id pid (repo s') = Some q'"
proof (cases "status q = st")
  case True
  with assms show ?thesis
    by (intro that) (auto simp: markStatus_write_def repo_setStatus_def Let_def svc_get_def
        repo_findByPublicId_def)
next
  case False
  have keep: "keeps_identity (\<lambda>r. r\<lparr>status := st, updatedAt := ctx_seconds ctx\<rparr>)"
    by (simp add: keeps_identity_def)
  from False assms show ?thesis
    by (intro that) (auto simp: markStatus_write_def repo_setStatus_def Let_def svc_get_def
        repo_findByPublicId_def select_update_order [OF keep])
qed

section \<open>Properties\<close>

text \<open>C23. Two overlapping \<open>markStatus\<close> calls can move an order out of a terminal status. If two
  calls with different targets both pass their guards on the same row before either writes, both
  writes succeed, in either order, and the second target stands: an order marked \<open>completed\<close> can
  end \<open>refunded\<close>. Had the call handed the status it checked to \<open>setStatus\<close>, the second write
  would have been refused as stale.\<close>

theorem markStatus_race:
  assumes "status_guard pid a (repo s) = Inr (Some r)" and "status_guard pid b (repo s) = Inr (Some r)"
    and "a \<noteq> b"
  shows "\<exists>s1 s2. markStatus_write ctx pid a act1 r s = Inr s1 \<and> markStatus_write ctx pid b act2 r s1 = Inr s2
     \<and> map_option status (svc_get pid s1) = Some a \<and> map_option status (svc_get pid s2) = Some b
     \<and> (wf_db (repo s1) \<longrightarrow> repo_setStatus now pid b act2 (Some (status r)) (repo s1) = Inl (STALE_STATUS pid a))"
proof -
  note g = status_guard_Some [OF assms(1)]
  obtain s1 where s1: "markStatus_write ctx pid a act1 r s = Inr s1"
    "map_option status (svc_get pid s1) = Some a" "\<exists>q. select_by_public_id pid (repo s1) = Some q"
    using markStatus_write_status [of pid s r ctx a act1 r] g by blast
  then obtain q where q: "select_by_public_id pid (repo s1) = Some q" by blast
  obtain s2 where s2: "markStatus_write ctx pid b act2 r s1 = Inr s2"
    "map_option status (svc_get pid s2) = Some b"
    using markStatus_write_status [OF q, of ctx b act2 r] by blast
  have "status q = a" using s1(2) q by (simp add: svc_get_def repo_findByPublicId_def)
  moreover have "a \<noteq> status r" using g canTransition_neq by blast
  ultimately have "repo_setStatus now pid b act2 (Some (status r)) (repo s1) = Inl (STALE_STATUS pid a)"
    if "wf_db (repo s1)"
    using q update_where_changes [OF wf_db_distinct [OF that] q, of "\<lambda>q. status q = status r"
        "\<lambda>r. r\<lparr>status := b, updatedAt := now\<rparr>"]
    by (simp add: repo_setStatus_def Let_def split_beta)
  with s1 s2 show ?thesis by blast
qed

definition revealed_svc :: svc where
  "revealed_svc = (case svc_recordSecret sample_ctx sample_id ''0xs'' ''0xr'' None ''system'' sample_svc of
     Inl _ \<Rightarrow> sample_svc | Inr s \<Rightarrow> s)"

theorem markStatus_race_witness:
  "\<exists>r s1 s2. markStatus_write sample_ctx sample_id Completed ''a'' r revealed_svc = Inr s1
     \<and> markStatus_write sample_ctx sample_id Refunded ''b'' r s1 = Inr s2
     \<and> map_option status (svc_get sample_id s1) = Some Completed
     \<and> map_option status (svc_get sample_id s2) = Some Refunded"
proof -
  have "map_option status (svc_get sample_id revealed_svc) = Some Secret_revealed" by code_simp
  then obtain r where r: "svc_get sample_id revealed_svc = Some r" "status r = Secret_revealed" by auto
  then have "status_guard sample_id Completed (repo revealed_svc) = Inr (Some r)"
    and "status_guard sample_id Refunded (repo revealed_svc) = Inr (Some r)"
    by (simp_all add: status_guard_def svc_get_def isTerminal_def canTransition_def)
  from markStatus_race [OF this, of sample_ctx "''a''" "''b''"] show ?thesis by blast
qed

section \<open>Who did it\<close>

text \<open>The event trail does not record the actor of a status change or of a reveal: whatever actor
  is passed, the repository is written the same way, with its default actor.\<close>

lemma trail_loses_actor:
  "map_sum id repo (svc_markStatus ctx pid st act s) = map_sum id repo (svc_markStatus ctx pid st act' s)"
  "map_sum id repo (svc_recordSecret ctx pid pre tx enc act s)
     = map_sum id repo (svc_recordSecret ctx pid pre tx enc act' s)"
  by (auto simp: svc_markStatus_def markStatus_write_def svc_recordSecret_def Let_def
      split: sum.split option.split)

text \<open>The audit log records a rollback that did not happen: rolling back the source lock of an order
  the database does not know changes nothing and is audited as \<open>src_locked\<close> to \<open>announced\<close>.\<close>

lemma rollback_audited_unconditionally:
  assumes "svc_get pid s = None" and "auditLog s = Some l"
  shows "repo (svc_rollbackSrcLock ctx pid s) = repo s
    \<and> auditLog (svc_rollbackSrcLock ctx pid s) =
        Some (l @ [rollback_audit Order_src_lock_rolled_back pid Src_locked Announced (ctx_requestId ctx)])"
  using assms
  by (simp add: svc_rollbackSrcLock_def svc_audit_def repo_rollbackSrcLock_def svc_get_def
      repo_findByPublicId_def)

text \<open>An audit entry of \<open>markStatus\<close> is \<open>order.failed\<close> for every target other than the three it
  names, cancellation and abandonment included.\<close>

lemma cancelled_audited_as_failed:
  "status_audit_type Cancelled = Order_failed" "status_audit_type Abandoned = Order_failed"
  "status_audit_type Src_locked = Order_failed"
  by (simp_all add: status_audit_type_def)

end
