(* ===== verification/File_Store.thy ===== *)
theory File_Store
  imports Prelude "HOL-Library.Multiset"
begin

text \<open>
  The relayer keeps its stores in directories of JSON files, one file per record: the transaction
  store, the idempotency manager, the refund ledger, the proof ledger and the failure store. Each writes a record to a file
  named after its key, with the characters a file name may not have replaced, and reads the
  directory back when it is constructed, in whatever order the file system lists it.

  The interface \<open>file_store\<close> is what they share: \<open>keep\<close> says which records are written to disk
  at all, and \<open>load\<close> is the loop of the constructor. A directory \<^emph>\<open>mirrors\<close> a map of records when every
  file holds the current record of the key it is named after and every kept record has a file; the
  operations keep this, and then a restart recovers the records, provided that no two keys
  share a file name.
\<close>

definition safe_char :: "char \<Rightarrow> bool" where
  "safe_char c = (let n = (of_char c :: nat)
     in (97 \<le> n \<and> n \<le> 122) \<or> (65 \<le> n \<and> n \<le> 90) \<or> (48 \<le> n \<and> n \<le> 57) \<or> n = 95 \<or> n = 45)"

definition safe_name :: "string \<Rightarrow> string" where
  "safe_name s = map (\<lambda>c. if safe_char c then c else CHR ''_'') s"

definition mirrors ::
    "('r \<Rightarrow> string) \<Rightarrow> (string \<Rightarrow> string) \<Rightarrow> ('r \<Rightarrow> bool) \<Rightarrow> (string, 'r) jsmap \<Rightarrow> (string, 'r) jsmap \<Rightarrow> bool" where
  "mirrors key path keep d recs \<longleftrightarrow> jm_wf d
     \<and> (\<forall>f r. jm_get d f = Some r \<longrightarrow> f = path (key r) \<and> keep r \<and> jm_get recs (key r) = Some r)
     \<and> (\<forall>k r. jm_get recs k = Some r \<longrightarrow> keep r \<longrightarrow> key r = k \<and> jm_has d (path k))"

lemma mirrorsD:
  assumes "mirrors key path keep d recs"
  shows "jm_wf d" and "jm_get d f = Some r \<Longrightarrow> f = path (key r) \<and> keep r \<and> jm_get recs (key r) = Some r"
    and "jm_get recs k = Some r \<Longrightarrow> keep r \<Longrightarrow> key r = k \<and> jm_has d (path k)"
  using assms by (auto simp: mirrors_def)

lemma mirrors_empty [simp]: "mirrors key path keep [] []"
  by (simp add: mirrors_def)

lemma mirrors_put:
  assumes m: "mirrors key path keep d recs" and "keep r"
  shows "mirrors key path keep (jm_set (path (key r)) r d) (jm_set (key r) r recs)"
proof -
  have "q = r" if "jm_get d f = Some q" "f \<noteq> path (key r)" "key q = key r" for f q
    using mirrorsD(2) [OF m that(1)] that(2,3) by simp
  then show ?thesis
    using assms by (auto simp: mirrors_def jm_get_set jm_has_set split: if_splits)
qed

text \<open>Records that are not kept may come and go without the directory noticing.\<close>

lemma mirrors_unkept:
  assumes m: "mirrors key path keep d recs" and "\<And>r. jm_get recs k = Some r \<Longrightarrow> \<not> keep r"
  shows "\<not> keep q \<Longrightarrow> mirrors key path keep d (jm_set k q recs)"
    and "mirrors key path keep d (jm_delete k recs)"
proof -
  have "key r \<noteq> k" if "jm_get d f = Some r" for f r
    using mirrorsD(2) [OF m that] assms(2) by auto
  then show "\<not> keep q \<Longrightarrow> mirrors key path keep d (jm_set k q recs)"
    and "mirrors key path keep d (jm_delete k recs)"
    using m by (auto simp: mirrors_def jm_get_set jm_get_delete split: if_splits)
qed

lemma mirrors_delete:
  assumes m: "mirrors key path keep d recs"
    and inj: "\<And>j r. jm_get recs j = Some r \<Longrightarrow> keep r \<Longrightarrow> path j = path k \<Longrightarrow> j = k"
  shows "mirrors key path keep (jm_delete (path k) d) (jm_delete k recs)"
proof -
  have "key r \<noteq> k" if "jm_get d f = Some r" "f \<noteq> path k" for f r
    using mirrorsD(2) [OF m that(1)] that(2) by auto
  moreover have "jm_has (jm_delete (path k) d) (path j)" if "jm_get recs j = Some r" "keep r" "j \<noteq> k" for j r
    using mirrorsD(3) [OF m that(1,2)] inj [OF that(1,2)] that(3) by (auto simp: jm_has_delete)
  ultimately show ?thesis
    using m by (auto simp: mirrors_def jm_get_delete jm_wf_delete split: if_splits)
qed

locale file_store =
  fixes key :: "'r \<Rightarrow> string" and path :: "string \<Rightarrow> string" and keep :: "'r \<Rightarrow> bool"
    and load :: "(string \<times> 'r) list \<Rightarrow> (string, 'r) jsmap \<Rightarrow> (string, 'r) jsmap"
  assumes load_Nil: "load [] m = m"
    and load_Cons: "load (p # ps) m =
        load ps (if keep (snd p) \<and> \<not> jm_has m (key (snd p)) then jm_set (key (snd p)) (snd p) m else m)"
begin

lemma load_get:
  assumes "\<And>f r. (f, r) \<in> set fs \<Longrightarrow> keep r \<and> g (key r) = Some r"
    and "\<And>k. jm_has m k \<Longrightarrow> jm_get m k = g k"
  shows "jm_get (load fs m) k = (if jm_has m k \<or> (\<exists>f r. (f, r) \<in> set fs \<and> key r = k) then g k else None)"
  using assms
proof (induction fs arbitrary: m)
  case Nil
  then show ?case by (auto simp: load_Nil jm_has_iff_get)
next
  case (Cons p fs)
  obtain f r where p: "p = (f, r)" by (cases p)
  let ?m = "if jm_has m (key r) then m else jm_set (key r) r m"
  have "jm_get ?m j = g j" if "jm_has ?m j" for j
    using that Cons.prems(1) [of f r] Cons.prems(2) [of j] by (auto simp: p jm_get_set jm_has_set split: if_splits)
  then have "jm_get (load fs ?m) k = (if jm_has ?m k \<or> (\<exists>f r. (f, r) \<in> set fs \<and> key r = k) then g k else None)"
    by (intro Cons.IH) (use Cons.prems(1) in auto)
  moreover have "load (p # fs) m = load fs ?m" using Cons.prems(1) [of f r] by (simp add: p load_Cons)
  ultimately show ?case by (auto simp: p jm_has_set split: if_splits)
qed

lemma reload:
  assumes m: "mirrors key path keep d recs" and files: "set files = set d"
    and inj: "inj_on path {k. \<exists>r. jm_get recs k = Some r \<and> keep r}"
  shows "jm_get (load files []) k = (case jm_get recs k of Some r \<Rightarrow> if keep r then Some r else None | None \<Rightarrow> None)"
proof -
  have entry: "f = path (key r) \<and> keep r \<and> jm_get recs (key r) = Some r" if "(f, r) \<in> set files" for f r
    using that mirrorsD(1,2) [OF m] jm_get_in_set [of d f r] by (simp add: files)
  have covered: "\<exists>f q. (f, q) \<in> set files \<and> key q = k" if r: "jm_get recs k = Some r" "keep r" for r
  proof -
    obtain q where q: "(path k, q) \<in> set files"
      using mirrorsD(3) [OF m r] by (auto simp: files jm_has_iff_get dest: map_of_SomeD)
    have "key q = k" by (rule inj_onD [OF inj]) (use entry [OF q] r in auto)
    with q show ?thesis by blast
  qed
  let ?g = "\<lambda>k. case jm_get recs k of Some r \<Rightarrow> if keep r then Some r else None | None \<Rightarrow> None"
  have "jm_get (load files []) k = (if \<exists>f r. (f, r) \<in> set files \<and> key r = k then ?g k else None)"
    by (subst load_get [where g = ?g]) (use entry in \<open>auto simp: jm_has_def\<close>)
  then show ?thesis using covered by (auto split: option.splits)
qed

lemma load_wf: "jm_wf m \<Longrightarrow> jm_wf (load fs m)"
proof (induction fs arbitrary: m)
  case (Cons p fs)
  then show ?case by (simp add: load_Cons)
qed (simp add: load_Nil)

lemma reload_mirrors:
  assumes m: "mirrors key path keep d recs" and files: "mset files = mset d"
    and inj: "inj_on path {k. \<exists>r. jm_get recs k = Some r \<and> keep r}"
  shows "mirrors key path keep files (load files [])"
proof -
  have set: "set files = set d" using files by (rule mset_eq_setD)
  note get = reload [OF m set inj]
  have wf: "jm_wf files"
    using mirrorsD(1) [OF m] files unfolding jm_wf_def by (metis mset_map mset_eq_imp_distinct_iff)
  have "jm_get files f = Some r \<longleftrightarrow> jm_get d f = Some r" for f r
    using jm_get_in_set [OF wf] jm_get_in_set [OF mirrorsD(1) [OF m]] set by simp
  then have same: "jm_get files = jm_get d" by (metis ext option.exhaust)
  show ?thesis
    unfolding mirrors_def same get
  proof (intro conjI allI impI)
    fix f r
    assume "jm_get d f = Some r"
    from mirrorsD(2) [OF m this]
    show "f = path (key r)" and "keep r"
      and "(case jm_get recs (key r) of Some e \<Rightarrow> if keep e then Some e else None | None \<Rightarrow> None) = Some r"
      by simp_all
  next
    fix k r
    assume "(case jm_get recs k of Some e \<Rightarrow> if keep e then Some e else None | None \<Rightarrow> None) = Some r"
    then have "jm_get recs k = Some r" "keep r" by (auto split: option.splits if_splits)
    from mirrorsD(3) [OF m this] show "key r = k" and "jm_has files (path k)"
      by (simp_all add: jm_has_iff_get same)
  qed (rule wf)
qed

end

end
