(* ===== verification/Tx_State_Store.thy ===== *)
theory Tx_State_Store
  imports Transition_Tables File_Store
begin

text \<open>
  \<open>TxStateStore\<close> of \<open>relayer/src/services/tx-state-store.ts\<close>: the relayer's durable record of
  every relay transaction, its transition table, and the reconciliation sweep.

  The records are an insertion-ordered map; the directory of JSON files is a map from file
  name to record, \<open>None\<close> when persistence is disabled. A write to disk is taken to succeed (the
  source logs and ignores a failed one). The chain provider is an argument: for a transaction
  hash it throws (\<open>Inl\<close>), knows no receipt, or returns one. Metrics and logs are not modelled.
\<close>

datatype tx_state =
    Pending_submission | Submission_acked | Chain_mined | Coordinator_recorded
  | Complete | Terminal_failure

definition NON_TERMINAL_STATES :: "tx_state list" where
  "NON_TERMINAL_STATES = [Pending_submission, Submission_acked, Chain_mined, Coordinator_recorded]"

fun ALLOWED_TRANSITIONS :: "tx_state \<Rightarrow> tx_state list" where
  "ALLOWED_TRANSITIONS Pending_submission = [Submission_acked, Terminal_failure]"
| "ALLOWED_TRANSITIONS Submission_acked = [Chain_mined, Terminal_failure]"
| "ALLOWED_TRANSITIONS Chain_mined = [Coordinator_recorded, Terminal_failure]"
| "ALLOWED_TRANSITIONS Coordinator_recorded = [Complete, Terminal_failure]"
| "ALLOWED_TRANSITIONS Complete = []"
| "ALLOWED_TRANSITIONS Terminal_failure = []"

definition isTerminalState :: "tx_state \<Rightarrow> bool" where
  "isTerminalState st = (st = Complete \<or> st = Terminal_failure)"

definition isTransitionAllowed :: "tx_state \<Rightarrow> tx_state \<Rightarrow> bool" where
  "isTransitionAllowed src dst = (dst \<in> set (ALLOWED_TRANSITIONS src))"

record tx_transition =
  tt_from :: tx_state
  tt_to :: tx_state
  tt_at :: int
  tt_note :: string

record tx_record =
  tx_orderId :: string
  correlationId :: string
  route :: string
  state :: tx_state
  tx_txHash :: "string option"
  minedBlock :: "nat option"
  minedAt :: "int option"
  confirmations :: "nat option"
  coordinatorRef :: "string option"
  tx_createdAt :: int
  tx_updatedAt :: int
  transitions :: "tx_transition list"
  failureReason :: "string option"
  recoveryAttempts :: nat

record tx_receipt =
  rc_hash :: string
  rc_blockNumber :: nat
  rc_status :: nat
  rc_confirmations :: "nat option"

type_synonym chain_provider = "string \<Rightarrow> string + tx_receipt option"

record tx_store =
  records :: "(string, tx_record) jsmap"
  disk :: "(string, tx_record) jsmap option"
  pendingTimeoutMs :: int
  maxRecovery :: nat

datatype tx_error = ALREADY_EXISTS | TX_INVALID_TRANSITION | TX_NOT_FOUND | PROVIDER_ERROR string

section \<open>Persistence\<close>

definition filePath :: "string \<Rightarrow> string" where
  "filePath orderId =
     take 120 (safe_name orderId) @ ''.json''"

definition persist :: "tx_record \<Rightarrow> tx_store \<Rightarrow> tx_store" where
  "persist r s = s\<lparr>disk := map_option (jm_set (filePath (tx_orderId r)) r) (disk s)\<rparr>"

text \<open>Files are read in directory order; a record whose order is already loaded is skipped. The
  shape checks hold of every record that was written by \<open>persist\<close>.\<close>

fun load_files :: "(string \<times> tx_record) list \<Rightarrow> (string, tx_record) jsmap \<Rightarrow> (string, tx_record) jsmap" where
  "load_files [] m = m"
| "load_files ((f, r) # fs) m =
     load_files fs (if jm_has m (tx_orderId r) then m else jm_set (tx_orderId r) r m)"

definition new_TxStateStore ::
    "(string, tx_record) jsmap option \<Rightarrow> int option \<Rightarrow> nat option \<Rightarrow> tx_store" where
  "new_TxStateStore dir timeout maxRec =
     \<lparr>records = (case dir of None \<Rightarrow> [] | Some fs \<Rightarrow> load_files fs []), disk = dir,
      pendingTimeoutMs = or_default timeout (30 * 60 * 1000), maxRecovery = or_default maxRec 5\<rparr>"

section \<open>Write API\<close>

definition put_record :: "tx_record \<Rightarrow> tx_store \<Rightarrow> tx_store" where
  "put_record r s = persist r (s\<lparr>records := jm_set (tx_orderId r) r (records s)\<rparr>)"

definition tx_create :: "int \<Rightarrow> string \<Rightarrow> string \<Rightarrow> string \<Rightarrow> tx_store \<Rightarrow> tx_error + (tx_store \<times> tx_record)" where
  "tx_create now oid cid rt s =
     (if jm_has (records s) oid then Inl ALREADY_EXISTS
      else let r = \<lparr>tx_orderId = oid, correlationId = cid, route = rt, state = Pending_submission,
                    tx_txHash = None, minedBlock = None, minedAt = None, confirmations = None,
                    coordinatorRef = None, tx_createdAt = now, tx_updatedAt = now,
                    transitions = [], failureReason = None, recoveryAttempts = 0\<rparr>
           in Inr (put_record r s, r))"

text \<open>\<open>_transition\<close>: the patch is a function on the record; no caller's patch touches the key, the
  state or the trail.\<close>

definition tx_transition_to ::
    "int \<Rightarrow> string \<Rightarrow> tx_state \<Rightarrow> (tx_record \<Rightarrow> tx_record) \<Rightarrow> string \<Rightarrow> tx_store
     \<Rightarrow> tx_error + (tx_store \<times> tx_record)" where
  "tx_transition_to now oid dst patch note s =
     (case jm_get (records s) oid of
        None \<Rightarrow> Inl TX_NOT_FOUND
      | Some r \<Rightarrow>
          if \<not> isTransitionAllowed (state r) dst then Inl TX_INVALID_TRANSITION
          else let r' = patch (r\<lparr>transitions := transitions r @
                       [\<lparr>tt_from = state r, tt_to = dst, tt_at = now, tt_note = note\<rparr>],
                     state := dst, tx_updatedAt := now\<rparr>)
               in Inr (put_record r' s, r'))"

definition ackSubmission :: "int \<Rightarrow> string \<Rightarrow> string \<Rightarrow> tx_store \<Rightarrow> tx_error + (tx_store \<times> tx_record)" where
  "ackSubmission now oid hash s =
     tx_transition_to now oid Submission_acked (\<lambda>r. r\<lparr>tx_txHash := Some hash\<rparr>) ''tx broadcast'' s"

definition recordReceipt ::
    "int \<Rightarrow> string \<Rightarrow> tx_receipt \<Rightarrow> tx_store \<Rightarrow> tx_error + (tx_store \<times> tx_record \<times> bool)" where
  "recordReceipt now oid rc s =
     (case jm_get (records s) oid of
        None \<Rightarrow> Inl TX_NOT_FOUND
      | Some r \<Rightarrow>
          if \<not> isTransitionAllowed (state r) Chain_mined then
            (if tx_txHash r = Some (rc_hash rc) \<and> state r \<noteq> Pending_submission
             then Inr (s, r, False) else Inl TX_INVALID_TRANSITION)
          else
            (case tx_transition_to now oid Chain_mined
                    (\<lambda>r. r\<lparr>tx_txHash := Some (rc_hash rc), minedBlock := Some (rc_blockNumber rc),
                           minedAt := Some now, confirmations := Some (or_default (rc_confirmations rc) 0)\<rparr>)
                    (''mined in block '' @ decimal (rc_blockNumber rc)) s of
               Inl e \<Rightarrow> Inl e
             | Inr (s', r') \<Rightarrow> Inr (s', r', True)))"

definition recordCoordinatorAck ::
    "int \<Rightarrow> string \<Rightarrow> string \<Rightarrow> tx_store \<Rightarrow> tx_error + (tx_store \<times> tx_record)" where
  "recordCoordinatorAck now oid ref s =
     tx_transition_to now oid Coordinator_recorded (\<lambda>r. r\<lparr>coordinatorRef := Some ref\<rparr>)
       (''coordinator ref: '' @ ref) s"

definition markComplete :: "int \<Rightarrow> string \<Rightarrow> tx_store \<Rightarrow> tx_error + (tx_store \<times> tx_record)" where
  "markComplete now oid s = tx_transition_to now oid Complete (\<lambda>r. r) ''relay complete'' s"

definition markFailed :: "int \<Rightarrow> string \<Rightarrow> string \<Rightarrow> tx_store \<Rightarrow> tx_error + (tx_store \<times> tx_record)" where
  "markFailed now oid why s =
     tx_transition_to now oid Terminal_failure (\<lambda>r. r\<lparr>failureReason := Some why\<rparr>) why s"

section \<open>Read API\<close>

definition tx_get :: "string \<Rightarrow> tx_store \<Rightarrow> tx_record option" where
  "tx_get oid s = jm_get (records s) oid"

definition byState :: "tx_state \<Rightarrow> tx_store \<Rightarrow> tx_record list" where
  "byState st s = filter (\<lambda>r. state r = st) (map snd (records s))"

definition stateCounts :: "tx_store \<Rightarrow> tx_state \<Rightarrow> nat" where
  "stateCounts s st = length (filter (\<lambda>r. state r = st) (map snd (records s)))"

definition tx_size :: "tx_store \<Rightarrow> nat" where
  "tx_size s = length (records s)"

definition tx_snapshot :: "tx_store \<Rightarrow> tx_record list" where
  "tx_snapshot s = map snd (records s)"

section \<open>Reconciliation\<close>

datatype reconcile_result = Advanced | FailedRecord | Skipped

definition as_failed :: "tx_store \<Rightarrow> tx_error + (tx_store \<times> tx_record) \<Rightarrow> tx_store \<times> (tx_error + reconcile_result)" where
  "as_failed s res = (case res of Inl e \<Rightarrow> (s, Inl e) | Inr (s', _) \<Rightarrow> (s', Inr FailedRecord))"

text \<open>The \<open>switch\<close> of \<open>_reconcileRecord\<close>, run after the attempt counter is written; the result comes
  with the store, since the counter stays when the provider throws.\<close>

definition reconcile_switch ::
    "int \<Rightarrow> chain_provider option \<Rightarrow> tx_record \<Rightarrow> tx_store \<Rightarrow> tx_store \<times> (tx_error + reconcile_result)" where
  "reconcile_switch now provider r s =
     (case state r of
        Pending_submission \<Rightarrow>
          (let age = now - tx_createdAt r
           in if age > pendingTimeoutMs s then
                as_failed s (markFailed now (tx_orderId r) (''pending_submission timeout after ''
                  @ number_string ((age + 500) div 1000) @ ''s'') s)
              else (s, Inr Skipped))
      | Submission_acked \<Rightarrow>
          (case (tx_txHash r, provider) of
             (Some hash, Some p) \<Rightarrow>
               if hash = '''' then (s, Inr Skipped) else
               (case p hash of
                  Inl e \<Rightarrow> (s, Inl (PROVIDER_ERROR e))
                | Inr None \<Rightarrow> (s, Inr Skipped)
                | Inr (Some rc) \<Rightarrow>
                    if rc_status rc = 0 then
                      as_failed s (markFailed now (tx_orderId r) (''tx reverted on-chain: '' @ hash) s)
                    else (case recordReceipt now (tx_orderId r) rc s of
                            Inl e \<Rightarrow> (s, Inl e)
                          | Inr (s', _, _) \<Rightarrow> (s', Inr Advanced)))
           | _ \<Rightarrow> (s, Inr Skipped))
      | Chain_mined \<Rightarrow> (s, Inr Skipped)
      | Coordinator_recorded \<Rightarrow>
          (case markComplete now (tx_orderId r) s of
             Inl e \<Rightarrow> (s, Inl e)
           | Inr (s', _) \<Rightarrow> (s', Inr Advanced))
      | _ \<Rightarrow> (s, Inr Skipped))"

definition reconcileRecord ::
    "int \<Rightarrow> chain_provider option \<Rightarrow> string \<Rightarrow> tx_store \<Rightarrow> tx_store \<times> (tx_error + reconcile_result)" where
  "reconcileRecord now provider oid s =
     (case jm_get (records s) oid of
        None \<Rightarrow> (s, Inr Skipped)
      | Some r \<Rightarrow>
          if recoveryAttempts r \<ge> maxRecovery s then
            as_failed s (markFailed now oid
              (''max recovery attempts ('' @ decimal (maxRecovery s) @ '') exceeded'') s)
          else
            let r' = r\<lparr>recoveryAttempts := recoveryAttempts r + 1\<rparr>
            in reconcile_switch now provider r' (put_record r' s))"

record reconcile_summary =
  scanned :: nat
  advanced :: nat
  failed :: nat
  skipped :: nat

fun reconcile_loop ::
    "int \<Rightarrow> chain_provider option \<Rightarrow> string list \<Rightarrow> reconcile_summary \<Rightarrow> tx_store
     \<Rightarrow> tx_store \<times> reconcile_summary" where
  "reconcile_loop now provider [] sm s = (s, sm)"
| "reconcile_loop now provider (oid # oids) sm s =
     (case reconcileRecord now provider oid s of
        (s', Inr Advanced) \<Rightarrow> reconcile_loop now provider oids (sm\<lparr>advanced := advanced sm + 1\<rparr>) s'
      | (s', Inr FailedRecord) \<Rightarrow> reconcile_loop now provider oids (sm\<lparr>failed := failed sm + 1\<rparr>) s'
      | (s', _) \<Rightarrow> reconcile_loop now provider oids (sm\<lparr>skipped := skipped sm + 1\<rparr>) s')"

definition nonTerminal_ids :: "tx_store \<Rightarrow> string list" where
  "nonTerminal_ids s =
     map fst (filter (\<lambda>(_, r). state r \<in> set NON_TERMINAL_STATES) (records s))"

definition reconcile :: "int \<Rightarrow> chain_provider option \<Rightarrow> tx_store \<Rightarrow> tx_store \<times> reconcile_summary" where
  "reconcile now provider s =
     (let ids = nonTerminal_ids s
      in reconcile_loop now provider ids
           \<lparr>scanned = length ids, advanced = 0, failed = 0, skipped = 0\<rparr> s)"

interpretation tx_files: file_store tx_orderId filePath "\<lambda>_. True" load_files
  by unfold_locales auto

section \<open>The transition table\<close>

fun tx_rank :: "tx_state \<Rightarrow> nat" where
  "tx_rank Pending_submission = 0"
| "tx_rank Submission_acked = 1"
| "tx_rank Chain_mined = 2"
| "tx_rank Coordinator_recorded = 3"
| "tx_rank _ = 4"

interpretation tx_table: ranked_table ALLOWED_TRANSITIONS tx_rank 4
proof
  show "t \<in> set (ALLOWED_TRANSITIONS s) \<Longrightarrow> tx_rank s < tx_rank t" for s t by (cases s) auto
  show "tx_rank s \<le> 4" for s by (cases s) auto
qed

lemma isTerminalState_iff: "isTerminalState st \<longleftrightarrow> st \<notin> set NON_TERMINAL_STATES"
  by (cases st) (simp_all add: isTerminalState_def NON_TERMINAL_STATES_def)

lemma terminal_stuck: "isTerminalState st \<Longrightarrow> \<not> isTransitionAllowed st dst"
  by (cases st) (simp_all add: isTerminalState_def isTransitionAllowed_def)

lemma fail_allowed: "\<not> isTerminalState st \<Longrightarrow> isTransitionAllowed st Terminal_failure"
  by (cases st) (simp_all add: isTerminalState_def isTransitionAllowed_def)

section \<open>The invariant\<close>

text \<open>Replaying a record's trail from \<open>pending_submission\<close>.\<close>

fun tx_replay :: "tx_state \<Rightarrow> tx_transition list \<Rightarrow> tx_state option" where
  "tx_replay st [] = Some st"
| "tx_replay st (t # ts) =
     (if tt_from t = st \<and> isTransitionAllowed st (tt_to t) then tx_replay (tt_to t) ts else None)"

lemma tx_replay_append:
  "tx_replay st (ts @ us) = Option.bind (tx_replay st ts) (\<lambda>st'. tx_replay st' us)"
  by (induction ts arbitrary: st) auto

lemma tx_replay_path: "tx_replay st ts = Some st' \<Longrightarrow> table_path ALLOWED_TRANSITIONS st (map tt_to ts)"
  by (induction ts arbitrary: st) (auto simp: isTransitionAllowed_def split: if_splits)

definition rec_ok :: "string \<Rightarrow> tx_record \<Rightarrow> bool" where
  "rec_ok k r \<longleftrightarrow> tx_orderId r = k \<and> tx_replay Pending_submission (transitions r) = Some (state r)
     \<and> (state r \<in> {Submission_acked, Chain_mined, Coordinator_recorded, Complete} \<longrightarrow> tx_txHash r \<noteq> None)
     \<and> (state r \<in> {Chain_mined, Coordinator_recorded, Complete} \<longrightarrow> minedBlock r \<noteq> None)
     \<and> (state r \<in> {Coordinator_recorded, Complete} \<longrightarrow> coordinatorRef r \<noteq> None)
     \<and> (state r = Terminal_failure \<longrightarrow> failureReason r \<noteq> None)"

definition store_ok :: "tx_store \<Rightarrow> bool" where
  "store_ok s \<longleftrightarrow> jm_wf (records s) \<and> (\<forall>k r. jm_get (records s) k = Some r \<longrightarrow> rec_ok k r)
     \<and> (case disk s of None \<Rightarrow> True | Some d \<Rightarrow> mirrors tx_orderId filePath (\<lambda>_. True) d (records s))"

lemma records_put_record [simp]: "records (put_record r s) = jm_set (tx_orderId r) r (records s)"
  by (simp add: put_record_def persist_def)

lemma put_record_params [simp]:
  "pendingTimeoutMs (put_record r s) = pendingTimeoutMs s" "maxRecovery (put_record r s) = maxRecovery s"
  "disk (put_record r s) = map_option (jm_set (filePath (tx_orderId r)) r) (disk s)"
  by (simp_all add: put_record_def persist_def)

lemma store_ok_put:
  assumes "store_ok s" and "rec_ok (tx_orderId r) r"
  shows "store_ok (put_record r s)"
  using assms mirrors_put [where keep = "\<lambda>_. True"] by (auto simp: store_ok_def jm_get_set split: if_splits option.splits)

text \<open>What a successful transition does; its patch keeps the key, the state, the trail and the
  attempt counter.\<close>

definition tx_patch :: "(tx_record \<Rightarrow> tx_record) \<Rightarrow> bool" where
  "tx_patch f \<longleftrightarrow> (\<forall>r. tx_orderId (f r) = tx_orderId r \<and> state (f r) = state r
     \<and> transitions (f r) = transitions r \<and> recoveryAttempts (f r) = recoveryAttempts r
     \<and> tx_createdAt (f r) = tx_createdAt r)"

lemma transition_cases:
  assumes "tx_transition_to now oid dst patch note s = Inr (s', r')"
  obtains r where "jm_get (records s) oid = Some r" and "isTransitionAllowed (state r) dst"
    and "r' = patch (r\<lparr>transitions := transitions r @
           [\<lparr>tt_from = state r, tt_to = dst, tt_at = now, tt_note = note\<rparr>],
         state := dst, tx_updatedAt := now\<rparr>)"
    and "s' = put_record r' s"
  using assms by (auto simp: tx_transition_to_def Let_def split: option.splits if_splits)

lemma transition_trail:
  assumes "rec_ok k r" and "isTransitionAllowed (state r) dst"
  shows "tx_replay Pending_submission (transitions r @
           [\<lparr>tt_from = state r, tt_to = dst, tt_at = now, tt_note = note\<rparr>]) = Some dst"
  using assms by (simp add: rec_ok_def tx_replay_append)

lemma allowed_from:
  "isTransitionAllowed st Submission_acked \<longleftrightarrow> st = Pending_submission"
  "isTransitionAllowed st Chain_mined \<longleftrightarrow> st = Submission_acked"
  "isTransitionAllowed st Coordinator_recorded \<longleftrightarrow> st = Chain_mined"
  "isTransitionAllowed st Complete \<longleftrightarrow> st = Coordinator_recorded"
  "\<not> isTransitionAllowed st Pending_submission"
  by (cases st; simp add: isTransitionAllowed_def)+

lemma create_ok:
  assumes "store_ok s" and "tx_create now oid cid rt s = Inr (s', r)"
  shows "store_ok s'"
  using assms
  by (auto simp: tx_create_def Let_def rec_ok_def split: if_splits intro!: store_ok_put)

lemma transition_ok:
  assumes "store_ok s" and "tx_transition_to now oid dst patch note s = Inr (s', r')"
    and "\<And>r. rec_ok oid r \<Longrightarrow> isTransitionAllowed (state r) dst \<Longrightarrow>
           rec_ok oid (patch (r\<lparr>transitions := transitions r @
             [\<lparr>tt_from = state r, tt_to = dst, tt_at = now, tt_note = note\<rparr>],
           state := dst, tx_updatedAt := now\<rparr>))"
  shows "store_ok s' \<and> rec_ok oid r' \<and> jm_get (records s') oid = Some r'"
proof -
  from assms(2) obtain r where r: "jm_get (records s) oid = Some r" "isTransitionAllowed (state r) dst"
    and r': "r' = patch (r\<lparr>transitions := transitions r @
           [\<lparr>tt_from = state r, tt_to = dst, tt_at = now, tt_note = note\<rparr>],
         state := dst, tx_updatedAt := now\<rparr>)"
    and s': "s' = put_record r' s"
    by (rule transition_cases)
  have "rec_ok oid r" using assms(1) r(1) by (simp add: store_ok_def)
  then have ok: "rec_ok oid r'" unfolding r' using assms(3) r(2) by blast
  then have key: "tx_orderId r' = oid" by (simp add: rec_ok_def)
  show ?thesis using ok key store_ok_put [OF assms(1)] by (simp add: s' jm_get_set)
qed

lemma markFailed_ok:
  assumes "store_ok s" and "markFailed now oid why s = Inr (s', r')"
  shows "store_ok s' \<and> rec_ok oid r' \<and> jm_get (records s') oid = Some r'"
  using assms(2) unfolding markFailed_def
  by (rule transition_ok [OF assms(1)]) (use transition_trail in \<open>auto simp: rec_ok_def\<close>)

lemma ackSubmission_ok:
  assumes "store_ok s" and "ackSubmission now oid hash s = Inr (s', r')"
  shows "store_ok s' \<and> rec_ok oid r' \<and> jm_get (records s') oid = Some r'"
  using assms(2) unfolding ackSubmission_def
  by (rule transition_ok [OF assms(1)]) (use transition_trail in \<open>auto simp: rec_ok_def\<close>)

lemma coordinatorAck_ok:
  assumes "store_ok s" and "recordCoordinatorAck now oid ref s = Inr (s', r')"
  shows "store_ok s' \<and> rec_ok oid r' \<and> jm_get (records s') oid = Some r'"
  using assms(2) unfolding recordCoordinatorAck_def
  by (rule transition_ok [OF assms(1)])
     (auto simp: rec_ok_def allowed_from tx_replay_append)

lemma markComplete_ok:
  assumes "store_ok s" and "markComplete now oid s = Inr (s', r')"
  shows "store_ok s' \<and> rec_ok oid r' \<and> jm_get (records s') oid = Some r'"
  using assms(2) unfolding markComplete_def
  by (rule transition_ok [OF assms(1)])
     (auto simp: rec_ok_def allowed_from tx_replay_append)

lemma recordReceipt_ok:
  assumes "store_ok s" and "recordReceipt now oid rc s = Inr (s', r', acc)"
  shows "store_ok s' \<and> rec_ok oid r' \<and> jm_get (records s') oid = Some r'"
proof -
  obtain r where r: "jm_get (records s) oid = Some r"
    using assms(2) by (auto simp: recordReceipt_def split: option.splits)
  show ?thesis
  proof (cases "isTransitionAllowed (state r) Chain_mined")
    case False
    with assms r show ?thesis by (auto simp: recordReceipt_def store_ok_def split: if_splits)
  next
    case True
    with assms(2) r have t: "tx_transition_to now oid Chain_mined
        (\<lambda>r. r\<lparr>tx_txHash := Some (rc_hash rc), minedBlock := Some (rc_blockNumber rc),
               minedAt := Some now, confirmations := Some (or_default (rc_confirmations rc) 0)\<rparr>)
        (''mined in block '' @ decimal (rc_blockNumber rc)) s = Inr (s', r')"
      by (auto simp: recordReceipt_def split: sum.splits)
    show ?thesis
      by (rule transition_ok [OF assms(1) t]) (use transition_trail in \<open>auto simp: rec_ok_def\<close>)
  qed
qed

section \<open>One sweep\<close>

text \<open>What a sweep does to one record: a record in a terminal state stays; any other record is
  failed once its attempts are used up, and otherwise has one attempt more and has moved at most
  one step along the table.\<close>

definition sweep_effect :: "nat \<Rightarrow> tx_record \<Rightarrow> tx_record \<Rightarrow> bool" where
  "sweep_effect maxRec r r' \<longleftrightarrow>
     (if recoveryAttempts r \<ge> maxRec then state r' = Terminal_failure
      else recoveryAttempts r' = recoveryAttempts r + 1
           \<and> (state r' = state r \<or> state r \<noteq> Chain_mined \<and> isTransitionAllowed (state r) (state r')))"

lemma transition_to_works:
  assumes "jm_get (records s) oid = Some r" and "isTransitionAllowed (state r) dst"
  shows "\<exists>r'. tx_transition_to now oid dst patch note s = Inr (put_record r' s, r')
    \<and> r' = patch (r\<lparr>transitions := transitions r @
           [\<lparr>tt_from = state r, tt_to = dst, tt_at = now, tt_note = note\<rparr>],
         state := dst, tx_updatedAt := now\<rparr>)"
  using assms by (simp add: tx_transition_to_def Let_def)

lemma markFailed_works:
  assumes "jm_get (records s) oid = Some r" and "\<not> isTerminalState (state r)" and "tx_orderId r = oid"
  shows "\<exists>r'. markFailed now oid why s = Inr (put_record r' s, r') \<and> tx_orderId r' = oid
    \<and> state r' = Terminal_failure \<and> recoveryAttempts r' = recoveryAttempts r"
  using transition_to_works [OF assms(1) fail_allowed [OF assms(2)], of now
      "\<lambda>r. r\<lparr>failureReason := Some why\<rparr>" why] assms(3)
  by (auto simp: markFailed_def)

lemma markComplete_works:
  assumes "jm_get (records s) oid = Some r" and "state r = Coordinator_recorded" and "tx_orderId r = oid"
  shows "\<exists>r'. markComplete now oid s = Inr (put_record r' s, r') \<and> tx_orderId r' = oid
    \<and> state r' = Complete \<and> recoveryAttempts r' = recoveryAttempts r"
  using transition_to_works [OF assms(1), of Complete now "\<lambda>r. r" "''relay complete''"] assms(2,3)
  by (auto simp: markComplete_def allowed_from)

lemma recordReceipt_works:
  assumes "jm_get (records s) oid = Some r" and "state r = Submission_acked" and "tx_orderId r = oid"
  shows "\<exists>r'. recordReceipt now oid rc s = Inr (put_record r' s, r', True) \<and> tx_orderId r' = oid
    \<and> state r' = Chain_mined \<and> recoveryAttempts r' = recoveryAttempts r"
  using assms by (auto simp: recordReceipt_def tx_transition_to_def allowed_from Let_def)

definition sweeps_to :: "string \<Rightarrow> tx_record \<Rightarrow> tx_store \<Rightarrow> tx_store \<Rightarrow> bool" where
  "sweeps_to oid r s s' \<longleftrightarrow> maxRecovery s' = maxRecovery s \<and> pendingTimeoutMs s' = pendingTimeoutMs s
     \<and> (\<exists>r'. records s' = jm_set oid r' (records s) \<and> sweep_effect (maxRecovery s) r r')
     \<or> (maxRecovery s' = maxRecovery s \<and> pendingTimeoutMs s' = pendingTimeoutMs s
       \<and> (\<exists>r1 r'. records s' = jm_set oid r' (jm_set oid r1 (records s)) \<and> sweep_effect (maxRecovery s) r r'))"

lemma sweeps_to_once:
  assumes "tx_orderId r' = oid" and "sweep_effect (maxRecovery s) r r'"
  shows "sweeps_to oid r s (put_record r' s)"
  using assms by (auto simp: sweeps_to_def)

lemma sweeps_to_twice:
  assumes "tx_orderId r1 = oid" and "tx_orderId r' = oid" and "sweep_effect (maxRecovery s) r r'"
  shows "sweeps_to oid r s (put_record r' (put_record r1 s))"
  using assms by (auto simp: sweeps_to_def)

lemma reconcileRecord_effect:
  assumes "jm_get (records s) oid = Some r" and "\<not> isTerminalState (state r)" and "tx_orderId r = oid"
  shows "sweeps_to oid r s (fst (reconcileRecord now provider oid s))"
proof (cases "recoveryAttempts r \<ge> maxRecovery s")
  case True
  let ?why = "''max recovery attempts ('' @ decimal (maxRecovery s) @ '') exceeded''"
  obtain r' where r': "markFailed now oid ?why s = Inr (put_record r' s, r')" "tx_orderId r' = oid"
    "state r' = Terminal_failure"
    using markFailed_works [OF assms, of now ?why] by blast
  have "fst (reconcileRecord now provider oid s) = put_record r' s"
    using assms(1) True r'(1) by (simp add: reconcileRecord_def as_failed_def)
  then show ?thesis using r' True by (simp add: sweeps_to_once sweep_effect_def)
next
  case False
  let ?r1 = "r\<lparr>recoveryAttempts := recoveryAttempts r + 1\<rparr>"
  let ?s1 = "put_record ?r1 s"
  have r1: "jm_get (records ?s1) oid = Some ?r1" "\<not> isTerminalState (state ?r1)" "tx_orderId ?r1 = oid"
    using assms by (simp_all add: jm_get_set)
  have skip: "sweeps_to oid r s ?s1"
    using False assms(3) by (intro sweeps_to_once) (simp_all add: sweep_effect_def)
  have move: "sweeps_to oid r s (put_record r' ?s1)"
    if "tx_orderId r' = oid" "recoveryAttempts r' = recoveryAttempts ?r1"
      "isTransitionAllowed (state r) (state r')" "state r \<noteq> Chain_mined" for r'
    using False assms(3) that by (intro sweeps_to_twice) (simp_all add: sweep_effect_def)
  have failed: "sweeps_to oid r s (fst (as_failed ?s1 (markFailed now oid why ?s1)))"
    if "state r \<noteq> Chain_mined" for why
    using that markFailed_works [OF r1, of now why] fail_allowed [OF assms(2)] move
    by (auto simp: as_failed_def)
  have live: "reconcileRecord now provider oid s = reconcile_switch now provider ?r1 ?s1"
    using assms(1) False by (simp add: reconcileRecord_def Let_def)
  show ?thesis
  proof (cases "state r")
    case Submission_acked
    have mined: "sweeps_to oid r s (fst (case recordReceipt now oid rc ?s1 of
        Inl e \<Rightarrow> (?s1, Inl e) | Inr (s2, _, _) \<Rightarrow> (s2, Inr Advanced)))" for rc
      using recordReceipt_works [OF r1(1) _ r1(3), of now rc] Submission_acked move
      by (auto simp: allowed_from)
    show ?thesis
      unfolding live reconcile_switch_def using Submission_acked skip failed mined assms(3)
      by (auto split: option.split sum.split)
  next
    case Coordinator_recorded
    then show ?thesis
      unfolding live reconcile_switch_def
      using markComplete_works [OF r1(1) _ r1(3), of now] move assms(3)
      by (auto simp: allowed_from)
  qed (unfold live reconcile_switch_def, use skip failed assms(3) in \<open>simp_all add: Let_def\<close>)
qed


section \<open>The whole sweep\<close>

lemma reconcile_loop_fold:
  "fst (reconcile_loop now provider ids sm s) = fold (\<lambda>oid s. fst (reconcileRecord now provider oid s)) ids s"
  by (induction now provider ids sm s rule: reconcile_loop.induct)
     (auto split: prod.split sum.split reconcile_result.split)

lemma reconcileRecord_other:
  assumes "store_ok s" and "k \<noteq> oid"
  shows "jm_get (records (fst (reconcileRecord now provider oid s))) k = jm_get (records s) k"
proof (cases "jm_get (records s) oid")
  case (Some r)
  have key: "tx_orderId r = oid" using assms(1) Some by (simp add: store_ok_def rec_ok_def)
  show ?thesis
  proof (cases "isTerminalState (state r)")
    case False
    show ?thesis
      using reconcileRecord_effect [OF Some False key, of now provider] assms(2)
      by (auto simp: sweeps_to_def jm_get_set)
  next
    case True
    have no: "markFailed now oid why s' = Inl TX_INVALID_TRANSITION"
      if "jm_get (records s') oid = Some r'" "state r' = state r" for why s' r'
      using that terminal_stuck [OF True] by (simp add: markFailed_def tx_transition_to_def)
    show ?thesis
      using True Some key assms(2) no [OF Some]
      by (auto simp: reconcileRecord_def reconcile_switch_def as_failed_def Let_def jm_get_set
          isTerminalState_def)
  qed
qed (simp add: reconcileRecord_def)


lemma as_failed_ok:
  assumes "store_ok s" shows "store_ok (fst (as_failed s (markFailed now oid why s)))"
  using markFailed_ok [OF assms, of now oid why] assms
  by (auto simp: as_failed_def split: sum.split)

lemma reconcile_switch_ok:
  assumes "store_ok s"
  shows "store_ok (fst (reconcile_switch now provider r s))"
  using assms as_failed_ok [OF assms] markComplete_ok [OF assms] recordReceipt_ok [OF assms]
  by (cases "state r") (auto simp: reconcile_switch_def Let_def split: option.split sum.split)

lemma reconcileRecord_ok:
  assumes "store_ok s"
  shows "store_ok (fst (reconcileRecord now provider oid s))"
proof (cases "jm_get (records s) oid")
  case (Some r)
  have "rec_ok oid r" using assms Some by (simp add: store_ok_def)
  then have "store_ok (put_record (r\<lparr>recoveryAttempts := recoveryAttempts r + 1\<rparr>) s)"
    by (intro store_ok_put [OF assms]) (simp add: rec_ok_def)
  then show ?thesis
    using Some as_failed_ok [OF assms] reconcile_switch_ok by (simp add: reconcileRecord_def Let_def)
qed (simp add: reconcileRecord_def assms)

lemma fold_reconcile_ok:
  "store_ok s \<Longrightarrow> store_ok (fold (\<lambda>oid s. fst (reconcileRecord now provider oid s)) ids s)"
  by (induction ids arbitrary: s) (simp_all add: reconcileRecord_ok)

lemma reconcile_ok: "store_ok s \<Longrightarrow> store_ok (fst (reconcile now provider s))"
  by (simp add: reconcile_def Let_def reconcile_loop_fold fold_reconcile_ok)

lemma transition_params:
  assumes "tx_transition_to now oid dst patch note s = Inr (s', r)"
  shows "maxRecovery s' = maxRecovery s"
  using assms by (rule transition_cases) simp

lemma recordReceipt_params:
  "recordReceipt now oid rc s = Inr (s', r, acc) \<Longrightarrow> maxRecovery s' = maxRecovery s"
  by (auto simp: recordReceipt_def transition_params split: option.splits if_splits sum.splits)

lemma as_failed_params: "maxRecovery (fst (as_failed s (markFailed now oid why s))) = maxRecovery s"
  by (auto simp: as_failed_def markFailed_def transition_params split: sum.split)

lemma reconcile_switch_params: "maxRecovery (fst (reconcile_switch now provider r s)) = maxRecovery s"
  by (cases "state r")
     (auto simp: reconcile_switch_def markComplete_def Let_def as_failed_params
        transition_params recordReceipt_params split: option.split sum.split)

lemma reconcileRecord_params:
  "maxRecovery (fst (reconcileRecord now provider oid s)) = maxRecovery s"
  by (auto simp: reconcileRecord_def Let_def as_failed_params reconcile_switch_params split: option.split)

text \<open>What a sweep makes of the record of one order.\<close>

definition swept :: "nat \<Rightarrow> tx_record \<Rightarrow> tx_record \<Rightarrow> bool" where
  "swept maxRec r r' \<longleftrightarrow> (if isTerminalState (state r) then r' = r else sweep_effect maxRec r r')"

lemma fold_reconcile_skips:
  "store_ok s \<Longrightarrow> k \<notin> set ids \<Longrightarrow>
   jm_get (records (fold (\<lambda>oid s. fst (reconcileRecord now provider oid s)) ids s)) k = jm_get (records s) k"
  by (induction ids arbitrary: s) (auto simp: reconcileRecord_other reconcileRecord_ok)

lemma fold_reconcile_hits:
  assumes "store_ok s" and "distinct ids" and "k \<in> set ids"
    and "jm_get (records s) k = Some r" and "\<not> isTerminalState (state r)"
  shows "\<exists>r'. jm_get (records (fold (\<lambda>oid s. fst (reconcileRecord now provider oid s)) ids s)) k = Some r'
    \<and> sweep_effect (maxRecovery s) r r'"
  using assms
proof (induction ids arbitrary: s)
  case Nil
  then show ?case by simp
next
  case (Cons oid ids)
  let ?s1 = "fst (reconcileRecord now provider oid s)"
  have ok1: "store_ok ?s1" by (rule reconcileRecord_ok [OF Cons.prems(1)])
  show ?case
  proof (cases "k = oid")
    case True
    have "tx_orderId r = oid" using Cons.prems True by (simp add: store_ok_def rec_ok_def)
    then have "\<exists>r'. jm_get (records ?s1) k = Some r' \<and> sweep_effect (maxRecovery s) r r'"
      using reconcileRecord_effect [of s oid r now provider] Cons.prems True
      by (auto simp: sweeps_to_def jm_get_set)
    then show ?thesis using fold_reconcile_skips [OF ok1, of k ids] Cons.prems True by auto
  next
    case False
    then show ?thesis
      using Cons.IH [OF ok1] Cons.prems reconcileRecord_other [OF Cons.prems(1) False]
      by (simp add: reconcileRecord_params)
  qed
qed

lemma nonTerminal_ids:
  assumes "store_ok s"
  shows "distinct (nonTerminal_ids s)"
    and "jm_get (records s) k = Some r \<Longrightarrow> k \<in> set (nonTerminal_ids s) \<longleftrightarrow> \<not> isTerminalState (state r)"
proof -
  have wf: "jm_wf (records s)" using assms by (simp add: store_ok_def)
  then have "jm_wf (filter (\<lambda>(_, r). state r \<in> set NON_TERMINAL_STATES) (records s))" by simp
  then show "distinct (nonTerminal_ids s)" by (simp add: nonTerminal_ids_def jm_wf_def)
  show "k \<in> set (nonTerminal_ids s) \<longleftrightarrow> \<not> isTerminalState (state r)" if "jm_get (records s) k = Some r"
  proof -
    have "b = r" if "(k, b) \<in> set (records s)" for b
      using that \<open>jm_get (records s) k = Some r\<close> jm_get_in_set [OF wf, of k b] by simp
    moreover have "(k, r) \<in> set (records s)" using that jm_get_in_set [OF wf, of k r] by simp
    moreover have "k \<in> set (nonTerminal_ids s) \<longleftrightarrow>
        (\<exists>b. (k, b) \<in> set (records s) \<and> state b \<in> set NON_TERMINAL_STATES)"
      by (auto simp: nonTerminal_ids_def image_iff)
    ultimately show ?thesis unfolding isTerminalState_iff by blast
  qed
qed

lemma reconcile_swept:
  assumes "store_ok s" and "jm_get (records s) k = Some r"
  shows "\<exists>r'. jm_get (records (fst (reconcile now provider s))) k = Some r' \<and> swept (maxRecovery s) r r'"
  using fold_reconcile_hits [OF assms(1) nonTerminal_ids(1) [OF assms(1)] _ assms(2)]
    fold_reconcile_skips [OF assms(1), of k "nonTerminal_ids s"]
    nonTerminal_ids(2) [OF assms] assms(2)
  by (cases "isTerminalState (state r)")
     (simp_all add: reconcile_def Let_def reconcile_loop_fold swept_def)

lemma reconcile_params [simp]: "maxRecovery (fst (reconcile now provider s)) = maxRecovery s"
proof -
  have "maxRecovery (fold (\<lambda>oid s. fst (reconcileRecord now provider oid s)) ids s) = maxRecovery s" for ids
    by (induction ids arbitrary: s) (simp_all add: reconcileRecord_params)
  then show ?thesis by (simp add: reconcile_def Let_def reconcile_loop_fold)
qed

end
