(* ===== verification/Tx_Store_Properties.thy ===== *)
theory Tx_Store_Properties
  imports Tx_State_Store
begin

text \<open>
  Runs of the relayer's transaction store (\<open>relayer/src/services/tx-state-store.ts\<close>) and what they
  guarantee: the audit trail of every record, exactly-once acceptance of a receipt, the end of
  every record under repeated sweeps, and recovery from disk.

  A sweep awaits the provider between records, so other calls may run in between; a run is a
  sequence of steps in which a sweep appears either whole or record by record.
\<close>

inductive tx_step :: "tx_store \<Rightarrow> tx_store \<Rightarrow> bool" where
  create: "tx_create now oid cid rt s = Inr (s', r) \<Longrightarrow> tx_step s s'"
| ack: "ackSubmission now oid hash s = Inr (s', r) \<Longrightarrow> tx_step s s'"
| receipt: "recordReceipt now oid rc s = Inr (s', r, acc) \<Longrightarrow> tx_step s s'"
| coordinator: "recordCoordinatorAck now oid ref s = Inr (s', r) \<Longrightarrow> tx_step s s'"
| complete: "markComplete now oid s = Inr (s', r) \<Longrightarrow> tx_step s s'"
| fail: "markFailed now oid why s = Inr (s', r) \<Longrightarrow> tx_step s s'"
| sweep_record: "reconcileRecord now provider oid s = (s', res) \<Longrightarrow> tx_step s s'"
| sweep: "reconcile now provider s = (s', sm) \<Longrightarrow> tx_step s s'"

inductive tx_run :: "tx_store \<Rightarrow> tx_store \<Rightarrow> bool" where
  none: "tx_run s s"
| more: "tx_run s s' \<Longrightarrow> tx_step s' s'' \<Longrightarrow> tx_run s s''"

text \<open>A store started on an empty directory (or with persistence disabled).\<close>

definition fresh_store :: "bool \<Rightarrow> int option \<Rightarrow> nat option \<Rightarrow> tx_store" where
  "fresh_store persistent timeout maxRec =
     new_TxStateStore (if persistent then Some [] else None) timeout maxRec"

lemma fresh_ok: "store_ok (fresh_store b t m)"
  by (simp add: fresh_store_def new_TxStateStore_def store_ok_def)

lemma tx_step_ok: "tx_step s s' \<Longrightarrow> store_ok s \<Longrightarrow> store_ok s'"
proof (induction rule: tx_step.induct)
  case (sweep_record now provider oid s s' res)
  then show ?case using reconcileRecord_ok [of s now provider oid] by simp
next
  case (sweep now provider s s' sm)
  then show ?case using reconcile_ok [of s now provider] by simp
qed (auto dest: create_ok ackSubmission_ok recordReceipt_ok coordinatorAck_ok markComplete_ok markFailed_ok)

lemma tx_run_ok: "tx_run s s' \<Longrightarrow> store_ok s \<Longrightarrow> store_ok s'"
  by (induction rule: tx_run.induct) (auto intro: tx_step_ok)

section \<open>Records only move forward\<close>

definition moves_on :: "tx_record \<Rightarrow> tx_record \<Rightarrow> bool" where
  "moves_on r r' \<longleftrightarrow> tx_rank (state r) \<le> tx_rank (state r') \<and> (isTerminalState (state r) \<longrightarrow> state r' = state r)"

lemma moves_on_refl [simp]: "moves_on r r"
  by (simp add: moves_on_def)

lemma moves_on_trans: "moves_on r r' \<Longrightarrow> moves_on r' r'' \<Longrightarrow> moves_on r r''"
  by (auto simp: moves_on_def)

lemma allowed_moves_on: "isTransitionAllowed (state r) (state r') \<Longrightarrow> moves_on r r'"
  using tx_table.rank_up [of "state r'" "state r"] terminal_stuck [of "state r" "state r'"]
  by (auto simp: moves_on_def isTransitionAllowed_def)

lemma sweep_moves_on:
  assumes "sweep_effect maxRec r r'" and "\<not> isTerminalState (state r)"
  shows "moves_on r r'"
  using assms fail_allowed [OF assms(2)] allowed_moves_on [of r r']
  by (auto simp: sweep_effect_def moves_on_def split: if_splits)

lemma transition_moves_on:
  assumes "tx_transition_to now oid dst patch note s = Inr (s', r')" and "tx_patch patch"
    and "jm_get (records s) k = Some r" and "store_ok s"
  shows "\<exists>r''. jm_get (records s') k = Some r'' \<and> moves_on r r''"
  using assms(1)
proof (rule transition_cases)
  fix r0
  assume r0: "jm_get (records s) oid = Some r0" "isTransitionAllowed (state r0) dst"
    and r': "r' = patch (r0\<lparr>transitions := transitions r0 @
           [\<lparr>tt_from = state r0, tt_to = dst, tt_at = now, tt_note = note\<rparr>],
         state := dst, tx_updatedAt := now\<rparr>)" and s': "s' = put_record r' s"
  have "tx_orderId r0 = oid" using assms(4) r0(1) by (simp add: store_ok_def rec_ok_def)
  then have "tx_orderId r' = oid" "state r' = dst" using assms(2) by (simp_all add: r' tx_patch_def)
  moreover have "moves_on r0 r'" using r0(2) allowed_moves_on calculation(2) by simp
  ultimately show ?thesis using assms(3) r0(1) by (auto simp: s' jm_get_set)
qed

lemma reconcileRecord_moves_on:
  assumes "store_ok s" and "jm_get (records s) k = Some r"
  shows "\<exists>r'. jm_get (records (fst (reconcileRecord now provider oid s))) k = Some r' \<and> moves_on r r'"
proof (cases "k = oid")
  case True
  have key: "tx_orderId r = oid" using assms True by (simp add: store_ok_def rec_ok_def)
  show ?thesis
  proof (cases "isTerminalState (state r)")
    case False
    then show ?thesis
      using reconcileRecord_effect [of s oid r now provider] sweep_moves_on [of _ r] assms(2) key True
      by (auto simp: sweeps_to_def jm_get_set)
  next
    case t: True
    have "markFailed now oid why s = Inl TX_INVALID_TRANSITION" for why
      using assms(2) True terminal_stuck [OF t] by (simp add: markFailed_def tx_transition_to_def)
    then show ?thesis
      using t assms(2) key True
      by (auto simp: reconcileRecord_def reconcile_switch_def as_failed_def Let_def jm_get_set
          isTerminalState_def moves_on_def)
  qed
qed (use assms reconcileRecord_other [OF assms(1)] in simp)

lemma reconcile_moves_on:
  assumes "store_ok s" and "jm_get (records s) k = Some r"
  shows "\<exists>r'. jm_get (records (fst (reconcile now provider s))) k = Some r' \<and> moves_on r r'"
  using reconcile_swept [OF assms, of now provider] sweep_moves_on [of _ r]
  by (auto simp: swept_def split: if_splits)

lemma tx_step_moves_on:
  assumes "tx_step s s'" and "store_ok s" and "jm_get (records s) k = Some r"
  shows "\<exists>r'. jm_get (records s') k = Some r' \<and> moves_on r r'"
  using assms
proof (induction rule: tx_step.induct)
  case (create now oid cid rt s s' r')
  then show ?case by (auto simp: tx_create_def Let_def jm_get_set jm_has_iff_get split: if_splits)
next
  case (receipt now oid rc s s' r' acc)
  then show ?case
    by (auto simp: recordReceipt_def tx_patch_def split: option.splits if_splits sum.splits
        dest!: transition_moves_on)
next
  case (sweep_record now provider oid s s' res)
  then show ?case using reconcileRecord_moves_on [of s k r now provider oid] by simp
next
  case (sweep now provider s s' sm)
  then show ?case using reconcile_moves_on [of s k r now provider] by simp
qed (auto simp: ackSubmission_def recordCoordinatorAck_def markComplete_def markFailed_def tx_patch_def
      dest!: transition_moves_on)

lemma tx_run_moves_on:
  assumes "tx_run s s'" and "store_ok s" and "jm_get (records s) k = Some r"
  shows "\<exists>r'. jm_get (records s') k = Some r' \<and> moves_on r r'"
  using assms
proof (induction rule: tx_run.induct)
  case (none s)
  then show ?case by auto
next
  case (more s s' s'')
  then obtain r' where r': "jm_get (records s') k = Some r'" "moves_on r r'" by blast
  have "store_ok s'" using tx_run_ok more by blast
  then show ?case using tx_step_moves_on [OF more.hyps(2) _ r'(1)] moves_on_trans r'(2) by blast
qed


section \<open>A sample run\<close>

definition tx0 :: tx_store where
  "tx0 = fresh_store True None None"

definition tx_created :: tx_store where
  "tx_created = (case tx_create 0 ''o1'' ''c1'' ''eth_to_xlm'' tx0 of Inl _ \<Rightarrow> tx0 | Inr (s, _) \<Rightarrow> s)"

definition tx_acked :: tx_store where
  "tx_acked = (case ackSubmission 1 ''o1'' ''0xaa'' tx_created of Inl _ \<Rightarrow> tx0 | Inr (s, _) \<Rightarrow> s)"

definition rc0 :: tx_receipt where
  "rc0 = \<lparr>rc_hash = ''0xaa'', rc_blockNumber = 7, rc_status = 1, rc_confirmations = None\<rparr>"

definition tx_mined :: tx_store where
  "tx_mined = (case recordReceipt 2 ''o1'' rc0 tx_acked of Inl _ \<Rightarrow> tx0 | Inr (s, _) \<Rightarrow> s)"

lemmas tx_sample_defs = tx0_def tx_created_def tx_acked_def tx_mined_def rc0_def fresh_store_def
  new_TxStateStore_def tx_create_def ackSubmission_def recordReceipt_def tx_transition_to_def
  put_record_def persist_def isTransitionAllowed_def jm_has_def Let_def

lemma tx_mined_step: "\<exists>r. recordReceipt 2 ''o1'' rc0 tx_acked = Inr (tx_mined, r, True)"
  by (simp add: tx_sample_defs)

lemma tx_acked_run: "tx_run tx0 tx_acked"
proof -
  have "\<exists>r. tx_create 0 ''o1'' ''c1'' ''eth_to_xlm'' tx0 = Inr (tx_created, r)"
    by (simp add: tx_sample_defs)
  then have 1: "tx_run tx0 tx_created" using tx_run.more [OF tx_run.none tx_step.create] by blast
  have "\<exists>r. ackSubmission 1 ''o1'' ''0xaa'' tx_created = Inr (tx_acked, r)"
    by (simp add: tx_sample_defs)
  then show ?thesis using tx_run.more [OF 1 tx_step.ack] by blast
qed

lemma tx_mined_run: "tx_run tx0 tx_mined"
  using tx_mined_step tx_run.more [OF tx_acked_run tx_step.receipt] by blast

lemma tx_mined_record:
  "\<exists>r. jm_get (records tx_mined) ''o1'' = Some r \<and> state r = Chain_mined \<and> recoveryAttempts r = 0
     \<and> map fst (records tx_mined) = [''o1''] \<and> maxRecovery tx_mined = 5"
  by (simp add: tx_sample_defs or_default_def)

section \<open>Audit trail\<close>

text \<open>C12. In every run of the transaction store that starts with no records, each record's transition
  list replays through the transition table from \<open>pending_submission\<close> to its current state, has
  at most four entries, and the data its state promises are set: the transaction hash from
  \<open>submission_acked\<close> on, the block from \<open>chain_mined\<close> on, the coordinator reference from
  \<open>coordinator_recorded\<close> on, and a reason for every failure.\<close>

theorem tx_trail_reconstructs_state:
  assumes "tx_run (fresh_store persistent timeout maxRec) s" and "tx_get oid s = Some r"
  shows "tx_replay Pending_submission (transitions r) = Some (state r)
    \<and> length (transitions r) \<le> 4
    \<and> (state r \<in> {Submission_acked, Chain_mined, Coordinator_recorded, Complete} \<longrightarrow> tx_txHash r \<noteq> None)
    \<and> (state r \<in> {Chain_mined, Coordinator_recorded, Complete} \<longrightarrow> minedBlock r \<noteq> None)
    \<and> (state r \<in> {Coordinator_recorded, Complete} \<longrightarrow> coordinatorRef r \<noteq> None)
    \<and> (state r = Terminal_failure \<longrightarrow> failureReason r \<noteq> None)"
proof -
  have ok: "rec_ok oid r"
    using tx_run_ok [OF assms(1) fresh_ok] assms(2) by (simp add: store_ok_def tx_get_def)
  then have rp: "tx_replay Pending_submission (transitions r) = Some (state r)" by (simp add: rec_ok_def)
  have "length (transitions r) \<le> 4"
    using tx_table.path_length [OF tx_replay_path [OF rp]] by simp
  with ok show ?thesis by (simp add: rec_ok_def)
qed

theorem tx_trail_reconstructs_state_witness:
  "\<exists>r. tx_get ''o1'' tx_mined = Some r \<and> minedBlock r \<noteq> None
     \<and> tx_replay Pending_submission (transitions r) = Some Chain_mined"
proof -
  obtain r where r: "tx_get ''o1'' tx_mined = Some r" "state r = Chain_mined"
    using tx_mined_record by (auto simp: tx_get_def)
  have "tx_run (fresh_store True None None) tx_mined" using tx_mined_run by (simp add: tx0_def)
  from tx_trail_reconstructs_state [OF this r(1)] show ?thesis using r by simp
qed

section \<open>Receipts\<close>

text \<open>C24. A receipt for an order is accepted exactly once: it is accepted precisely when the record
  waits in \<open>submission_acked\<close>; delivering the same receipt again at once changes nothing and
  reports a duplicate; and no receipt for that order is ever accepted again, whatever other
  operations and sweeps run in between.\<close>

theorem receipt_accepted_once:
  assumes "tx_run (fresh_store persistent timeout maxRec) s"
    and "recordReceipt now oid rc s = Inr (s', r, accepted)"
  shows "(accepted \<longleftrightarrow> (\<exists>r0. tx_get oid s = Some r0 \<and> state r0 = Submission_acked))
    \<and> recordReceipt now' oid rc s' = Inr (s', r, False)
    \<and> (accepted \<longrightarrow> (\<forall>s'' now'' rc' s3 r3. tx_run s' s'' \<longrightarrow>
          recordReceipt now'' oid rc' s'' \<noteq> Inr (s3, r3, True)))"
proof (intro conjI impI allI)
  have ok: "store_ok s" by (rule tx_run_ok [OF assms(1) fresh_ok])
  obtain r0 where r0: "jm_get (records s) oid = Some r0" and key: "tx_orderId r0 = oid"
    using assms(2) ok by (auto simp: recordReceipt_def store_ok_def rec_ok_def split: option.splits)
  show "accepted \<longleftrightarrow> (\<exists>r0. tx_get oid s = Some r0 \<and> state r0 = Submission_acked)"
    using assms(2) r0
    by (auto simp: recordReceipt_def tx_get_def allowed_from split: if_splits sum.splits)
  show "recordReceipt now' oid rc s' = Inr (s', r, False)"
    using assms(2) r0 key
    by (auto simp: recordReceipt_def tx_transition_to_def allowed_from Let_def jm_get_set split: if_splits)
  have at: "jm_get (records s') oid = Some r" using recordReceipt_ok [OF ok assms(2)] by simp
  fix s'' now'' rc' s3 r3
  assume "accepted" and run: "tx_run s' s''"
  then have "state r = Chain_mined"
    using assms(2) r0
    by (auto simp: recordReceipt_def tx_transition_to_def Let_def split: if_splits)
  moreover have "store_ok s'" using recordReceipt_ok [OF ok assms(2)] by simp
  ultimately obtain r'' where "jm_get (records s'') oid = Some r''" "2 \<le> tx_rank (state r'')"
    using tx_run_moves_on [OF run _ at] by (auto simp: moves_on_def)
  then show "recordReceipt now'' oid rc' s'' \<noteq> Inr (s3, r3, True)"
    by (auto simp: recordReceipt_def allowed_from split: if_splits sum.splits)
qed

theorem receipt_accepted_once_witness:
  "\<exists>r. recordReceipt 2 ''o1'' rc0 tx_acked = Inr (tx_mined, r, True)
     \<and> recordReceipt 3 ''o1'' rc0 tx_mined = Inr (tx_mined, r, False)"
proof -
  obtain r where r: "recordReceipt 2 ''o1'' rc0 tx_acked = Inr (tx_mined, r, True)"
    using tx_mined_step by blast
  have "tx_run (fresh_store True None None) tx_acked" using tx_acked_run by (simp add: tx0_def)
  from receipt_accepted_once [OF this r, of 3] r show ?thesis by blast
qed

section \<open>Sweeps\<close>

fun sweeps :: "(int \<times> chain_provider option) list \<Rightarrow> tx_store \<Rightarrow> tx_store" where
  "sweeps [] s = s"
| "sweeps ((now, provider) # xs) s = sweeps xs (fst (reconcile now provider s))"

lemma sweeps_progress:
  assumes "store_ok s" and "jm_get (records s) k = Some r"
  shows "\<exists>r'. jm_get (records (sweeps xs s)) k = Some r'
    \<and> (isTerminalState (state r')
       \<or> recoveryAttempts r' = recoveryAttempts r + length xs \<and> recoveryAttempts r' \<le> max (recoveryAttempts r) (maxRecovery s))
    \<and> (state r = Chain_mined \<longrightarrow> state r' \<in> {Chain_mined, Terminal_failure})
    \<and> (isTerminalState (state r) \<longrightarrow> r' = r)"
  using assms
proof (induction xs arbitrary: s r)
  case Nil
  then show ?case by auto
next
  case (Cons x xs)
  obtain now provider where x: "x = (now, provider)" by fastforce
  let ?s1 = "fst (reconcile now provider s)"
  obtain r1 where r1: "jm_get (records ?s1) k = Some r1" "swept (maxRecovery s) r r1"
    using reconcile_swept [OF Cons.prems] by blast
  obtain r' where r': "jm_get (records (sweeps xs ?s1)) k = Some r'"
    "isTerminalState (state r') \<or> recoveryAttempts r' = recoveryAttempts r1 + length xs
       \<and> recoveryAttempts r' \<le> max (recoveryAttempts r1) (maxRecovery s)"
    "state r1 = Chain_mined \<longrightarrow> state r' \<in> {Chain_mined, Terminal_failure}"
    "isTerminalState (state r1) \<longrightarrow> r' = r1"
    using Cons.IH [OF reconcile_ok [OF Cons.prems(1)] r1(1)] by auto
  show ?case
    using r1(2) r' unfolding swept_def sweep_effect_def
    by (auto simp: x isTerminalState_def split: if_splits)
qed

text \<open>C25. No record stays open under reconciliation: after more sweeps than \<open>maxRecovery\<close>, at whatever
  times and with whatever answers or errors from the chain provider, every record is
  terminal. A record whose transaction was mined and only waits for the coordinator's
  acknowledgement is among them: sweeps alone end it in \<open>terminal_failure\<close>.\<close>

theorem sweeps_terminate_records:
  assumes "tx_run (fresh_store persistent timeout maxRec) s" and "tx_get oid s = Some r"
    and "maxRecovery s < length xs"
  shows "\<exists>r'. tx_get oid (sweeps xs s) = Some r' \<and> isTerminalState (state r')
    \<and> (isTerminalState (state r) \<longrightarrow> r' = r)
    \<and> (state r = Chain_mined \<longrightarrow> state r' = Terminal_failure)"
proof -
  have "jm_get (records s) oid = Some r" using assms(2) by (simp add: tx_get_def)
  from sweeps_progress [OF tx_run_ok [OF assms(1) fresh_ok] this, of xs] assms(3)
  show ?thesis by (auto simp: tx_get_def isTerminalState_def)
qed

theorem sweeps_terminate_records_witness:
  "\<exists>r r'. tx_get ''o1'' tx_mined = Some r \<and> state r = Chain_mined
     \<and> tx_get ''o1'' (sweeps (replicate 6 (3, None)) tx_mined) = Some r' \<and> state r' = Terminal_failure"
proof -
  obtain r where r: "tx_get ''o1'' tx_mined = Some r" "state r = Chain_mined" "maxRecovery tx_mined = 5"
    using tx_mined_record by (auto simp: tx_get_def)
  have run: "tx_run (fresh_store True None None) tx_mined" using tx_mined_run by (simp add: tx0_def)
  have "maxRecovery tx_mined < length (replicate 6 (3 :: int, None :: chain_provider option))"
    using r(3) by simp
  from sweeps_terminate_records [OF run r(1) this] show ?thesis using r by auto
qed


section \<open>Restart\<close>

text \<open>C26. A restart loses nothing when the file names are unambiguous: after any run of a persistent
  store, if no two of its orders map to the same file name, a store constructed from the
  files on disk, read in any order, holds exactly the records of the old one.\<close>

theorem restart_recovers_records:
  assumes "tx_run (fresh_store True timeout maxRec) s" and "disk s = Some d" and "set files = set d"
    and "inj_on filePath {k. tx_get k s \<noteq> None}"
  shows "tx_get k (new_TxStateStore (Some files) timeout' maxRec') = tx_get k s"
proof -
  have "mirrors tx_orderId filePath (\<lambda>_. True) d (records s)"
    using tx_run_ok [OF assms(1) fresh_ok] assms(2) by (simp add: store_ok_def)
  from tx_files.reload [OF this assms(3)] assms(4) show ?thesis
    by (simp add: tx_get_def new_TxStateStore_def split: option.split)
qed

theorem restart_recovers_records_witness:
  "\<exists>d r. disk tx_mined = Some d \<and> tx_get ''o1'' (new_TxStateStore (Some (rev d)) None None) = Some r
     \<and> state r = Chain_mined"
proof -
  have run: "tx_run (fresh_store True None None) tx_mined" using tx_mined_run by (simp add: tx0_def)
  have "\<exists>d. disk tx_mined = Some d" by (simp add: tx_sample_defs)
  then obtain d where d: "disk tx_mined = Some d" by blast
  have "{k. tx_get k tx_mined \<noteq> None} \<subseteq> {''o1''}"
    using tx_mined_record by (auto simp: tx_get_def dest!: map_of_SomeD)
  then have inj: "inj_on filePath {k. tx_get k tx_mined \<noteq> None}" by (auto simp: inj_on_def)
  obtain r where r: "tx_get ''o1'' tx_mined = Some r" "state r = Chain_mined"
    using tx_mined_record by (auto simp: tx_get_def)
  show ?thesis
    using restart_recovers_records [OF run d set_rev inj, of "''o1''" None None] d r by auto
qed

text \<open>File names are not unambiguous in general: when two different order ids differ only in
  characters outside \<open>[a-zA-Z0-9_-]\<close> (or after the first 120), creating both and restarting
  loses the record that was created first.\<close>

theorem filename_collision_loses_record:
  assumes "a \<noteq> b" and "filePath a = filePath b"
    and "tx_create now a cid rt (fresh_store True timeout maxRec) = Inr (s1, ra)"
    and "tx_create now' b cid' rt' s1 = Inr (s2, rb)"
  shows "tx_get a s2 = Some ra
    \<and> tx_get a (new_TxStateStore (disk s2) timeout maxRec) = None
    \<and> tx_get b (new_TxStateStore (disk s2) timeout maxRec) = Some rb"
proof -
  have s1: "records s1 = [(a, ra)]" "disk s1 = Some [(filePath a, ra)]" and ra: "tx_orderId ra = a"
    using assms(3)
    by (auto simp: tx_create_def fresh_store_def new_TxStateStore_def put_record_def persist_def
        jm_has_def Let_def)
  have "records s2 = [(a, ra), (b, rb)]" "disk s2 = Some [(filePath b, rb)]" and "tx_orderId rb = b"
    using assms s1 by (auto simp: tx_create_def put_record_def persist_def Let_def split: if_splits)
  then show ?thesis using assms(1) by (simp add: tx_get_def new_TxStateStore_def jm_has_def)
qed

theorem filename_collision_loses_record_witness:
  "\<exists>s1 s2 ra rb. tx_create 0 ''a:b'' ''c'' ''r'' (fresh_store True None None) = Inr (s1, ra)
     \<and> tx_create 0 ''a_b'' ''c'' ''r'' s1 = Inr (s2, rb)
     \<and> tx_get ''a:b'' (new_TxStateStore (disk s2) None None) = None"
proof -
  have name: "filePath ''a:b'' = filePath ''a_b''" by (simp add: filePath_def safe_name_def safe_char_def)
  have "\<exists>s1 ra. tx_create 0 ''a:b'' ''c'' ''r'' (fresh_store True None None) = Inr (s1, ra)
      \<and> records s1 = [(''a:b'', ra)]"
    by (simp add: tx_create_def fresh_store_def new_TxStateStore_def put_record_def persist_def
        jm_has_def Let_def)
  then obtain s1 ra where 1: "tx_create 0 ''a:b'' ''c'' ''r'' (fresh_store True None None) = Inr (s1, ra)"
    and s1: "records s1 = [(''a:b'', ra)]" by blast
  have "\<exists>s2 rb. tx_create 0 ''a_b'' ''c'' ''r'' s1 = Inr (s2, rb)"
    using s1 by (simp add: tx_create_def jm_has_def Let_def)
  then obtain s2 rb where 2: "tx_create 0 ''a_b'' ''c'' ''r'' s1 = Inr (s2, rb)" by blast
  have "''a:b'' \<noteq> ''a_b''" by simp
  from filename_collision_loses_record [OF this name 1 2]
  have "tx_get ''a:b'' (new_TxStateStore (disk s2) None None) = None" by (rule conjunct1 [OF conjunct2])
  with 1 2 show ?thesis by (intro exI conjI)
qed

end
