(* ===== verification/Js_Numbers.thy ===== *)
theory Js_Numbers
  imports Prelude
begin

text \<open>
  The conversions between strings and \<open>bigint\<close>s the relayer's amounts go through: \<open>BigInt(s)\<close>, \<open>trim\<close>,
  \<open>padStart\<close> and \<open>padEnd\<close>. \<open>BigInt\<close> reads decimal, hexadecimal, octal and binary literals, ignores
  surrounding white space, takes the empty string as zero and throws (\<open>None\<close>) on anything else.
  Also the decoding of hex text into bytes.
\<close>

definition is_space :: "char \<Rightarrow> bool" where
  "is_space c = (let n = (of_char c :: nat) in 9 \<le> n \<and> n \<le> 13 \<or> n = 32)"

lemma is_space_code [code]:
  "is_space (Char b0 b1 b2 b3 b4 b5 b6 b7) =
     (\<not> b7 \<and> \<not> b6 \<and> \<not> b4
      \<and> (\<not> b5 \<and> b3 \<and> (if b2 then \<not> b1 else b0 \<or> b1) \<or> b5 \<and> \<not> b3 \<and> \<not> b2 \<and> \<not> b1 \<and> \<not> b0))"
  unfolding is_space_def Let_def
  by (cases b7; cases b6; cases b5; cases b4; cases b3; cases b2; cases b1; cases b0; simp)

definition js_trim :: "string \<Rightarrow> string" where
  "js_trim s = rev (dropWhile is_space (rev (dropWhile is_space s)))"

definition padStart :: "nat \<Rightarrow> char \<Rightarrow> string \<Rightarrow> string" where
  "padStart n c s = replicate (n - length s) c @ s"

definition padEnd :: "nat \<Rightarrow> char \<Rightarrow> string \<Rightarrow> string" where
  "padEnd n c s = s @ replicate (n - length s) c"

definition digit_value :: "char \<Rightarrow> nat option" where
  "digit_value c = (let n = (of_char c :: nat)
     in if 48 \<le> n \<and> n \<le> 57 then Some (n - 48)
        else if 97 \<le> n \<and> n \<le> 122 then Some (n - 87)
        else if 65 \<le> n \<and> n \<le> 90 then Some (n - 55) else None)"

fun parse_base :: "nat \<Rightarrow> string \<Rightarrow> nat \<Rightarrow> nat option" where
  "parse_base b [] acc = Some acc"
| "parse_base b (c # s) acc =
     (case digit_value c of
        Some d \<Rightarrow> if d < b then parse_base b s (acc * b + d) else None
      | None \<Rightarrow> None)"

definition parse_digits :: "nat \<Rightarrow> string \<Rightarrow> int option" where
  "parse_digits b s = (if s = [] then None else map_option int (parse_base b s 0))"

definition bigint_of_string :: "string \<Rightarrow> int option" where
  "bigint_of_string s =
     (let t = js_trim s; pre = toLowerCase (take 2 t)
      in if t = [] then Some 0
         else if pre = ''0x'' then parse_digits 16 (drop 2 t)
         else if pre = ''0o'' then parse_digits 8 (drop 2 t)
         else if pre = ''0b'' then parse_digits 2 (drop 2 t)
         else if hd t = CHR ''-'' then map_option uminus (parse_digits 10 (tl t))
         else if hd t = CHR ''+'' then parse_digits 10 (tl t)
         else parse_digits 10 t)"

section \<open>Hex decoding\<close>

definition hex_value :: "char \<Rightarrow> nat option" where
  "hex_value c = (let n = (of_char c :: nat)
     in if 48 \<le> n \<and> n \<le> 57 then Some (n - 48)
        else if 97 \<le> n \<and> n \<le> 102 then Some (n - 87)
        else if 65 \<le> n \<and> n \<le> 70 then Some (n - 55) else None)"

text \<open>\<open>Buffer.from(s, "hex")\<close> decodes pairs of hex digits and stops at the first pair that is not one;
  it does not throw.\<close>

fun hex_bytes :: "string \<Rightarrow> nat list" where
  "hex_bytes (a # b # s) =
     (case (hex_value a, hex_value b) of
        (Some x, Some y) \<Rightarrow> (16 * x + y) # hex_bytes s
      | _ \<Rightarrow> [])"
| "hex_bytes _ = []"

section \<open>Digits\<close>

definition is_digit :: "char \<Rightarrow> bool" where
  "is_digit c = (let n = (of_char c :: nat) in 48 \<le> n \<and> n \<le> 57)"

lemma of_digit: "n < 10 \<Longrightarrow> (of_char (char_of (48 + n)) :: nat) = 48 + n"
  by (simp add: of_char_of)

lemma digit_char [simp]:
  assumes "n < 10"
  shows "is_digit (char_of (48 + n))" and "digit_value (char_of (48 + n)) = Some n"
  unfolding is_digit_def digit_value_def Let_def of_digit [OF assms] using assms by simp_all

lemma decimal_digits: "list_all is_digit (decimal n)"
proof (induction n rule: less_induct)
  case (less n)
  show ?case
    using less [of "n div 10"] digit_char(1) [of n] digit_char(1) [of "n mod 10"]
    by (cases "n < 10") (simp_all add: decimal_step)
qed

lemma parse_base_append:
  "parse_base b (s @ t) acc = Option.bind (parse_base b s acc) (parse_base b t)"
  by (induction b s acc rule: parse_base.induct) (auto split: option.split)

lemma parse_decimal: "parse_base 10 (decimal n) 0 = Some n"
proof (induction n rule: less_induct)
  case (less n)
  show ?case
  proof (cases "n < 10")
    case True
    then show ?thesis using digit_char(2) [of n] by (simp add: decimal_step)
  next
    case False
    then show ?thesis
      using less [of "n div 10"] digit_char(2) [of "n mod 10"]
      by (simp add: decimal_step parse_base_append)
  qed
qed

lemma parse_zeros: "parse_base 10 (replicate k (CHR ''0'') @ s) 0 = parse_base 10 s 0"
  by (induction k) (simp_all add: digit_value_def)

lemma decimal_length: "n < 10 ^ k \<Longrightarrow> 0 < k \<Longrightarrow> length (decimal n) \<le> k"
proof (induction k arbitrary: n)
  case (Suc k)
  show ?case
  proof (cases "n < 10")
    case False
    then have "0 < k" using Suc.prems(1) by (cases k) auto
    moreover have "n div 10 < 10 ^ k" using Suc.prems(1) by (simp add: div_less_iff_less_mult mult.commute)
    ultimately show ?thesis using Suc.IH [of "n div 10"] False by (simp add: decimal_step)
  qed (simp add: decimal_step)
qed simp

lemma digit_no_space: "is_digit c \<Longrightarrow> \<not> is_space c"
  by (auto simp: is_digit_def is_space_def Let_def)

lemma dropWhile_none: "list_all (\<lambda>c. \<not> P c) s \<Longrightarrow> dropWhile P s = s"
  by (cases s) auto

lemma js_trim_none:
  assumes "list_all (\<lambda>c. \<not> is_space c) s"
  shows "js_trim s = s"
  using assms dropWhile_none [of is_space s] dropWhile_none [of is_space "rev s"] by (simp add: js_trim_def)

lemma digits_prefix:
  assumes "list_all is_digit s"
  shows "toLowerCase (take 2 s) \<notin> {''0x'', ''0o'', ''0b''}" and "s \<noteq> [] \<Longrightarrow> hd s \<notin> {CHR ''-'', CHR ''+''}"
proof -
  have digit: "lower_char c = c" if "is_digit c" for c
    using that by (auto simp: is_digit_def lower_char_def Let_def)
  have "list_all is_digit (toLowerCase (take 2 s))"
    using assms by (auto simp: list_all_iff toLowerCase_def digit dest: in_set_takeD)
  moreover have "\<not> list_all is_digit ''0x''" "\<not> list_all is_digit ''0o''" "\<not> list_all is_digit ''0b''"
    by (simp_all add: is_digit_def)
  ultimately show "toLowerCase (take 2 s) \<notin> {''0x'', ''0o'', ''0b''}" by auto
  show "hd s \<notin> {CHR ''-'', CHR ''+''}" if "s \<noteq> []"
    using assms that by (cases s) (auto simp: is_digit_def)
qed

lemma bigint_digits:
  assumes "list_all is_digit s" and "s \<noteq> []"
  shows "bigint_of_string s = map_option int (parse_base 10 s 0)"
proof -
  have "js_trim s = s" using assms(1) digit_no_space by (intro js_trim_none) (auto simp: list_all_iff)
  then show ?thesis using digits_prefix [OF assms(1)] assms(2) by (simp add: bigint_of_string_def parse_digits_def)
qed

lemma bigint_decimal: "bigint_of_string (decimal n) = Some (int n)"
  by (simp add: bigint_digits decimal_digits parse_decimal)

lemma bigint_padded: "bigint_of_string (padStart k (CHR ''0'') (decimal n)) = Some (int n)"
proof -
  have "list_all is_digit (padStart k (CHR ''0'') (decimal n))"
    using decimal_digits [of n] by (auto simp: padStart_def list_all_iff is_digit_def set_replicate_conv_if)
  then show ?thesis
    by (subst bigint_digits) (simp_all add: padStart_def parse_zeros parse_decimal)
qed

end
