(* ===== verification/Secret_Recovery.thy ===== *)
theory Secret_Recovery
  imports Order_Service Js_Numbers
begin

text \<open>
  \<open>coordinator/src/reconciliation/secret-reconciler.ts\<close>: the validation of a preimage against a
  hashlock, shared with the main reconciler, and the recovery of missing preimages from
  Ethereum \<open>OrderClaimed\<close> logs.

  The two hash functions come from the platform and from \<open>viem\<close>; they are an argument
  (\<open>digests\<close>), functions from bytes to the lower-case hex text they return.
\<close>

section \<open>Hex decoding\<close>

definition bufferFromHex :: "string \<Rightarrow> nat list" where
  "bufferFromHex s = hex_bytes (if startsWith s ''0x'' then drop 2 s else s)"

record digests =
  sha256Hex :: "nat list \<Rightarrow> string"
  keccak256Hex :: "nat list \<Rightarrow> string"

datatype hash_algorithm = Sha256 | Keccak256

definition validatePreimage :: "digests \<Rightarrow> string \<Rightarrow> string \<Rightarrow> hash_algorithm option" where
  "validatePreimage dg pre hl =
     (let buf = bufferFromHex pre
      in if sha256Hex dg buf = hl then Some Sha256
         else if keccak256Hex dg buf = hl then Some Keccak256 else None)"

section \<open>Ethereum logs\<close>

text \<open>A decoded contract log; an argument missing from the decoded log is \<open>None\<close>.\<close>

record eth_log =
  el_orderId :: "nat option"
  el_hashlock :: "string option"
  el_timelock :: "nat option"
  el_preimage :: "string option"
  el_txHash :: "string option"
  el_logIndex :: "nat option"
  el_blockNumber :: "nat option"

text \<open>\<open>!args?.orderId || !args?.preimage\<close> also drops order id zero and the empty string.\<close>

definition truthy_nat :: "nat option \<Rightarrow> nat option" where
  "truthy_nat v = (case v of Some n \<Rightarrow> if n = 0 then None else Some n | None \<Rightarrow> None)"

definition truthy_string :: "string option \<Rightarrow> string option" where
  "truthy_string v = (case v of Some s \<Rightarrow> if s = '''' then None else Some s | None \<Rightarrow> None)"

definition claimed_args :: "eth_log \<Rightarrow> (nat \<times> string) option" where
  "claimed_args l = (case (truthy_nat (el_orderId l), truthy_string (el_preimage l)) of
     (Some n, Some p) \<Rightarrow> Some (n, p) | _ \<Rightarrow> None)"

section \<open>Secret reconciler\<close>

datatype secret_outcome = Recovered | Already_known | Invalid_preimage | State_conflict | RecoveryError

text \<open>The messages of \<open>recordSecret\<close> that contain ``cannot record''.\<close>

definition cannot_record :: "svc_error \<Rightarrow> bool" where
  "cannot_record e = (case e of TerminalOrder _ _ \<Rightarrow> True | WrongStatus _ \<Rightarrow> True | _ \<Rightarrow> False)"

definition recoverOneOrder ::
    "digests \<Rightarrow> call_ctx \<Rightarrow> string \<Rightarrow> string \<Rightarrow> string \<Rightarrow> svc \<Rightarrow> svc \<times> secret_outcome" where
  "recoverOneOrder dg ctx oid pre txHash s =
     (case svc_findBySrcOrderId Ethereum oid s of
        None \<Rightarrow> (s, RecoveryError)
      | Some order \<Rightarrow>
          if truthy_string (preimage order) \<noteq> None then (s, Already_known)
          else if validatePreimage dg pre (hashlock order) = None then (s, Invalid_preimage)
          else (case svc_recordSecret ctx (publicId order) pre txHash None ''secret_reconciler'' s of
                  Inl e \<Rightarrow> (s, if cannot_record e then State_conflict else RecoveryError)
                | Inr s' \<Rightarrow> (s', Recovered)))"

record secret_result =
  sr_recovered :: nat
  sr_invalidPreimages :: nat
  sr_alreadyKnown :: nat
  sr_stateConflict :: nat
  sr_errors :: nat

fun count_outcome :: "secret_outcome \<Rightarrow> secret_result \<Rightarrow> secret_result" where
  "count_outcome Recovered r = r\<lparr>sr_recovered := sr_recovered r + 1\<rparr>"
| "count_outcome Already_known r = r\<lparr>sr_alreadyKnown := sr_alreadyKnown r + 1\<rparr>"
| "count_outcome Invalid_preimage r = r\<lparr>sr_invalidPreimages := sr_invalidPreimages r + 1\<rparr>"
| "count_outcome State_conflict r = r\<lparr>sr_stateConflict := sr_stateConflict r + 1\<rparr>"
| "count_outcome RecoveryError r = r\<lparr>sr_errors := sr_errors r + 1\<rparr>"

fun recover_loop :: "digests \<Rightarrow> call_ctx \<Rightarrow> eth_log list \<Rightarrow> secret_result \<Rightarrow> svc \<Rightarrow> svc \<times> secret_result" where
  "recover_loop dg ctx [] res s = (s, res)"
| "recover_loop dg ctx (l # ls) res s =
     (case claimed_args l of
        None \<Rightarrow> recover_loop dg ctx ls res s
      | Some (n, pre) \<Rightarrow>
          let (s', oc) = recoverOneOrder dg ctx (decimal n) pre (or_default (el_txHash l) ''0x'') s
          in recover_loop dg ctx ls (count_outcome oc res) s')"

text \<open>A failed log query returns the empty result.\<close>

definition recoverFromEthereumLogs ::
    "digests \<Rightarrow> call_ctx \<Rightarrow> string + eth_log list \<Rightarrow> svc \<Rightarrow> svc \<times> secret_result" where
  "recoverFromEthereumLogs dg ctx logs s =
     (let zero = \<lparr>sr_recovered = 0, sr_invalidPreimages = 0, sr_alreadyKnown = 0,
                   sr_stateConflict = 0, sr_errors = 0\<rparr>
      in case logs of Inl e \<Rightarrow> (s, zero) | Inr ls \<Rightarrow> recover_loop dg ctx ls zero s)"

end
