(* ===== verification/Event_Identity.thy ===== *)
theory Event_Identity
  imports Orders_Schema Ledger_Interfaces
begin

text \<open>
  \<open>coordinator/src/reconciliation/event-identity.ts\<close>: the deduplication keys of on-chain events,
  the semantic keys used to recognise a reordered delivery, and the seen set of one
  reconciler run.
\<close>

section \<open>Keys\<close>

fun event_type_name :: "chain_event \<Rightarrow> string" where
  "event_type_name OrderCreated = ''OrderCreated''"
| "event_type_name OrderClaimed = ''OrderClaimed''"
| "event_type_name OrderRefunded = ''OrderRefunded''"

fun event_chain_name :: "event_chain \<Rightarrow> string" where
  "event_chain_name EvEthereum = ''ethereum''"
| "event_chain_name EvSoroban = ''soroban''"
| "event_chain_name EvSolana = ''solana''"

definition ethEventKey :: "chain_event \<Rightarrow> string \<Rightarrow> nat \<Rightarrow> string" where
  "ethEventKey ty txHash logIndex =
     ''eth:'' @ event_type_name ty @ '':'' @ toLowerCase txHash @ '':'' @ decimal logIndex"

definition sorobanEventKey :: "chain_event \<Rightarrow> string \<Rightarrow> nat \<Rightarrow> nat \<Rightarrow> string" where
  "sorobanEventKey ty txHash ledger eventIndex =
     ''soroban:'' @ event_type_name ty @ '':'' @ decimal ledger @ '':'' @ txHash @ '':'' @ decimal eventIndex"

definition solanaEventKey :: "chain_event \<Rightarrow> string \<Rightarrow> string" where
  "solanaEventKey ty signature = ''solana:'' @ event_type_name ty @ '':'' @ signature"

definition semanticKey :: "event_chain \<Rightarrow> chain_event \<Rightarrow> string \<Rightarrow> string" where
  "semanticKey ch ty identifier =
     ''semantic:'' @ event_chain_name ch @ '':'' @ event_type_name ty @ '':'' @ toLowerCase identifier"

section \<open>The seen set of one run\<close>

datatype conflict_kind = Duplicate | Reordered

record seen_set =
  dedupKeys :: "(string, string) jsmap"
  semanticKeys :: "(string, string) jsmap"
  st_seen :: nat
  st_duplicates :: nat
  st_reordered :: nat

definition new_EventSeenSet :: seen_set where
  "new_EventSeenSet =
     \<lparr>dedupKeys = [], semanticKeys = [], st_seen = 0, st_duplicates = 0, st_reordered = 0\<rparr>"

text \<open>\<open>None\<close> is the source's \<open>null\<close>: the event is new. The chain and the event type are only
  copied into the conflict record.\<close>

definition checkAndMark :: "string \<Rightarrow> string \<Rightarrow> seen_set \<Rightarrow> seen_set \<times> conflict_kind option" where
  "checkAndMark key semKey s =
     (if jm_has (dedupKeys s) key then (s\<lparr>st_duplicates := st_duplicates s + 1\<rparr>, Some Duplicate)
      else if jm_get (semanticKeys s) semKey \<noteq> None then
        (s\<lparr>st_reordered := st_reordered s + 1, dedupKeys := jm_set key semKey (dedupKeys s)\<rparr>,
         Some Reordered)
      else (s\<lparr>dedupKeys := jm_set key semKey (dedupKeys s),
              semanticKeys := jm_set semKey key (semanticKeys s), st_seen := st_seen s + 1\<rparr>, None))"

definition seen_has :: "string \<Rightarrow> seen_set \<Rightarrow> bool" where
  "seen_has key s = jm_has (dedupKeys s) key"

definition seen_stats :: "seen_set \<Rightarrow> nat \<times> nat \<times> nat" where
  "seen_stats s = (st_seen s, st_duplicates s, st_reordered s)"

definition seen_clear :: "seen_set \<Rightarrow> seen_set" where
  "seen_clear s = new_EventSeenSet"

definition seen_size :: "seen_set \<Rightarrow> nat" where
  "seen_size s = length (dedupKeys s)"

section \<open>Keys identify occurrences\<close>

text \<open>A key is a colon-separated list of fields; it splits uniquely where the fields have no colon.\<close>

lemma colon_split:
  assumes "CHR '':'' \<notin> set xs" and "CHR '':'' \<notin> set xs'"
  shows "xs @ CHR '':'' # ys = xs' @ CHR '':'' # ys' \<longleftrightarrow> xs = xs' \<and> ys = ys'"
  using assms
proof (induction xs arbitrary: xs')
  case Nil
  then show ?case by (cases xs') auto
next
  case (Cons x xs)
  then show ?case by (cases xs') auto
qed

lemma digit_code: "a < 10 \<Longrightarrow> (of_char (char_of (48 + a :: nat)) :: nat) = 48 + a"
  by (simp add: of_char_of)

lemma digit_inj: "a < 10 \<Longrightarrow> b < 10 \<Longrightarrow> char_of (48 + a :: nat) = char_of (48 + b) \<longleftrightarrow> a = b"
  using digit_code [of a] digit_code [of b] by (metis add_left_cancel)

lemma decimal_no_colon [simp]: "CHR '':'' \<notin> set (decimal n)"
proof (induction n rule: less_induct)
  case (less n)
  have no: "CHR '':'' \<noteq> char_of (48 + a :: nat)" if "a < 10" for a
  proof
    assume "CHR '':'' = char_of (48 + a)"
    then have "(of_char (CHR '':'') :: nat) = 48 + a" using digit_code [OF that] by simp
    then show False using that by simp
  qed
  show ?case
  proof (cases "n < 10")
    case True
    then show ?thesis using no [of n] by (simp add: decimal_step)
  next
    case False
    then show ?thesis using no [of "n mod 10"] less.IH [of "n div 10"] by (simp add: decimal_step)
  qed
qed

lemma decimal_inj [simp]: "decimal m = decimal n \<longleftrightarrow> m = n"
proof (induction m arbitrary: n rule: less_induct)
  case (less m)
  show ?case
  proof (cases "m < 10"; cases "n < 10")
    assume "m < 10" "n < 10"
    then show ?thesis by (simp add: decimal_step digit_inj)
  next
    assume "\<not> m < 10" "\<not> n < 10"
    then have "decimal m = decimal n \<longleftrightarrow> m div 10 = n div 10 \<and> m mod 10 = n mod 10"
      using less.IH [of "m div 10" "n div 10"] by (simp add: decimal_step digit_inj)
    then show ?thesis by (metis div_mult_mod_eq)
  qed (auto simp: decimal_step decimal_nonempty [symmetric])
qed

lemma event_type_name_no_colon [simp]: "CHR '':'' \<notin> set (event_type_name ty)"
  by (cases ty) simp_all

lemma event_type_name_inj [simp]: "event_type_name ty = event_type_name ty' \<longleftrightarrow> ty = ty'"
  by (cases ty; cases ty') simp_all

lemma lower_char_colon: "lower_char c = CHR '':'' \<longleftrightarrow> c = CHR '':''"
proof
  assume h: "lower_char c = CHR '':''"
  show "c = CHR '':''"
  proof (cases "65 \<le> (of_char c :: nat) \<and> (of_char c :: nat) \<le> 90")
    case True
    then have "(of_char (lower_char c) :: nat) = of_char c + 32"
      by (simp add: lower_char_def Let_def of_char_of)
    with h True show ?thesis by simp
  qed (use h in \<open>auto simp: lower_char_def Let_def\<close>)
qed (simp add: lower_char_def)

lemma toLowerCase_no_colon [simp]: "CHR '':'' \<in> set (toLowerCase s) \<longleftrightarrow> CHR '':'' \<in> set s"
  by (auto simp: toLowerCase_def lower_char_colon image_iff) (metis lower_char_colon)+

text \<open>The occurrence of an event on a chain, as the three key builders take it.\<close>

datatype occurrence =
    EthLog chain_event string nat
  | SorobanEv chain_event string nat nat
  | SolanaTx chain_event string

fun occurrence_key :: "occurrence \<Rightarrow> string" where
  "occurrence_key (EthLog ty h i) = ethEventKey ty h i"
| "occurrence_key (SorobanEv ty h l i) = sorobanEventKey ty h l i"
| "occurrence_key (SolanaTx ty sig) = solanaEventKey ty sig"

text \<open>Hex hashes, and Solana signatures in base 58, contain no colon.\<close>

fun plain_hash :: "occurrence \<Rightarrow> bool" where
  "plain_hash (EthLog ty h i) = (CHR '':'' \<notin> set h)"
| "plain_hash (SorobanEv ty h l i) = (CHR '':'' \<notin> set h)"
| "plain_hash (SolanaTx ty sig) = True"

fun fold_case :: "occurrence \<Rightarrow> occurrence" where
  "fold_case (EthLog ty h i) = EthLog ty (toLowerCase h) i"
| "fold_case e = e"

lemmas key_defs = ethEventKey_def sorobanEventKey_def solanaEventKey_def

lemma colon_split1:
  "CHR '':'' \<notin> set xs \<Longrightarrow> CHR '':'' \<notin> set xs' \<Longrightarrow>
   xs @ '':'' @ ys = xs' @ '':'' @ ys' \<longleftrightarrow> xs = xs' \<and> ys = ys'"
  using colon_split by simp

text \<open>A deduplication key identifies the on-chain event: two occurrences whose transaction hash
  contains no colon have the same key exactly when they are the same event on the same chain,
  up to the letter case of an Ethereum transaction hash; keys of different chains never
  coincide.\<close>

theorem event_key_identifies:
  assumes "plain_hash a" and "plain_hash b"
  shows "occurrence_key a = occurrence_key b \<longleftrightarrow> fold_case a = fold_case b"
  using assms
  by (cases a; cases b) (simp_all add: key_defs colon_split1 colon_split, auto)

theorem event_key_identifies_witness:
  "ethEventKey OrderCreated ''0xAb'' 1 = ethEventKey OrderCreated ''0xaB'' 1
   \<and> ethEventKey OrderCreated ''0xAb'' 1 \<noteq> ethEventKey OrderCreated ''0xAb'' 11
   \<and> ethEventKey OrderCreated ''ab'' 1 \<noteq> sorobanEventKey OrderCreated ''ab'' 1 1"
proof -
  have "toLowerCase ''0xAb'' = toLowerCase ''0xaB''" by code_simp
  then show ?thesis
    using event_key_identifies [of "EthLog OrderCreated ''0xAb'' 1" "EthLog OrderCreated ''0xaB'' 1"]
    event_key_identifies [of "EthLog OrderCreated ''0xAb'' 1" "EthLog OrderCreated ''0xAb'' 11"]
    event_key_identifies [of "EthLog OrderCreated ''ab'' 1" "SorobanEv OrderCreated ''ab'' 1 1"]
    by simp
qed


section \<open>One run of the seen set\<close>

text \<open>A key is a duplicate from its second presentation on: the exact keys form a claim ledger.\<close>

definition mark_key :: "string \<times> string \<Rightarrow> seen_set \<Rightarrow> seen_set \<times> bool" where
  "mark_key e s = (let (s', c) = checkAndMark (fst e) (snd e) s in (s', c \<noteq> Some Duplicate))"

interpretation seen_keys: claim_ledger "\<lambda>s k. seen_has k s" mark_key fst
  by unfold_locales (auto simp: mark_key_def checkAndMark_def seen_has_def jm_has_set)

definition accept :: "string \<times> string \<Rightarrow> seen_set \<Rightarrow> seen_set \<times> bool" where
  "accept e s = (let (s', c) = checkAndMark (fst e) (snd e) s in (s', c = None))"

definition seen_ok :: "seen_set \<Rightarrow> bool" where
  "seen_ok s \<longleftrightarrow> (\<forall>k m. jm_get (dedupKeys s) k = Some m \<longrightarrow> jm_has (semanticKeys s) m)"

text \<open>The key of an event determines its semantic key.\<close>

definition key_determines :: "(string \<times> string) list \<Rightarrow> seen_set \<Rightarrow> bool" where
  "key_determines es s \<longleftrightarrow>
     (\<forall>k m m'. (k, m) \<in> set es \<longrightarrow> (k, m') \<in> set es \<or> jm_get (dedupKeys s) k = Some m' \<longrightarrow> m' = m)"

lemma seen_ok_new: "seen_ok new_EventSeenSet" "key_determines es new_EventSeenSet \<longleftrightarrow>
    (\<forall>k m m'. (k, m) \<in> set es \<longrightarrow> (k, m') \<in> set es \<longrightarrow> m' = m)"
  by (auto simp: seen_ok_def key_determines_def new_EventSeenSet_def)

lemma accept_pair:
  "accept (k, n) s =
     (if jm_has (dedupKeys s) k then (s\<lparr>st_duplicates := st_duplicates s + 1\<rparr>, False)
      else if jm_has (semanticKeys s) n then
        (s\<lparr>st_reordered := st_reordered s + 1, dedupKeys := jm_set k n (dedupKeys s)\<rparr>, False)
      else (s\<lparr>dedupKeys := jm_set k n (dedupKeys s), semanticKeys := jm_set n k (semanticKeys s),
              st_seen := st_seen s + 1\<rparr>, True))"
  by (simp add: accept_def checkAndMark_def jm_has_iff_get)

lemma accept_step:
  assumes "seen_ok s" and "key_determines (e # es) s"
  shows "seen_ok (fst (accept e s))" and "key_determines es (fst (accept e s))"
    and "snd (accept e s) \<longleftrightarrow> \<not> jm_has (semanticKeys s) (snd e)"
    and "jm_has (semanticKeys (fst (accept e s))) m \<longleftrightarrow> m = snd e \<or> jm_has (semanticKeys s) m"
proof -
  obtain k n where e: "e = (k, n)" by (cases e)
  have known: "jm_has (semanticKeys s) n" if dup: "jm_has (dedupKeys s) k"
  proof -
    obtain n' where n': "jm_get (dedupKeys s) k = Some n'" using dup by (auto simp: jm_has_iff_get)
    moreover have "(k, n) \<in> set (e # es)" by (simp add: e)
    ultimately have "n' = n" using assms(2) unfolding key_determines_def by blast
    then show ?thesis using assms(1) n' unfolding seen_ok_def by blast
  qed
  show "seen_ok (fst (accept e s))"
    using assms(1) by (simp add: seen_ok_def accept_pair e jm_get_set jm_has_set)
  show "key_determines es (fst (accept e s))"
  proof -
    have d: "m' = m" if "(k', m) \<in> set es" "(k', m') \<in> set ((k, n) # es) \<or> jm_get (dedupKeys s) k' = Some m'"
      for k' m m'
      using assms(2) that unfolding key_determines_def e by (metis list.set_intros(2))
    have "jm_get (dedupKeys (fst (accept e s))) k' = Some m' \<Longrightarrow>
        k' = k \<and> m' = n \<or> jm_get (dedupKeys s) k' = Some m'" for k' m'
      by (simp add: e accept_pair jm_get_set split: if_splits)
    then show ?thesis unfolding key_determines_def using d by (metis list.set_intros(1,2))
  qed
  show "snd (accept e s) \<longleftrightarrow> \<not> jm_has (semanticKeys s) (snd e)"
    using known by (simp add: accept_pair e)
  show "jm_has (semanticKeys (fst (accept e s))) m \<longleftrightarrow> m = snd e \<or> jm_has (semanticKeys s) m"
    using known by (auto simp add: accept_pair e jm_has_set)
qed

lemma accept_run_once:
  assumes "seen_ok s" and "key_determines es s"
  shows "winners snd m es (snd (claim_run accept es s)) =
    (if m \<in> snd ` set es \<and> \<not> jm_has (semanticKeys s) m then 1 else 0)"
  using assms
proof (induction es arbitrary: s)
  case Nil
  show ?case by (simp add: winners_def)
next
  case (Cons e es)
  obtain s' b where sb: "accept e s = (s', b)" by (cases "accept e s") auto
  have step: "seen_ok s'" "key_determines es s'" "b \<longleftrightarrow> \<not> jm_has (semanticKeys s) (snd e)"
    "jm_has (semanticKeys s') m \<longleftrightarrow> m = snd e \<or> jm_has (semanticKeys s) m"
    using accept_step [OF Cons.prems] sb by auto
  have "winners snd m (e # es) (snd (claim_run accept (e # es) s)) =
        (if snd e = m \<and> b then 1 else 0) + winners snd m es (snd (claim_run accept es s'))"
    by (simp add: sb split_beta winners_def)
  then show ?case using Cons.IH [OF step(1,2)] step(3,4) by auto
qed

lemma accept_run_stats:
  "let s' = fst (claim_run accept es s)
   in st_seen s' = st_seen s + length (filter id (snd (claim_run accept es s)))
      \<and> st_seen s' + st_duplicates s' + st_reordered s' =
        st_seen s + st_duplicates s + st_reordered s + length es"
proof (induction es arbitrary: s)
  case (Cons e es)
  let ?s = "fst (accept e s)"
  have "st_seen ?s = st_seen s + (if snd (accept e s) then 1 else 0)
      \<and> st_seen ?s + st_duplicates ?s + st_reordered ?s = st_seen s + st_duplicates s + st_reordered s + 1"
    by (cases e) (simp add: accept_pair)
  then show ?case using Cons.IH [of ?s] by (simp add: Let_def split_beta)
qed simp

text \<open>Within one reconciler run every logical event is let through exactly once: when equal
  deduplication keys carry equal semantic keys, then among all deliveries of a run, in any
  order and with any repetition, exactly one delivery of each semantic key is accepted; an
  exact key is a duplicate from its second presentation on, whatever its semantic key; and the
  counters account for every delivery.\<close>

theorem seen_set_exactly_once:
  assumes "\<forall>k m m'. (k, m) \<in> set events \<longrightarrow> (k, m') \<in> set events \<longrightarrow> m = m'"
  shows "winners snd m events (snd (claim_run accept events (seen_clear s))) =
      (if m \<in> snd ` set events then 1 else 0)
    \<and> winners fst k events (snd (claim_run mark_key events (seen_clear s))) =
      (if k \<in> fst ` set events then 1 else 0)
    \<and> (case seen_stats (fst (claim_run accept events (seen_clear s))) of (seen, duplicates, reordered) \<Rightarrow>
         seen = length (filter id (snd (claim_run accept events (seen_clear s))))
         \<and> seen + duplicates + reordered = length events)"
proof (intro conjI)
  have "key_determines events new_EventSeenSet" using assms by (simp only: seen_ok_new) blast
  from accept_run_once [OF seen_ok_new(1) this]
  show "winners snd m events (snd (claim_run accept events (seen_clear s))) =
      (if m \<in> snd ` set events then 1 else 0)"
    by (simp add: seen_clear_def new_EventSeenSet_def jm_has_def)
  show "winners fst k events (snd (claim_run mark_key events (seen_clear s))) =
      (if k \<in> fst ` set events then 1 else 0)"
    using seen_keys.claim_run_exactly_once [of k events "seen_clear s"]
    by (simp add: seen_clear_def new_EventSeenSet_def seen_has_def jm_has_def)
  show "case seen_stats (fst (claim_run accept events (seen_clear s))) of (seen, duplicates, reordered) \<Rightarrow>
         seen = length (filter id (snd (claim_run accept events (seen_clear s))))
         \<and> seen + duplicates + reordered = length events"
    using accept_run_stats [of events "seen_clear s"]
    by (simp add: seen_stats_def seen_clear_def new_EventSeenSet_def Let_def)
qed

theorem seen_set_exactly_once_witness:
  "winners snd ''m'' [(''a'', ''m''), (''b'', ''m''), (''a'', ''m'')]
     (snd (claim_run accept [(''a'', ''m''), (''b'', ''m''), (''a'', ''m'')] (seen_clear new_EventSeenSet))) = 1"
proof -
  have "\<forall>k m m'. (k, m) \<in> set [(''a'', ''m''), (''b'', ''m''), (''a'', ''m'')] \<longrightarrow>
      (k, m') \<in> set [(''a'', ''m''), (''b'', ''m''), (''a'', ''m'')] \<longrightarrow> m = m'" by simp
  from conjunct1 [OF seen_set_exactly_once [OF this, of "''m''" new_EventSeenSet "''a''"]]
  show ?thesis by (simp del: claim_run.simps)
qed

end
