(* ===== verification/Replay_Policy.thy ===== *)
theory Replay_Policy
  imports Event_Identity Orders_Repo
begin

text \<open>
  The pure decisions of the coordinator's recovery pipeline: cursor arithmetic
  (\<open>coordinator/src/reconciliation/ledger-cursor.ts\<close>), replay and conflict decisions
  (\<open>replay-policy.ts\<close>), the recovery report (\<open>recovery-summary.ts\<close>) and the dispatch of a
  mutation (\<open>services/workflow-priority-policy.ts\<close>).

  Positions (blocks, ledgers, slots) are natural numbers; the source clamps every difference it
  takes at zero, which is subtraction on \<^typ>\<open>nat\<close>.
\<close>

section \<open>Ledger cursors\<close>

definition ETH_LOOKBACK_BLOCKS :: nat where "ETH_LOOKBACK_BLOCKS = 14400"
definition SOROBAN_LOOKBACK_LEDGERS :: nat where "SOROBAN_LOOKBACK_LEDGERS = 34560"
definition SOLANA_LOOKBACK_SLOTS :: nat where "SOLANA_LOOKBACK_SLOTS = 432000"

definition isEventBehindOrderCursor :: "nat option \<Rightarrow> nat \<Rightarrow> bool" where
  "isEventBehindOrderCursor cursor position =
     (case cursor of None \<Rightarrow> False | Some c \<Rightarrow> c > 0 \<and> position > 0 \<and> position \<le> c)"

text \<open>The result is the triple \<open>from\<close>, \<open>gap\<close>, \<open>usedLookbackFallback\<close>.\<close>

definition computeIncrementalScanStart :: "nat \<Rightarrow> nat \<Rightarrow> nat \<Rightarrow> nat \<times> nat \<times> bool" where
  "computeIncrementalScanStart chainCursor tip lookback =
     (let gap = tip - chainCursor
      in if chainCursor > 0 \<and> gap \<le> lookback then (chainCursor, gap, False)
         else (tip - lookback, gap, chainCursor = 0 \<or> gap > lookback))"

fun orderCursorForChain :: "chain \<Rightarrow> order_row \<Rightarrow> nat option" where
  "orderCursorForChain Ethereum r = lastEthBlock r"
| "orderCursorForChain Stellar r = lastSorobanLedger r"
| "orderCursorForChain Solana r = lastSolanaSlot r"

definition advanceCursor :: "nat option \<Rightarrow> nat \<Rightarrow> nat" where
  "advanceCursor current incoming =
     (if incoming \<le> 0 then or_default current 0 else max (or_default current 0) incoming)"

datatype gap_severity = GapNone | GapNormal | GapWarning | GapCritical

record gap_assessment =
  ga_hwm :: nat
  ga_tip :: nat
  ga_fromBlock :: nat
  ga_gap :: nat
  ga_severity :: gap_severity
  ga_lookbackExceeded :: bool
  ga_lookbackWindow :: nat

record ledger_cursor =
  hwm :: nat
  lookbackWindow :: nat

definition new_LedgerCursor :: "nat \<Rightarrow> nat \<Rightarrow> ledger_cursor" where
  "new_LedgerCursor h w = \<lparr>hwm = h, lookbackWindow = w\<rparr>"

definition lc_getHwm :: "ledger_cursor \<Rightarrow> nat" where
  "lc_getHwm c = hwm c"

definition lc_advance :: "nat \<Rightarrow> ledger_cursor \<Rightarrow> ledger_cursor" where
  "lc_advance tip c = (if tip > hwm c then c\<lparr>hwm := tip\<rparr> else c)"

definition lc_assess :: "nat \<Rightarrow> ledger_cursor \<Rightarrow> gap_assessment" where
  "lc_assess tip c =
     (let (start, gap, fallback) = computeIncrementalScanStart (hwm c) tip (lookbackWindow c);
          severity = (if gap = 0 then GapNone
                      else if 4 * gap \<le> lookbackWindow c then GapNormal
                      else if gap \<le> lookbackWindow c then GapWarning
                      else GapCritical)
      in \<lparr>ga_hwm = hwm c, ga_tip = tip, ga_fromBlock = start, ga_gap = gap, ga_severity = severity,
          ga_lookbackExceeded = fallback, ga_lookbackWindow = lookbackWindow c\<rparr>)"

section \<open>Dispatch of a mutation\<close>

datatype workflow_path = Live | Replay | Recovery

datatype workflow_mutation = Src_lock | Secret_reveal | Refund

datatype dispatch_reason = Applied | Already_applied | Stale_sequence | Lower_priority

fun PATH_PRIORITY :: "workflow_path \<Rightarrow> nat" where
  "PATH_PRIORITY Live = 0"
| "PATH_PRIORITY Replay = 1"
| "PATH_PRIORITY Recovery = 2"

text \<open>The mutation is part of the source's input and does not influence the decision. \<open>===\<close> holds of
  two \<open>null\<close> sequences.\<close>

definition decideDispatch ::
    "workflow_path \<Rightarrow> workflow_mutation \<Rightarrow> nat option \<Rightarrow> nat option \<Rightarrow> bool \<Rightarrow> bool \<times> dispatch_reason" where
  "decideDispatch path mutation incoming existing alreadyApplied =
     (if alreadyApplied then (False, Already_applied)
      else if (case (existing, incoming) of (Some e, Some i) \<Rightarrow> i < e | _ \<Rightarrow> False)
        then (False, Stale_sequence)
      else if existing = incoming \<and> PATH_PRIORITY path > PATH_PRIORITY Live
        then (False, Lower_priority)
      else (True, Applied))"

section \<open>Replay and conflict decisions\<close>

datatype conflict_type = CtAlreadyApplied | CtStatusAhead | CtStateContradiction | CtUnknownOrder

record replay_decision =
  rd_chain :: string
  rd_fromBlock :: nat
  rd_toBlock :: nat
  rd_windowSize :: nat
  rd_gapSeverity :: gap_severity
  rd_lookbackExceeded :: bool
  rd_forcedHistoricalResync :: bool

text \<open>The description texts of a conflict are left out.\<close>

record conflict_decision =
  cd_chain :: string
  cd_eventType :: chain_event
  cd_conflictType :: conflict_type
  cd_publicId :: "string option"
  cd_orderStatus :: "order_status option"

definition FORCED_RESYNC_MULTIPLIER :: nat where "FORCED_RESYNC_MULTIPLIER = 3"

definition buildReplayDecision :: "string \<Rightarrow> gap_assessment \<Rightarrow> replay_decision" where
  "buildReplayDecision ch a =
     \<lparr>rd_chain = ch, rd_fromBlock = ga_fromBlock a, rd_toBlock = ga_tip a,
      rd_windowSize = ga_tip a - ga_fromBlock a, rd_gapSeverity = ga_severity a,
      rd_lookbackExceeded = ga_lookbackExceeded a,
      rd_forcedHistoricalResync =
        (ga_lookbackExceeded a \<and> ga_gap a > FORCED_RESYNC_MULTIPLIER * ga_lookbackWindow a)\<rparr>"

definition classifyConflict ::
    "string \<Rightarrow> chain_event \<Rightarrow> order_status \<Rightarrow> order_status \<Rightarrow> bool \<Rightarrow> string option \<Rightarrow> conflict_decision" where
  "classifyConflict ch ty target current terminal pid =
     (let decide = (\<lambda>ct. \<lparr>cd_chain = ch, cd_eventType = ty, cd_conflictType = ct,
                           cd_publicId = pid, cd_orderStatus = Some current\<rparr>)
      in if current = target then decide CtAlreadyApplied
         else if terminal then decide CtStatusAhead
         else if ty = OrderRefunded \<and> current = Completed
               \<or> ty = OrderClaimed \<and> current = Refunded
               \<or> ty = OrderCreated \<and> current = Secret_revealed
           then decide CtStateContradiction
         else decide CtStatusAhead)"

definition classifyUnknownOrder :: "string \<Rightarrow> chain_event \<Rightarrow> conflict_decision" where
  "classifyUnknownOrder ch ty =
     \<lparr>cd_chain = ch, cd_eventType = ty, cd_conflictType = CtUnknownOrder, cd_publicId = None,
      cd_orderStatus = None\<rparr>"

record replay_policy =
  decisions :: "replay_decision list"
  conflicts :: "conflict_decision list"

definition new_ReplayPolicy :: replay_policy where
  "new_ReplayPolicy = \<lparr>decisions = [], conflicts = []\<rparr>"

definition recordDecision :: "replay_decision \<Rightarrow> replay_policy \<Rightarrow> replay_policy" where
  "recordDecision d p = p\<lparr>decisions := decisions p @ [d]\<rparr>"

definition recordConflict :: "conflict_decision \<Rightarrow> replay_policy \<Rightarrow> replay_policy" where
  "recordConflict c p = p\<lparr>conflicts := conflicts p @ [c]\<rparr>"

record policy_summary =
  ps_chains :: nat
  ps_totalWindowSize :: nat
  ps_lookbackExceededChains :: nat
  ps_forcedResyncs :: nat
  ps_conflictsByType :: "conflict_type \<Rightarrow> nat"

definition getSummary :: "replay_policy \<Rightarrow> policy_summary" where
  "getSummary p =
     \<lparr>ps_chains = length (decisions p),
      ps_totalWindowSize = sum_list (map rd_windowSize (decisions p)),
      ps_lookbackExceededChains = length (filter rd_lookbackExceeded (decisions p)),
      ps_forcedResyncs = length (filter rd_forcedHistoricalResync (decisions p)),
      ps_conflictsByType = (\<lambda>t. length (filter (\<lambda>c. cd_conflictType c = t) (conflicts p)))\<rparr>"

definition policy_reset :: "replay_policy \<Rightarrow> replay_policy" where
  "policy_reset p = p\<lparr>decisions := [], conflicts := []\<rparr>"

section \<open>The recovery report\<close>

text \<open>The chain of an input is the string the caller passes; a chain with no configured lookback
  yields \<open>undefined\<close>, here \<open>None\<close>, with which every comparison is false.\<close>

definition RECONCILER_LOOKBACKS :: "string \<Rightarrow> nat option" where
  "RECONCILER_LOOKBACKS ch =
     (if ch = ''ethereum'' then Some ETH_LOOKBACK_BLOCKS
      else if ch = ''stellar'' then Some SOROBAN_LOOKBACK_LEDGERS
      else if ch = ''solana'' then Some SOLANA_LOOKBACK_SLOTS else None)"

datatype recovery_outcome = Up_to_date | Within_lookback | Lookback_exceeded | Forced_resync

datatype recovery_overall = Healthy | RecoveringRun | At_risk | Intervention_required

record recovery_input =
  ri_chain :: string
  ri_hwm :: nat
  ri_tip :: nat
  ri_fromBlock :: nat
  ri_lookback :: "nat option"

record chain_recovery =
  cr_chain :: string
  cr_outcome :: recovery_outcome
  cr_hwm :: nat
  cr_tip :: nat
  cr_gap :: nat
  cr_windowSize :: nat
  cr_lookback :: "nat option"
  cr_lookbackExceeded :: bool
  cr_forcedHistoricalResync :: bool

definition summarise_chain :: "recovery_input \<Rightarrow> chain_recovery" where
  "summarise_chain i =
     (let lookback = (case ri_lookback i of Some l \<Rightarrow> Some l | None \<Rightarrow> RECONCILER_LOOKBACKS (ri_chain i));
          gap = ri_tip i - ri_hwm i;
          exceeded = (case lookback of None \<Rightarrow> False | Some l \<Rightarrow> gap > l);
          forced = (case lookback of None \<Rightarrow> False | Some l \<Rightarrow> gap > FORCED_RESYNC_MULTIPLIER * l)
      in \<lparr>cr_chain = ri_chain i,
          cr_outcome = (if forced then Forced_resync else if exceeded then Lookback_exceeded
                        else if gap > 0 then Within_lookback else Up_to_date),
          cr_hwm = ri_hwm i, cr_tip = ri_tip i, cr_gap = gap,
          cr_windowSize = ri_tip i - ri_fromBlock i, cr_lookback = lookback,
          cr_lookbackExceeded = exceeded, cr_forcedHistoricalResync = forced\<rparr>)"

definition aggregateRecoveryOverall :: "chain_recovery list \<Rightarrow> recovery_overall" where
  "aggregateRecoveryOverall cs =
     (if list_ex cr_forcedHistoricalResync cs then Intervention_required
      else if list_ex cr_lookbackExceeded cs then At_risk
      else if list_ex (\<lambda>c. cr_outcome c = Within_lookback) cs then RecoveringRun
      else Healthy)"

definition buildRecoveryReport :: "recovery_input list \<Rightarrow> chain_recovery list \<times> recovery_overall" where
  "buildRecoveryReport inputs =
     (let cs = map summarise_chain inputs in (cs, aggregateRecoveryOverall cs))"

section \<open>Laws\<close>

interpretation ledger_hwm: forward_cursor "\<lambda>_ _. True" "\<lambda>c (_::unit). hwm c" "\<lambda>_ n c. lc_advance n c"
  by unfold_locales (auto simp: lc_advance_def)

lemma lookbackWindow_advance [simp]: "lookbackWindow (lc_advance n c) = lookbackWindow c"
  by (simp add: lc_advance_def)

lemma assess_simps [simp]:
  "ga_hwm (lc_assess tip c) = hwm c" "ga_tip (lc_assess tip c) = tip"
  "ga_lookbackWindow (lc_assess tip c) = lookbackWindow c"
  "ga_gap (lc_assess tip c) = tip - hwm c"
  "ga_fromBlock (lc_assess tip c) =
     (if 0 < hwm c \<and> tip - hwm c \<le> lookbackWindow c then hwm c else tip - lookbackWindow c)"
  "ga_lookbackExceeded (lc_assess tip c) \<longleftrightarrow> hwm c = 0 \<or> tip - hwm c > lookbackWindow c"
  by (auto simp: lc_assess_def computeIncrementalScanStart_def Let_def)

lemma decision_simps [simp]:
  "rd_fromBlock (buildReplayDecision ch a) = ga_fromBlock a"
  "rd_toBlock (buildReplayDecision ch a) = ga_tip a"
  "rd_windowSize (buildReplayDecision ch a) = ga_tip a - ga_fromBlock a"
  "rd_chain (buildReplayDecision ch a) = ch"
  "rd_lookbackExceeded (buildReplayDecision ch a) = ga_lookbackExceeded a"
  "rd_forcedHistoricalResync (buildReplayDecision ch a) \<longleftrightarrow>
     ga_lookbackExceeded a \<and> ga_gap a > FORCED_RESYNC_MULTIPLIER * ga_lookbackWindow a"
  by (simp_all add: buildReplayDecision_def)


text \<open>The replay path applies an event whose position is known exactly when nothing is applied yet and
  the recorded position, if any, is strictly older.\<close>

lemma decideDispatch_replay:
  "fst (decideDispatch Replay m (Some i) existing applied) \<longleftrightarrow>
     \<not> applied \<and> (case existing of None \<Rightarrow> True | Some e \<Rightarrow> e < i)"
  by (auto simp: decideDispatch_def split: option.splits)

section \<open>No silent gap\<close>

text \<open>The window decisions of successive runs of one chain that see the tips \<open>tips\<close>: a run with an
  empty window returns early, any other run scans its window and advances the cursor.\<close>

fun scan_runs :: "string \<Rightarrow> nat list \<Rightarrow> ledger_cursor \<Rightarrow> replay_decision list \<times> ledger_cursor" where
  "scan_runs ch [] c = ([], c)"
| "scan_runs ch (tip # tips) c =
     (let d = buildReplayDecision ch (lc_assess tip c);
          c' = (if rd_windowSize d = 0 then c else lc_advance tip c);
          (ds, c'') = scan_runs ch tips c'
      in (d # ds, c''))"

lemma scan_runs_covers:
  assumes "hwm c < p" and "p \<le> hwm (snd (scan_runs ch tips c))"
  shows "\<exists>d\<in>set (fst (scan_runs ch tips c)). p \<le> rd_toBlock d \<and> (rd_fromBlock d \<le> p \<or> rd_lookbackExceeded d)"
  using assms
proof (induction tips arbitrary: c)
  case Nil
  then show ?case by simp
next
  case (Cons tip tips)
  let ?d = "buildReplayDecision ch (lc_assess tip c)"
  let ?c = "if rd_windowSize ?d = 0 then c else lc_advance tip c"
  show ?case
  proof (cases "hwm ?c < p")
    case True
    then show ?thesis using Cons.IH [of ?c] Cons.prems by (auto simp: Let_def split_beta)
  next
    case False
    then have "p \<le> tip" using Cons.prems(1) by (auto simp: lc_advance_def split: if_splits)
    then have "p \<le> rd_toBlock ?d \<and> (rd_fromBlock ?d \<le> p \<or> rd_lookbackExceeded ?d)"
      using Cons.prems(1) by auto
    then show ?thesis by (auto simp: Let_def split_beta)
  qed
qed

lemma scan_runs_window:
  "d \<in> set (fst (scan_runs ch tips c)) \<Longrightarrow> rd_windowSize d \<le> lookbackWindow c"
proof (induction tips arbitrary: c)
  case (Cons tip tips)
  let ?d = "buildReplayDecision ch (lc_assess tip c)"
  have "rd_windowSize ?d \<le> lookbackWindow c" by auto
  then show ?case
    using Cons.IH [of "if rd_windowSize ?d = 0 then c else lc_advance tip c"] Cons.prems
    by (auto simp: Let_def split_beta split: if_splits)
qed simp



text \<open>The conflict classification, called with the coordinator's own terminal test, reports a
  contradiction in one case only: a creation event against an order whose secret is revealed.
  The two contradictions on terminal orders that the module documents (a refund of a completed
  order, a claim of a refunded one) are classified as benign, because the terminal test comes
  first.\<close>

theorem contradiction_only_for_revealed:
  "cd_conflictType (classifyConflict ch ty target current (isTerminal current) pid) = CtStateContradiction
     \<longleftrightarrow> ty = OrderCreated \<and> current = Secret_revealed \<and> target \<noteq> Secret_revealed"
  by (cases current; cases ty) (auto simp: classifyConflict_def Let_def isTerminal_iff)

end
