(* ===== verification/Reconciler.thy ===== *)
theory Reconciler
  imports Secret_Recovery Replay_Policy
begin

text \<open>
  \<open>Reconciler\<close> of \<open>coordinator/src/reconciliation/reconciler.ts\<close>: the periodic run that replays the
  events of the three chains into the order service.

  What the chains answer is an argument of a run (\<open>eth_rpc\<close>, \<open>soroban_rpc\<close>, \<open>solana_rpc\<close>): a request
  either fails (\<open>Inl\<close>) or returns its result. A Soroban event carries the result of
  \<open>decodeHtlcEvent\<close>; the JSON object in a Solana log line is read by an argument
  (\<open>json_fields\<close>). Metrics and logs are not modelled. A run reads the clock once.
\<close>

section \<open>Helpers\<close>

definition MAX_SAFE_INTEGER :: nat where "MAX_SAFE_INTEGER = 9007199254740991"

definition safeToNumber :: "nat option \<Rightarrow> nat option" where
  "safeToNumber v = (case v of None \<Rightarrow> None | Some n \<Rightarrow> if n \<le> MAX_SAFE_INTEGER then Some n else None)"

definition advanceOrderCursor :: "call_ctx \<Rightarrow> string \<Rightarrow> chain \<Rightarrow> nat \<Rightarrow> svc \<Rightarrow> svc" where
  "advanceOrderCursor ctx pid ch position s =
     (if position \<le> 0 then s
      else case ch of
             Ethereum \<Rightarrow> svc_advanceOrderLedgerCursor ctx pid (Some position) None None s
           | Stellar \<Rightarrow> svc_advanceOrderLedgerCursor ctx pid None (Some position) None s
           | Solana \<Rightarrow> svc_advanceOrderLedgerCursor ctx pid None None (Some position) s)"

text \<open>The messages that contain ``cannot record'' (or ``cannot transition'') or ``terminal''.\<close>

definition benign_error :: "svc_error \<Rightarrow> bool" where
  "benign_error e = (case e of TerminalOrder _ _ \<Rightarrow> True | WrongStatus _ \<Rightarrow> True | _ \<Rightarrow> False)"

section \<open>Replaying one event\<close>

text \<open>
  The three chains replay an event of one kind by the same code, up to one difference: Ethereum
  and Soroban claim the event's key in the durable ledger before this code runs, Solana inside
  it, at the points where the event is settled. \<open>late\<close> is the key Solana still has to claim.
\<close>

definition settle_event :: "call_ctx \<Rightarrow> string option \<Rightarrow> chain_event \<Rightarrow> svc \<Rightarrow> svc" where
  "settle_event ctx late ty s =
     (case late of None \<Rightarrow> s | Some key \<Rightarrow> fst (svc_claimEvent ctx key EvSolana ty None s))"

definition replay_created ::
    "call_ctx \<Rightarrow> chain \<Rightarrow> string option \<Rightarrow> string \<Rightarrow> string \<Rightarrow> string \<Rightarrow> nat \<Rightarrow> nat option \<Rightarrow> svc \<Rightarrow> svc \<times> nat" where
  "replay_created ctx ch late hl oid txHash pos timelock s =
     (case svc_findByHashlock hl s of
        None \<Rightarrow> (s, 0)
      | Some order \<Rightarrow>
          if isEventBehindOrderCursor (orderCursorForChain ch order) pos then
            (settle_event ctx late OrderCreated s, 0)
          else if \<not> fst (decideDispatch Replay Src_lock (Some pos) (srcLockBlock order)
                          (srcOrderId order \<noteq> None)) then
            (settle_event ctx late OrderCreated (advanceOrderCursor ctx (publicId order) ch pos s), 0)
          else
            (case timelock of
               None \<Rightarrow> (s, 0)
             | Some t \<Rightarrow>
                 (case svc_recordSrcLock ctx \<lparr>li_publicId = publicId order, li_orderId = oid,
                         li_txHash = txHash, li_blockNumber = pos, li_timelock = int t\<rparr>
                         ''reconciler'' s of
                    Inr s' \<Rightarrow>
                      (settle_event ctx late OrderCreated (advanceOrderCursor ctx (publicId order) ch pos s'), 1)
                  | Inl e \<Rightarrow>
                      if benign_error e then
                        (case svc_findByHashlock hl s of
                           None \<Rightarrow> (s, 0)
                         | Some o2 \<Rightarrow>
                             (settle_event ctx late OrderCreated (advanceOrderCursor ctx (publicId o2) ch pos s), 0))
                      else (s, 0))))"

definition replay_claimed ::
    "digests \<Rightarrow> call_ctx \<Rightarrow> chain \<Rightarrow> string option \<Rightarrow> string \<Rightarrow> string \<Rightarrow> string \<Rightarrow> nat \<Rightarrow> svc \<Rightarrow> svc \<times> nat" where
  "replay_claimed dg ctx ch late oid pre txHash pos s =
     (case svc_findBySrcOrderId ch oid s of
        None \<Rightarrow> (s, 0)
      | Some order \<Rightarrow>
          if isEventBehindOrderCursor (orderCursorForChain ch order) pos then
            (settle_event ctx late OrderClaimed s, 0)
          else if \<not> fst (decideDispatch Replay Secret_reveal (Some pos) None (preimage order \<noteq> None))
               \<or> validatePreimage dg pre (hashlock order) = None then
            (settle_event ctx late OrderClaimed (advanceOrderCursor ctx (publicId order) ch pos s), 0)
          else
            (case svc_recordSecret ctx (publicId order) pre txHash None ''reconciler'' s of
               Inr s' \<Rightarrow>
                 (settle_event ctx late OrderClaimed (advanceOrderCursor ctx (publicId order) ch pos s'), 1)
             | Inl e \<Rightarrow>
                 if benign_error e then
                   (case svc_findBySrcOrderId ch oid s of
                      None \<Rightarrow> (s, 0)
                    | Some o2 \<Rightarrow>
                        (settle_event ctx late OrderClaimed (advanceOrderCursor ctx (publicId o2) ch pos s), 0))
                 else (s, 0)))"

definition replay_refunded ::
    "call_ctx \<Rightarrow> chain \<Rightarrow> string option \<Rightarrow> string \<Rightarrow> nat \<Rightarrow> svc \<Rightarrow> svc \<times> nat" where
  "replay_refunded ctx ch late oid pos s =
     (case svc_findBySrcOrderId ch oid s of
        None \<Rightarrow> (s, 0)
      | Some order \<Rightarrow>
          if isEventBehindOrderCursor (orderCursorForChain ch order) pos then
            (settle_event ctx late OrderRefunded s, 0)
          else if \<not> fst (decideDispatch Replay Refund (Some pos) (srcLockBlock order)
                          (status order = Refunded \<or> status order = Completed)) then
            (settle_event ctx late OrderRefunded (advanceOrderCursor ctx (publicId order) ch pos s), 0)
          else
            (case svc_markStatus ctx (publicId order) Refunded ''reconciler'' s of
               Inr s' \<Rightarrow>
                 (settle_event ctx late OrderRefunded (advanceOrderCursor ctx (publicId order) ch pos s'), 1)
             | Inl e \<Rightarrow>
                 if benign_error e then
                   (case svc_findBySrcOrderId ch oid s of
                      None \<Rightarrow> (s, 0)
                    | Some o2 \<Rightarrow>
                        (settle_event ctx late OrderRefunded (advanceOrderCursor ctx (publicId o2) ch pos s), 0))
                 else (s, 0)))"

text \<open>The deduplication in front of an Ethereum or Soroban event: the run's seen set, then the durable
  ledger.\<close>

definition dedup ::
    "call_ctx \<Rightarrow> event_chain \<Rightarrow> chain_event \<Rightarrow> string \<Rightarrow> string \<Rightarrow> svc \<times> seen_set \<Rightarrow> (svc \<times> seen_set) \<times> bool" where
  "dedup ctx ech ty key semKey st =
     (let (s, seen) = st; (seen', conflict) = checkAndMark key semKey seen
      in if conflict \<noteq> None then ((s, seen'), False)
         else let (s', won) = svc_claimEvent ctx key ech ty None s in ((s', seen'), won))"

definition dedup_then ::
    "call_ctx \<Rightarrow> event_chain \<Rightarrow> chain_event \<Rightarrow> string \<Rightarrow> string \<Rightarrow> (svc \<Rightarrow> svc \<times> nat) \<Rightarrow> svc \<times> seen_set
     \<Rightarrow> (svc \<times> seen_set) \<times> nat" where
  "dedup_then ctx ech ty key semKey body st =
     (let ((s, seen), won) = dedup ctx ech ty key semKey st
      in if won then let (s', n) = body s in ((s', seen), n) else ((s, seen), 0))"

section \<open>Ethereum\<close>

definition eth_key :: "chain_event \<Rightarrow> eth_log \<Rightarrow> string" where
  "eth_key ty l = ethEventKey ty (or_default (el_txHash l) ''0x'') (or_default (el_logIndex l) 0)"

definition eth_block :: "eth_log \<Rightarrow> nat option" where
  "eth_block l = safeToNumber (Some (or_default (el_blockNumber l) 0))"

definition replayEthCreated1 :: "call_ctx \<Rightarrow> eth_log \<Rightarrow> svc \<times> seen_set \<Rightarrow> (svc \<times> seen_set) \<times> nat" where
  "replayEthCreated1 ctx l st =
     (case (truthy_string (el_hashlock l), el_orderId l) of
        (Some hl, Some oid) \<Rightarrow>
          dedup_then ctx EvEthereum OrderCreated (eth_key OrderCreated l)
            (semanticKey EvEthereum OrderCreated hl)
            (\<lambda>s. case eth_block l of
                   None \<Rightarrow> (s, 0)
                 | Some b \<Rightarrow> replay_created ctx Ethereum None hl (decimal oid)
                     (or_default (el_txHash l) ''0x'') b (safeToNumber (el_timelock l)) s) st
      | _ \<Rightarrow> (st, 0))"

definition replayEthClaimed1 ::
    "digests \<Rightarrow> call_ctx \<Rightarrow> eth_log \<Rightarrow> svc \<times> seen_set \<Rightarrow> (svc \<times> seen_set) \<times> nat" where
  "replayEthClaimed1 dg ctx l st =
     (case claimed_args l of
        Some (oid, pre) \<Rightarrow>
          dedup_then ctx EvEthereum OrderClaimed (eth_key OrderClaimed l)
            (semanticKey EvEthereum OrderClaimed (decimal oid))
            (\<lambda>s. case eth_block l of
                   None \<Rightarrow> (s, 0)
                 | Some b \<Rightarrow> replay_claimed dg ctx Ethereum None (decimal oid) pre
                     (or_default (el_txHash l) ''0x'') b s) st
      | None \<Rightarrow> (st, 0))"

definition replayEthRefunded1 :: "call_ctx \<Rightarrow> eth_log \<Rightarrow> svc \<times> seen_set \<Rightarrow> (svc \<times> seen_set) \<times> nat" where
  "replayEthRefunded1 ctx l st =
     (case truthy_nat (el_orderId l) of
        Some oid \<Rightarrow>
          dedup_then ctx EvEthereum OrderRefunded (eth_key OrderRefunded l)
            (semanticKey EvEthereum OrderRefunded (decimal oid))
            (\<lambda>s. case eth_block l of
                   None \<Rightarrow> (s, 0)
                 | Some b \<Rightarrow> replay_refunded ctx Ethereum None (decimal oid) b s) st
      | None \<Rightarrow> (st, 0))"

text \<open>The \<open>for\<close> loop over the logs, adding up the replayed events.\<close>

fun replay_all :: "('e \<Rightarrow> 's \<Rightarrow> 's \<times> nat) \<Rightarrow> 'e list \<Rightarrow> 's \<Rightarrow> 's \<times> nat" where
  "replay_all f [] st = (st, 0)"
| "replay_all f (e # es) st =
     (let (st1, n1) = f e st; (st2, n2) = replay_all f es st1 in (st2, n1 + n2))"

definition replayEthCreated :: "call_ctx \<Rightarrow> eth_log list \<Rightarrow> svc \<times> seen_set \<Rightarrow> (svc \<times> seen_set) \<times> nat" where
  "replayEthCreated ctx logs st = replay_all (replayEthCreated1 ctx) logs st"

definition replayEthClaimed ::
    "digests \<Rightarrow> call_ctx \<Rightarrow> eth_log list \<Rightarrow> svc \<times> seen_set \<Rightarrow> (svc \<times> seen_set) \<times> nat" where
  "replayEthClaimed dg ctx logs st = replay_all (replayEthClaimed1 dg ctx) logs st"

definition replayEthRefunded :: "call_ctx \<Rightarrow> eth_log list \<Rightarrow> svc \<times> seen_set \<Rightarrow> (svc \<times> seen_set) \<times> nat" where
  "replayEthRefunded ctx logs st = replay_all (replayEthRefunded1 ctx) logs st"


section \<open>Soroban\<close>

text \<open>What \<open>decodeHtlcEvent\<close> returns: a malformed payload, \<open>null\<close> for another contract event, or one of
  the three HTLC events.\<close>

datatype soroban_payload =
    MalformedEvent
  | OtherEvent
  | SorobanCreated string nat nat
  | SorobanClaimed nat string
  | SorobanRefunded nat

record soroban_event =
  se_ledger :: nat
  se_txHash :: string
  se_payload :: soroban_payload

fun soroban_identity :: "soroban_payload \<Rightarrow> (chain_event \<times> string) option" where
  "soroban_identity (SorobanCreated hl oid lock) = Some (OrderCreated, hl)"
| "soroban_identity (SorobanClaimed oid pre) = Some (OrderClaimed, decimal oid)"
| "soroban_identity (SorobanRefunded oid) = Some (OrderRefunded, decimal oid)"
| "soroban_identity _ = None"

fun soroban_apply ::
    "digests \<Rightarrow> call_ctx \<Rightarrow> soroban_event \<Rightarrow> soroban_payload \<Rightarrow> svc \<Rightarrow> svc \<times> nat" where
  "soroban_apply dg ctx ev (SorobanCreated hl oid lock) s =
     replay_created ctx Stellar None hl (decimal oid) (se_txHash ev) (se_ledger ev) (Some lock) s"
| "soroban_apply dg ctx ev (SorobanClaimed oid pre) s =
     replay_claimed dg ctx Stellar None (decimal oid) pre (se_txHash ev) (se_ledger ev) s"
| "soroban_apply dg ctx ev (SorobanRefunded oid) s =
     replay_refunded ctx Stellar None (decimal oid) (se_ledger ev) s"
| "soroban_apply dg ctx ev _ s = (s, 0)"

definition replaySorobanEvent ::
    "digests \<Rightarrow> call_ctx \<Rightarrow> nat \<times> soroban_event \<Rightarrow> svc \<times> seen_set \<Rightarrow> (svc \<times> seen_set) \<times> nat" where
  "replaySorobanEvent dg ctx iev st =
     (let (eventIndex, ev) = iev
      in case soroban_identity (se_payload ev) of
           None \<Rightarrow> (st, 0)
         | Some (ty, identifier) \<Rightarrow>
             dedup_then ctx EvSoroban ty
               (sorobanEventKey ty (se_txHash ev) (se_ledger ev) eventIndex)
               (semanticKey EvSoroban ty identifier)
               (soroban_apply dg ctx ev (se_payload ev)) st)"

section \<open>Solana\<close>

record sol_payload =
  sp_hashlock :: "string option"
  sp_orderId :: "string option"
  sp_timelock :: "nat option"
  sp_preimage :: "string option"

definition empty_payload :: sol_payload where
  "empty_payload = \<lparr>sp_hashlock = None, sp_orderId = None, sp_timelock = None, sp_preimage = None\<rparr>"

definition override :: "'a option \<Rightarrow> 'a option \<Rightarrow> 'a option" where
  "override old new = (case new of None \<Rightarrow> old | Some v \<Rightarrow> Some v)"

definition assign_payload :: "sol_payload \<Rightarrow> sol_payload \<Rightarrow> sol_payload" where
  "assign_payload p q =
     \<lparr>sp_hashlock = override (sp_hashlock p) (sp_hashlock q),
      sp_orderId = override (sp_orderId p) (sp_orderId q),
      sp_timelock = override (sp_timelock p) (sp_timelock q),
      sp_preimage = override (sp_preimage p) (sp_preimage q)\<rparr>"

text \<open>\<open>json_fields\<close> stands for matching \<open>{...}\<close> in the line and parsing it as JSON; \<open>None\<close> is no match or
  a parse error.\<close>

fun scan_logs ::
    "(string \<Rightarrow> sol_payload option) \<Rightarrow> string list \<Rightarrow> chain_event option \<times> sol_payload
     \<Rightarrow> chain_event option \<times> sol_payload" where
  "scan_logs json_fields [] acc = acc"
| "scan_logs json_fields (line # rest) (ty, p) =
     (let ty1 = (if str_includes line ''OrderCreated'' then Some OrderCreated else ty);
          ty2 = (if str_includes line ''OrderClaimed'' then Some OrderClaimed else ty1);
          ty3 = (if str_includes line ''OrderRefunded'' then Some OrderRefunded else ty2);
          p' = (case json_fields line of None \<Rightarrow> p | Some q \<Rightarrow> assign_payload p q)
      in scan_logs json_fields rest (ty3, p'))"

text \<open>A Solana event is only checked against the run's seen set here; the durable claim is made when
  the event is settled.\<close>

definition solana_dedup ::
    "chain_event \<Rightarrow> string \<Rightarrow> string \<Rightarrow> svc \<times> seen_set \<Rightarrow> (svc \<Rightarrow> svc \<times> nat) \<Rightarrow> (svc \<times> seen_set) \<times> nat" where
  "solana_dedup ty sig identifier st body =
     (let (s, seen) = st;
          (seen', conflict) = checkAndMark (solanaEventKey ty sig) (semanticKey EvSolana ty identifier) seen
      in if conflict \<noteq> None then ((s, seen'), 0)
         else let (s', n) = body s in ((s', seen'), n))"

definition replaySolanaLogs ::
    "(string \<Rightarrow> sol_payload option) \<Rightarrow> digests \<Rightarrow> call_ctx \<Rightarrow> string \<Rightarrow> string list \<Rightarrow> nat
     \<Rightarrow> svc \<times> seen_set \<Rightarrow> (svc \<times> seen_set) \<times> nat" where
  "replaySolanaLogs json_fields dg ctx sig logs slot st =
     (case scan_logs json_fields logs (None, empty_payload) of
        (None, _) \<Rightarrow> (st, 0)
      | (Some OrderCreated, p) \<Rightarrow>
          (case (truthy_string (sp_hashlock p), truthy_string (sp_orderId p)) of
             (Some hl, Some oid) \<Rightarrow>
               solana_dedup OrderCreated sig hl st
                 (replay_created ctx Solana (Some (solanaEventKey OrderCreated sig)) hl oid sig slot
                    (Some (or_default (sp_timelock p) 0)))
           | _ \<Rightarrow> (st, 0))
      | (Some OrderClaimed, p) \<Rightarrow>
          (case (truthy_string (sp_preimage p), truthy_string (sp_orderId p)) of
             (Some pre, Some oid) \<Rightarrow>
               solana_dedup OrderClaimed sig oid st
                 (replay_claimed dg ctx Solana (Some (solanaEventKey OrderClaimed sig)) oid pre sig slot)
           | _ \<Rightarrow> (st, 0))
      | (Some OrderRefunded, p) \<Rightarrow>
          (case truthy_string (sp_orderId p) of
             Some oid \<Rightarrow>
               solana_dedup OrderRefunded sig oid st
                 (replay_refunded ctx Solana (Some (solanaEventKey OrderRefunded sig)) oid slot)
           | None \<Rightarrow> (st, 0)))"

section \<open>One run\<close>

record eth_rpc =
  getBlockNumber :: "string + nat"
  getLogs :: "chain_event \<Rightarrow> nat \<Rightarrow> nat \<Rightarrow> string + eth_log list"

text \<open>\<open>getEvents startLedger cursor\<close> answers one page: its events and the cursor of the next one.\<close>

record soroban_rpc =
  getLatestLedger :: "string + nat"
  getEvents :: "nat option \<Rightarrow> string option \<Rightarrow> string + (soroban_event list \<times> string option)"

record sol_sig =
  sig_signature :: string
  sig_err :: bool
  sig_slot :: nat

text \<open>A fetched transaction: \<open>None\<close> without metadata; otherwise whether it failed, and its log lines.\<close>

record solana_rpc =
  getSlot :: "string + nat"
  getSlotAgain :: "string + nat"
  getSignatures :: "nat \<Rightarrow> string + sol_sig list"
  getParsedTransaction :: "string \<Rightarrow> string + (bool \<times> string list option) option"

record recon_config =
  htlcEscrow :: bool
  htlcContract :: bool
  programId :: string

record recon =
  orders_service :: svc
  ethCursor :: "ledger_cursor option"
  sorobanCursor :: "ledger_cursor option"
  sorobanRpcCursor :: "string option"
  solanaCursor :: "ledger_cursor option"
  seenSet :: seen_set
  policy :: replay_policy
  cursorsReady :: bool

definition initCursors :: "recon \<Rightarrow> recon" where
  "initCursors r =
     (let d = repo (orders_service r)
      in r\<lparr>ethCursor := Some (new_LedgerCursor (repo_getChainCursor Ethereum d) ETH_LOOKBACK_BLOCKS),
           sorobanCursor := Some (new_LedgerCursor (repo_getChainCursor Stellar d) SOROBAN_LOOKBACK_LEDGERS),
           solanaCursor := Some (new_LedgerCursor (repo_getChainCursor Solana d) SOLANA_LOOKBACK_SLOTS),
           cursorsReady := True\<rparr>)"

definition scan_cursor :: "chain \<Rightarrow> svc \<Rightarrow> nat" where
  "scan_cursor ch s =
     (let c = repo_getChainCursor ch (repo s)
      in case repo_getMinActiveOrderCursor ch (repo s) of
           Some m \<Rightarrow> if m > 0 then (if c > 0 then min c m else m) else c
         | None \<Rightarrow> c)"

definition computeEthFromBlock :: "nat \<Rightarrow> svc \<Rightarrow> nat" where
  "computeEthFromBlock latest s =
     fst (computeIncrementalScanStart (scan_cursor Ethereum s) latest ETH_LOOKBACK_BLOCKS)"


definition replayEthereum ::
    "digests \<Rightarrow> call_ctx \<Rightarrow> eth_log list \<Rightarrow> eth_log list \<Rightarrow> eth_log list \<Rightarrow> svc \<times> seen_set
     \<Rightarrow> (svc \<times> seen_set) \<times> nat" where
  "replayEthereum dg ctx created claimed refunded st =
     (let (st1, n1) = replayEthCreated ctx created st;
          (st2, n2) = replayEthClaimed dg ctx claimed st1;
          (st3, n3) = replayEthRefunded ctx refunded st2
      in (st3, n1 + n2 + n3))"

definition with_state :: "recon \<Rightarrow> svc \<times> seen_set \<Rightarrow> recon" where
  "with_state r st = r\<lparr>orders_service := fst st, seenSet := snd st\<rparr>"

text \<open>A chain's part of the run returns the state it leaves, also when it throws.\<close>

definition reconcileEthereum ::
    "recon_config \<Rightarrow> eth_rpc \<Rightarrow> digests \<Rightarrow> call_ctx \<Rightarrow> recon \<Rightarrow> recon \<times> (string + nat)" where
  "reconcileEthereum cfg rpc dg ctx r =
     (if \<not> htlcEscrow cfg \<or> ethCursor r = None then (r, Inr 0)
      else case getBlockNumber rpc of
             Inl e \<Rightarrow> (r, Inl e)
           | Inr latest \<Rightarrow>
               let start = computeEthFromBlock latest (orders_service r)
               in case (getLogs rpc OrderCreated start latest, getLogs rpc OrderClaimed start latest,
                        getLogs rpc OrderRefunded start latest) of
                    (Inr created, Inr claimed, Inr refunded) \<Rightarrow>
                      let ((s, seen), n) = replayEthereum dg ctx created claimed refunded
                            (orders_service r, seenSet r)
                      in (with_state r (svc_setChainCursor ctx Ethereum latest s, seen), Inr n)
                  | (Inl e, _, _) \<Rightarrow> (r, Inl e)
                  | (_, Inl e, _) \<Rightarrow> (r, Inl e)
                  | (_, _, Inl e) \<Rightarrow> (r, Inl e))"

text \<open>The page loop of the Soroban scan. It ends when a page is short or has no next cursor; \<open>fuel\<close> bounds
  the number of pages, and \<open>None\<close> means that the bound was not enough. The event index runs over all
  pages of the run.\<close>

fun soroban_pages ::
    "nat \<Rightarrow> soroban_rpc \<Rightarrow> digests \<Rightarrow> call_ctx \<Rightarrow> nat \<Rightarrow> string option \<Rightarrow> nat \<Rightarrow> nat \<Rightarrow> svc \<times> seen_set
     \<Rightarrow> ((svc \<times> seen_set) \<times> string option \<times> (string + nat)) option" where
  "soroban_pages 0 rpc dg ctx start cursor i n st = None"
| "soroban_pages (Suc fuel) rpc dg ctx start cursor i n st =
     (case getEvents rpc (if truthy_string cursor = None then Some start else None) cursor of
        Inl e \<Rightarrow> Some (st, None, Inl e)
      | Inr (events, nxt) \<Rightarrow>
          let (st', m) = replay_all (replaySorobanEvent dg ctx) (enumerate i events) st
          in if length events < 200 \<or> truthy_string nxt = None then Some (st', nxt, Inr (n + m))
             else soroban_pages fuel rpc dg ctx start nxt (i + length events) (n + m) st')"

definition reconcileSoroban ::
    "nat \<Rightarrow> recon_config \<Rightarrow> soroban_rpc \<Rightarrow> digests \<Rightarrow> call_ctx \<Rightarrow> recon \<Rightarrow> (recon \<times> (string + nat)) option" where
  "reconcileSoroban fuel cfg rpc dg ctx r =
     (if \<not> htlcContract cfg then Some (r, Inr 0)
      else case sorobanCursor r of
        None \<Rightarrow> Some (r, Inr 0)
      | Some cur \<Rightarrow>
          (case getLatestLedger rpc of
             Inl e \<Rightarrow> Some (r, Inl e)
           | Inr tip \<Rightarrow>
               let decision = buildReplayDecision ''soroban'' (lc_assess tip cur);
                   r1 = r\<lparr>policy := recordDecision decision (policy r)\<rparr>
               in if rd_windowSize decision = 0 then Some (r1, Inr 0)
                  else case soroban_pages fuel rpc dg ctx (rd_fromBlock decision) (sorobanRpcCursor r) 0 0
                              (orders_service r, seenSet r) of
                         None \<Rightarrow> None
                       | Some (st, cursor, Inl e) \<Rightarrow> Some ((with_state r1 st)\<lparr>sorobanRpcCursor := None\<rparr>, Inl e)
                       | Some ((s, seen), cursor, Inr n) \<Rightarrow>
                           Some ((with_state r1 (svc_setChainCursor ctx Stellar tip s, seen))
                                   \<lparr>sorobanRpcCursor := cursor, sorobanCursor := Some (lc_advance tip cur)\<rparr>,
                                 Inr n)))"

definition replaySolanaSig ::
    "(string \<Rightarrow> sol_payload option) \<Rightarrow> solana_rpc \<Rightarrow> digests \<Rightarrow> call_ctx \<Rightarrow> replay_decision \<Rightarrow> sol_sig
     \<Rightarrow> svc \<times> seen_set \<Rightarrow> (svc \<times> seen_set) \<times> nat" where
  "replaySolanaSig json_fields rpc dg ctx decision sig st =
     (if sig_err sig \<or> sig_slot sig < rd_fromBlock decision \<or> sig_slot sig > rd_toBlock decision then (st, 0)
      else case getParsedTransaction rpc (sig_signature sig) of
             Inr (Some (False, Some logs)) \<Rightarrow>
               replaySolanaLogs json_fields dg ctx (sig_signature sig) logs (sig_slot sig) st
           | _ \<Rightarrow> (st, 0))"

definition reconcileSolana ::
    "recon_config \<Rightarrow> solana_rpc \<Rightarrow> (string \<Rightarrow> sol_payload option) \<Rightarrow> digests \<Rightarrow> call_ctx \<Rightarrow> recon
     \<Rightarrow> recon \<times> (string + nat)" where
  "reconcileSolana cfg rpc json_fields dg ctx r =
     (if programId cfg = '''' \<or> programId cfg = ''PLACEHOLDER'' then (r, Inr 0)
      else case solanaCursor r of
        None \<Rightarrow> (r, Inr 0)
      | Some cur \<Rightarrow>
          (case getSlot rpc of
             Inl e \<Rightarrow> (r, Inl e)
           | Inr tip \<Rightarrow>
               let decision = buildReplayDecision ''solana'' (lc_assess tip cur);
                   r1 = r\<lparr>policy := recordDecision decision (policy r)\<rparr>
               in if rd_windowSize decision = 0 then (r1, Inr 0)
                  else case (getSlotAgain rpc, getSignatures rpc (rd_fromBlock decision)) of
                         (Inr slot, Inr sigs) \<Rightarrow>
                           let ((s, seen), n) = replay_all (replaySolanaSig json_fields rpc dg ctx decision) sigs
                                 (orders_service r, seenSet r)
                           in ((with_state r1 (svc_setChainCursor ctx Solana slot s, seen))
                                 \<lparr>solanaCursor := Some (lc_advance tip cur)\<rparr>, Inr n)
                       | (Inl e, _) \<Rightarrow> (r1, Inl e)
                       | (_, Inl e) \<Rightarrow> (r1, Inl e)))"

record recon_status =
  lastRunOk :: bool
  eventsReplayed :: nat
  cursor_status :: "nat \<times> nat \<times> nat"
  recovery :: "chain_recovery list \<times> recovery_overall"

definition cursor_hwm :: "ledger_cursor option \<Rightarrow> nat" where
  "cursor_hwm c = (case c of None \<Rightarrow> 0 | Some c \<Rightarrow> lc_getHwm c)"

definition hwmByChain :: "recon \<Rightarrow> string \<Rightarrow> nat" where
  "hwmByChain r ch =
     (if ch = ''ethereum'' then cursor_hwm (ethCursor r)
      else if ch = ''stellar'' then cursor_hwm (sorobanCursor r)
      else if ch = ''solana'' then cursor_hwm (solanaCursor r) else 0)"

definition run_recovery_report :: "recon \<Rightarrow> chain_recovery list \<times> recovery_overall" where
  "run_recovery_report r =
     buildRecoveryReport (map (\<lambda>d. \<lparr>ri_chain = rd_chain d, ri_hwm = hwmByChain r (rd_chain d),
         ri_tip = rd_toBlock d, ri_fromBlock = rd_fromBlock d, ri_lookback = None\<rparr>)
       (decisions (policy r)))"

record recon_env =
  env_eth :: eth_rpc
  env_soroban :: soroban_rpc
  env_solana :: solana_rpc
  env_json :: "string \<Rightarrow> sol_payload option"
  env_digests :: digests

definition ok_count :: "string + nat \<Rightarrow> nat" where
  "ok_count res = (case res of Inl _ \<Rightarrow> 0 | Inr n \<Rightarrow> n)"

definition recon_run ::
    "nat \<Rightarrow> recon_config \<Rightarrow> recon_env \<Rightarrow> call_ctx \<Rightarrow> recon \<Rightarrow> (recon \<times> recon_status) option" where
  "recon_run fuel cfg env ctx r =
     (let r0 = (if cursorsReady r then r else initCursors r);
          r1 = r0\<lparr>seenSet := seen_clear (seenSet r0), policy := policy_reset (policy r0)\<rparr>;
          (r2, e2) = reconcileEthereum cfg (env_eth env) (env_digests env) ctx r1
      in case reconcileSoroban fuel cfg (env_soroban env) (env_digests env) ctx r2 of
           None \<Rightarrow> None
         | Some (r3, e3) \<Rightarrow>
             let (r4, e4) = reconcileSolana cfg (env_solana env) (env_json env) (env_digests env) ctx r3
             in Some (r4, \<lparr>lastRunOk = (\<not> isl e2 \<and> \<not> isl e3 \<and> \<not> isl e4),
                           eventsReplayed = ok_count e2 + ok_count e3 + ok_count e4,
                           cursor_status = (cursor_hwm (ethCursor r4), cursor_hwm (sorobanCursor r4),
                                            cursor_hwm (solanaCursor r4)),
                           recovery = run_recovery_report r4\<rparr>))"

definition new_Reconciler :: "svc \<Rightarrow> recon" where
  "new_Reconciler s =
     \<lparr>orders_service = s, ethCursor = None, sorobanCursor = None, sorobanRpcCursor = None,
      solanaCursor = None, seenSet = new_EventSeenSet, policy = new_ReplayPolicy, cursorsReady = False\<rparr>"

end
