(* ===== verification/Reconciler_Laws.thy ===== *)
theory Reconciler_Laws
  imports Reconciler Service_Properties
begin

text \<open>
  What a reconciler run does to the coordinator's state. \<open>event_step\<close> is the interface through
  which the reconciler writes: it claims events, moves order cursors, records source locks, records
  preimages that match the hashlock, and marks orders refunded. A whole run (\<open>replay_step\<close>) also moves
  chain cursors. Every function of the reconciler is shown to be a sequence of such steps.
\<close>

section \<open>The steps of a run\<close>

inductive event_step :: "digests \<Rightarrow> svc \<Rightarrow> svc \<Rightarrow> bool" for dg :: digests where
  claim: "event_step dg s (fst (svc_claimEvent ctx key ech ty oid s))"
| order_cursor: "event_step dg s (svc_advanceOrderLedgerCursor ctx pid eth soroban sol s)"
| src_lock: "svc_recordSrcLock ctx inp act s = Inr s' \<Longrightarrow> event_step dg s s'"
| secret: "svc_recordSecret ctx (publicId order) pre tx enc act s = Inr s' \<Longrightarrow>
     order \<in> set (orders (repo s)) \<Longrightarrow> validatePreimage dg pre (hashlock order) \<noteq> None \<Longrightarrow>
     event_step dg s s'"
| refund: "svc_markStatus ctx pid Refunded act s = Inr s' \<Longrightarrow> event_step dg s s'"

inductive replay_step :: "digests \<Rightarrow> svc \<Rightarrow> svc \<Rightarrow> bool" for dg :: digests where
  event: "event_step dg s s' \<Longrightarrow> replay_step dg s s'"
| chain_cursor: "replay_step dg s (svc_setChainCursor ctx ch pos s)"

abbreviation event_steps :: "digests \<Rightarrow> svc \<Rightarrow> svc \<Rightarrow> bool" where
  "event_steps dg \<equiv> (event_step dg)\<^sup>*\<^sup>*"

abbreviation replay_steps :: "digests \<Rightarrow> svc \<Rightarrow> svc \<Rightarrow> bool" where
  "replay_steps dg \<equiv> (replay_step dg)\<^sup>*\<^sup>*"

lemma event_steps_one: "event_step dg s s' \<Longrightarrow> event_steps dg s s'"
  by blast

lemma event_replay_steps: "event_steps dg s s' \<Longrightarrow> replay_steps dg s s'"
  by (induction rule: rtranclp_induct) (auto intro: rtranclp.rtrancl_into_rtrancl replay_step.event)

lemma find_in_set: "find P xs = Some x \<Longrightarrow> x \<in> set xs"
  by (induction xs) (auto split: if_splits)

lemma settle_steps: "event_steps dg s (settle_event ctx late ty s)"
  by (cases late) (auto simp: settle_event_def intro: event_steps_one event_step.claim)

lemma advanceOrderCursor_steps: "event_steps dg s (advanceOrderCursor ctx pid ch pos s)"
  by (cases ch) (auto simp: advanceOrderCursor_def intro: event_steps_one event_step.order_cursor)

lemma settle_advance_steps:
  assumes "event_steps dg s s'"
  shows "event_steps dg s (settle_event ctx late ty (advanceOrderCursor ctx pid ch pos s'))"
  using assms advanceOrderCursor_steps settle_steps by (meson rtranclp_trans)

lemma replay_created_steps:
  "event_steps dg s (fst (replay_created ctx ch late hl oid tx pos timelock s))"
  by (auto simp: replay_created_def settle_steps settle_advance_steps event_steps_one
      event_step.src_lock split: option.split sum.split)

lemma replay_claimed_steps:
  "event_steps dg s (fst (replay_claimed dg ctx ch late oid pre tx pos s))"
proof -
  have "event_steps dg s s'"
    if "svc_findBySrcOrderId ch oid s = Some r" "validatePreimage dg pre (hashlock r) \<noteq> None"
      "svc_recordSecret ctx (publicId r) pre tx None act s = Inr s'" for r s' act
  proof -
    have "r \<in> set (orders (repo s))"
      using that(1) by (simp add: svc_findBySrcOrderId_def repo_findBySrcOrderId_def find_in_set)
    from event_step.secret [OF that(3) this that(2)] show ?thesis by blast
  qed
  then show ?thesis
    by (auto simp: replay_claimed_def settle_steps settle_advance_steps split: option.split sum.split)
qed

lemma replay_refunded_steps: "event_steps dg s (fst (replay_refunded ctx ch late oid pos s))"
  by (auto simp: replay_refunded_def settle_steps settle_advance_steps event_steps_one
      event_step.refund split: option.split sum.split)

text \<open>The handlers, as functions on the pair of service and seen set.\<close>

definition replays :: "digests \<Rightarrow> (svc \<times> seen_set \<Rightarrow> (svc \<times> seen_set) \<times> nat) \<Rightarrow> bool" where
  "replays dg f \<longleftrightarrow> (\<forall>st. event_steps dg (fst st) (fst (fst (f st))))"

lemma dedup_steps: "event_steps dg (fst st) (fst (fst (dedup ctx ech ty key semKey st)))"
  by (auto simp: dedup_def Let_def split_beta intro: event_steps_one event_step.claim)

lemma dedup_then_steps:
  assumes "\<And>s. event_steps dg s (fst (body s))"
  shows "event_steps dg (fst st) (fst (fst (dedup_then ctx ech ty key semKey body st)))"
proof -
  obtain s seen won where d: "dedup ctx ech ty key semKey st = ((s, seen), won)"
    by (metis surj_pair)
  show ?thesis
    using dedup_steps [of dg st ctx ech ty key semKey] assms [of s] unfolding dedup_then_def d
    by (cases won) (auto simp: split_beta intro: rtranclp_trans)
qed

lemma replay_all_replays:
  assumes "\<And>e. replays dg (f e)"
  shows "event_steps dg (fst st) (fst (fst (replay_all f es st)))"
proof (induction es arbitrary: st)
  case (Cons e es)
  have "event_steps dg (fst st) (fst (fst (f e st)))" using assms unfolding replays_def by blast
  then show ?case using Cons.IH [of "fst (f e st)"] by (simp add: split_beta)
qed simp

lemma eth_block_steps:
  "(\<And>b. event_steps dg s (fst (body b))) \<Longrightarrow>
   event_steps dg s (fst (case eth_block l of None \<Rightarrow> (s, 0) | Some b \<Rightarrow> body b))"
  by (simp split: option.split)

lemmas replay_intros = dedup_then_steps eth_block_steps replay_created_steps replay_claimed_steps
  replay_refunded_steps

lemma replayEthCreated1_replays: "replays dg (replayEthCreated1 ctx l)"
  unfolding replays_def replayEthCreated1_def
  by (auto simp del: split_paired_All split: option.split intro!: replay_intros)

lemma replayEthClaimed1_replays: "replays dg (replayEthClaimed1 dg ctx l)"
  unfolding replays_def replayEthClaimed1_def
  by (auto simp del: split_paired_All split: option.split intro!: replay_intros)

lemma replayEthRefunded1_replays: "replays dg (replayEthRefunded1 ctx l)"
  unfolding replays_def replayEthRefunded1_def
  by (auto simp del: split_paired_All split: option.split intro!: replay_intros)

lemma soroban_apply_steps: "event_steps dg s (fst (soroban_apply dg ctx ev p s))"
  by (cases p) (simp_all add: replay_created_steps replay_claimed_steps replay_refunded_steps)

lemma replaySorobanEvent_replays: "replays dg (replaySorobanEvent dg ctx iev)"
  unfolding replays_def replaySorobanEvent_def
  by (auto simp del: split_paired_All simp: Let_def split_beta split: option.split
      intro!: dedup_then_steps soroban_apply_steps)

lemma solana_dedup_steps:
  "(\<And>s. event_steps dg s (fst (body s))) \<Longrightarrow>
   event_steps dg (fst st) (fst (fst (solana_dedup ty sig ident st body)))"
  by (simp add: solana_dedup_def Let_def split_beta)

lemma replaySolanaLogs_steps:
  "event_steps dg (fst st) (fst (fst (replaySolanaLogs json dg ctx sig logs slot st)))"
  by (auto simp: replaySolanaLogs_def split_beta split: option.split chain_event.split
      intro!: solana_dedup_steps replay_created_steps replay_claimed_steps replay_refunded_steps)

lemma replaySolanaSig_replays: "replays dg (replaySolanaSig json rpc dg ctx decision sig)"
  unfolding replays_def replaySolanaSig_def
  by (simp del: split_paired_All add: replaySolanaLogs_steps split: sum.split option.split prod.split bool.split)


section \<open>Whole chains and runs\<close>

lemma orders_with_state [simp]: "orders_service (with_state r st) = fst st"
  by (simp add: with_state_def)

lemma replay_steps_cursor:
  "event_steps dg s s' \<Longrightarrow> replay_steps dg s (svc_setChainCursor ctx ch pos s')"
  by (drule event_replay_steps, erule rtranclp.rtrancl_into_rtrancl) (rule replay_step.chain_cursor)

lemma replayEthereum_steps:
  "event_steps dg (fst st) (fst (fst (replayEthereum dg ctx created claimed refunded st)))"
proof -
  have c: "event_steps dg (fst st) (fst (fst (replayEthCreated ctx logs st)))" for logs st
    unfolding replayEthCreated_def by (rule replay_all_replays [OF replayEthCreated1_replays])
  have m: "event_steps dg (fst st) (fst (fst (replayEthClaimed dg ctx logs st)))" for logs st
    unfolding replayEthClaimed_def by (rule replay_all_replays [OF replayEthClaimed1_replays])
  have f: "event_steps dg (fst st) (fst (fst (replayEthRefunded ctx logs st)))" for logs st
    unfolding replayEthRefunded_def by (rule replay_all_replays [OF replayEthRefunded1_replays])
  show ?thesis
    using rtranclp_trans [OF rtranclp_trans [OF c m] f] by (simp add: replayEthereum_def split_beta)
qed

lemma reconcileEthereum_steps:
  "replay_steps dg (orders_service r) (orders_service (fst (reconcileEthereum cfg rpc dg ctx r)))"
  using replayEthereum_steps [where st = "(orders_service r, seenSet r)"]
  by (simp add: reconcileEthereum_def Let_def split_beta replay_steps_cursor split: sum.split)

lemma soroban_pages_steps:
  "soroban_pages fuel rpc dg ctx start cur i n st = Some (st', c, res) \<Longrightarrow>
   event_steps dg (fst st) (fst st')"
proof (induction fuel arbitrary: cur i n st)
  case (Suc fuel)
  show ?case
  proof (cases "getEvents rpc (if truthy_string cur = None then Some start else None) cur")
    case (Inr page)
    obtain events nxt where page: "page = (events, nxt)" by (cases page)
    let ?r = "replay_all (replaySorobanEvent dg ctx) (enumerate i events) st"
    have one: "event_steps dg (fst st) (fst (fst ?r))"
      by (rule replay_all_replays [OF replaySorobanEvent_replays])
    show ?thesis
    proof (cases "length events < 200 \<or> truthy_string nxt = None")
      case True
      then show ?thesis using Suc.prems Inr page one by (auto simp: split_beta)
    next
      case False
      with Suc.prems Inr page have "soroban_pages fuel rpc dg ctx start nxt (i + length events) (n + snd ?r) (fst ?r)
          = Some (st', c, res)" by (simp add: split_beta)
      from Suc.IH [OF this] one show ?thesis by (meson rtranclp_trans)
    qed
  qed (use Suc.prems in auto)
qed simp

lemma reconcileSoroban_cases:
  assumes "reconcileSoroban fuel cfg rpc dg ctx r = Some (r', res)"
  obtains (idle) "orders_service r' = orders_service r"
  | (failed) start st c e where "soroban_pages fuel rpc dg ctx start (sorobanRpcCursor r) 0 0
        (orders_service r, seenSet r) = Some (st, c, Inl e)" and "orders_service r' = fst st"
  | (scanned) start st c n tip where "soroban_pages fuel rpc dg ctx start (sorobanRpcCursor r) 0 0
        (orders_service r, seenSet r) = Some (st, c, Inr n)"
      and "orders_service r' = svc_setChainCursor ctx Stellar tip (fst st)"
proof (cases "htlcContract cfg \<and> sorobanCursor r \<noteq> None \<and> \<not> isl (getLatestLedger rpc)")
  case True
  then obtain cur tip where ct: "htlcContract cfg" "sorobanCursor r = Some cur" "getLatestLedger rpc = Inr tip"
    by (cases "getLatestLedger rpc") auto
  let ?d = "buildReplayDecision ''soroban'' (lc_assess tip cur)"
  let ?p = "soroban_pages fuel rpc dg ctx (rd_fromBlock ?d) (sorobanRpcCursor r) 0 0 (orders_service r, seenSet r)"
  show ?thesis
  proof (cases "rd_windowSize ?d = 0")
    case False
    then obtain s seen c out where p: "?p = Some ((s, seen), c, out)"
      using assms ct by (auto simp: reconcileSoroban_def Let_def simp del: decision_simps split: option.splits)
    show ?thesis
    proof (cases out)
      case (Inl e)
      then have "orders_service r' = s"
        using assms ct False p by (auto simp: reconcileSoroban_def Let_def simp del: decision_simps)
      then show ?thesis using failed p Inl by simp
    next
      case (Inr n)
      then have "orders_service r' = svc_setChainCursor ctx Stellar tip s"
        using assms ct False p by (auto simp: reconcileSoroban_def Let_def simp del: decision_simps)
      then show ?thesis using scanned p Inr by simp
    qed
  qed (use assms ct idle in \<open>auto simp: reconcileSoroban_def Let_def simp del: decision_simps\<close>)
next
  case False
  then show ?thesis
    using assms idle by (auto simp: reconcileSoroban_def split: if_splits option.splits sum.splits)
qed

lemma reconcileSoroban_steps:
  assumes "reconcileSoroban fuel cfg rpc dg ctx r = Some (r', res)"
  shows "replay_steps dg (orders_service r) (orders_service r')"
  using assms
proof (cases rule: reconcileSoroban_cases)
  case (failed start st c e)
  then show ?thesis using event_replay_steps [OF soroban_pages_steps [OF failed(1)]] by simp
next
  case (scanned start st c n tip)
  then show ?thesis using soroban_pages_steps [OF scanned(1)] by (simp add: replay_steps_cursor)
qed simp

lemma reconcileSolana_steps:
  "replay_steps dg (orders_service r) (orders_service (fst (reconcileSolana cfg rpc json dg ctx r)))"
proof -
  have "event_steps dg (fst st) (fst (fst (replay_all (replaySolanaSig json rpc dg ctx decision) sigs st)))"
    for decision sigs st
    by (rule replay_all_replays [OF replaySolanaSig_replays])
  from this [of "(orders_service r, seenSet r)"] show ?thesis
    by (auto simp: reconcileSolana_def Let_def split_beta replay_steps_cursor split: sum.split option.split)
qed

lemma recon_run_steps:
  assumes "recon_run fuel cfg env ctx r = Some (r', report)"
  shows "replay_steps (env_digests env) (orders_service r) (orders_service r')"
proof -
  let ?r0 = "if cursorsReady r then r else initCursors r"
  let ?r1 = "?r0\<lparr>seenSet := seen_clear (seenSet ?r0), policy := policy_reset (policy ?r0)\<rparr>"
  let ?e = "reconcileEthereum cfg (env_eth env) (env_digests env) ctx ?r1"
  have same: "orders_service ?r1 = orders_service r" by (simp add: initCursors_def Let_def)
  from assms obtain r3 e3 where r3: "reconcileSoroban fuel cfg (env_soroban env) (env_digests env) ctx (fst ?e)
        = Some (r3, e3)"
    and r': "r' = fst (reconcileSolana cfg (env_solana env) (env_json env) (env_digests env) ctx r3)"
    by (auto simp: recon_run_def Let_def split_beta split: option.splits)
  have "replay_steps (env_digests env) (orders_service r) (orders_service (fst ?e))"
    using reconcileEthereum_steps [of "env_digests env" ?r1] same by simp
  moreover note reconcileSoroban_steps [OF r3]
  moreover have "replay_steps (env_digests env) (orders_service r3) (orders_service r')"
    unfolding r' by (rule reconcileSolana_steps)
  ultimately show ?thesis by (meson rtranclp_trans)
qed

lemma recoverOneOrder_steps: "event_steps dg s (fst (recoverOneOrder dg ctx oid pre tx s))"
proof (cases "svc_findBySrcOrderId Ethereum oid s")
  case (Some order)
  have "order \<in> set (orders (repo s))"
    using Some by (simp add: svc_findBySrcOrderId_def repo_findBySrcOrderId_def find_in_set)
  then have "event_steps dg s s'"
    if "validatePreimage dg pre (hashlock order) \<noteq> None"
      "svc_recordSecret ctx (publicId order) pre tx None act s = Inr s'" for act s'
    using event_step.secret [OF that(2) _ that(1)] by blast
  then show ?thesis using Some by (auto simp: recoverOneOrder_def split: sum.split)
qed (simp add: recoverOneOrder_def)

lemma recoverFromEthereumLogs_steps: "event_steps dg s (fst (recoverFromEthereumLogs dg ctx logs s))"
proof -
  have "event_steps dg s (fst (recover_loop dg ctx ls res s))" for ls res s
  proof (induction ls arbitrary: res s)
    case (Cons l ls)
    have "event_steps dg s (fst (recover_loop dg ctx ls res' (fst (recoverOneOrder dg ctx oid pre tx s))))"
      for res' oid pre tx
      using recoverOneOrder_steps Cons.IH by (rule rtranclp_trans)
    then show ?case using Cons.IH by (simp add: split_beta split: option.split)
  qed simp
  then show ?thesis by (simp add: recoverFromEthereumLogs_def Let_def split: sum.split)
qed


section \<open>What a run does to an order\<close>

lemma event_step_svc_step: "event_step dg s s' \<Longrightarrow> svc_step codec s s'"
  by (induction rule: event_step.induct) (auto intro: svc_step.intros)

lemma replay_step_svc_step: "replay_step dg s s' \<Longrightarrow> svc_step codec s s'"
  by (induction rule: replay_step.induct) (auto intro: svc_step.setChainCursor event_step_svc_step)

lemma replay_steps_svc_steps: "replay_steps dg s s' \<Longrightarrow> svc_steps codec s s'"
  by (induction rule: rtranclp_induct) (auto intro: svc_steps.intros replay_step_svc_step)

lemma replay_steps_reachable:
  "replay_steps dg s s' \<Longrightarrow> repo_reachable (repo s) \<Longrightarrow> repo_reachable (repo s')"
  using replay_steps_svc_steps svc_steps_reachable by blast

definition recon_row :: "digests \<Rightarrow> order_row \<Rightarrow> order_row \<Rightarrow> bool" where
  "recon_row dg r q \<longleftrightarrow> same_identity r q
     \<and> table_reaches TRANSITIONS (status r) (status q)
     \<and> (preimage r \<noteq> None \<longrightarrow> preimage q = preimage r)
     \<and> (\<forall>p. preimage r = None \<longrightarrow> preimage q = Some p \<longrightarrow> validatePreimage dg p (hashlock r) \<noteq> None)
     \<and> (srcOrderId r \<noteq> None \<longrightarrow> src_lock_of q = src_lock_of r)
     \<and> dst_lock_of q = dst_lock_of r"

lemma recon_row_refl [simp]: "recon_row dg r r"
  by (simp add: recon_row_def same_identity_def)

lemma recon_row_trans:
  assumes "recon_row dg r q" and "recon_row dg q p"
  shows "recon_row dg r p"
proof -
  have id: "same_identity r q" "same_identity q p" using assms unfolding recon_row_def by blast+
  then have "same_identity r p" by (simp add: same_identity_def)
  moreover have "table_reaches TRANSITIONS (status r) (status p)"
    by (rule table_reaches_trans [of _ _ "status q"]) (use assms in \<open>simp_all only: recon_row_def\<close>)
  moreover have "validatePreimage dg x (hashlock r) \<noteq> None" if "preimage r = None" "preimage p = Some x" for x
  proof (cases "preimage q")
    case None
    then have "validatePreimage dg x (hashlock q) \<noteq> None" using assms(2) that(2) unfolding recon_row_def by blast
    then show ?thesis using id(1) by (simp add: same_identity_def)
  next
    case (Some y)
    then have "preimage p = preimage q" using assms(2) unfolding recon_row_def by blast
    with that(2) have "preimage q = Some x" by simp
    then show ?thesis using assms(1) that(1) unfolding recon_row_def by blast
  qed
  moreover have "preimage p = preimage r" if "preimage r \<noteq> None"
  proof -
    have "preimage q = preimage r" using assms(1) that unfolding recon_row_def by blast
    moreover from this that have "preimage p = preimage q" using assms(2) unfolding recon_row_def by metis
    ultimately show ?thesis by simp
  qed
  moreover have "src_lock_of p = src_lock_of r" if "srcOrderId r \<noteq> None"
  proof -
    have "src_lock_of q = src_lock_of r" using assms(1) that unfolding recon_row_def by blast
    moreover from this that have "srcOrderId q \<noteq> None" by (simp add: src_lock_of_def)
    moreover from this have "src_lock_of p = src_lock_of q" using assms(2) unfolding recon_row_def by blast
    ultimately show ?thesis by simp
  qed
  moreover have "dst_lock_of p = dst_lock_of r" using assms unfolding recon_row_def by metis
  ultimately show ?thesis unfolding recon_row_def by blast
qed

definition recon_rows :: "digests \<Rightarrow> db \<Rightarrow> db \<Rightarrow> bool" where
  "recon_rows dg d d' \<longleftrightarrow> (\<forall>pid r. select_by_public_id pid d = Some r \<longrightarrow>
     (\<exists>q. select_by_public_id pid d' = Some q \<and> recon_row dg r q))"

lemma recon_rows_effect:
  assumes "db_effect pid h d d'" and "\<And>r. select_by_public_id pid d = Some r \<Longrightarrow> recon_row dg r (h r)"
  shows "recon_rows dg d d'"
  using assms by (auto simp: recon_rows_def db_effect_def)

lemma recon_rows_same:
  "(\<And>q. select_by_public_id q d' = select_by_public_id q d) \<Longrightarrow> recon_rows dg d d'"
  by (simp add: recon_rows_def)

lemma table_edge: "canTransition a b \<Longrightarrow> table_reaches TRANSITIONS a b"
  using table_reaches_step [OF table_reaches_refl] by (simp add: canTransition_def)

lemma recon_row_cursor:
  "recon_row dg r q \<Longrightarrow> recon_row dg r ((set_order_cursor ch n q)\<lparr>updatedAt := now\<rparr>)"
  by (cases ch) (simp_all add: recon_row_def same_identity_def src_lock_of_def dst_lock_of_def)

lemma src_lock_recon_rows:
  assumes "svc_recordSrcLock ctx inp act s = Inr s'"
  shows "recon_rows dg (repo s) (repo s')"
  using recordSrcLock_cases [OF assms]
proof
  assume "\<exists>r. srcLock_guard inp (repo s) = Inr (Some r)
      \<and> repo s' = (if li_blockNumber inp > 0
         then repo_updateOrderCursor (ctx_seconds ctx) (li_publicId inp) (srcChain r)
                (li_blockNumber inp) (repo_recordSrcLock (ctx_seconds ctx) inp act (repo s))
         else repo_recordSrcLock (ctx_seconds ctx) inp act (repo s))"
  then obtain r where g: "srcLock_guard inp (repo s) = Inr (Some r)"
    and d: "repo s' = (if li_blockNumber inp > 0
         then repo_updateOrderCursor (ctx_seconds ctx) (li_publicId inp) (srcChain r)
                (li_blockNumber inp) (repo_recordSrcLock (ctx_seconds ctx) inp act (repo s))
         else repo_recordSrcLock (ctx_seconds ctx) inp act (repo s))" by blast
  note eff = recordSrcLock_effect [OF g, of "ctx_seconds ctx" act]
  have row: "recon_row dg q (src_lock_write (ctx_seconds ctx) inp (nextLockStatus (status r) Src_locked) q)"
    if "select_by_public_id (li_publicId inp) (repo s) = Some q" for q
    using that srcLock_guard_Some [OF g] table_edge [of Announced Src_locked]
    by (auto simp: recon_row_def same_identity_def nextLockStatus_def canTransition_into dst_lock_of_def
        src_lock_write_def)
  show ?thesis
    using recon_rows_effect [OF eff row] recon_rows_effect [OF db_effect_comp [OF updateOrderCursor_effect eff]]
      recon_row_cursor [OF row] by (simp add: d)
qed (simp add: recon_rows_same)

lemma secret_recon_rows:
  assumes "svc_recordSecret ctx (publicId order) pre tx enc act s = Inr s'" and "order \<in> set (orders (repo s))"
    and "validatePreimage dg pre (hashlock order) \<noteq> None" and "repo_invar (repo s)"
  shows "recon_rows dg (repo s) (repo s')"
  using recordSecret_cases [OF assms(1)]
proof
  assume "\<exists>r. secret_guard (publicId order) pre (repo s) = Inr (Some r)
      \<and> repo_recordSecretRevealed (ctx_seconds ctx) (publicId order) pre tx enc ''system'' (repo s) = Inr (repo s')"
  then obtain r where g: "secret_guard (publicId order) pre (repo s) = Inr (Some r)"
    and d: "repo_recordSecretRevealed (ctx_seconds ctx) (publicId order) pre tx enc ''system'' (repo s)
      = Inr (repo s')" by blast
  have "distinct (public_ids (repo s))" using assms(4) by (simp add: repo_invar_def wf_db_def)
  then have "select_by_public_id (publicId order) (repo s) = Some order"
    using assms(2) by (simp add: select_Some_iff)
  then show ?thesis
    using secret_guard_Some [OF g] assms(3) table_edge [of "status order" Secret_revealed]
    by (intro recon_rows_effect [OF recordSecretRevealed_effect [OF g d]])
       (auto simp: recon_row_def same_identity_def src_lock_of_def dst_lock_of_def)
qed (simp add: recon_rows_same)

lemma refund_recon_rows:
  assumes "svc_markStatus ctx pid Refunded act s = Inr s'"
  shows "recon_rows dg (repo s) (repo s')"
  using markStatus_cases [OF assms]
proof
  assume "\<exists>r. status_guard pid Refunded (repo s) = Inr (Some r)
      \<and> repo_setStatus (ctx_seconds ctx) pid Refunded ''system'' None (repo s) = Inr (repo s')"
  then obtain r where g: "status_guard pid Refunded (repo s) = Inr (Some r)"
    and d: "repo_setStatus (ctx_seconds ctx) pid Refunded ''system'' None (repo s) = Inr (repo s')" by blast
  show ?thesis
    using status_guard_Some [OF g] table_edge
    by (intro recon_rows_effect [OF setStatus_effect [OF g d]])
       (auto simp: recon_row_def same_identity_def src_lock_of_def dst_lock_of_def)
qed (simp add: recon_rows_same)

lemma order_cursor_recon_rows:
  "recon_rows dg d (repo_advanceOrderLedgerCursor now pid eth soroban sol d)"
proof -
  obtain f where eff: "db_effect pid f d (repo_advanceOrderLedgerCursor now pid eth soroban sol d)"
    and f: "\<forall>r. \<exists>a b c t. f r = r\<lparr>lastEthBlock := a, lastSorobanLedger := b, lastSolanaSlot := c, updatedAt := t\<rparr>"
    using advanceOrderLedgerCursor_effect by blast
  have "recon_row dg r (f r)" for r
  proof -
    obtain a b c t where "f r = r\<lparr>lastEthBlock := a, lastSorobanLedger := b, lastSolanaSlot := c, updatedAt := t\<rparr>"
      using f by blast
    then show ?thesis by (simp add: recon_row_def same_identity_def src_lock_of_def dst_lock_of_def)
  qed
  then show ?thesis using recon_rows_effect [OF eff] by blast
qed

lemma event_step_rows:
  assumes "event_step dg s s'" and "repo_invar (repo s)"
  shows "recon_rows dg (repo s) (repo s')"
  using assms(1)
proof (cases rule: event_step.cases)
  case (secret ctx order pre tx enc act)
  then show ?thesis using secret_recon_rows assms(2) by blast
qed (auto simp: svc_claimEvent_def split_beta svc_advanceOrderLedgerCursor_def
      order_cursor_recon_rows repo_claimEvent_def src_lock_recon_rows refund_recon_rows
      intro!: recon_rows_same)

lemma replay_step_rows:
  assumes "replay_step dg s s'" and "repo_invar (repo s)"
  shows "recon_rows dg (repo s) (repo s')"
  using assms
proof (cases rule: replay_step.cases)
  case (chain_cursor ctx ch pos)
  then show ?thesis
    by (simp add: svc_setChainCursor_def repo_setChainCursor_def recon_rows_same)
qed (simp add: event_step_rows)

lemma replay_steps_rows:
  assumes "replay_steps dg s s'" and "repo_reachable (repo s)"
  shows "recon_rows dg (repo s) (repo s')"
  using assms
proof (induction rule: rtranclp_induct)
  case base
  show ?case by (simp add: recon_rows_same)
next
  case (step y z)
  have "repo_invar (repo y)"
    using replay_steps_reachable [OF step(1)] step.prems repo_reachable_invar by blast
  then show ?case
    using step.IH [OF step.prems] replay_step_rows [OF step(2)] recon_row_trans
    unfolding recon_rows_def by metis
qed

end
