(* ===== verification/Reconciler_Properties.thy ===== *)
theory Reconciler_Properties
  imports Reconciler_Laws
begin

text \<open>
  What the recovery pipeline guarantees and where it falls short of the invariants its source
  states (\<open>coordinator/src/reconciliation/reconciler.ts\<close>, ``Key invariants''): a run moves orders only
  along the lifecycle and writes only valid preimages, replaying a window twice changes nothing
  and a failing chain keeps its cursor; but an event that arrives before its order is announced
  is lost, a destination lock is recorded as a source lock, and the recovery report of a
  startup run cannot report a gap.
\<close>

section \<open>Frame lemmas\<close>

lemma order_step_tables:
  "order_step pid d d' \<Longrightarrow> processed_events d' = processed_events d \<and> chain_cursors d' = chain_cursors d"
  by (auto simp: order_step_def)

lemma quiet_step_tables:
  "quiet_step pid d d' \<Longrightarrow> processed_events d' = processed_events d \<and> chain_cursors d' = chain_cursors d"
  by (auto simp: quiet_step_def)

lemma repo_step_processed:
  assumes "repo_step d d'" and "repo_invar d" and "jm_has (processed_events d) k"
  shows "jm_has (processed_events d') k"
  using assms(1)
proof (cases rule: repo_step.cases)
  case (announce now inp row)
  then show ?thesis using announce_cases assms(3) by fastforce
next
  case (setStatus now pid st act ex)
  then have "order_step pid d d'"
    using setStatus_step [OF repo_invarD(1) [OF assms(2)], of pid now st act ex] by simp
  then show ?thesis using assms(3) by (simp add: order_step_tables)
next
  case (recordSecretRevealed now pid pre tx enc act)
  then have "order_step pid d d'" using recordSecretRevealed_step [of pid d now pre tx enc act] by simp
  then show ?thesis using assms(3) by (simp add: order_step_tables)
next
  case (cancelOrder now pid rsn act)
  then have "order_step pid d d'" using cancelOrder_step [of pid d now rsn act] by simp
  then show ?thesis using assms(3) by (simp add: order_step_tables)
next
  case (claimEvent now key ech ety oid)
  then show ?thesis using assms(3) by (simp add: repo_claimEvent_def jm_has_set)
qed (use assms(3) order_step_tables [OF recordSrcLock_step] order_step_tables [OF recordDstLock_step]
      order_step_tables [OF rollbackSrcLock_step [OF repo_invarD(1) [OF assms(2)]]]
      order_step_tables [OF rollbackDstLock_step [OF repo_invarD(1) [OF assms(2)]]]
      order_step_tables [OF abandonOrder_step] quiet_step_tables [OF archiveOrder_quiet]
      quiet_step_tables [OF unarchiveOrder_quiet] quiet_step_tables [OF updateOrderCursor_quiet]
      quiet_step_tables [OF advanceOrderLedgerCursor_quiet]
      in \<open>simp_all add: repo_setChainCursor_def repo_saveSorobanCheckpoint_def
        repo_markSorobanRecovery_def split: option.split\<close>)


lemma repo_steps_processed:
  "repo_steps d d' \<Longrightarrow> repo_reachable d \<Longrightarrow> jm_has (processed_events d) k \<Longrightarrow> jm_has (processed_events d') k"
proof (induction rule: rtranclp_induct)
  case (step y z)
  then show ?case
    using repo_step_processed repo_reachable_invar [OF repo_steps_reachable [OF step(1)]] by blast
qed simp

lemma svc_steps_processed:
  assumes "svc_steps codec s s'" and "repo_reachable (repo s)" and "jm_has (processed_events (repo s)) k"
  shows "jm_has (processed_events (repo s')) k"
  using assms
proof (induction rule: svc_steps.induct)
  case (more s s' s'')
  then show ?case
    using repo_steps_processed [OF svc_step_repo_steps] svc_steps_reachable [OF more(1)] by blast
qed

lemma event_step_tables:
  assumes "event_step dg s s'" and "repo_invar (repo s)"
  shows "chain_cursors (repo s') = chain_cursors (repo s)"
  using assms(1)
proof (cases rule: event_step.cases)
  case (src_lock ctx inp act)
  then show ?thesis
    using recordSrcLock_cases [OF src_lock] order_step_tables [OF recordSrcLock_step]
      quiet_step_tables [OF updateOrderCursor_quiet] by (auto split: if_splits)
next
  case (secret ctx order pre tx enc act)
  then show ?thesis
    using recordSecret_cases [OF secret(1)] order_step_tables [of "publicId order" "repo s" "repo s'"]
      recordSecretRevealed_step [of "publicId order" "repo s" "ctx_seconds ctx" pre tx enc "''system''"] by auto
next
  case (refund ctx pid act)
  then show ?thesis
    using markStatus_cases [OF refund] order_step_tables [of pid "repo s" "repo s'"]
      setStatus_step [OF repo_invarD(1) [OF assms(2)], of pid "ctx_seconds ctx" Refunded "''system''" None] by auto
next
  case (order_cursor ctx pid eth soroban sol)
  then show ?thesis
    using quiet_step_tables [OF advanceOrderLedgerCursor_quiet] by (simp add: svc_advanceOrderLedgerCursor_def)
qed (simp add: svc_claimEvent_def split_beta repo_claimEvent_def)

lemma event_steps_svc_steps: "event_steps dg s s' \<Longrightarrow> svc_steps codec s s'"
  using event_replay_steps replay_steps_svc_steps by blast

lemma event_steps_chain_cursors:
  assumes "event_steps dg s s'" and "repo_reachable (repo s)"
  shows "chain_cursors (repo s') = chain_cursors (repo s)"
  using assms
proof (induction rule: rtranclp_induct)
  case (step y z)
  have "repo_invar (repo y)"
    using replay_steps_reachable [OF event_replay_steps [OF step(1)] step.prems] repo_reachable_invar by blast
  then show ?case using event_step_tables [OF step(2)] step.IH [OF step.prems] by simp
qed simp


section \<open>Handlers that claim their events first\<close>

text \<open>The interface the Ethereum and Soroban handlers share: an event without a key is skipped, one the
  run has seen or the ledger knows changes nothing but the seen set, and one that passes both
  checks is in the ledger afterwards.\<close>

definition has_key :: "string \<Rightarrow> svc \<Rightarrow> bool" where
  "has_key k s = jm_has (processed_events (repo s)) k"

fun seen_after :: "('e \<Rightarrow> (string \<times> string) option) \<Rightarrow> 'e list \<Rightarrow> seen_set \<Rightarrow> seen_set" where
  "seen_after keys [] seen = seen"
| "seen_after keys (e # es) seen =
     seen_after keys es (case keys e of None \<Rightarrow> seen | Some (k, m) \<Rightarrow> fst (checkAndMark k m seen))"

fun claimed_keys :: "('e \<Rightarrow> (string \<times> string) option) \<Rightarrow> 'e list \<Rightarrow> seen_set \<Rightarrow> string set" where
  "claimed_keys keys [] seen = {}"
| "claimed_keys keys (e # es) seen =
     (case keys e of
        None \<Rightarrow> claimed_keys keys es seen
      | Some (k, m) \<Rightarrow> (if snd (checkAndMark k m seen) = None then {k} else {})
          \<union> claimed_keys keys es (fst (checkAndMark k m seen)))"

locale claiming_handler =
  fixes dg :: digests
    and handle :: "'e \<Rightarrow> svc \<times> seen_set \<Rightarrow> (svc \<times> seen_set) \<times> nat"
    and keys :: "'e \<Rightarrow> (string \<times> string) option"
  assumes skip: "keys e = None \<Longrightarrow> handle e st = (st, 0)"
    and settled: "keys e = Some (k, m) \<Longrightarrow> snd (checkAndMark k m seen) \<noteq> None \<or> has_key k s \<Longrightarrow>
        handle e (s, seen) = ((s, fst (checkAndMark k m seen)), 0)"
    and marks: "keys e = Some (k, m) \<Longrightarrow> snd (fst (handle e (s, seen))) = fst (checkAndMark k m seen)"
    and claims: "keys e = Some (k, m) \<Longrightarrow> snd (checkAndMark k m seen) = None \<Longrightarrow> repo_reachable (repo s) \<Longrightarrow>
        has_key k (fst (fst (handle e (s, seen))))"
    and steps: "event_steps dg (fst st) (fst (fst (handle e st)))"
begin

lemma known_pass:
  "\<forall>k\<in>claimed_keys keys es seen. has_key k s \<Longrightarrow> replay_all handle es (s, seen) = ((s, seen_after keys es seen), 0)"
proof (induction es arbitrary: seen)
  case (Cons e es)
  show ?case
  proof (cases "keys e")
    case None
    then show ?thesis using Cons by (simp add: skip)
  next
    case (Some km)
    obtain k m where km: "km = (k, m)" by (cases km)
    have "snd (checkAndMark k m seen) \<noteq> None \<or> has_key k s" using Cons.prems Some km by auto
    then have "handle e (s, seen) = ((s, fst (checkAndMark k m seen)), 0)" using settled Some km by simp
    moreover have "\<forall>k\<in>claimed_keys keys es (fst (checkAndMark k m seen)). has_key k s"
      using Cons.prems Some km by auto
    ultimately show ?thesis using Cons.IH Some km by simp
  qed
qed simp

lemma first_pass:
  "repo_reachable (repo s) \<Longrightarrow> replay_all handle es (s, seen) = ((s', seen'), n) \<Longrightarrow>
   seen' = seen_after keys es seen \<and> (\<forall>k\<in>claimed_keys keys es seen. has_key k s')"
proof (induction es arbitrary: s seen n)
  case (Cons e es)
  obtain s1 seen1 n1 where one: "handle e (s, seen) = ((s1, seen1), n1)" by (metis surj_pair)
  obtain n2 where rest: "replay_all handle es (s1, seen1) = ((s', seen'), n2)"
    using Cons.prems(2) one by (cases "replay_all handle es (s1, seen1)") auto
  have "event_steps dg s s1" using steps [of "(s, seen)" e] one by simp
  then have r1: "repo_reachable (repo s1)"
    using replay_steps_reachable [OF event_replay_steps] Cons.prems(1) by blast
  note IH = Cons.IH [OF r1 rest]
  have "event_steps dg (fst st) (fst (fst (replay_all handle es st)))" for st
    by (rule replay_all_replays) (simp add: replays_def del: split_paired_All add: steps)
  from this [of "(s1, seen1)"] have "event_steps dg s1 s'" using rest by simp
  then have keep: "has_key k s1 \<Longrightarrow> has_key k s'" for k
    using svc_steps_processed [OF event_steps_svc_steps r1] by (simp add: has_key_def)
  show ?case
  proof (cases "keys e")
    case None
    then show ?thesis using IH one by (simp add: skip)
  next
    case (Some km)
    obtain k m where km: "km = (k, m)" by (cases km)
    have "seen1 = fst (checkAndMark k m seen)" using marks [of e k m s seen] Some km one by simp
    moreover have "snd (checkAndMark k m seen) = None \<Longrightarrow> has_key k s'"
      using claims [of e k m seen s] Some km one Cons.prems(1) keep by simp
    ultimately show ?thesis using IH Some km by auto
  qed
qed simp

lemma second_pass:
  assumes "repo_reachable (repo s)" and "replay_all handle es (s, seen) = ((s', seen'), n)"
  shows "replay_all handle es (s', seen) = ((s', seen'), 0)"
  using first_pass [OF assms] known_pass by simp

end


lemma claim_known: "has_key key s \<Longrightarrow> svc_claimEvent ctx key ech ty oid s = (s, False)"
  by (simp add: svc_claimEvent_def repo_claimEvent_def has_key_def)

lemma claim_has_key: "has_key key (fst (svc_claimEvent ctx key ech ty oid s))"
  by (simp add: svc_claimEvent_def repo_claimEvent_def has_key_def jm_has_set)

lemma dedup_then_settled:
  assumes "snd (checkAndMark key sem seen) \<noteq> None \<or> has_key key s"
  shows "dedup_then ctx ech ty key sem body (s, seen) = ((s, fst (checkAndMark key sem seen)), 0)"
proof (cases "snd (checkAndMark key sem seen) = None")
  case True
  with assms have "svc_claimEvent ctx key ech ty None s = (s, False)" by (simp add: claim_known)
  then show ?thesis using True by (simp add: dedup_then_def dedup_def split_beta)
qed (simp add: dedup_then_def dedup_def split_beta)

lemma dedup_then_marks:
  "snd (fst (dedup_then ctx ech ty key sem body (s, seen))) = fst (checkAndMark key sem seen)"
  by (simp add: dedup_then_def dedup_def Let_def split_beta)

lemma dedup_then_claims:
  assumes "snd (checkAndMark key sem seen) = None" and "repo_reachable (repo s)"
    and "\<And>s. event_steps dg s (fst (body s))"
  shows "has_key key (fst (fst (dedup_then ctx ech ty key sem body (s, seen))))"
proof -
  let ?s1 = "fst (svc_claimEvent ctx key ech ty None s)"
  have "event_steps dg s ?s1" by (rule event_steps_one [OF event_step.claim])
  then have r1: "repo_reachable (repo ?s1)"
    using replay_steps_reachable [OF event_replay_steps] assms(2) by blast
  have "has_key key (fst (body ?s1))"
    using svc_steps_processed [OF event_steps_svc_steps [OF assms(3)] r1] claim_has_key
    unfolding has_key_def by blast
  then show ?thesis
    using assms(1) claim_has_key by (simp add: dedup_then_def dedup_def Let_def split_beta)
qed

text \<open>The three kinds of Ethereum logs, in the order a run replays them.\<close>

datatype eth_event = CreatedLog eth_log | ClaimedLog eth_log | RefundedLog eth_log

fun eth_handle :: "digests \<Rightarrow> call_ctx \<Rightarrow> eth_event \<Rightarrow> svc \<times> seen_set \<Rightarrow> (svc \<times> seen_set) \<times> nat" where
  "eth_handle dg ctx (CreatedLog l) = replayEthCreated1 ctx l"
| "eth_handle dg ctx (ClaimedLog l) = replayEthClaimed1 dg ctx l"
| "eth_handle dg ctx (RefundedLog l) = replayEthRefunded1 ctx l"

fun eth_keys :: "eth_event \<Rightarrow> (string \<times> string) option" where
  "eth_keys (CreatedLog l) =
     (case (truthy_string (el_hashlock l), el_orderId l) of
        (Some hl, Some oid) \<Rightarrow> Some (eth_key OrderCreated l, semanticKey EvEthereum OrderCreated hl)
      | _ \<Rightarrow> None)"
| "eth_keys (ClaimedLog l) = map_option (\<lambda>(oid, _).
     (eth_key OrderClaimed l, semanticKey EvEthereum OrderClaimed (decimal oid))) (claimed_args l)"
| "eth_keys (RefundedLog l) = map_option (\<lambda>oid.
     (eth_key OrderRefunded l, semanticKey EvEthereum OrderRefunded (decimal oid))) (truthy_nat (el_orderId l))"

definition claims_first ::
    "digests \<Rightarrow> call_ctx \<Rightarrow> (string \<times> string) option \<Rightarrow> (svc \<times> seen_set \<Rightarrow> (svc \<times> seen_set) \<times> nat) \<Rightarrow> bool" where
  "claims_first dg ctx key h \<longleftrightarrow>
     (case key of
        None \<Rightarrow> \<forall>st. h st = (st, 0)
      | Some (k, m) \<Rightarrow> \<exists>ech ty body. h = dedup_then ctx ech ty k m body \<and> (\<forall>s. event_steps dg s (fst (body s))))"

lemma claims_firstI:
  assumes "\<And>s. event_steps dg s (fst (body s))"
  shows "claims_first dg ctx (Some (k, m)) (dedup_then ctx ech ty k m body)"
  using assms by (auto simp: claims_first_def)

lemma eth_handle_claims_first: "claims_first dg ctx (eth_keys e) (eth_handle dg ctx e)"
proof (cases e)
  case (CreatedLog l)
  show ?thesis
  proof (cases "\<exists>hl oid. truthy_string (el_hashlock l) = Some hl \<and> el_orderId l = Some oid")
    case True
    then obtain hl oid where "truthy_string (el_hashlock l) = Some hl" "el_orderId l = Some oid" by blast
    then have "eth_handle dg ctx e = dedup_then ctx EvEthereum OrderCreated (eth_key OrderCreated l)
        (semanticKey EvEthereum OrderCreated hl)
        (\<lambda>s. case eth_block l of None \<Rightarrow> (s, 0) | Some b \<Rightarrow> replay_created ctx Ethereum None hl (decimal oid)
           (or_default (el_txHash l) ''0x'') b (safeToNumber (el_timelock l)) s)"
      and "eth_keys e = Some (eth_key OrderCreated l, semanticKey EvEthereum OrderCreated hl)"
      by (simp_all add: fun_eq_iff CreatedLog replayEthCreated1_def)
    then show ?thesis by (simp only: claims_firstI [OF eth_block_steps [OF replay_created_steps]])
  next
    case False
    then show ?thesis
      by (auto simp: CreatedLog claims_first_def replayEthCreated1_def split: option.splits)
  qed
next
  case (ClaimedLog l)
  show ?thesis
  proof (cases "claimed_args l")
    case (Some op)
    obtain oid pre where op: "op = (oid, pre)" by (cases op)
    have "eth_handle dg ctx e = dedup_then ctx EvEthereum OrderClaimed (eth_key OrderClaimed l)
        (semanticKey EvEthereum OrderClaimed (decimal oid))
        (\<lambda>s. case eth_block l of None \<Rightarrow> (s, 0) | Some b \<Rightarrow> replay_claimed dg ctx Ethereum None (decimal oid) pre
           (or_default (el_txHash l) ''0x'') b s)"
      and "eth_keys e = Some (eth_key OrderClaimed l, semanticKey EvEthereum OrderClaimed (decimal oid))"
      using Some op by (simp_all add: fun_eq_iff ClaimedLog replayEthClaimed1_def)
    then show ?thesis by (simp only: claims_firstI [OF eth_block_steps [OF replay_claimed_steps]])
  qed (simp add: ClaimedLog claims_first_def replayEthClaimed1_def)
next
  case (RefundedLog l)
  show ?thesis
  proof (cases "truthy_nat (el_orderId l)")
    case (Some oid)
    then have "eth_handle dg ctx e = dedup_then ctx EvEthereum OrderRefunded (eth_key OrderRefunded l)
        (semanticKey EvEthereum OrderRefunded (decimal oid))
        (\<lambda>s. case eth_block l of None \<Rightarrow> (s, 0) | Some b \<Rightarrow> replay_refunded ctx Ethereum None (decimal oid) b s)"
      and "eth_keys e = Some (eth_key OrderRefunded l, semanticKey EvEthereum OrderRefunded (decimal oid))"
      by (simp_all add: fun_eq_iff RefundedLog replayEthRefunded1_def)
    then show ?thesis by (simp only: claims_firstI [OF eth_block_steps [OF replay_refunded_steps]])
  qed (simp add: RefundedLog claims_first_def replayEthRefunded1_def)
qed

fun soroban_keys :: "nat \<times> soroban_event \<Rightarrow> (string \<times> string) option" where
  "soroban_keys (i, ev) = map_option (\<lambda>(ty, identifier).
     (sorobanEventKey ty (se_txHash ev) (se_ledger ev) i, semanticKey EvSoroban ty identifier))
     (soroban_identity (se_payload ev))"

lemma soroban_claims_first: "claims_first dg ctx (soroban_keys iev) (replaySorobanEvent dg ctx iev)"
proof -
  obtain i ev where iev: "iev = (i, ev)" by (cases iev)
  show ?thesis
  proof (cases "soroban_identity (se_payload ev)")
    case (Some ti)
    obtain ty ident where ti: "ti = (ty, ident)" by (cases ti)
    have "replaySorobanEvent dg ctx iev = dedup_then ctx EvSoroban ty
        (sorobanEventKey ty (se_txHash ev) (se_ledger ev) i) (semanticKey EvSoroban ty ident)
        (soroban_apply dg ctx ev (se_payload ev))"
      and "soroban_keys iev = Some (sorobanEventKey ty (se_txHash ev) (se_ledger ev) i,
        semanticKey EvSoroban ty ident)"
      using Some ti by (simp_all add: fun_eq_iff iev replaySorobanEvent_def)
    then show ?thesis by (simp only: claims_firstI [OF soroban_apply_steps])
  qed (simp add: iev claims_first_def replaySorobanEvent_def)
qed

lemma claims_first_handler:
  assumes "\<And>e. claims_first dg ctx (keys e) (handle e)"
  shows "claiming_handler dg handle keys"
proof
  show "handle e st = (st, 0)" if "keys e = None" for e st
    using assms [of e] that by (simp add: claims_first_def del: split_paired_All)
  fix e k m seen s
  assume k: "keys e = Some (k, m)"
  then obtain ech ty body where h: "handle e = dedup_then ctx ech ty k m body"
    and body: "\<And>s. event_steps dg s (fst (body s))"
    using assms [of e] by (auto simp: claims_first_def)
  show "snd (checkAndMark k m seen) \<noteq> None \<or> has_key k s \<Longrightarrow>
      handle e (s, seen) = ((s, fst (checkAndMark k m seen)), 0)"
    unfolding h by (rule dedup_then_settled)
  show "snd (fst (handle e (s, seen))) = fst (checkAndMark k m seen)"
    unfolding h by (rule dedup_then_marks)
  show "snd (checkAndMark k m seen) = None \<Longrightarrow> repo_reachable (repo s) \<Longrightarrow>
      has_key k (fst (fst (handle e (s, seen))))"
    unfolding h by (rule dedup_then_claims [OF _ _ body])
next
  show "event_steps dg (fst st) (fst (fst (handle e st)))" for e st
  proof (cases "keys e")
    case None
    then show ?thesis using assms [of e] by (simp add: claims_first_def del: split_paired_All)
  next
    case (Some km)
    then obtain k m ech ty body where "handle e = dedup_then ctx ech ty k m body"
      "\<And>s. event_steps dg s (fst (body s))"
      using assms [of e] by (auto simp: claims_first_def)
    then show ?thesis by (simp only: dedup_then_steps)
  qed
qed

interpretation eth_events: claiming_handler dg "eth_handle dg ctx" eth_keys for dg ctx
  by (rule claims_first_handler) (rule eth_handle_claims_first)

interpretation soroban_events: claiming_handler dg "replaySorobanEvent dg ctx" soroban_keys for dg ctx
  by (rule claims_first_handler) (rule soroban_claims_first)

lemma replay_all_append:
  "replay_all f (xs @ ys) st =
     (let (st1, n1) = replay_all f xs st; (st2, n2) = replay_all f ys st1 in (st2, n1 + n2))"
  by (induction xs arbitrary: st) (simp_all add: split_beta)

lemma replay_all_map: "replay_all f (map g xs) st = replay_all (\<lambda>x. f (g x)) xs st"
  by (induction xs arbitrary: st) simp_all

lemma replayEthereum_events:
  "replayEthereum dg ctx created claimed refunded st =
     replay_all (eth_handle dg ctx) (map CreatedLog created @ map ClaimedLog claimed @ map RefundedLog refunded) st"
  by (simp add: replayEthereum_def replay_all_append replay_all_map replayEthCreated_def
      replayEthClaimed_def replayEthRefunded_def Let_def split_beta)


section \<open>A run returns\<close>

text \<open>The Soroban pagination ends: every full page with a next cursor makes progress in some measure of
  the cursor.\<close>

definition pages_end :: "soroban_rpc \<Rightarrow> (string option \<Rightarrow> nat) \<Rightarrow> bool" where
  "pages_end rpc m \<longleftrightarrow> (\<forall>start cur events nxt. getEvents rpc start cur = Inr (events, nxt) \<longrightarrow>
     200 \<le> length events \<longrightarrow> truthy_string nxt \<noteq> None \<longrightarrow> m nxt < m cur)"

lemma soroban_pages_return:
  "pages_end rpc m \<Longrightarrow> m cur < fuel \<Longrightarrow> soroban_pages fuel rpc dg ctx start cur i n st \<noteq> None"
proof (induction fuel arbitrary: cur i n st)
  case (Suc fuel)
  show ?case
  proof (cases "getEvents rpc (if truthy_string cur = None then Some start else None) cur")
    case (Inr page)
    obtain events nxt where page: "page = (events, nxt)" by (cases page)
    show ?thesis
    proof (cases "length events < 200 \<or> truthy_string nxt = None")
      case True
      then show ?thesis using Inr page by (simp add: split_beta)
    next
      case False
      then have "m nxt < m cur" using Suc.prems(1) Inr page unfolding pages_end_def by fastforce
      then have "m nxt < fuel" using Suc.prems(2) by simp
      from Suc.IH [OF Suc.prems(1) this] show ?thesis using Inr page False by (simp add: split_beta)
    qed
  qed simp
qed simp

lemma reconcileSoroban_returns:
  assumes "pages_end rpc m" and "m (sorobanRpcCursor r) < fuel"
  shows "reconcileSoroban fuel cfg rpc dg ctx r \<noteq> None"
proof -
  have pages: "soroban_pages fuel rpc dg ctx start (sorobanRpcCursor r) 0 0 st \<noteq> None" for start st
    by (rule soroban_pages_return [OF assms])
  show ?thesis
    by (simp add: reconcileSoroban_def Let_def del: decision_simps split: option.split sum.split)
       (use pages in blast)
qed

lemma recon_run_returns:
  assumes "pages_end (env_soroban env) m" and "m (sorobanRpcCursor r) < fuel"
  shows "recon_run fuel cfg env ctx r \<noteq> None"
proof -
  let ?r0 = "if cursorsReady r then r else initCursors r"
  let ?r1 = "?r0\<lparr>seenSet := seen_clear (seenSet ?r0), policy := policy_reset (policy ?r0)\<rparr>"
  let ?e = "reconcileEthereum cfg (env_eth env) (env_digests env) ctx ?r1"
  have "sorobanRpcCursor (fst ?e) = sorobanRpcCursor ?r1"
    by (simp add: reconcileEthereum_def with_state_def Let_def split_beta split: sum.split)
  also have "\<dots> = sorobanRpcCursor r" by (simp add: initCursors_def Let_def)
  finally have "reconcileSoroban fuel cfg (env_soroban env) (env_digests env) ctx (fst ?e) \<noteq> None"
    using reconcileSoroban_returns [OF assms(1)] assms(2) by simp
  then show ?thesis by (auto simp: recon_run_def Let_def split_beta)
qed

section \<open>Properties of a run\<close>

definition sample_digests :: digests where
  "sample_digests = \<lparr>sha256Hex = (\<lambda>bs. ''0x'' @ decimal (sum_list bs)), keccak256Hex = (\<lambda>_. ''0x'')\<rparr>"

definition quiet_env :: recon_env where
  "quiet_env =
     \<lparr>env_eth = \<lparr>getBlockNumber = Inr 10, getLogs = (\<lambda>_ _ _. Inr [])\<rparr>,
      env_soroban = \<lparr>getLatestLedger = Inr 20, getEvents = (\<lambda>_ _. Inr ([], None))\<rparr>,
      env_solana = \<lparr>getSlot = Inr 500000, getSlotAgain = Inr 500001, getSignatures = (\<lambda>_. Inr []),
                    getParsedTransaction = (\<lambda>_. Inr None)\<rparr>,
      env_json = (\<lambda>_. None), env_digests = sample_digests\<rparr>"

definition sample_config :: recon_config where
  "sample_config = \<lparr>htlcEscrow = True, htlcContract = True, programId = ''prog''\<rparr>"

lemma repo_sample_svc: "repo sample_svc = sample_db"
  by (simp add: sample_svc_def new_OrderService_def)

text \<open>C4. A reconciler run is safe for every order, whatever the three chains answer and wherever their
  requests fail: the order keeps its terms and stays in the database; its status only moves
  forward along the lifecycle table (so a finished order stays finished); a recorded preimage
  and a recorded source lock are never replaced, destination locks are not touched; and a
  preimage that appears hashes to the order's hashlock.\<close>

theorem reconciler_run_safe:
  assumes "recon_run fuel cfg env ctx r = Some (r', report)"
    and "repo_reachable (repo (orders_service r))"
    and "svc_get pid (orders_service r) = Some row"
  shows "repo_reachable (repo (orders_service r'))
    \<and> (\<exists>q. svc_get pid (orders_service r') = Some q \<and> same_identity row q
        \<and> table_reaches TRANSITIONS (status row) (status q)
        \<and> (preimage row \<noteq> None \<longrightarrow> preimage q = preimage row)
        \<and> (\<forall>p. preimage row = None \<longrightarrow> preimage q = Some p \<longrightarrow>
             validatePreimage (env_digests env) p (hashlock row) \<noteq> None)
        \<and> (srcOrderId row \<noteq> None \<longrightarrow> src_lock_of q = src_lock_of row)
        \<and> dst_lock_of q = dst_lock_of row)"
  using replay_steps_rows [OF recon_run_steps [OF assms(1)] assms(2)] assms(3)
    replay_steps_reachable [OF recon_run_steps [OF assms(1)] assms(2)]
  unfolding recon_rows_def recon_row_def svc_get_def repo_findByPublicId_def by blast

theorem reconciler_run_safe_witness:
  "\<exists>r' report q. recon_run 1 sample_config quiet_env sample_ctx (new_Reconciler sample_svc) = Some (r', report)
     \<and> svc_get sample_id (orders_service r') = Some q \<and> table_reaches TRANSITIONS Src_locked (status q)"
proof -
  obtain row where row: "svc_get sample_id sample_svc = Some row" "status row = Src_locked"
    using sample_svc_status by auto
  have "recon_run 1 sample_config quiet_env sample_ctx (new_Reconciler sample_svc) \<noteq> None"
    by (rule recon_run_returns [of _ "\<lambda>_. 0"]) (simp_all add: pages_end_def quiet_env_def)
  then obtain r' report where run: "recon_run 1 sample_config quiet_env sample_ctx (new_Reconciler sample_svc)
      = Some (r', report)" by auto
  have "repo_reachable (repo (orders_service (new_Reconciler sample_svc)))"
    and "svc_get sample_id (orders_service (new_Reconciler sample_svc)) = Some row"
    using sample_reachable row(1) by (simp_all add: new_Reconciler_def repo_sample_svc)
  from reconciler_run_safe [OF run this] show ?thesis using run row(2) by auto
qed

text \<open>C14. Replaying the same window again, as after a restart or with overlapping windows, changes
  nothing: once a window of Ethereum logs (or a batch of Soroban events with their indices) has
  been replayed, a second replay with a fresh seen set, at any later time, leaves the state of
  the service as it is and replays no event.\<close>

theorem replay_window_idempotent:
  assumes "repo_reachable (repo s)"
    and "replayEthereum dg ctx created claimed refunded (s, seen_clear x) = ((s1, seen1), n1)"
    and "replay_all (replaySorobanEvent dg ctx) batch (s, seen_clear x) = ((s2, seen2), n2)"
  shows "replayEthereum dg ctx' created claimed refunded (s1, seen_clear y) = ((s1, seen1), 0)
    \<and> replay_all (replaySorobanEvent dg ctx') batch (s2, seen_clear y) = ((s2, seen2), 0)"
proof -
  have clear: "seen_clear x = new_EventSeenSet" "seen_clear y = new_EventSeenSet"
    by (simp_all add: seen_clear_def)
  show ?thesis
    using eth_events.first_pass [OF assms(1) assms(2) [unfolded replayEthereum_events]]
      soroban_events.first_pass [OF assms(1,3)] eth_events.known_pass soroban_events.known_pass
    unfolding clear replayEthereum_events by simp
qed


definition sample_log :: eth_log where
  "sample_log = \<lparr>el_orderId = Some 7, el_hashlock = Some (ai_hashlock sample_input), el_timelock = Some 900,
     el_preimage = None, el_txHash = Some ''0xaa'', el_logIndex = Some 0, el_blockNumber = Some 5\<rparr>"

theorem replay_window_idempotent_witness:
  "\<exists>s1 seen1 n1.
     replayEthereum sample_digests sample_ctx [sample_log] [] [] (sample_svc, seen_clear new_EventSeenSet)
       = ((s1, seen1), n1)
     \<and> replayEthereum sample_digests sample_ctx [sample_log] [] [] (s1, seen_clear seen1) = ((s1, seen1), 0)"
proof -
  obtain s1 seen1 n1 where e: "replayEthereum sample_digests sample_ctx [sample_log] [] []
      (sample_svc, seen_clear new_EventSeenSet) = ((s1, seen1), n1)" by (metis surj_pair)
  have b: "replay_all (replaySorobanEvent sample_digests sample_ctx) []
      (sample_svc, seen_clear new_EventSeenSet) = ((sample_svc, seen_clear new_EventSeenSet), 0)" by simp
  have "repo_reachable (repo sample_svc)" using sample_reachable by (simp add: repo_sample_svc)
  from replay_window_idempotent [OF this e b, of sample_ctx seen1] e show ?thesis by blast
qed

lemma soroban_pages_more_fuel:
  "soroban_pages fuel rpc dg ctx start cur i n st = Some x \<Longrightarrow> fuel \<le> fuel' \<Longrightarrow>
   soroban_pages fuel' rpc dg ctx start cur i n st = Some x"
proof (induction fuel arbitrary: fuel' cur i n st)
  case (Suc fuel)
  then obtain g where g: "fuel' = Suc g" "fuel \<le> g" by (cases fuel') auto
  show ?case
  proof (cases "getEvents rpc (if truthy_string cur = None then Some start else None) cur")
    case (Inr page)
    obtain events nxt where page: "page = (events, nxt)" by (cases page)
    obtain st' m where r: "replay_all (replaySorobanEvent dg ctx) (enumerate i events) st = (st', m)"
      by (cases "replay_all (replaySorobanEvent dg ctx) (enumerate i events) st")
    show ?thesis using Suc.prems(1) Suc.IH [OF _ g(2)] Inr unfolding g(1)
      by (cases "length events < 200 \<or> truthy_string nxt = None") (auto simp: page r)
  qed (use Suc.prems(1) in \<open>simp add: g(1)\<close>)
qed simp

lemma reconcileSoroban_more_fuel:
  assumes "reconcileSoroban fuel cfg rpc dg ctx r = Some x" and "fuel \<le> fuel'"
  shows "reconcileSoroban fuel' cfg rpc dg ctx r = Some x"
proof -
  have pages: "soroban_pages fuel' rpc dg ctx start cur i n st = Some y"
    if "soroban_pages fuel rpc dg ctx start cur i n st = Some y" for start cur i n st y
    by (rule soroban_pages_more_fuel [OF that assms(2)])
  show ?thesis
  proof (cases "htlcContract cfg \<and> sorobanCursor r \<noteq> None \<and> \<not> isl (getLatestLedger rpc)")
    case True
    then obtain cur tip where ct: "htlcContract cfg" "sorobanCursor r = Some cur" "getLatestLedger rpc = Inr tip"
      by (cases "getLatestLedger rpc") auto
    let ?d = "buildReplayDecision ''soroban'' (lc_assess tip cur)"
    show ?thesis
    proof (cases "rd_windowSize ?d = 0")
      case False
      then obtain y where y: "soroban_pages fuel rpc dg ctx (rd_fromBlock ?d) (sorobanRpcCursor r) 0 0
          (orders_service r, seenSet r) = Some y"
        using assms ct by (auto simp: reconcileSoroban_def Let_def simp del: decision_simps split: option.splits)
      show ?thesis
        using assms(1) ct False y pages [OF y] by (simp add: reconcileSoroban_def Let_def del: decision_simps)
    qed (use assms(1) ct in \<open>simp add: reconcileSoroban_def Let_def del: decision_simps\<close>)
  qed (use assms(1) in \<open>auto simp: reconcileSoroban_def isl_def split: option.splits sum.splits\<close>)
qed




section \<open>Where the pipeline falls short\<close>

lemma replay_created_unknown:
  "svc_findByHashlock hl s = None \<Longrightarrow> replay_created ctx ch late hl oid tx pos t s = (s, 0)"
  by (simp add: replay_created_def)

lemma claimEvent_orders [simp]: "orders (repo (fst (svc_claimEvent ctx key ech ty oid s))) = orders (repo s)"
  by (simp add: svc_claimEvent_def repo_claimEvent_def split_beta)

lemma claimEvent_findByHashlock [simp]:
  "svc_findByHashlock hl (fst (svc_claimEvent ctx key ech ty oid s)) = svc_findByHashlock hl s"
  by (simp add: svc_findByHashlock_def repo_findByHashlock_def)

text \<open>An Ethereum creation event that is replayed before its order is announced is lost: the first
  replay writes no order and claims the event's key, and after any further service operations,
  the announcement included, replaying the same log does nothing. (The source promises that no
  event is silently discarded.)\<close>

theorem unknown_order_event_lost:
  assumes "repo_reachable (repo s)" and "truthy_string (el_hashlock l) = Some hl" and "el_orderId l = Some oid"
    and "svc_findByHashlock hl s = None"
    and "svc_steps codec (fst (fst (replayEthCreated1 ctx l (s, seen_clear x)))) s2"
  shows "orders (repo (fst (fst (replayEthCreated1 ctx l (s, seen_clear x))))) = orders (repo s)
    \<and> fst (fst (replayEthCreated1 ctx' l (s2, seen2))) = s2
    \<and> snd (replayEthCreated1 ctx' l (s2, seen2)) = 0"
proof -
  let ?k = "eth_key OrderCreated l" and ?m = "semanticKey EvEthereum OrderCreated hl"
  let ?s1 = "fst (fst (replayEthCreated1 ctx l (s, seen_clear x)))"
  have keys: "eth_keys (CreatedLog l) = Some (?k, ?m)" using assms(2,3) by simp
  have fresh: "snd (checkAndMark ?k ?m (seen_clear x)) = None"
    by (simp add: checkAndMark_def seen_clear_def new_EventSeenSet_def jm_has_iff_get)
  have "repo_reachable (repo ?s1)"
    using eth_events.steps [of sample_digests "(s, seen_clear x)" ctx "CreatedLog l"]
      replay_steps_reachable [OF event_replay_steps] assms(1) by simp
  moreover have "has_key ?k ?s1" using eth_events.claims [OF keys fresh assms(1), of sample_digests ctx] by simp
  ultimately have "has_key ?k s2" using svc_steps_processed [OF assms(5)] by (simp add: has_key_def)
  then have "eth_handle sample_digests ctx' (CreatedLog l) (s2, seen2) = ((s2, fst (checkAndMark ?k ?m seen2)), 0)"
    by (intro eth_events.settled [OF keys]) simp
  moreover have "orders (repo ?s1) = orders (repo s)"
    using assms(2-4) by (simp add: replayEthCreated1_def dedup_then_def dedup_def split_beta replay_created_unknown
        split: option.split)
  ultimately show ?thesis by simp
qed


definition fresh_svc :: svc where
  "fresh_svc = new_OrderService False None False False empty_db"

theorem unknown_order_event_lost_witness:
  "\<exists>s2 row. svc_announce sample_ctx sample_input
       (fst (fst (replayEthCreated1 sample_ctx sample_log (fresh_svc, seen_clear new_EventSeenSet)))) = Inr (s2, row)
     \<and> fst (fst (replayEthCreated1 sample_ctx sample_log (s2, new_EventSeenSet))) = s2"
proof -
  let ?s1 = "fst (fst (replayEthCreated1 sample_ctx sample_log (fresh_svc, seen_clear new_EventSeenSet)))"
  have hl: "truthy_string (el_hashlock sample_log) = Some (ai_hashlock sample_input)"
    by (simp add: sample_log_def truthy_string_def sample_input_def)
  have none: "svc_findByHashlock (ai_hashlock sample_input) fresh_svc = None" by code_simp
  have r: "repo_reachable (repo fresh_svc)" and oid: "el_orderId sample_log = Some 7"
    by (simp_all add: fresh_svc_def new_OrderService_def repo_reachable.init sample_log_def)
  have "orders (repo ?s1) = []"
    using unknown_order_event_lost [OF r hl oid none svc_steps.none] by (simp add: fresh_svc_def new_OrderService_def empty_db_def)
  moreover have "orderIdFromHashlock (ai_hashlock sample_input) = Inr sample_id" by code_simp
  ultimately have "\<not> isl (svc_announce sample_ctx sample_input ?s1)"
    by (simp add: svc_announce_def repo_announce_def repo_findByHashlock_def Let_def sample_input_def)
  then obtain s2 row where a: "svc_announce sample_ctx sample_input ?s1 = Inr (s2, row)"
    by (cases "svc_announce sample_ctx sample_input ?s1") auto
  have "svc_steps sample_codec ?s1 s2" by (rule svc_steps.more [OF svc_steps.none svc_step.announce [OF a]])
  from unknown_order_event_lost [OF r hl oid none this] a show ?thesis by blast
qed


lemma advanceOrderCursor_select:
  assumes "select_by_public_id pid (repo s) = Some r"
  shows "\<exists>a b c t. select_by_public_id pid (repo (advanceOrderCursor ctx pid ch pos s)) =
    Some (r\<lparr>lastEthBlock := a, lastSorobanLedger := b, lastSolanaSlot := c, updatedAt := t\<rparr>)"
proof (cases "pos = 0")
  case True
  with assms show ?thesis
    by (intro exI [of _ "lastEthBlock r"] exI [of _ "lastSorobanLedger r"] exI [of _ "lastSolanaSlot r"]
        exI [of _ "updatedAt r"]) (simp add: advanceOrderCursor_def)
next
  case False
  obtain e so sl where "repo (advanceOrderCursor ctx pid ch pos s) =
      repo_advanceOrderLedgerCursor (ctx_seconds ctx) pid e so sl (repo s)"
    using False by (cases ch) (simp_all add: advanceOrderCursor_def svc_advanceOrderLedgerCursor_def)
  moreover obtain f where "db_effect pid f (repo s) (repo_advanceOrderLedgerCursor (ctx_seconds ctx) pid e so sl (repo s))"
    and "\<forall>r. \<exists>a b c t. f r = r\<lparr>lastEthBlock := a, lastSorobanLedger := b, lastSolanaSlot := c, updatedAt := t\<rparr>"
    using advanceOrderLedgerCursor_effect by blast
  ultimately show ?thesis using assms unfolding db_effect_def by auto
qed

lemma recordSrcLock_announced:
  assumes "select_by_public_id (li_publicId inp) (repo s) = Some r" and "status r = Announced"
    and "srcOrderId r = None"
  shows "\<exists>s' q. svc_recordSrcLock ctx inp act s = Inr s' \<and> select_by_public_id (li_publicId inp) (repo s') = Some q
    \<and> status q = Src_locked \<and> srcOrderId q = Some (li_orderId inp) \<and> srcChain q = srcChain r
    \<and> dstOrderId q = dstOrderId r"
proof -
  have g: "srcLock_guard inp (repo s) = Inr (Some r)"
    using assms by (simp add: srcLock_guard_def repo_findByPublicId_def canTransition_into isTerminal_def)
  then obtain s' where s': "svc_recordSrcLock ctx inp act s = Inr s'"
    by (simp add: svc_recordSrcLock_def Let_def)
  define d1 where "d1 = repo_recordSrcLock (ctx_seconds ctx) inp act (repo s)"
  let ?w = "src_lock_write (ctx_seconds ctx) inp (nextLockStatus (status r) Src_locked)"
  have d1: "select_by_public_id (li_publicId inp) d1 = Some (?w r)"
    using recordSrcLock_effect [OF g, of "ctx_seconds ctx" act] assms(1) by (simp add: db_effect_def d1_def)
  have eq: "repo s' = (if li_blockNumber inp > 0
      then repo_updateOrderCursor (ctx_seconds ctx) (li_publicId inp) (srcChain r) (li_blockNumber inp) d1 else d1)"
    using s' g by (auto simp: svc_recordSrcLock_def Let_def d1_def)
  have "\<exists>q. select_by_public_id (li_publicId inp) (repo s') = Some q \<and> status q = status (?w r)
      \<and> srcOrderId q = srcOrderId (?w r) \<and> srcChain q = srcChain (?w r) \<and> dstOrderId q = dstOrderId (?w r)"
    using d1 updateOrderCursor_effect [where pid = "li_publicId inp" and ch = "srcChain r" and d = d1]
    unfolding eq by (cases "srcChain r") (auto simp: db_effect_def)
  then show ?thesis
    using s' assms(2) by (auto simp: src_lock_write_def nextLockStatus_def canTransition_into)
qed


lemma replay_created_announced:
  assumes "svc_findByHashlock hl s = Some r" and "select_by_public_id (publicId r) (repo s) = Some r"
    and "status r = Announced" and "srcOrderId r = None" and "srcLockBlock r = None"
    and "orderCursorForChain ch r = None"
  shows "\<exists>q. select_by_public_id (publicId r) (repo (fst (replay_created ctx ch None hl oid tx pos (Some t) s))) = Some q
    \<and> status q = Src_locked \<and> srcOrderId q = Some oid \<and> srcChain q = srcChain r \<and> dstOrderId q = dstOrderId r"
proof -
  let ?inp = "\<lparr>li_publicId = publicId r, li_orderId = oid, li_txHash = tx, li_blockNumber = pos, li_timelock = int t\<rparr>"
  obtain s' q where lock: "svc_recordSrcLock ctx ?inp ''reconciler'' s = Inr s'"
    and q: "select_by_public_id (publicId r) (repo s') = Some q" "status q = Src_locked" "srcOrderId q = Some oid"
      "srcChain q = srcChain r" "dstOrderId q = dstOrderId r"
    using recordSrcLock_announced [of ?inp s r ctx "''reconciler''"] assms(2-4) by auto
  have "fst (replay_created ctx ch None hl oid tx pos (Some t) s) = advanceOrderCursor ctx (publicId r) ch pos s'"
    using assms lock by (simp add: replay_created_def isEventBehindOrderCursor_def decideDispatch_def settle_event_def)
  then show ?thesis using advanceOrderCursor_select [OF q(1), of ctx ch pos] q(2-) by auto
qed

text \<open>The reconciler does not compare the chain of a creation event with the order's source chain:
  a Soroban creation event with the hashlock of an announced order is recorded as its source lock, whatever its
  source chain is, and no destination lock is recorded. So the lock of the resolver on the destination chain,
  replayed first, moves the order to \<open>src_locked\<close> although nothing is locked on its source chain.\<close>

theorem destination_lock_recorded_as_source:
  assumes "repo_reachable (repo s)" and "svc_findByHashlock hl s = Some r" and "status r = Announced"
    and "srcOrderId r = None" and "srcLockBlock r = None" and "lastSorobanLedger r = None"
    and "se_payload ev = SorobanCreated hl oid lock"
    and "\<not> has_key (sorobanEventKey OrderCreated (se_txHash ev) (se_ledger ev) i) s"
  shows "\<exists>q. svc_get (publicId r) (fst (fst (replaySorobanEvent dg ctx (i, ev) (s, seen_clear x)))) = Some q
    \<and> status q = Src_locked \<and> srcOrderId q = Some (decimal oid) \<and> srcChain q = srcChain r
    \<and> dstOrderId q = dstOrderId r"
proof -
  let ?k = "sorobanEventKey OrderCreated (se_txHash ev) (se_ledger ev) i"
  let ?s1 = "fst (svc_claimEvent ctx ?k EvSoroban OrderCreated None s)"
  have "r \<in> set (orders (repo s))"
    using assms(2) by (auto simp: svc_findByHashlock_def repo_findByHashlock_def find_Some_iff)
  then have sel: "select_by_public_id (publicId r) (repo s) = Some r"
    using repo_reachable_invar [OF assms(1)] by (auto simp: select_Some_iff repo_invar_def wf_db_def)
  have "select_by_public_id (publicId r) (repo ?s1) = Some r"
    using sel by (simp add: svc_claimEvent_def repo_claimEvent_def split_beta)
  then obtain q where "select_by_public_id (publicId r) (repo (fst (replay_created ctx Stellar None hl (decimal oid)
      (se_txHash ev) (se_ledger ev) (Some lock) ?s1))) = Some q \<and> status q = Src_locked
      \<and> srcOrderId q = Some (decimal oid) \<and> srcChain q = srcChain r \<and> dstOrderId q = dstOrderId r"
    using replay_created_announced [of hl ?s1 r Stellar ctx "decimal oid" "se_txHash ev" "se_ledger ev" lock]
      assms(2-6) by auto
  moreover have "fst (fst (replaySorobanEvent dg ctx (i, ev) (s, seen_clear x))) =
      fst (replay_created ctx Stellar None hl (decimal oid) (se_txHash ev) (se_ledger ev) (Some lock) ?s1)"
    using assms(7,8)
    by (simp add: replaySorobanEvent_def dedup_then_def dedup_def checkAndMark_def seen_clear_def
        new_EventSeenSet_def jm_has_iff_get svc_claimEvent_def repo_claimEvent_def has_key_def split_beta)
  ultimately show ?thesis by (auto simp: svc_get_def repo_findByPublicId_def)
qed


definition announced_svc :: svc where
  "announced_svc = new_OrderService True None True True
     (empty_db\<lparr>orders := [announced_row 100 1 sample_id sample_input], nextOrderId := 2\<rparr>)"

definition resolver_lock :: soroban_event where
  "resolver_lock = \<lparr>se_ledger = 50, se_txHash = ''ab'', se_payload = SorobanCreated (ai_hashlock sample_input) 3 900\<rparr>"

theorem destination_lock_recorded_as_source_witness:
  "\<exists>q. svc_get sample_id (fst (fst (replaySorobanEvent sample_digests sample_ctx (0, resolver_lock)
          (announced_svc, seen_clear new_EventSeenSet)))) = Some q
     \<and> status q = Src_locked \<and> srcOrderId q = Some (decimal 3) \<and> srcChain q = Ethereum \<and> dstOrderId q = None"
proof -
  let ?r = "announced_row 100 1 sample_id sample_input"
  have r: "repo_reachable (repo announced_svc)"
    using repo_reachable.step [OF repo_reachable.init repo_step.announce [OF sample_announced]]
    by (simp add: announced_svc_def new_OrderService_def)
  have f: "svc_findByHashlock (ai_hashlock sample_input) announced_svc = Some ?r" by code_simp
  have k: "\<not> has_key (sorobanEventKey OrderCreated (se_txHash resolver_lock) (se_ledger resolver_lock) 0) announced_svc"
    by (simp add: has_key_def announced_svc_def new_OrderService_def empty_db_def jm_has_iff_get)
  have p: "se_payload resolver_lock = SorobanCreated (ai_hashlock sample_input) 3 900" by (simp add: resolver_lock_def)
  show ?thesis
    using destination_lock_recorded_as_source [OF r f _ _ _ _ p k, of sample_digests sample_ctx new_EventSeenSet]
    by (simp add: announced_row_def sample_input_def)
qed


section \<open>Failing chains\<close>

text \<open>A chain whose part of the run fails keeps its high-water mark, in memory and in the
  \<open>chain_cursors\<close> table, so that the next run scans its window again; and a failing chain leaves the
  marks of the other chains alone.\<close>

theorem failed_chain_keeps_cursor:
  assumes "repo_reachable (repo (orders_service r))"
  shows "(reconcileEthereum cfg erpc dg ctx r = (r', Inl e) \<longrightarrow> r' = r)
    \<and> (reconcileSoroban fuel cfg srpc dg ctx r = Some (r', Inl e) \<longrightarrow>
         chain_cursors (repo (orders_service r')) = chain_cursors (repo (orders_service r))
         \<and> ethCursor r' = ethCursor r \<and> sorobanCursor r' = sorobanCursor r \<and> solanaCursor r' = solanaCursor r)
    \<and> (reconcileSolana cfg lrpc json dg ctx r = (r', Inl e) \<longrightarrow>
         orders_service r' = orders_service r
         \<and> ethCursor r' = ethCursor r \<and> sorobanCursor r' = sorobanCursor r \<and> solanaCursor r' = solanaCursor r)"
proof (intro conjI impI)
  assume "reconcileEthereum cfg erpc dg ctx r = (r', Inl e)"
  then show "r' = r"
    by (auto simp: reconcileEthereum_def Let_def split_beta split: if_splits sum.splits)
next
  assume f: "reconcileSoroban fuel cfg srpc dg ctx r = Some (r', Inl e)"
  then show "ethCursor r' = ethCursor r" and "sorobanCursor r' = sorobanCursor r" and "solanaCursor r' = solanaCursor r"
    by (auto simp: reconcileSoroban_def Let_def with_state_def simp del: decision_simps
        split: if_splits sum.splits option.splits)
  have "orders_service r' = orders_service r \<or> (\<exists>start st c. soroban_pages fuel srpc dg ctx start
      (sorobanRpcCursor r) 0 0 (orders_service r, seenSet r) = Some (st, c, Inl e) \<and> orders_service r' = fst st)"
    using f by (auto simp: reconcileSoroban_def Let_def with_state_def simp del: decision_simps
        split: if_splits sum.splits option.splits)
  then show "chain_cursors (repo (orders_service r')) = chain_cursors (repo (orders_service r))"
    using event_steps_chain_cursors [OF soroban_pages_steps] assms by fastforce
next
  assume f: "reconcileSolana cfg lrpc json dg ctx r = (r', Inl e)"
  then show "orders_service r' = orders_service r" and "ethCursor r' = ethCursor r"
    and "sorobanCursor r' = sorobanCursor r" and "solanaCursor r' = solanaCursor r"
    by (auto simp: reconcileSolana_def Let_def split_beta simp del: decision_simps
        split: if_splits sum.splits option.splits)
qed


definition failing_rpc :: soroban_rpc where
  "failing_rpc = \<lparr>getLatestLedger = Inr 500, getEvents = (\<lambda>_ _. Inl ''timeout'')\<rparr>"

theorem failed_chain_keeps_cursor_witness:
  "\<exists>r'. reconcileSoroban 1 sample_config failing_rpc sample_digests sample_ctx
        (initCursors (new_Reconciler sample_svc)) = Some (r', Inl ''timeout'')
     \<and> sorobanCursor r' = sorobanCursor (initCursors (new_Reconciler sample_svc))"
proof -
  let ?r = "initCursors (new_Reconciler sample_svc)"
  have r: "repo_reachable (repo (orders_service ?r))"
    using sample_reachable by (simp add: repo_sample_svc new_Reconciler_def initCursors_def Let_def)
  have "repo_getChainCursor Stellar sample_db = 0" by code_simp
  then have "sorobanCursor ?r = Some (new_LedgerCursor 0 SOROBAN_LOOKBACK_LEDGERS)"
    by (simp add: initCursors_def new_Reconciler_def repo_sample_svc Let_def)
  then obtain r' where f: "reconcileSoroban 1 sample_config failing_rpc sample_digests sample_ctx ?r
      = Some (r', Inl ''timeout'')"
    by (simp add: reconcileSoroban_def failing_rpc_def Let_def sample_config_def new_LedgerCursor_def
        SOROBAN_LOOKBACK_LEDGERS_def)
  then show ?thesis using failed_chain_keeps_cursor [OF r] by blast
qed


section \<open>The recovery report\<close>

text \<open>A decision that the report cannot rate as a gap: it has the label \<open>soroban\<close>, which has neither a mark
  nor a lookback in the report, or its tip is not ahead of the mark the report reads.\<close>

definition gap_hidden :: "recon \<Rightarrow> replay_decision \<Rightarrow> bool" where
  "gap_hidden r d \<longleftrightarrow> rd_chain d = ''soroban'' \<or> rd_chain d = ''solana'' \<and> rd_toBlock d \<le> cursor_hwm (solanaCursor r)"

lemma gap_hidden_report:
  assumes "\<forall>d\<in>set (decisions (policy r)). gap_hidden r d"
  shows "snd (run_recovery_report r) \<in> {Healthy, RecoveringRun}"
proof -
  have "\<not> cr_lookbackExceeded (summarise_chain i) \<and> \<not> cr_forcedHistoricalResync (summarise_chain i)"
    if "i = \<lparr>ri_chain = rd_chain d, ri_hwm = hwmByChain r (rd_chain d), ri_tip = rd_toBlock d,
          ri_fromBlock = rd_fromBlock d, ri_lookback = None\<rparr>" and "gap_hidden r d" for i d
    using that by (auto simp: summarise_chain_def Let_def gap_hidden_def hwmByChain_def RECONCILER_LOOKBACKS_def)
  then show ?thesis
    using assms by (auto simp: run_recovery_report_def buildRecoveryReport_def aggregateRecoveryOverall_def Let_def
        list_ex_iff)
qed

lemma reconcileEthereum_policy:
  "policy (fst (reconcileEthereum cfg rpc dg ctx r)) = policy r"
  "solanaCursor (fst (reconcileEthereum cfg rpc dg ctx r)) = solanaCursor r"
  by (simp_all add: reconcileEthereum_def Let_def with_state_def split_beta split: sum.split)

lemma reconcileSoroban_policy:
  assumes "reconcileSoroban fuel cfg rpc dg ctx r = Some (r', res)"
  shows "\<forall>d\<in>set (decisions (policy r')). rd_chain d = ''soroban'' \<or> d \<in> set (decisions (policy r))"
    and "solanaCursor r' = solanaCursor r"
  using assms by (auto simp: reconcileSoroban_def Let_def with_state_def recordDecision_def
      split: if_splits sum.splits option.splits)

lemma reconcileSolana_policy:
  assumes "reconcileSolana cfg rpc json dg ctx r = (r', Inr n)"
    and "\<And>c. solanaCursor r = Some c \<Longrightarrow> lookbackWindow c > 0"
    and "\<forall>d\<in>set (decisions (policy r)). rd_chain d = ''soroban''"
  shows "\<forall>d\<in>set (decisions (policy r')). gap_hidden r' d"
  using assms
  by (auto simp: reconcileSolana_def Let_def with_state_def recordDecision_def gap_hidden_def cursor_hwm_def
      lc_getHwm_def lc_advance_def split_beta split: if_splits sum.splits option.splits)


text \<open>The recovery report of a successful startup run never warns of a gap, however far the marks were
  behind and whatever the decisions of the run said: Ethereum records no decision, Soroban's is
  filed under a name the report does not know, and Solana's is rated against the mark the run has
  already advanced.\<close>

theorem recovery_report_blind:
  assumes "recon_run fuel cfg env ctx (new_Reconciler s) = Some (r', st)" and "lastRunOk st"
  shows "snd (recovery st) \<in> {Healthy, RecoveringRun}"
proof -
  let ?r0 = "initCursors (new_Reconciler s)"
  let ?r1 = "?r0\<lparr>seenSet := seen_clear (seenSet ?r0), policy := policy_reset (policy ?r0)\<rparr>"
  let ?e = "reconcileEthereum cfg (env_eth env) (env_digests env) ctx ?r1"
  obtain r3 e3 where r3: "reconcileSoroban fuel cfg (env_soroban env) (env_digests env) ctx (fst ?e) = Some (r3, e3)"
    using assms(1) by (auto simp: recon_run_def new_Reconciler_def Let_def split_beta split: option.splits)
  let ?l = "reconcileSolana cfg (env_solana env) (env_json env) (env_digests env) ctx r3"
  have run: "r' = fst ?l" "recovery st = run_recovery_report r'" "\<not> isl (snd ?l)"
    using assms r3 by (auto simp: recon_run_def new_Reconciler_def Let_def split_beta)
  obtain n where l: "?l = (r', Inr n)" using run(1,3) by (cases ?l, cases "snd ?l") auto
  have "\<forall>d\<in>set (decisions (policy r3)). rd_chain d = ''soroban''"
    using reconcileSoroban_policy(1) [OF r3] by (simp add: reconcileEthereum_policy policy_reset_def)
  moreover have "lookbackWindow c > 0" if "solanaCursor r3 = Some c" for c
    using that reconcileSoroban_policy(2) [OF r3]
    by (auto simp: reconcileEthereum_policy initCursors_def Let_def new_LedgerCursor_def SOLANA_LOOKBACK_SLOTS_def)
  ultimately have "\<forall>d\<in>set (decisions (policy r')). gap_hidden r' d" using reconcileSolana_policy [OF l] by blast
  then show ?thesis using gap_hidden_report run(2) by simp
qed

lemma quiet_run_ok:
  "map_option (lastRunOk \<circ> snd) (recon_run 1 sample_config quiet_env sample_ctx (new_Reconciler sample_svc)) = Some True"
  by (simp add: recon_run_def new_Reconciler_def initCursors_def quiet_env_def sample_config_def Let_def
      reconcileEthereum_def reconcileSoroban_def reconcileSolana_def replayEthereum_def replayEthCreated_def
      replayEthClaimed_def replayEthRefunded_def split_beta new_LedgerCursor_def with_state_def)

theorem recovery_report_blind_witness:
  "\<exists>r' st. recon_run 1 sample_config quiet_env sample_ctx (new_Reconciler sample_svc) = Some (r', st)
     \<and> snd (recovery st) \<in> {Healthy, RecoveringRun}"
proof -
  obtain r' st where run: "recon_run 1 sample_config quiet_env sample_ctx (new_Reconciler sample_svc) = Some (r', st)"
    and "lastRunOk st"
    using quiet_run_ok by (auto simp: comp_def)
  from recovery_report_blind [OF this] run show ?thesis by blast
qed

end
