(* ===== verification/Payment_Proofs.thy ===== *)
theory Payment_Proofs
  imports File_Store Ledger_Interfaces Js_Numbers
begin

text \<open>
  What stands between an XLM payment and the release of ETH for it: \<open>StellarProofLedger\<close>
  (\<open>relayer/src/services/stellar-proof-ledger.ts\<close>), which hands out every Stellar transaction hash once,
  and the Horizon verification of the payment (\<open>relayer/src/services/horizon-verifier.ts\<close>).

  Whether a write to the ledger's directory succeeds is an argument: a failed write is logged and
  ignored. Horizon's answers are arguments.
\<close>

section \<open>The proof ledger\<close>

record proof_entry =
  pe_stellarTxHash :: string
  pe_orderId :: string
  pe_verifiedAmount :: string
  pe_ledgerSequence :: nat
  pe_consumedAt :: int

record proof_ledger =
  pl_entries :: "(string, proof_entry) jsmap"
  pl_disk :: "(string, proof_entry) jsmap option"

definition pl_filePath :: "string \<Rightarrow> string" where
  "pl_filePath hash = take 80 (safe_name hash) @ ''.json''"

definition pl_persist :: "bool \<Rightarrow> proof_entry \<Rightarrow> proof_ledger \<Rightarrow> proof_ledger" where
  "pl_persist written e l =
     (if written then l\<lparr>pl_disk := map_option (jm_set (pl_filePath (pe_stellarTxHash e)) e) (pl_disk l)\<rparr> else l)"

fun pl_load :: "(string \<times> proof_entry) list \<Rightarrow> (string, proof_entry) jsmap \<Rightarrow> (string, proof_entry) jsmap" where
  "pl_load [] m = m"
| "pl_load ((f, e) # fs) m =
     pl_load fs (if \<not> jm_has m (pe_stellarTxHash e) then jm_set (pe_stellarTxHash e) e m else m)"

definition new_ProofLedger :: "(string, proof_entry) jsmap option \<Rightarrow> proof_ledger" where
  "new_ProofLedger dir = \<lparr>pl_entries = (case dir of None \<Rightarrow> [] | Some fs \<Rightarrow> pl_load fs []), pl_disk = dir\<rparr>"

definition pl_consume :: "bool \<Rightarrow> int \<Rightarrow> string \<Rightarrow> string \<Rightarrow> string \<Rightarrow> nat \<Rightarrow> proof_ledger \<Rightarrow> proof_ledger \<times> bool" where
  "pl_consume written now hash orderId amount seq l =
     (if jm_has (pl_entries l) hash then (l, False)
      else let e = \<lparr>pe_stellarTxHash = hash, pe_orderId = orderId, pe_verifiedAmount = amount, pe_ledgerSequence = seq,
                    pe_consumedAt = now\<rparr>
           in (pl_persist written e (l\<lparr>pl_entries := jm_set hash e (pl_entries l)\<rparr>), True))"

definition isConsumed :: "string \<Rightarrow> proof_ledger \<Rightarrow> bool" where
  "isConsumed hash l = jm_has (pl_entries l) hash"

definition pl_getEntry :: "string \<Rightarrow> proof_ledger \<Rightarrow> proof_entry option" where
  "pl_getEntry hash l = jm_get (pl_entries l) hash"

definition pl_snapshot :: "proof_ledger \<Rightarrow> proof_entry list" where
  "pl_snapshot l = map snd (pl_entries l)"

section \<open>Payment verification\<close>

record payment_op =
  po_type :: string
  po_from :: "string option"
  po_to :: "string option"
  po_amount :: "string option"
  po_asset_type :: "string option"

record payment_tx =
  pt_successful :: bool
  pt_ledger :: nat
  pt_memo :: "string option"

text \<open>The two calls on Horizon: the transaction, or the HTTP status of the error (0 without a response), and
  its operations, \<open>None\<close> when the call fails.\<close>

record payment_horizon =
  ph_transaction :: "string \<Rightarrow> nat + payment_tx"
  ph_operations :: "string \<Rightarrow> payment_op list option"

datatype verify_error = TxNotFound | TxFailed | PaymentMismatch | FetchError

definition defaultFetch :: "payment_horizon \<Rightarrow> string \<Rightarrow> verify_error + (payment_tx \<times> payment_op list)" where
  "defaultFetch hz hash =
     (case ph_transaction hz hash of
        Inl status \<Rightarrow> Inl (if status = 404 then TxNotFound else FetchError)
      | Inr tx \<Rightarrow> Inr (tx, or_default (ph_operations hz hash) []))"

text \<open>\<open>parseFloat(s) <= 0\<close>: false of \<open>NaN\<close>. The exponent is not read, so a text too small for a double counts
  as positive; Horizon writes amounts with seven decimals.\<close>

definition parseFloat_nonpos :: "string \<Rightarrow> bool" where
  "parseFloat_nonpos s =
     (let t = dropWhile is_space s;
          negative = (startsWith t ''-'');
          u = (if startsWith t ''-'' \<or> startsWith t ''+'' then tl t else t);
          int_part = takeWhile is_digit u; rest = dropWhile is_digit u;
          frac = (if startsWith rest ''.'' then takeWhile is_digit (tl rest) else [])
      in if int_part @ frac = [] then negative \<and> startsWith u ''Infinity''
         else negative \<or> list_all (\<lambda>c. c = CHR ''0'') (int_part @ frac))"

record verified_payment =
  vp_amount :: string
  vp_from :: string
  vp_to :: string
  vp_ledgerSequence :: nat
  vp_memo :: "string option"

definition pays_relayer :: "string \<Rightarrow> payment_op \<Rightarrow> bool" where
  "pays_relayer relayer op = (po_type op = ''payment'' \<and> po_asset_type op = Some ''native'' \<and> po_to op = Some relayer)"

definition verifyIncomingStellarPayment ::
    "payment_horizon \<Rightarrow> string \<Rightarrow> string \<Rightarrow> string option \<Rightarrow> verify_error + verified_payment" where
  "verifyIncomingStellarPayment hz hash relayer expectedSource =
     (case defaultFetch hz hash of
        Inl e \<Rightarrow> Inl e
      | Inr (tx, ops) \<Rightarrow>
          if \<not> pt_successful tx then Inl TxFailed
          else (case find (pays_relayer relayer) ops of
             None \<Rightarrow> Inl PaymentMismatch
           | Some op \<Rightarrow>
               if \<not> truthy (po_amount op) \<or> parseFloat_nonpos (the (po_amount op)) then Inl PaymentMismatch
               else if truthy expectedSource \<and> po_from op \<noteq> expectedSource then Inl PaymentMismatch
               else Inr \<lparr>vp_amount = the (po_amount op), vp_from = or_default (po_from op) [],
                         vp_to = or_default (po_to op) relayer, vp_ledgerSequence = pt_ledger tx, vp_memo = pt_memo tx\<rparr>))"

section \<open>Interfaces\<close>

interpretation proof_files: file_store pe_stellarTxHash pl_filePath "\<lambda>_. True" pl_load
proof
  show "pl_load (p # ps) m =
      pl_load ps (if True \<and> \<not> jm_has m (pe_stellarTxHash (snd p)) then jm_set (pe_stellarTxHash (snd p)) (snd p) m else m)" for p ps m
    by (cases p) simp
qed simp

interpretation proof_claims: claim_ledger "\<lambda>l h. isConsumed h l"
  "\<lambda>(written, now, hash, oid, amount, seq). pl_consume written now hash oid amount seq" "\<lambda>(_, _, hash, _). hash"
  by unfold_locales (auto simp: pl_consume_def isConsumed_def pl_persist_def jm_has_set Let_def split: if_splits)

lemma consume_simps:
  "snd (pl_consume written now hash oid amount seq l) \<longleftrightarrow> \<not> isConsumed hash l"
  "isConsumed h (fst (pl_consume written now hash oid amount seq l)) \<longleftrightarrow> h = hash \<or> isConsumed h l"
  using proof_claims.claim_wins [where x = "(written, now, hash, oid, amount, seq)" and s = l]
    proof_claims.has_claim [where x = "(written, now, hash, oid, amount, seq)" and s = l and k = h] by simp_all

text \<open>A ledger all of whose writes succeeded, over the hashes \<open>ids\<close>.\<close>

definition proofs_ok :: "string set \<Rightarrow> proof_ledger \<Rightarrow> bool" where
  "proofs_ok ids l \<longleftrightarrow> (\<forall>h e. jm_get (pl_entries l) h = Some e \<longrightarrow> pe_stellarTxHash e = h \<and> h \<in> ids)
     \<and> (\<exists>d. pl_disk l = Some d \<and> mirrors pe_stellarTxHash pl_filePath (\<lambda>_. True) d (pl_entries l))"

lemma proofs_ok_consume:
  assumes "proofs_ok ids l" and "hash \<in> ids"
  shows "proofs_ok ids (fst (pl_consume True now hash oid amount seq l))"
proof -
  let ?e = "\<lparr>pe_stellarTxHash = hash, pe_orderId = oid, pe_verifiedAmount = amount, pe_ledgerSequence = seq, pe_consumedAt = now\<rparr>"
  obtain d where d: "pl_disk l = Some d" "mirrors pe_stellarTxHash pl_filePath (\<lambda>_. True) d (pl_entries l)"
    using assms(1) by (auto simp: proofs_ok_def)
  show ?thesis
    using assms d(1) mirrors_put [OF d(2), of ?e]
    by (auto simp: proofs_ok_def pl_consume_def pl_persist_def Let_def jm_get_set split: if_splits)
qed

lemma proofs_ok_restart:
  assumes "proofs_ok ids l" and "inj_on pl_filePath ids" and "pl_disk l = Some d" and "mset files = mset d"
  shows "pl_getEntry h (new_ProofLedger (Some files)) = pl_getEntry h l" and "proofs_ok ids (new_ProofLedger (Some files))"
proof -
  have m: "mirrors pe_stellarTxHash pl_filePath (\<lambda>_. True) d (pl_entries l)"
    using assms(1,3) by (auto simp: proofs_ok_def)
  have inj: "inj_on pl_filePath {k. \<exists>e. jm_get (pl_entries l) k = Some e \<and> True}"
    by (rule inj_on_subset [OF assms(2)]) (use assms(1) in \<open>auto simp: proofs_ok_def\<close>)
  have "jm_get (pl_load files []) k = jm_get (pl_entries l) k" for k
    using proof_files.reload [OF m mset_eq_setD [OF assms(4)] inj, of k] by (auto split: option.splits)
  moreover have "mirrors pe_stellarTxHash pl_filePath (\<lambda>_. True) files (pl_load files [])"
    by (rule proof_files.reload_mirrors [OF m assms(4) inj])
  ultimately show "pl_getEntry h (new_ProofLedger (Some files)) = pl_getEntry h l"
    and "proofs_ok ids (new_ProofLedger (Some files))"
    using assms(1) by (auto simp: proofs_ok_def pl_getEntry_def new_ProofLedger_def)
qed

text \<open>Transaction hashes are their own file names.\<close>

definition hex_hash :: "string \<Rightarrow> bool" where
  "hex_hash h = (length h = 64 \<and> list_all (\<lambda>c. hex_value c \<noteq> None) h)"

lemma hex_safe: "hex_value c \<noteq> None \<Longrightarrow> safe_char c"
  by (auto simp: hex_value_def safe_char_def Let_def split: if_splits)

lemma hex_hash_path: "hex_hash h \<Longrightarrow> pl_filePath h = h @ ''.json''"
proof -
  assume h: "hex_hash h"
  then have "safe_name h = h" using hex_safe by (auto simp: hex_hash_def safe_name_def list_all_iff intro!: map_idI)
  then show ?thesis using h by (simp add: pl_filePath_def hex_hash_def)
qed

lemma hex_hash_inj: "inj_on pl_filePath {h. hex_hash h}"
  by (rule inj_onI) (simp add: hex_hash_path)

lemma verified_payment_sound:
  assumes "verifyIncomingStellarPayment hz hash relayer expected = Inr v"
  obtains tx ops op where "ph_transaction hz hash = Inr tx" and "pt_successful tx" and "ph_operations hz hash = Some ops"
    and "op \<in> set ops" and "pays_relayer relayer op" and "po_amount op = Some (vp_amount v)"
    and "\<not> parseFloat_nonpos (vp_amount v)" and "truthy expected \<Longrightarrow> po_from op = expected"
proof -
  obtain tx ops op where *: "defaultFetch hz hash = Inr (tx, ops)" "pt_successful tx" "find (pays_relayer relayer) ops = Some op"
      "truthy (po_amount op)" "\<not> parseFloat_nonpos (the (po_amount op))" "vp_amount v = the (po_amount op)"
      "truthy expected \<longrightarrow> po_from op = expected"
    using assms by (auto simp: verifyIncomingStellarPayment_def split: sum.splits option.splits if_splits)
  have fetch: "ph_transaction hz hash = Inr tx" "ops = or_default (ph_operations hz hash) []"
    using *(1) by (auto simp: defaultFetch_def split: sum.splits)
  have op: "op \<in> set ops" "pays_relayer relayer op" using *(3) by (auto simp: find_Some_iff)
  then have "ph_operations hz hash = Some ops" using fetch(2) by (cases "ph_operations hz hash") auto
  moreover have "po_amount op = Some (vp_amount v)" using *(4,6) by (auto simp: truthy_def)
  ultimately show ?thesis using that [of tx ops op] * fetch op by auto
qed

end
