(* ===== verification/Refund_Ledger.thy ===== *)
theory Refund_Ledger
  imports File_Store Ledger_Interfaces "HOL-Library.Multiset"
begin

text \<open>
  \<open>RefundLedger\<close> of \<open>relayer/src/services/refund-ledger.ts\<close>: the gate every refund path has to pass
  before it submits a payment. Only committed and ambiguous entries are written to disk; a
  write is taken to succeed (the source logs and ignores a failed one).
\<close>

datatype refund_state =
    In_flight
  | Committed string string "nat option" int
  | Ambiguous string int

record refund_entry =
  re_orderId :: string
  re_state :: refund_state

record refund_ledger =
  rl_entries :: "(string, refund_entry) jsmap"
  rl_disk :: "(string, refund_entry) jsmap option"

fun persisted :: "refund_state \<Rightarrow> bool" where
  "persisted In_flight = False"
| "persisted (Committed _ _ _ _) = True"
| "persisted (Ambiguous _ _) = True"

section \<open>Persistence\<close>

definition rl_filePath :: "string \<Rightarrow> string" where
  "rl_filePath oid = safe_name oid @ ''.json''"

definition rl_persist :: "string \<Rightarrow> refund_state \<Rightarrow> refund_ledger \<Rightarrow> refund_ledger" where
  "rl_persist oid st l =
     l\<lparr>rl_disk := map_option (jm_set (rl_filePath oid) \<lparr>re_orderId = oid, re_state = st\<rparr>) (rl_disk l)\<rparr>"

definition rl_deletePersisted :: "string \<Rightarrow> refund_ledger \<Rightarrow> refund_ledger" where
  "rl_deletePersisted oid l = l\<lparr>rl_disk := map_option (jm_delete (rl_filePath oid)) (rl_disk l)\<rparr>"

fun rl_load :: "(string \<times> refund_entry) list \<Rightarrow> (string, refund_entry) jsmap \<Rightarrow> (string, refund_entry) jsmap" where
  "rl_load [] m = m"
| "rl_load ((f, r) # fs) m =
     rl_load fs (if persisted (re_state r) \<and> \<not> jm_has m (re_orderId r) then jm_set (re_orderId r) r m else m)"

definition new_RefundLedger :: "(string, refund_entry) jsmap option \<Rightarrow> refund_ledger" where
  "new_RefundLedger dir = \<lparr>rl_entries = (case dir of None \<Rightarrow> [] | Some fs \<Rightarrow> rl_load fs []), rl_disk = dir\<rparr>"

section \<open>Operations\<close>

definition rl_put :: "string \<Rightarrow> refund_state \<Rightarrow> refund_ledger \<Rightarrow> refund_ledger" where
  "rl_put oid st l = l\<lparr>rl_entries := jm_set oid \<lparr>re_orderId = oid, re_state = st\<rparr> (rl_entries l)\<rparr>"

definition rl_phase :: "string \<Rightarrow> refund_ledger \<Rightarrow> refund_state option" where
  "rl_phase oid l = map_option re_state (jm_get (rl_entries l) oid)"

definition rl_claim :: "string \<Rightarrow> refund_ledger \<Rightarrow> refund_ledger \<times> bool" where
  "rl_claim oid l = (if jm_has (rl_entries l) oid then (l, False) else (rl_put oid In_flight l, True))"

definition rl_commit :: "int \<Rightarrow> string \<Rightarrow> string \<Rightarrow> string \<Rightarrow> nat option \<Rightarrow> refund_ledger \<Rightarrow> refund_ledger" where
  "rl_commit now oid txHash amount lgr l =
     (case rl_phase oid l of
        Some (Committed _ _ _ _) \<Rightarrow> l
      | _ \<Rightarrow> let st = Committed txHash amount lgr now in rl_persist oid st (rl_put oid st l))"

definition rl_release :: "string \<Rightarrow> refund_ledger \<Rightarrow> refund_ledger" where
  "rl_release oid l =
     (case rl_phase oid l of
        Some In_flight \<Rightarrow> l\<lparr>rl_entries := jm_delete oid (rl_entries l)\<rparr>
      | _ \<Rightarrow> l)"

definition rl_markAmbiguous :: "int \<Rightarrow> string \<Rightarrow> string \<Rightarrow> refund_ledger \<Rightarrow> refund_ledger" where
  "rl_markAmbiguous now oid reason l =
     (let st = Ambiguous reason now in rl_persist oid st (rl_put oid st l))"

definition rl_resolveAmbiguous ::
    "int \<Rightarrow> string \<Rightarrow> string \<Rightarrow> string \<Rightarrow> nat option \<Rightarrow> refund_ledger \<Rightarrow> refund_ledger" where
  "rl_resolveAmbiguous now oid txHash amount lgr l =
     (case rl_phase oid l of
        Some (Ambiguous _ _) \<Rightarrow> rl_commit now oid txHash amount lgr l
      | _ \<Rightarrow> l)"

definition rl_releaseAmbiguous :: "string \<Rightarrow> refund_ledger \<Rightarrow> refund_ledger" where
  "rl_releaseAmbiguous oid l =
     (case rl_phase oid l of
        Some (Ambiguous _ _) \<Rightarrow> rl_deletePersisted oid (l\<lparr>rl_entries := jm_delete oid (rl_entries l)\<rparr>)
      | _ \<Rightarrow> l)"

definition rl_getEntry :: "string \<Rightarrow> refund_ledger \<Rightarrow> refund_entry option" where
  "rl_getEntry oid l = jm_get (rl_entries l) oid"

definition rl_isCommitted :: "string \<Rightarrow> refund_ledger \<Rightarrow> bool" where
  "rl_isCommitted oid l = (case rl_phase oid l of Some (Committed _ _ _ _) \<Rightarrow> True | _ \<Rightarrow> False)"

definition rl_isLocked :: "string \<Rightarrow> refund_ledger \<Rightarrow> bool" where
  "rl_isLocked oid l = (case rl_phase oid l of Some In_flight \<Rightarrow> True | Some (Ambiguous _ _) \<Rightarrow> True | _ \<Rightarrow> False)"

definition rl_snapshot :: "refund_ledger \<Rightarrow> refund_entry list" where
  "rl_snapshot l = map snd (rl_entries l)"

text \<open>The triple counts \<open>in_flight\<close>, \<open>committed\<close> and \<open>ambiguous\<close>.\<close>

definition rl_stats :: "refund_ledger \<Rightarrow> nat \<times> nat \<times> nat" where
  "rl_stats l =
     (let sts = map (re_state \<circ> snd) (rl_entries l)
      in (length (filter (\<lambda>st. st = In_flight) sts),
          length (filter (\<lambda>st. case st of Committed _ _ _ _ \<Rightarrow> True | _ \<Rightarrow> False) sts),
          length (filter (\<lambda>st. case st of Ambiguous _ _ \<Rightarrow> True | _ \<Rightarrow> False) sts)))"

section \<open>Runs\<close>

text \<open>The calls the refund paths make, and a restart of the process, which constructs the ledger from
  the files on disk in some order.\<close>

datatype ledger_call =
    CClaim string
  | CCommit int string string string "nat option"
  | CRelease string
  | CMarkAmbiguous int string string
  | CResolve int string string string "nat option"
  | CReleaseAmbiguous string

fun call_id :: "ledger_call \<Rightarrow> string" where
  "call_id (CClaim oid) = oid"
| "call_id (CCommit _ oid _ _ _) = oid"
| "call_id (CRelease oid) = oid"
| "call_id (CMarkAmbiguous _ oid _) = oid"
| "call_id (CResolve _ oid _ _ _) = oid"
| "call_id (CReleaseAmbiguous oid) = oid"

fun do_call :: "ledger_call \<Rightarrow> refund_ledger \<Rightarrow> refund_ledger" where
  "do_call (CClaim oid) l = fst (rl_claim oid l)"
| "do_call (CCommit now oid tx amt lgr) l = rl_commit now oid tx amt lgr l"
| "do_call (CRelease oid) l = rl_release oid l"
| "do_call (CMarkAmbiguous now oid why) l = rl_markAmbiguous now oid why l"
| "do_call (CResolve now oid tx amt lgr) l = rl_resolveAmbiguous now oid tx amt lgr l"
| "do_call (CReleaseAmbiguous oid) l = rl_releaseAmbiguous oid l"

inductive ledger_step :: "string set \<Rightarrow> refund_ledger \<Rightarrow> ledger_call option \<Rightarrow> refund_ledger \<Rightarrow> bool" for ids where
  call: "call_id c \<in> ids \<Longrightarrow> ledger_step ids l (Some c) (do_call c l)"
| restart: "rl_disk l = Some d \<Longrightarrow> mset files = mset d \<Longrightarrow> ledger_step ids l None (new_RefundLedger (Some files))"

inductive ledger_run :: "string set \<Rightarrow> refund_ledger \<Rightarrow> ledger_call option list \<Rightarrow> refund_ledger \<Rightarrow> bool" for ids where
  none: "ledger_run ids l [] l"
| more: "ledger_run ids l cs l' \<Longrightarrow> ledger_step ids l' c l'' \<Longrightarrow> ledger_run ids l (cs @ [c]) l''"

section \<open>Invariant\<close>

interpretation refund_files: file_store re_orderId rl_filePath "\<lambda>e. persisted (re_state e)" rl_load
  by unfold_locales auto

interpretation refund_claims: claim_ledger "\<lambda>l. jm_has (rl_entries l)" rl_claim id
  by unfold_locales (auto simp: rl_claim_def rl_put_def jm_has_set)

definition ledger_ok :: "string set \<Rightarrow> refund_ledger \<Rightarrow> bool" where
  "ledger_ok ids l \<longleftrightarrow> jm_wf (rl_entries l)
     \<and> (\<forall>k e. jm_get (rl_entries l) k = Some e \<longrightarrow> re_orderId e = k \<and> k \<in> ids)
     \<and> (case rl_disk l of None \<Rightarrow> True
        | Some d \<Rightarrow> mirrors re_orderId rl_filePath (\<lambda>e. persisted (re_state e)) d (rl_entries l))"

lemma ledger_okD:
  assumes "ledger_ok ids l"
  shows "jm_wf (rl_entries l)" and "jm_get (rl_entries l) k = Some e \<Longrightarrow> re_orderId e = k \<and> k \<in> ids"
    and "rl_disk l = Some d \<Longrightarrow> mirrors re_orderId rl_filePath (\<lambda>e. persisted (re_state e)) d (rl_entries l)"
  using assms by (auto simp: ledger_ok_def)

lemma ledger_ok_write:
  assumes ok: "ledger_ok ids l" and "oid \<in> ids" and "persisted st"
  shows "ledger_ok ids (rl_persist oid st (rl_put oid st l))"
  using assms mirrors_put [OF ledger_okD(3) [OF ok], of _ "\<lparr>re_orderId = oid, re_state = st\<rparr>"]
  by (auto simp: ledger_ok_def rl_persist_def rl_put_def jm_get_set split: if_splits option.splits)

lemma ledger_ok_claim:
  assumes ok: "ledger_ok ids l" and "oid \<in> ids" and "\<not> jm_has (rl_entries l) oid"
  shows "ledger_ok ids (rl_put oid In_flight l)"
proof -
  have none: "jm_get (rl_entries l) oid = None" using assms(3) by (simp add: jm_has_iff_get)
  show ?thesis
    using assms mirrors_unkept(1) [OF ledger_okD(3) [OF ok], of _ oid "\<lparr>re_orderId = oid, re_state = In_flight\<rparr>"] none
    by (auto simp: ledger_ok_def rl_put_def jm_get_set split: if_splits option.splits)
qed

lemma ledger_ok_release:
  assumes ok: "ledger_ok ids l" and e: "jm_get (rl_entries l) oid = Some e" "re_state e = In_flight"
  shows "ledger_ok ids (l\<lparr>rl_entries := jm_delete oid (rl_entries l)\<rparr>)"
  using ok e mirrors_unkept(2) [OF ledger_okD(3) [OF ok], of _ oid]
  by (auto simp: ledger_ok_def jm_get_delete split: if_splits option.splits)

lemma ledger_ok_releaseAmbiguous:
  assumes ok: "ledger_ok ids l" and "oid \<in> ids" and inj: "inj_on rl_filePath ids"
  shows "ledger_ok ids (rl_deletePersisted oid (l\<lparr>rl_entries := jm_delete oid (rl_entries l)\<rparr>))"
proof -
  have "j = oid" if "jm_get (rl_entries l) j = Some e" "rl_filePath j = rl_filePath oid" for j e
    using ledger_okD(2) [OF ok that(1)] assms(2) inj that(2) by (auto dest: inj_onD)
  then show ?thesis
    using ok mirrors_delete [OF ledger_okD(3) [OF ok], of _ oid]
    by (auto simp: ledger_ok_def rl_deletePersisted_def jm_get_delete split: if_splits option.splits)
qed

lemma do_call_ok:
  assumes ok: "ledger_ok ids l" and "call_id c \<in> ids" and inj: "inj_on rl_filePath ids"
  shows "ledger_ok ids (do_call c l)"
  using assms ledger_ok_write ledger_ok_claim ledger_ok_release ledger_ok_releaseAmbiguous
  by (cases c) (auto simp: rl_claim_def rl_commit_def rl_release_def rl_markAmbiguous_def rl_resolveAmbiguous_def
      rl_releaseAmbiguous_def rl_phase_def Let_def split: option.split refund_state.split)

lemma kept_inj:
  assumes "ledger_ok ids l" and "inj_on rl_filePath ids"
  shows "inj_on rl_filePath {k. \<exists>e. jm_get (rl_entries l) k = Some e \<and> persisted (re_state e)}"
  by (rule inj_on_subset [OF assms(2)]) (use ledger_okD(2) [OF assms(1)] in blast)

lemma reload_entries:
  assumes "ledger_ok ids l" and "inj_on rl_filePath ids" and "rl_disk l = Some d" and "mset files = mset d"
  shows "jm_get (rl_entries (new_RefundLedger (Some files))) k =
    (case jm_get (rl_entries l) k of Some e \<Rightarrow> if persisted (re_state e) then Some e else None | None \<Rightarrow> None)"
proof -
  have "set files = set d" using assms(4) by (rule mset_eq_setD)
  then show ?thesis
    using refund_files.reload [OF ledger_okD(3) [OF assms(1,3)] _ kept_inj [OF assms(1,2)]] by (simp add: new_RefundLedger_def)
qed

lemma reload_ok:
  assumes ok: "ledger_ok ids l" and inj: "inj_on rl_filePath ids" and d: "rl_disk l = Some d"
    and files: "mset files = mset d"
  shows "ledger_ok ids (new_RefundLedger (Some files))"
proof -
  have "re_orderId e = k \<and> k \<in> ids" if "jm_get (rl_entries (new_RefundLedger (Some files))) k = Some e" for k e
    using that ledger_okD(2) [OF ok, of k e] unfolding reload_entries [OF assms] by (auto split: option.splits if_splits)
  moreover have "mirrors re_orderId rl_filePath (\<lambda>e. persisted (re_state e)) files (rl_load files [])"
    by (rule refund_files.reload_mirrors [OF ledger_okD(3) [OF ok d] files kept_inj [OF ok inj]])
  moreover have "jm_wf (rl_load files [])" by (rule refund_files.load_wf) simp
  ultimately show ?thesis by (simp add: ledger_ok_def new_RefundLedger_def)
qed

lemma ledger_step_ok:
  assumes "ledger_step ids l c l'" and "ledger_ok ids l" and "inj_on rl_filePath ids"
  shows "ledger_ok ids l'"
  using assms by (cases rule: ledger_step.cases) (auto intro: do_call_ok reload_ok)

lemma ledger_run_ok:
  assumes "ledger_run ids l cs l'" and "ledger_ok ids l" and "inj_on rl_filePath ids"
  shows "ledger_ok ids l'"
  using assms by (induction rule: ledger_run.induct) (auto intro: ledger_step_ok)

lemma fresh_ledger_ok [simp]: "ledger_ok ids (new_RefundLedger (Some []))" "ledger_ok ids (new_RefundLedger None)"
  by (simp_all add: ledger_ok_def new_RefundLedger_def)

section \<open>Exclusion\<close>

lemma phase_put [simp]:
  "rl_phase k (rl_put oid st l) = (if k = oid then Some st else rl_phase k l)"
  "rl_phase k (rl_persist oid st l) = rl_phase k l"
  "rl_phase k (rl_deletePersisted oid l) = rl_phase k l"
  "rl_phase k (l\<lparr>rl_entries := jm_delete oid (rl_entries l)\<rparr>) = (if k = oid then None else rl_phase k l)"
  by (simp_all add: rl_phase_def rl_put_def rl_persist_def rl_deletePersisted_def jm_get_set jm_get_delete)

lemma has_phase: "jm_has (rl_entries l) k \<longleftrightarrow> rl_phase k l \<noteq> None"
  by (simp add: rl_phase_def jm_has_iff_get)

lemmas ledger_op_defs = rl_claim_def rl_commit_def rl_release_def rl_markAmbiguous_def rl_resolveAmbiguous_def
  rl_releaseAmbiguous_def Let_def

lemma call_keeps_commit:
  assumes "rl_phase oid l = Some (Committed tx amt lgr t)" and "\<And>now why. c \<noteq> CMarkAmbiguous now oid why"
  shows "rl_phase oid (do_call c l) = Some (Committed tx amt lgr t)"
  using assms by (cases c) (auto simp: ledger_op_defs has_phase split: option.split refund_state.split)

lemma call_keeps_lock:
  assumes "rl_phase oid l \<noteq> None" and "c \<noteq> CRelease oid" and "c \<noteq> CReleaseAmbiguous oid"
  shows "rl_phase oid (do_call c l) \<noteq> None"
  using assms by (cases c) (auto simp: ledger_op_defs has_phase split: option.split refund_state.split)

lemma restart_phase:
  assumes "ledger_ok ids l" and "inj_on rl_filePath ids" and "rl_disk l = Some d" and "mset files = mset d"
  shows "rl_phase oid (new_RefundLedger (Some files)) =
    (case rl_phase oid l of Some st \<Rightarrow> if persisted st then Some st else None | None \<Rightarrow> None)"
  unfolding rl_phase_def reload_entries [OF assms] by (simp split: option.split)

lemma step_keeps_commit:
  assumes "ledger_step ids l c l'" and "ledger_ok ids l" and "inj_on rl_filePath ids"
    and "rl_phase oid l = Some (Committed tx amt lgr t)" and "\<And>now why. c \<noteq> Some (CMarkAmbiguous now oid why)"
  shows "rl_phase oid l' = Some (Committed tx amt lgr t)"
  using assms(1)
proof (cases rule: ledger_step.cases)
  case (call c')
  then show ?thesis using assms(4,5) by (simp add: call_keeps_commit)
next
  case (restart d files)
  then show ?thesis using assms(4) by (simp add: restart_phase [OF assms(2,3)])
qed

lemma step_keeps_lock:
  assumes "ledger_step ids l (Some c) l'" and "rl_phase oid l \<noteq> None"
    and "c \<noteq> CRelease oid" and "c \<noteq> CReleaseAmbiguous oid"
  shows "rl_phase oid l' \<noteq> None"
  using assms(1) call_keeps_lock [OF assms(2-4)] by (cases rule: ledger_step.cases) auto




end
