(* ===== verification/Xlm_Refund.thy ===== *)
theory Xlm_Refund
  imports Js_Numbers Refund_Ledger
begin

text \<open>
  The refund payment of \<open>relayer/src/services/xlm-refund.ts\<close>: the conversions between XLM strings and
  stroops, the classification of Horizon errors, and \<open>refundXlmToUser\<close> with its retry loop.

  Horizon is an argument. Its answers may depend on the number of the request, which an \<open>outbox\<close>
  counts next to the log of the payments that were submitted so far, each with its answer; a
  payment may have landed whatever the answer was. The SDK's base fee and the relayer's public key are
  arguments too. Texts of error messages, delays, metrics and logs are not modelled.
\<close>

section \<open>Stroops\<close>

definition STROOPS_PER_XLM :: int where "STROOPS_PER_XLM = 10000000"
definition MIN_REFUND_STROOPS :: int where "MIN_REFUND_STROOPS = 1"
definition TX_FEE_STROOPS :: int where "TX_FEE_STROOPS = 100"

definition before_dot :: "string \<Rightarrow> string" where
  "before_dot s = takeWhile (\<lambda>c. c \<noteq> CHR ''.'') s"

definition after_dot :: "string \<Rightarrow> string" where
  "after_dot s = tl (dropWhile (\<lambda>c. c \<noteq> CHR ''.'') s)"

text \<open>\<open>None\<close> is the \<open>SyntaxError\<close> of \<open>BigInt\<close>.\<close>

definition xlmStringToStroops :: "string \<Rightarrow> int option" where
  "xlmStringToStroops xlm =
     (if xlm = [] then Some 0
      else let trimmed = js_trim xlm
           in if CHR ''.'' \<notin> set trimmed then map_option (\<lambda>n. n * STROOPS_PER_XLM) (bigint_of_string trimmed)
              else let intPart = (if before_dot trimmed = [] then ''0'' else before_dot trimmed);
                       fracPadded = take 7 (padEnd 7 (CHR ''0'') (after_dot trimmed))
                   in (case (bigint_of_string intPart, bigint_of_string fracPadded) of
                         (Some i, Some f) \<Rightarrow> Some (i * STROOPS_PER_XLM + f)
                       | _ \<Rightarrow> None))"

definition stroopsToXlmString :: "int \<Rightarrow> string" where
  "stroopsToXlmString n =
     (let stroops = (if n < 0 then 0 else n)
      in decimal (nat (stroops div STROOPS_PER_XLM)) @ ''.''
         @ padStart 7 (CHR ''0'') (decimal (nat (stroops mod STROOPS_PER_XLM))))"

text \<open>The string branch of \<open>parseFallbackStroops\<close>, the one the refund paths use; \<open>None\<close> is an uncaught
  \<open>SyntaxError\<close>.\<close>

definition parseFallbackStroops :: "string \<Rightarrow> int option" where
  "parseFallbackStroops v =
     (let str = js_trim v
      in if str = [] \<or> str = ''0'' then Some 0
         else if CHR ''.'' \<in> set str then xlmStringToStroops str
         else (case bigint_of_string str of Some n \<Rightarrow> Some (if n > 0 then n else 0) | None \<Rightarrow> Some 0))"

section \<open>Errors\<close>

text \<open>What the SDK throws: the HTTP response, if there is one, as its status, its transaction result code
  and its operation result codes; the error code; the message.\<close>

record raw_error =
  he_response :: "(nat \<times> string \<times> string list) option"
  he_code :: string
  he_message :: string

datatype refund_error =
    HorizonTimeout
  | HorizonTerminal string
  | HorizonTransient
  | RefundAmountUnknown
  | DuplicateRefund refund_state
  | MalformedAmount

definition TERMINAL_RESULT_CODES :: "string list" where
  "TERMINAL_RESULT_CODES =
     [''tx_bad_auth'', ''tx_insufficient_balance'', ''tx_no_source_account'', ''tx_bad_auth_extra'',
      ''tx_internal_error'', ''op_no_destination'', ''op_no_trust'', ''op_line_full'',
      ''op_not_authorized'', ''op_bad_asset'']"

definition classify_message :: "string \<Rightarrow> refund_error" where
  "classify_message msg =
     (if str_includes msg ''timeout'' \<or> str_includes msg ''ETIMEDOUT'' \<or> str_includes msg ''ECONNRESET''
         \<or> str_includes msg ''socket hang up''
      then HorizonTimeout else HorizonTransient)"

definition classifyHorizonError :: "raw_error \<Rightarrow> refund_error" where
  "classifyHorizonError e =
     (case he_response e of
        None \<Rightarrow> classify_message (he_message e)
      | Some (status, txCode, opCodes) \<Rightarrow>
          if status = 504 \<or> status = 408 \<or> he_code e = ''ECONNABORTED'' then HorizonTimeout
          else if status = 400 then
            (if txCode = ''tx_bad_seq'' then HorizonTerminal ''tx_bad_seq''
             else if txCode = ''tx_insufficient_fee'' then HorizonTerminal ''tx_insufficient_fee''
             else case find (\<lambda>c. c \<in> set TERMINAL_RESULT_CODES) (filter (\<lambda>c. c \<noteq> []) (txCode # opCodes)) of
                    Some c \<Rightarrow> HorizonTerminal c
                  | None \<Rightarrow> HorizonTransient)
          else if status \<ge> 500 then HorizonTransient
          else classify_message (he_message e))"

section \<open>Horizon\<close>

record horizon_op =
  op_type :: string
  op_to :: string
  op_asset_type :: string
  op_amount :: string

record payment =
  p_destination :: string
  p_amount :: string
  p_fee :: int
  p_memo :: string

record horizon_tx =
  htx_memo :: string
  htx_hash :: string
  htx_ledger :: "nat option"

record horizon =
  hz_operations :: "nat \<Rightarrow> string \<Rightarrow> raw_error + horizon_op list"
  hz_loadAccount :: "nat \<Rightarrow> raw_error option"
  hz_submit :: "nat \<Rightarrow> payment \<Rightarrow> raw_error + (string \<times> nat option)"
  hz_transactions :: "nat \<Rightarrow> raw_error + horizon_tx list"
  hz_relayer :: string
  hz_base_fee :: int

record outbox =
  ob_calls :: nat
  ob_sent :: "(payment \<times> (raw_error + (string \<times> nat option))) list"

record refund_args =
  ra_orderId :: string
  ra_stellarAddress :: string
  ra_stellarTxHash :: "string option"
  ra_fallbackStroops :: "string option"
  ra_maxRetries :: nat
  ra_feeBumpCap :: int

record refund_result =
  rr_hash :: string
  rr_amount :: string
  rr_stroops :: int
  rr_ledger :: "nat option"
  rr_fromCache :: bool

definition refund_memo :: "string \<Rightarrow> string" where
  "refund_memo oid = ''Refund:'' @ take 20 (if oid = [] then ''unknown'' else oid)"

section \<open>The refund\<close>

text \<open>The lookup of the original payment; a failed lookup or an unreadable amount gives \<open>None\<close>.\<close>

definition looked_up_stroops :: "horizon \<Rightarrow> nat \<Rightarrow> string \<Rightarrow> int option" where
  "looked_up_stroops hz n txHash =
     (case hz_operations hz n txHash of
        Inl _ \<Rightarrow> None
      | Inr ops \<Rightarrow>
          (case find (\<lambda>op. op_type op = ''payment'' \<and> op_to op = hz_relayer hz \<and> op_asset_type op = ''native'') ops of
             None \<Rightarrow> None
           | Some op \<Rightarrow> (case xlmStringToStroops (op_amount op) of
                           Some n \<Rightarrow> if n > 0 then Some n else None
                         | None \<Rightarrow> None)))"

definition resolveRefundStroops :: "horizon \<Rightarrow> refund_args \<Rightarrow> nat \<Rightarrow> refund_error + int" where
  "resolveRefundStroops hz a n =
     (case (case ra_stellarTxHash a of
              None \<Rightarrow> None
            | Some h \<Rightarrow> if h = [] then None else looked_up_stroops hz n h) of
        Some stroops \<Rightarrow> Inr stroops
      | None \<Rightarrow>
          (case ra_fallbackStroops a of
             None \<Rightarrow> Inl RefundAmountUnknown
           | Some v \<Rightarrow>
               (case parseFallbackStroops v of
                  None \<Rightarrow> Inl MalformedAmount
                | Some p \<Rightarrow> if p > 0 then Inr p else Inl RefundAmountUnknown)))"

definition submitOnce ::
    "horizon \<Rightarrow> refund_args \<Rightarrow> string \<Rightarrow> int \<Rightarrow> outbox \<Rightarrow> outbox \<times> (refund_error + refund_result)" where
  "submitOnce hz a amountStr fee ob =
     (case hz_loadAccount hz (ob_calls ob) of
        Some e \<Rightarrow> (ob\<lparr>ob_calls := ob_calls ob + 1\<rparr>, Inl (classifyHorizonError e))
      | None \<Rightarrow>
          let tx = \<lparr>p_destination = ra_stellarAddress a, p_amount = amountStr, p_fee = fee,
                    p_memo = refund_memo (ra_orderId a)\<rparr>;
              answer = hz_submit hz (ob_calls ob + 1) tx;
              ob' = ob\<lparr>ob_calls := ob_calls ob + 2, ob_sent := ob_sent ob @ [(tx, answer)]\<rparr>
          in case answer of
               Inl e \<Rightarrow> (ob', Inl (classifyHorizonError e))
             | Inr (hash, lgr) \<Rightarrow>
                 (case xlmStringToStroops amountStr of
                    None \<Rightarrow> (ob', Inl MalformedAmount)
                  | Some n \<Rightarrow> (ob', Inr \<lparr>rr_hash = hash, rr_amount = stroopsToXlmString n, rr_stroops = n,
                                       rr_ledger = lgr, rr_fromCache = False\<rparr>)))"

text \<open>The \<open>while\<close> loop; \<open>left\<close> is \<open>maxRetries - attempt\<close>.\<close>

fun submit_loop ::
    "horizon \<Rightarrow> refund_args \<Rightarrow> string \<Rightarrow> nat \<Rightarrow> int \<Rightarrow> outbox \<Rightarrow> outbox \<times> (refund_error + refund_result)" where
  "submit_loop hz a amountStr left fee ob =
     (case submitOnce hz a amountStr fee ob of
        (ob', Inr res) \<Rightarrow> (ob', Inr res)
      | (ob', Inl HorizonTimeout) \<Rightarrow> (ob', Inl HorizonTimeout)
      | (ob', Inl (HorizonTerminal code)) \<Rightarrow>
          if code = ''tx_bad_seq'' then
            (case left of 0 \<Rightarrow> (ob', Inl (HorizonTerminal code)) | Suc l \<Rightarrow> submit_loop hz a amountStr l fee ob')
          else if code = ''tx_insufficient_fee'' then
            (if fee * 2 > ra_feeBumpCap a then (ob', Inl (HorizonTerminal ''fee_bump_cap_exceeded''))
             else case left of 0 \<Rightarrow> (ob', Inl (HorizonTerminal code))
                  | Suc l \<Rightarrow> submit_loop hz a amountStr l (fee * 2) ob')
          else (ob', Inl (HorizonTerminal code))
      | (ob', Inl e) \<Rightarrow> (case left of 0 \<Rightarrow> (ob', Inl e) | Suc l \<Rightarrow> submit_loop hz a amountStr l fee ob'))"

declare submit_loop.simps [simp del]

definition refund_amount :: "int \<Rightarrow> int" where
  "refund_amount received = (if received > TX_FEE_STROOPS then received - TX_FEE_STROOPS else MIN_REFUND_STROOPS)"

definition refundXlmToUser ::
    "horizon \<Rightarrow> int \<Rightarrow> refund_args \<Rightarrow> refund_ledger option \<Rightarrow> outbox
     \<Rightarrow> (refund_ledger option \<times> outbox) \<times> (refund_error + refund_result)" where
  "refundXlmToUser hz now a ledger ob =
     (if ra_feeBumpCap a \<le> 0 then ((ledger, ob), Inl (HorizonTerminal ''invalid_fee_bump_cap''))
      else case Option.bind ledger (rl_phase (ra_orderId a)) of
        Some (Committed tx amt lgr _) \<Rightarrow>
          (case xlmStringToStroops amt of
             None \<Rightarrow> ((ledger, ob), Inl MalformedAmount)
           | Some n \<Rightarrow> ((ledger, ob), Inr \<lparr>rr_hash = tx, rr_amount = amt, rr_stroops = n, rr_ledger = lgr,
                                           rr_fromCache = True\<rparr>))
      | Some st \<Rightarrow> ((ledger, ob), Inl (DuplicateRefund st))
      | None \<Rightarrow>
          let ob1 = ob\<lparr>ob_calls := ob_calls ob + 1\<rparr>
          in case resolveRefundStroops hz a (ob_calls ob) of
               Inl e \<Rightarrow> ((ledger, ob1), Inl e)
             | Inr received \<Rightarrow>
                 (case submit_loop hz a (stroopsToXlmString (refund_amount received)) (ra_maxRetries a)
                         (hz_base_fee hz) ob1 of
                    (ob2, Inl e) \<Rightarrow> ((ledger, ob2), Inl e)
                  | (ob2, Inr res) \<Rightarrow>
                      ((map_option (rl_commit now (ra_orderId a) (rr_hash res) (rr_amount res) (rr_ledger res)) ledger,
                        ob2), Inr res)))"

section \<open>Exact amounts\<close>

lemma js_trim_inner:
  assumes "s \<noteq> []" and "\<not> is_space (hd s)" and "\<not> is_space (last s)"
  shows "js_trim s = s"
proof -
  have "dropWhile is_space s = s" using assms(1,2) by (cases s) simp_all
  moreover have "dropWhile is_space (rev s) = rev s"
    using assms(1,3) by (cases "rev s") (auto simp: hd_rev [symmetric])
  ultimately show ?thesis by (simp add: js_trim_def)
qed

lemma decimal_not_dot: "CHR ''.'' \<notin> set (decimal n)"
  using decimal_digits [of n] by (auto simp: list_all_iff is_digit_def)

lemma last_decimal: "is_digit (last (decimal n))" and hd_decimal: "is_digit (hd (decimal n))"
  using decimal_digits [of n] decimal_nonempty [of n] by (auto simp: list_all_iff)

lemma stroops_read: "xlmStringToStroops (stroopsToXlmString n) = Some (max 0 n)"
proof -
  define i where "i = nat (max 0 n div STROOPS_PER_XLM)"
  define f where "f = nat (max 0 n mod STROOPS_PER_XLM)"
  let ?frac = "padStart 7 (CHR ''0'') (decimal f)"
  have str: "stroopsToXlmString n = decimal i @ ''.'' @ ?frac"
    by (simp add: stroopsToXlmString_def i_def f_def Let_def max_def)
  have "f < 10 ^ 7" by (simp add: f_def STROOPS_PER_XLM_def nat_less_iff)
  then have len: "length ?frac = 7" using decimal_length [of f 7] by (simp add: padStart_def)
  have last: "last (decimal i @ ''.'' @ ?frac) = last (decimal f)" by (simp add: padStart_def)
  have trim: "js_trim (decimal i @ ''.'' @ ?frac) = decimal i @ ''.'' @ ?frac"
    by (rule js_trim_inner) (use last last_decimal hd_decimal digit_no_space in auto)
  have dot: "before_dot (decimal i @ ''.'' @ ?frac) = decimal i" "after_dot (decimal i @ ''.'' @ ?frac) = ?frac"
    using decimal_not_dot [of i] by (auto simp: before_dot_def after_dot_def takeWhile_append dropWhile_append)
  have pad: "take 7 (padEnd 7 (CHR ''0'') ?frac) = ?frac" by (simp add: padEnd_def len)
  have "max 0 n = int i * STROOPS_PER_XLM + int f" by (simp add: i_def f_def STROOPS_PER_XLM_def)
  then show ?thesis
    unfolding str xlmStringToStroops_def Let_def trim dot pad
    by (simp add: bigint_decimal bigint_padded)
qed


text \<open>Amounts are exact: reading the XLM string of a stroop count gives the count back (a negative
  count is written as zero), so no stroop is lost or created between the relayer's integers and the
  strings it signs.\<close>

theorem stroops_roundtrip: "xlmStringToStroops (stroopsToXlmString n) = Some (max 0 n)"
  by (rule stroops_read)

section \<open>Retries\<close>

definition retryable :: "refund_error \<Rightarrow> bool" where
  "retryable e = (e \<in> {HorizonTransient, HorizonTerminal ''tx_bad_seq'', HorizonTerminal ''tx_insufficient_fee''})"

definition log_entry_ok :: "refund_args \<Rightarrow> string \<Rightarrow> int \<Rightarrow> payment \<Rightarrow> bool" where
  "log_entry_ok a amountStr fee p \<longleftrightarrow> p_destination p = ra_stellarAddress a \<and> p_amount p = amountStr
     \<and> p_memo p = refund_memo (ra_orderId a) \<and> p_fee p \<le> max fee (ra_feeBumpCap a)"

text \<open>What a run of the loop adds to the log.\<close>

definition loop_log ::
    "refund_args \<Rightarrow> string \<Rightarrow> nat \<Rightarrow> int \<Rightarrow> (payment \<times> (raw_error + (string \<times> nat option))) list
     \<Rightarrow> refund_error + refund_result \<Rightarrow> bool" where
  "loop_log a amountStr left fee new res \<longleftrightarrow> length new \<le> left + 1
     \<and> (\<forall>(p, ans)\<in>set new. log_entry_ok a amountStr fee p)
     \<and> (\<forall>(p, ans)\<in>set (butlast new). \<exists>e. ans = Inl e \<and> retryable (classifyHorizonError e))
     \<and> (\<forall>r. res = Inr r \<longrightarrow> \<not> rr_fromCache r \<and> new \<noteq> [] \<and> snd (last new) = Inr (rr_hash r, rr_ledger r))"

lemma submitOnce_log:
  assumes "submitOnce hz a amountStr fee ob = (ob', res)"
  obtains (not_sent) e where "ob_sent ob' = ob_sent ob" and "res = Inl (classifyHorizonError e)"
  | (sent) p ans where "ob_sent ob' = ob_sent ob @ [(p, ans)]" and "log_entry_ok a amountStr fee p"
      and "\<And>r. res = Inr r \<Longrightarrow> \<not> rr_fromCache r \<and> ans = Inr (rr_hash r, rr_ledger r)"
      and "\<And>e. res = Inl e \<Longrightarrow> e = MalformedAmount \<or> (\<exists>raw. ans = Inl raw \<and> e = classifyHorizonError raw)"
proof (cases "hz_loadAccount hz (ob_calls ob)")
  case (Some e)
  then show ?thesis using assms not_sent by (auto simp: submitOnce_def)
next
  case None
  let ?tx = "\<lparr>p_destination = ra_stellarAddress a, p_amount = amountStr, p_fee = fee, p_memo = refund_memo (ra_orderId a)\<rparr>"
  show ?thesis
    by (rule sent [of ?tx "hz_submit hz (ob_calls ob + 1) ?tx"])
       (use assms None in \<open>auto simp: submitOnce_def Let_def log_entry_ok_def split: sum.splits option.splits\<close>)
qed

lemma submitOnce_error:
  assumes "submitOnce hz a amountStr fee ob = (ob', Inl e)"
  shows "e \<in> {HorizonTimeout, HorizonTransient, MalformedAmount} \<or> (\<exists>c. e = HorizonTerminal c)"
proof -
  have "classifyHorizonError raw \<in> {HorizonTimeout, HorizonTransient} \<or> (\<exists>c. classifyHorizonError raw = HorizonTerminal c)" for raw
    by (auto simp: classifyHorizonError_def classify_message_def split: option.split)
  with assms show ?thesis by (auto simp: submitOnce_def Let_def split: option.splits sum.splits)
qed

lemma submitOnce_readable:
  assumes "submitOnce hz a amountStr fee ob = (ob', Inl e)" and "xlmStringToStroops amountStr \<noteq> None"
  shows "e \<noteq> MalformedAmount"
proof -
  have "classifyHorizonError raw \<noteq> MalformedAmount" for raw
    by (auto simp: classifyHorizonError_def classify_message_def split: option.split)
  with assms show ?thesis by (auto simp: submitOnce_def Let_def split: option.splits sum.splits)
qed

lemma loop_log_stop:
  assumes "submitOnce hz a amountStr fee ob = (ob', res)" and "res' = res \<or> (\<exists>e. res' = Inl e \<and> isl res)"
  shows "\<exists>new. ob_sent ob' = ob_sent ob @ new \<and> loop_log a amountStr left fee new res'"
  using assms(1)
proof (cases rule: submitOnce_log)
  case (not_sent e)
  then show ?thesis using assms(2) by (auto simp: loop_log_def)
next
  case (sent p ans)
  then show ?thesis using assms(2) by (intro exI [of _ "[(p, ans)]"]) (auto simp: loop_log_def)
qed

lemma loop_log_again:
  assumes "submitOnce hz a amountStr fee ob = (ob1, Inl e)" and "retryable e"
    and "\<exists>new. ob_sent ob' = ob_sent ob1 @ new \<and> loop_log a amountStr left fee' new res"
    and "fee' = fee \<or> fee' \<le> ra_feeBumpCap a"
  shows "\<exists>new. ob_sent ob' = ob_sent ob @ new \<and> loop_log a amountStr (Suc left) fee new res"
proof -
  obtain new where new: "ob_sent ob' = ob_sent ob1 @ new" "loop_log a amountStr left fee' new res"
    using assms(3) by blast
  have weaken: "log_entry_ok a amountStr fee p" if "log_entry_ok a amountStr fee' p" for p
    using that assms(4) by (auto simp: log_entry_ok_def)
  show ?thesis
    using assms(1)
  proof (cases rule: submitOnce_log)
    case (not_sent e')
    then show ?thesis using new weaken by (auto simp: loop_log_def)
  next
    case (sent p ans)
    have "\<exists>raw. ans = Inl raw \<and> e = classifyHorizonError raw" using sent(4) [of e] assms(2) by (auto simp: retryable_def)
    then show ?thesis
      using new sent(1,2) weaken assms(2) by (intro exI [of _ "(p, ans) # new"]) (auto simp: loop_log_def)
  qed
qed

lemma submit_loop_log:
  assumes "submit_loop hz a amountStr left fee ob = (ob', res)" and "xlmStringToStroops amountStr \<noteq> None"
  shows "\<exists>new. ob_sent ob' = ob_sent ob @ new \<and> loop_log a amountStr left fee new res"
  using assms
proof (induction left arbitrary: fee ob)
  case (0 fee ob)
  obtain ob1 res1 where one: "submitOnce hz a amountStr fee ob = (ob1, res1)" by (cases "submitOnce hz a amountStr fee ob")
  have "ob' = ob1 \<and> (res = res1 \<or> (\<exists>e. res = Inl e \<and> isl res1))"
    using 0(1) one by (auto simp: submit_loop.simps split: sum.splits refund_error.splits if_splits)
  then show ?case using loop_log_stop [OF one, of res 0] by blast
next
  case (Suc left fee ob)
  obtain ob1 res1 where one: "submitOnce hz a amountStr fee ob = (ob1, res1)" by (cases "submitOnce hz a amountStr fee ob")
  show ?case
  proof (cases "ob' = ob1 \<and> (res = res1 \<or> (\<exists>e. res = Inl e \<and> isl res1))")
    case True
    then show ?thesis using loop_log_stop [OF one, of res "Suc left"] by blast
  next
    case False
    obtain e where e: "res1 = Inl e" using False Suc.prems(1) one by (cases res1) (auto simp: submit_loop.simps)
    have "e \<in> {HorizonTimeout, HorizonTransient, MalformedAmount} \<or> (\<exists>c. e = HorizonTerminal c)"
      using submitOnce_error [OF one [unfolded e]] .
    moreover have "e \<noteq> MalformedAmount" using submitOnce_readable [OF one [unfolded e] Suc.prems(2)] .
    ultimately have "submit_loop hz a amountStr left fee ob1 = (ob', res)
        \<or> fee * 2 \<le> ra_feeBumpCap a \<and> submit_loop hz a amountStr left (fee * 2) ob1 = (ob', res)"
      and "retryable e"
      using False Suc.prems(1) one e
      by (auto simp: submit_loop.simps [of _ _ _ "Suc left"] retryable_def split: if_splits)
    then obtain fee' where "submit_loop hz a amountStr left fee' ob1 = (ob', res)"
      and fee': "fee' = fee \<or> fee' \<le> ra_feeBumpCap a" by blast
    from loop_log_again [OF one [unfolded e] \<open>retryable e\<close> Suc.IH [OF this(1) Suc.prems(2)] fee'] show ?thesis .
  qed
qed


lemma resolved_positive: "resolveRefundStroops hz a n = Inr received \<Longrightarrow> 0 < received"
  by (auto simp: resolveRefundStroops_def looked_up_stroops_def split: option.splits if_splits sum.splits)

lemma refund_amount_bounds: "0 < received \<Longrightarrow> 0 < refund_amount received \<and> refund_amount received \<le> received"
  by (auto simp: refund_amount_def TX_FEE_STROOPS_def MIN_REFUND_STROOPS_def)


definition sample_args :: refund_args where
  "sample_args = \<lparr>ra_orderId = ''o1'', ra_stellarAddress = ''GUSER'', ra_stellarTxHash = None,
     ra_fallbackStroops = Some ''5'', ra_maxRetries = 1, ra_feeBumpCap = 10000\<rparr>"

text \<open>A Horizon that answers the first submission with a 503 and accepts the next one.\<close>

definition flaky_horizon :: horizon where
  "flaky_horizon = \<lparr>hz_operations = (\<lambda>_ _. Inr []), hz_loadAccount = (\<lambda>_. None),
     hz_submit = (\<lambda>n _. if n < 4 then Inl \<lparr>he_response = Some (503, [], []), he_code = [], he_message = []\<rparr>
                        else Inr (''h'', Some 9)),
     hz_transactions = (\<lambda>_. Inr []), hz_relayer = ''GREL'', hz_base_fee = 100\<rparr>"


end
