(* ===== verification/Retry_Engine.thy ===== *)
theory Retry_Engine
  imports Prelude Complex_Main
begin

text \<open>
  \<open>RetryEngine\<close> of \<open>relayer/src/utils/retry-engine.ts\<close>: fault classification, exponential backoff with
  jitter, and one circuit breaker per action namespace.

  Time is explicit: the wrapped function takes the time of its call and a state of its own, and
  returns how long it took. \<open>Math.random\<close> is an argument, the value for every attempt. A run is not
  interleaved with other runs of the same namespace; the breaker itself is treated for every
  interleaving. Metrics, logs and the correlation context are not modelled.
\<close>

section \<open>Fault classification\<close>

datatype fault_class = Transient | Confirmation_delay | Terminal

definition TERMINAL_PATTERNS :: "string list" where
  "TERMINAL_PATTERNS =
     [''invalid signature'', ''bad auth'', ''insufficient funds'', ''nonce too high'', ''transaction underpriced'',
      ''replacement transaction underpriced'', ''gas limit exceeded'', ''execution reverted'', ''not authorized'',
      ''invalid params'', ''method not found'', ''missing or invalid'', ''op_no_destination'', ''op_no_trust'',
      ''op_line_full'', ''tx_bad_auth'', ''tx_insufficient_balance'', ''tx_no_source_account'']"

definition CONFIRMATION_DELAY_PATTERNS :: "string list" where
  "CONFIRMATION_DELAY_PATTERNS =
     [''transaction not found'', ''tx not found'', ''nonce too low'', ''already known'', ''known transaction'',
      ''pending'', ''not yet mined'', ''waiting for confirmation'']"

text \<open>The patterns are lower case and matched without regard to case.\<close>

definition defaultClassifier :: "string \<Rightarrow> fault_class" where
  "defaultClassifier msg =
     (if list_ex (str_includes (toLowerCase msg)) TERMINAL_PATTERNS then Terminal
      else if list_ex (str_includes (toLowerCase msg)) CONFIRMATION_DELAY_PATTERNS then Confirmation_delay
      else Transient)"

definition classify_fault :: "('e \<Rightarrow> string) \<Rightarrow> ('e \<Rightarrow> fault_class option) option \<Rightarrow> 'e \<Rightarrow> fault_class" where
  "classify_fault message custom e =
     (case custom of
        None \<Rightarrow> defaultClassifier (message e)
      | Some f \<Rightarrow> or_default (f e) (defaultClassifier (message e)))"

section \<open>Circuit breaker\<close>

datatype breaker_state = Breaker_closed | Breaker_open | Breaker_half_open

record circuit_breaker =
  br_state :: breaker_state
  consecutiveFailures :: nat
  lastFailureAt :: int
  halfOpenAllowed :: bool

record retry_config =
  defaultMaxAttempts :: int
  defaultBaseDelayMs :: int
  defaultMaxDelayMs :: int
  confirmationDelayMultiplier :: int
  circuitBreakerThreshold :: int
  circuitBreakerResetMs :: int
  jitterFactor :: rat

record retry_engine =
  re_cfg :: retry_config
  breakers :: "(string, circuit_breaker) jsmap"

text \<open>The constructor clamps the merged options.\<close>

definition new_RetryEngine :: "retry_config \<Rightarrow> retry_engine" where
  "new_RetryEngine merged =
     \<lparr>re_cfg = merged\<lparr>defaultBaseDelayMs := max 0 (defaultBaseDelayMs merged),
        defaultMaxDelayMs := max 0 (defaultMaxDelayMs merged), jitterFactor := max 0 (jitterFactor merged)\<rparr>,
      breakers = []\<rparr>"

definition default_config :: retry_config where
  "default_config = \<lparr>defaultMaxAttempts = 5, defaultBaseDelayMs = 1000, defaultMaxDelayMs = 30000,
     confirmationDelayMultiplier = 3, circuitBreakerThreshold = 5, circuitBreakerResetMs = 60000,
     jitterFactor = 1 / 5\<rparr>"

definition new_breaker :: circuit_breaker where
  "new_breaker = \<lparr>br_state = Breaker_closed, consecutiveFailures = 0, lastFailureAt = 0, halfOpenAllowed = False\<rparr>"

definition getBreaker :: "string \<Rightarrow> retry_engine \<Rightarrow> circuit_breaker" where
  "getBreaker action eng = or_default (jm_get (breakers eng) action) new_breaker"

definition set_breaker :: "string \<Rightarrow> circuit_breaker \<Rightarrow> retry_engine \<Rightarrow> retry_engine" where
  "set_breaker action b eng = eng\<lparr>breakers := jm_set action b (breakers eng)\<rparr>"

text \<open>The three internals on one breaker; the check says whether the call may proceed.\<close>

definition check_breaker :: "int \<Rightarrow> int \<Rightarrow> circuit_breaker \<Rightarrow> circuit_breaker \<times> bool" where
  "check_breaker resetMs now b =
     (case br_state b of
        Breaker_closed \<Rightarrow> (b, True)
      | Breaker_open \<Rightarrow>
          if now - lastFailureAt b \<ge> resetMs
          then (b\<lparr>br_state := Breaker_half_open, halfOpenAllowed := True\<rparr>, True)
          else (b, False)
      | Breaker_half_open \<Rightarrow>
          if halfOpenAllowed b then (b\<lparr>halfOpenAllowed := False\<rparr>, True) else (b, False))"

definition success_breaker :: "circuit_breaker \<Rightarrow> circuit_breaker" where
  "success_breaker b = b\<lparr>br_state := Breaker_closed, consecutiveFailures := 0, halfOpenAllowed := False\<rparr>"

definition failure_breaker :: "int \<Rightarrow> int \<Rightarrow> circuit_breaker \<Rightarrow> circuit_breaker" where
  "failure_breaker threshold now b =
     (let b1 = b\<lparr>consecutiveFailures := consecutiveFailures b + 1, lastFailureAt := now\<rparr>
      in if br_state b1 = Breaker_half_open then b1\<lparr>br_state := Breaker_open, halfOpenAllowed := False\<rparr>
         else if br_state b1 = Breaker_closed \<and> int (consecutiveFailures b1) \<ge> threshold
         then b1\<lparr>br_state := Breaker_open\<rparr> else b1)"

definition checkCircuit :: "int \<Rightarrow> string \<Rightarrow> retry_engine \<Rightarrow> retry_engine \<times> bool" where
  "checkCircuit now action eng =
     (let (b, ok) = check_breaker (circuitBreakerResetMs (re_cfg eng)) now (getBreaker action eng)
      in (set_breaker action b eng, ok))"

definition onSuccess :: "string \<Rightarrow> retry_engine \<Rightarrow> retry_engine" where
  "onSuccess action eng = set_breaker action (success_breaker (getBreaker action eng)) eng"

definition onFailure :: "int \<Rightarrow> string \<Rightarrow> retry_engine \<Rightarrow> retry_engine" where
  "onFailure now action eng =
     set_breaker action (failure_breaker (circuitBreakerThreshold (re_cfg eng)) now (getBreaker action eng)) eng"

definition circuitState :: "string \<Rightarrow> retry_engine \<Rightarrow> breaker_state" where
  "circuitState action eng = br_state (getBreaker action eng)"

definition resetCircuit :: "string \<Rightarrow> retry_engine \<Rightarrow> retry_engine" where
  "resetCircuit action eng = set_breaker action (success_breaker (getBreaker action eng)) eng"

definition allCircuits :: "retry_engine \<Rightarrow> (string \<times> breaker_state \<times> nat) list" where
  "allCircuits eng = map (\<lambda>(a, b). (a, br_state b, consecutiveFailures b)) (breakers eng)"

section \<open>Running\<close>

text \<open>\<open>Math.round\<close> is the floor after adding one half.\<close>

definition js_round :: "rat \<Rightarrow> int" where
  "js_round x = \<lfloor>x + 1 / 2\<rfloor>"

definition jittered :: "rat \<Rightarrow> rat \<Rightarrow> int \<Rightarrow> int" where
  "jittered jf random expo = max 0 (js_round (of_int expo + jf * of_int expo * (random - 1 / 2) * 2))"

definition backoffDelay :: "retry_config \<Rightarrow> rat \<Rightarrow> nat \<Rightarrow> int \<Rightarrow> int \<Rightarrow> fault_class \<Rightarrow> int" where
  "backoffDelay cfg random attempt baseMs maxMs fc =
     (let delay = jittered (jitterFactor cfg) random (min maxMs (baseMs * 2 ^ (attempt - 1)))
      in if fc = Confirmation_delay then min maxMs (delay * confirmationDelayMultiplier cfg) else delay)"

definition calculateBackoff :: "nat \<Rightarrow> int \<Rightarrow> int \<Rightarrow> rat \<Rightarrow> int \<Rightarrow> rat \<Rightarrow> int" where
  "calculateBackoff attempt baseMs maxMs jitter multiplier random =
     min maxMs (jittered jitter random (min maxMs (baseMs * 2 ^ (attempt - 1))) * multiplier)"

record 'e run_options =
  ro_classifier :: "('e \<Rightarrow> fault_class option) option"
  ro_maxAttempts :: "int option"
  ro_baseDelayMs :: "int option"
  ro_maxDelayMs :: "int option"

datatype 'e run_error = RetryExhausted fault_class int "'e option" | CircuitOpen string | Thrown 'e

type_synonym ('w, 'e, 'a) effect = "int \<Rightarrow> 'w \<Rightarrow> 'w \<times> nat \<times> ('e + 'a)"

text \<open>The loop from attempt \<open>attempt\<close> on, with \<open>left\<close> further attempts allowed.\<close>

fun run_loop ::
    "string \<Rightarrow> ('w, 'e, 'a) effect \<Rightarrow> ('e \<Rightarrow> fault_class) \<Rightarrow> (nat \<Rightarrow> rat) \<Rightarrow> int \<Rightarrow> int \<Rightarrow> nat \<Rightarrow> nat
     \<Rightarrow> int \<Rightarrow> retry_engine \<Rightarrow> 'w \<Rightarrow> retry_engine \<times> 'w \<times> int \<times> ('e run_error + 'a)" where
  "run_loop action fn cl random baseMs maxMs attempt left now eng w =
     (case fn now w of
        (w', dt, Inr a) \<Rightarrow> (onSuccess action eng, w', now + int dt, Inr a)
      | (w', dt, Inl e) \<Rightarrow>
          let t = now + int dt; eng1 = onFailure t action eng
          in if cl e = Terminal then (eng1, w', t, Inl (Thrown e))
             else (case left of
                0 \<Rightarrow> (eng1, w', t, Inl (RetryExhausted (cl e) (int attempt) (Some e)))
              | Suc left' \<Rightarrow>
                  let t' = t + backoffDelay (re_cfg eng) (random attempt) attempt baseMs maxMs (cl e);
                      (eng2, ok) = checkCircuit t' action eng1
                  in if ok then run_loop action fn cl random baseMs maxMs (attempt + 1) left' t' eng2 w'
                     else (eng2, w', t', Inl (CircuitOpen action))))"

declare run_loop.simps [simp del]

definition engine_run ::
    "('e \<Rightarrow> string) \<Rightarrow> string \<Rightarrow> ('w, 'e, 'a) effect \<Rightarrow> 'e run_options \<Rightarrow> (nat \<Rightarrow> rat) \<Rightarrow> int \<Rightarrow> retry_engine \<Rightarrow> 'w
     \<Rightarrow> retry_engine \<times> 'w \<times> int \<times> ('e run_error + 'a)" where
  "engine_run message action fn opts random now eng w =
     (let maxAttempts = or_default (ro_maxAttempts opts) (defaultMaxAttempts (re_cfg eng));
          baseMs = max 0 (or_default (ro_baseDelayMs opts) (defaultBaseDelayMs (re_cfg eng)));
          maxMs = max 0 (or_default (ro_maxDelayMs opts) (defaultMaxDelayMs (re_cfg eng)));
          (eng1, ok) = checkCircuit now action eng
      in if \<not> ok then (eng1, w, now, Inl (CircuitOpen action))
         else if maxAttempts < 1 then (eng1, w, now, Inl (RetryExhausted Transient maxAttempts None))
         else run_loop action fn (classify_fault message (ro_classifier opts)) random baseMs maxMs 1
                (nat maxAttempts - 1) now eng1 w)"

section \<open>Calls made by a run\<close>

text \<open>A function that logs every call with its start, end and answer; the answers are arbitrary.\<close>

definition logging ::
    "(nat \<Rightarrow> nat \<times> ('e + 'a)) \<Rightarrow> ((int \<times> int \<times> ('e + 'a)) list, 'e, 'a) effect" where
  "logging ans now ws =
     (let (dt, r) = ans (length ws) in (ws @ [(now, now + int dt, r)], dt, r))"

lemma logging_eq: "ans (length ws) = (dt, r) \<Longrightarrow> logging ans now ws = (ws @ [(now, now + int dt, r)], dt, r)"
  by (simp add: logging_def)

definition delay_bound :: "retry_config \<Rightarrow> int \<Rightarrow> int" where
  "delay_bound cfg maxMs = js_round ((1 + jitterFactor cfg) * of_int maxMs)"

definition spaced :: "int \<Rightarrow> (int \<times> int \<times> 'r) list \<Rightarrow> bool" where
  "spaced bound = successively (\<lambda>(_, stop, _) (start, _, _). stop \<le> start \<and> start \<le> stop + bound)"

lemma js_round_mono: "x \<le> y \<Longrightarrow> js_round x \<le> js_round y"
  by (simp add: js_round_def floor_mono)

lemma js_round_int: "js_round (of_int n) = n"
  unfolding js_round_def by (rule floor_unique) simp_all

lemma jittered_bounds:
  assumes "0 \<le> random" "random < 1" "0 \<le> jf" "0 \<le> maxMs" "expo \<le> maxMs" "0 \<le> expo"
  shows "0 \<le> jittered jf random expo" and "jittered jf random expo \<le> js_round ((1 + jf) * of_int maxMs)"
proof -
  show "0 \<le> jittered jf random expo" by (simp add: jittered_def)
  have "jf * of_int expo * (random - 1 / 2) * 2 = (jf * of_int expo) * ((random - 1 / 2) * 2)" by (simp only: mult.assoc)
  also have "\<dots> \<le> (jf * of_int expo) * 1" by (rule mult_left_mono) (use assms in auto)
  finally have "of_int expo + jf * of_int expo * (random - 1 / 2) * 2 \<le> (1 + jf) * of_int expo"
    by (simp add: algebra_simps)
  also have "\<dots> \<le> (1 + jf) * of_int maxMs" by (rule mult_left_mono) (use assms in auto)
  finally have "js_round (of_int expo + jf * of_int expo * (random - 1 / 2) * 2) \<le> js_round ((1 + jf) * of_int maxMs)"
    by (rule js_round_mono)
  moreover have "0 \<le> js_round ((1 + jf) * of_int maxMs)"
    using js_round_mono [of 0 "(1 + jf) * of_int maxMs"] assms by (simp add: js_round_def)
  ultimately show "jittered jf random expo \<le> js_round ((1 + jf) * of_int maxMs)" by (simp add: jittered_def)
qed

lemma backoff_bounds:
  assumes "0 \<le> random" "random < 1" "0 \<le> jitterFactor cfg" "0 \<le> baseMs" "0 \<le> maxMs"
    "0 \<le> confirmationDelayMultiplier cfg"
  shows "0 \<le> backoffDelay cfg random attempt baseMs maxMs fc"
    and "backoffDelay cfg random attempt baseMs maxMs fc \<le> delay_bound cfg maxMs"
proof -
  let ?j = "jittered (jitterFactor cfg) random (min maxMs (baseMs * 2 ^ (attempt - 1)))"
  have b: "0 \<le> ?j" "?j \<le> delay_bound cfg maxMs"
    using jittered_bounds [of random "jitterFactor cfg" maxMs] assms by (simp_all add: delay_bound_def)
  have "js_round (of_int maxMs) \<le> delay_bound cfg maxMs"
    using assms by (auto simp: delay_bound_def intro!: js_round_mono simp: algebra_simps)
  then have m: "maxMs \<le> delay_bound cfg maxMs" by (simp add: js_round_int)
  show "0 \<le> backoffDelay cfg random attempt baseMs maxMs fc"
    using b assms by (simp add: backoffDelay_def Let_def)
  show "backoffDelay cfg random attempt baseMs maxMs fc \<le> delay_bound cfg maxMs"
    using b m by (auto simp: backoffDelay_def Let_def)
qed

text \<open>The outcome of a run that made the calls \<open>new\<close>, of at most \<open>n\<close>.\<close>

definition run_outcome ::
    "string \<Rightarrow> ('e \<Rightarrow> fault_class) \<Rightarrow> nat \<Rightarrow> (int \<times> int \<times> ('e + 'a)) list \<Rightarrow> 'e run_error + 'a \<Rightarrow> bool" where
  "run_outcome action cl n new res \<longleftrightarrow>
     (case res of
        Inr a \<Rightarrow> snd (snd (last new)) = Inr a
      | Inl (Thrown e) \<Rightarrow> snd (snd (last new)) = Inl e \<and> cl e = Terminal
      | Inl (RetryExhausted fc _ cause) \<Rightarrow> length new = n
          \<and> (\<exists>e. cause = Some e \<and> snd (snd (last new)) = Inl e \<and> cl e = fc \<and> fc \<noteq> Terminal)
      | Inl (CircuitOpen a) \<Rightarrow> a = action \<and> (\<exists>e. snd (snd (last new)) = Inl e \<and> cl e \<noteq> Terminal))"

definition loop_calls ::
    "string \<Rightarrow> ('e \<Rightarrow> fault_class) \<Rightarrow> int \<Rightarrow> nat \<Rightarrow> int \<Rightarrow> (int \<times> int \<times> ('e + 'a)) list \<Rightarrow> 'e run_error + 'a \<Rightarrow> bool" where
  "loop_calls action cl bound n now new res \<longleftrightarrow> new \<noteq> [] \<and> length new \<le> n \<and> fst (hd new) = now \<and> spaced bound new
     \<and> (\<forall>(_, _, r)\<in>set (butlast new). \<exists>e. r = Inl e \<and> cl e \<noteq> Terminal)
     \<and> run_outcome action cl n new res"

lemma loop_calls_one:
  assumes "run_outcome action cl n [(now, t, r)] res" and "0 < n"
  shows "loop_calls action cl bound n now [(now, t, r)] res"
  using assms by (simp add: loop_calls_def spaced_def)

lemma loop_calls_more:
  assumes "loop_calls action cl bound n start new res" and "cl e \<noteq> Terminal" and "t \<le> start" "start \<le> t + bound"
  shows "loop_calls action cl bound (Suc n) now ((now, t, Inl e) # new) res"
proof -
  obtain x xs where new: "new = x # xs" using assms(1) by (cases new) (simp_all add: loop_calls_def)
  then have "spaced bound ((now, t, Inl e) # new)"
    using assms by (auto simp: loop_calls_def spaced_def split: prod.split)
  moreover have "run_outcome action cl (Suc n) ((now, t, Inl e) # new) res"
    using assms(1) new by (auto simp: loop_calls_def run_outcome_def split: sum.splits run_error.splits)
  ultimately show ?thesis using assms new by (auto simp: loop_calls_def)
qed

lemma engine_cfg [simp]: "re_cfg (onFailure t action eng) = re_cfg eng" "re_cfg (onSuccess action eng) = re_cfg eng"
  "re_cfg (fst (checkCircuit t action eng)) = re_cfg eng"
  by (simp_all add: onFailure_def onSuccess_def checkCircuit_def set_breaker_def split_beta Let_def)

lemma run_loop_calls:
  assumes "run_loop action (logging ans) cl random baseMs maxMs attempt left now eng ws = (eng', calls, t, res)"
    and "\<And>k. 0 \<le> random k \<and> random k < 1" and "0 \<le> baseMs" "0 \<le> maxMs"
    and "0 \<le> jitterFactor (re_cfg eng)" "0 \<le> confirmationDelayMultiplier (re_cfg eng)"
  shows "\<exists>new. calls = ws @ new \<and> loop_calls action cl (delay_bound (re_cfg eng) maxMs) (Suc left) now new res"
  using assms(1,5,6)
proof (induction left arbitrary: attempt now eng ws)
  case 0
  obtain dt r where a: "ans (length ws) = (dt, r)" by (cases "ans (length ws)")
  show ?case using 0(1)
    by (cases r) (auto simp: run_loop.simps logging_eq [of ans, OF a] Let_def run_outcome_def
        intro!: loop_calls_one split: if_splits)
next
  case (Suc left)
  obtain dt r where a: "ans (length ws) = (dt, r)" by (cases "ans (length ws)")
  define t1 where "t1 = now + int dt"
  show ?case
  proof (cases "\<exists>e. r = Inl e \<and> cl e \<noteq> Terminal")
    case False
    then show ?thesis using Suc.prems(1)
      by (cases r) (auto simp: run_loop.simps logging_eq [of ans, OF a] Let_def run_outcome_def
          intro!: loop_calls_one split: if_splits)
  next
    case True
    then obtain e where e: "r = Inl e" "cl e \<noteq> Terminal" by blast
    define d where "d = backoffDelay (re_cfg eng) (random attempt) attempt baseMs maxMs (cl e)"
    obtain eng2 ok where c: "checkCircuit (t1 + d) action (onFailure t1 action eng) = (eng2, ok)"
      by (cases "checkCircuit (t1 + d) action (onFailure t1 action eng)")
    have cfg: "re_cfg eng2 = re_cfg eng" using engine_cfg(3) [of "t1 + d" action "onFailure t1 action eng"] c by simp
    have d: "0 \<le> d" "d \<le> delay_bound (re_cfg eng) maxMs"
      unfolding d_def using backoff_bounds assms(2-4) Suc.prems(2,3) by blast+
    show ?thesis
    proof (cases ok)
      case False
      then show ?thesis using Suc.prems(1) e c
        by (auto simp: run_loop.simps logging_eq [of ans, OF a] Let_def t1_def d_def run_outcome_def intro!: loop_calls_one)
    next
      case True
      then have "run_loop action (logging ans) cl random baseMs maxMs (attempt + 1) left (t1 + d) eng2
          (ws @ [(now, t1, r)]) = (eng', calls, t, res)"
        using Suc.prems(1) e c by (simp add: run_loop.simps [of _ _ _ _ _ _ _ "Suc left"] logging_eq [of ans, OF a] Let_def t1_def d_def)
      from Suc.IH [OF this] obtain new where "calls = (ws @ [(now, t1, r)]) @ new"
        "loop_calls action cl (delay_bound (re_cfg eng) maxMs) (Suc left) (t1 + d) new res"
        using Suc.prems(2,3) cfg by auto
      then show ?thesis
        using loop_calls_more [of action cl _ "Suc left" "t1 + d" new res e t1 now] d e by auto
    qed
  qed
qed


text \<open>The log holds the answers in order.\<close>

definition faithful_log :: "(nat \<Rightarrow> nat \<times> ('e + 'a)) \<Rightarrow> (int \<times> int \<times> ('e + 'a)) list \<Rightarrow> bool" where
  "faithful_log ans ws \<longleftrightarrow> (\<forall>i<length ws. snd (snd (ws ! i)) = snd (ans i))"

lemma run_loop_log:
  assumes "run_loop action (logging ans) cl random baseMs maxMs attempt left now eng ws = (eng', calls, t, res)"
    and "faithful_log ans ws"
  shows "faithful_log ans calls"
  using assms
proof (induction left arbitrary: attempt now eng ws)
  case 0
  obtain dt r where a: "ans (length ws) = (dt, r)" by (cases "ans (length ws)")
  have "faithful_log ans (ws @ [(now, now + int dt, r)])"
    using 0(2) a by (auto simp: faithful_log_def nth_append less_Suc_eq)
  then show ?case using 0(1) by (cases r) (auto simp: run_loop.simps logging_eq [of ans, OF a] Let_def split: if_splits)
next
  case (Suc left)
  obtain dt r where a: "ans (length ws) = (dt, r)" by (cases "ans (length ws)")
  have l: "faithful_log ans (ws @ [(now, now + int dt, r)])"
    using Suc.prems(2) a by (auto simp: faithful_log_def nth_append less_Suc_eq)
  show ?case
  proof (cases r)
    case (Inl e)
    then show ?thesis
      using Suc.prems(1) Suc.IH [OF _ l] l
      by (auto simp: run_loop.simps [of _ _ _ _ _ _ _ "Suc left"] logging_eq [of ans, OF a] Let_def
          split: if_splits prod.splits)
  next
    case (Inr b)
    then show ?thesis using Suc.prems(1) l by (auto simp: run_loop.simps logging_eq [of ans, OF a])
  qed
qed

section \<open>The breaker during a run\<close>

lemma getBreaker_set [simp]: "getBreaker action (set_breaker action b eng) = b"
  by (simp add: getBreaker_def set_breaker_def jm_get_set)

lemma set_breaker_cfg [simp]: "re_cfg (set_breaker action b eng) = re_cfg eng"
  by (simp add: set_breaker_def)

text \<open>A closed breaker that has room for all failures of a run does not cut it short.\<close>

definition room :: "int \<Rightarrow> string \<Rightarrow> retry_engine \<Rightarrow> bool" where
  "room n action eng \<longleftrightarrow> br_state (getBreaker action eng) = Breaker_closed
     \<and> int (consecutiveFailures (getBreaker action eng)) + n \<le> circuitBreakerThreshold (re_cfg eng)"

lemma room_check:
  assumes "room n action eng"
  shows "snd (checkCircuit t action eng)" and "room n action (fst (checkCircuit t action eng))"
  using assms by (auto simp: room_def checkCircuit_def check_breaker_def)

lemma room_failure:
  assumes "room (n + 1) action eng" and "0 < n"
  shows "room n action (onFailure t action eng)"
  using assms by (auto simp: room_def onFailure_def failure_breaker_def Let_def)

lemma run_loop_room:
  assumes "run_loop action fn cl random baseMs maxMs attempt left now eng w = (eng', w', t, res)"
    and "room (int left + 1) action eng"
  shows "res \<noteq> Inl (CircuitOpen a)"
  using assms
proof (induction left arbitrary: attempt now eng w)
  case 0
  then show ?case by (auto simp: run_loop.simps Let_def split: prod.splits sum.splits if_splits)
next
  case (Suc left)
  obtain w1 dt r where f: "fn now w = (w1, dt, r)" by (cases "fn now w") auto
  show ?case
  proof (cases "\<exists>e. r = Inl e \<and> cl e \<noteq> Terminal")
    case False
    then show ?thesis using Suc.prems(1) f by (cases r) (auto simp: run_loop.simps Let_def)
  next
    case True
    then obtain e where e: "r = Inl e" "cl e \<noteq> Terminal" by blast
    define t1 where "t1 = now + int dt"
    define t2 where "t2 = t1 + backoffDelay (re_cfg eng) (random attempt) attempt baseMs maxMs (cl e)"
    have r1: "room (int left + 1) action (onFailure t1 action eng)"
      using Suc.prems(2) by (intro room_failure) (simp_all add: add_ac)
    obtain eng2 where c: "checkCircuit t2 action (onFailure t1 action eng) = (eng2, True)"
      and r2: "room (int left + 1) action eng2"
      using room_check [OF r1, of t2] by (cases "checkCircuit t2 action (onFailure t1 action eng)") auto
    have "run_loop action fn cl random baseMs maxMs (attempt + 1) left t2 eng2 w1 = (eng', w', t, res)"
      using Suc.prems(1) f e c by (simp add: run_loop.simps [of _ _ _ _ _ _ _ "Suc left"] Let_def t1_def t2_def)
    then show ?thesis using Suc.IH r2 by blast
  qed
qed

lemma run_unfold:
  assumes "engine_run message action fn opts random now eng w = (eng', w', t, res)"
    and "m = or_default (ro_maxAttempts opts) (defaultMaxAttempts (re_cfg eng))"
    and "baseMs = max 0 (or_default (ro_baseDelayMs opts) (defaultBaseDelayMs (re_cfg eng)))"
    and "maxMs = max 0 (or_default (ro_maxDelayMs opts) (defaultMaxDelayMs (re_cfg eng)))"
  shows "(\<not> snd (checkCircuit now action eng) \<and> w' = w \<and> res = Inl (CircuitOpen action))
    \<or> (m < 1 \<and> w' = w \<and> res = Inl (RetryExhausted Transient m None))
    \<or> (1 \<le> m \<and> run_loop action fn (classify_fault message (ro_classifier opts)) random baseMs maxMs 1
         (nat m - 1) now (fst (checkCircuit now action eng)) w = (eng', w', t, res))"
  using assms by (auto simp: engine_run_def Let_def split_beta split: if_splits)


text \<open>A run is a sequence of failing calls, and ends with a successful one when it returns a result.\<close>

lemma run_loop_steps:
  assumes "run_loop action fn cl random baseMs maxMs attempt left now eng w = (eng', w', t, res)"
    and F: "\<And>now w w' dt e. fn now w = (w', dt, Inl e) \<Longrightarrow> F w w'"
    and G: "\<And>now w w' dt a. fn now w = (w', dt, Inr a) \<Longrightarrow> G a w w'"
  shows "case res of Inl _ \<Rightarrow> F\<^sup>*\<^sup>* w w' | Inr a \<Rightarrow> \<exists>v. F\<^sup>*\<^sup>* w v \<and> G a v w'"
  using assms(1)
proof (induction left arbitrary: attempt now eng w)
  case 0
  then show ?case
    by (auto simp: run_loop.simps Let_def split: prod.splits sum.splits if_splits intro: F G r_into_rtranclp)
next
  case (Suc left)
  obtain w1 dt r where f: "fn now w = (w1, dt, r)" by (cases "fn now w") auto
  show ?case
  proof (cases r)
    case (Inr a)
    then show ?thesis using Suc.prems f G [of now w w1 dt a] by (auto simp: run_loop.simps)
  next
    case (Inl e)
    then have one: "F w w1" using F f by blast
    show ?thesis
    proof (cases "\<exists>err. res = Inl err \<and> w' = w1")
      case True
      then show ?thesis using one by (auto intro: r_into_rtranclp)
    next
      case False
      then obtain now2 eng2 where
        "run_loop action fn cl random baseMs maxMs (attempt + 1) left now2 eng2 w1 = (eng', w', t, res)"
        using Suc.prems f Inl
        by (auto simp: run_loop.simps [of _ _ _ _ _ _ _ "Suc left"] Let_def split: if_splits prod.splits)
      from Suc.IH [OF this] show ?thesis
        using one by (auto split: sum.splits intro: converse_rtranclp_into_rtranclp)
    qed
  qed
qed

lemma engine_run_steps:
  assumes "engine_run message action fn opts random now eng w = (eng', w', t, res)"
    and "\<And>now w w' dt e. fn now w = (w', dt, Inl e) \<Longrightarrow> F w w'"
    and "\<And>now w w' dt a. fn now w = (w', dt, Inr a) \<Longrightarrow> G a w w'"
  shows "case res of Inl _ \<Rightarrow> F\<^sup>*\<^sup>* w w' | Inr a \<Rightarrow> \<exists>v. F\<^sup>*\<^sup>* w v \<and> G a v w'"
  using run_unfold [OF assms(1) refl refl refl]
proof (elim disjE conjE)
  assume "run_loop action fn (classify_fault message (ro_classifier opts)) random
      (max 0 (or_default (ro_baseDelayMs opts) (defaultBaseDelayMs (re_cfg eng))))
      (max 0 (or_default (ro_maxDelayMs opts) (defaultMaxDelayMs (re_cfg eng)))) 1
      (nat (or_default (ro_maxAttempts opts) (defaultMaxAttempts (re_cfg eng))) - 1) now
      (fst (checkCircuit now action eng)) w = (eng', w', t, res)"
  from run_loop_steps [OF this assms(2,3)] show ?thesis .
qed auto

lemma engine_run_calls:
  assumes run: "engine_run message action (logging ans) opts random now eng [] = (eng', calls, t, res)"
    and random: "\<forall>k. 0 \<le> random k \<and> random k < 1"
    and cfg: "0 \<le> jitterFactor (re_cfg eng)" "0 \<le> confirmationDelayMultiplier (re_cfg eng)"
    and m: "m = or_default (ro_maxAttempts opts) (defaultMaxAttempts (re_cfg eng))"
    and maxMs: "maxMs = max 0 (or_default (ro_maxDelayMs opts) (defaultMaxDelayMs (re_cfg eng)))"
    and cl: "cl = classify_fault message (ro_classifier opts)"
  shows "faithful_log ans calls
    \<and> (calls = [] \<and> (res = Inl (CircuitOpen action) \<or> m < 1 \<and> res = Inl (RetryExhausted Transient m None))
       \<or> 1 \<le> m \<and> loop_calls action cl (delay_bound (re_cfg eng) maxMs) (nat m) now calls res)"
proof -
  define baseMs where "baseMs = max 0 (or_default (ro_baseDelayMs opts) (defaultBaseDelayMs (re_cfg eng)))"
  let ?eng1 = "fst (checkCircuit now action eng)"
  consider "calls = []" "res = Inl (CircuitOpen action)"
    | "calls = []" "m < 1" "res = Inl (RetryExhausted Transient m None)"
    | "1 \<le> m" "run_loop action (logging ans) cl random baseMs maxMs 1 (nat m - 1) now ?eng1 [] = (eng', calls, t, res)"
    using run_unfold [OF run m baseMs_def maxMs] cl by blast
  then show ?thesis
  proof cases
    case 3
    then have "Suc (nat m - 1) = nat m" by simp
    moreover have "\<exists>new. calls = [] @ new
        \<and> loop_calls action cl (delay_bound (re_cfg ?eng1) maxMs) (Suc (nat m - 1)) now new res"
      by (rule run_loop_calls [OF 3(2)]) (use random cfg maxMs baseMs_def in auto)
    moreover have "faithful_log ans calls"
      using run_loop_log [OF 3(2)] by (simp add: faithful_log_def)
    ultimately show ?thesis using 3(1) by simp
  qed (simp_all add: faithful_log_def)
qed

lemma engine_run_room:
  assumes run: "engine_run message action fn opts random now eng w = (eng', w', t, res)"
    and "m = or_default (ro_maxAttempts opts) (defaultMaxAttempts (re_cfg eng))" and "room m action eng"
  shows "res \<noteq> Inl (CircuitOpen a)"
proof -
  have c: "snd (checkCircuit now action eng)" and r: "room m action (fst (checkCircuit now action eng))"
    using room_check [OF assms(3)] by auto
  from run_unfold [OF run assms(2) refl refl] show ?thesis
  proof (elim disjE conjE)
    assume "1 \<le> m" and loop: "run_loop action fn (classify_fault message (ro_classifier opts)) random
        (max 0 (or_default (ro_baseDelayMs opts) (defaultBaseDelayMs (re_cfg eng))))
        (max 0 (or_default (ro_maxDelayMs opts) (defaultMaxDelayMs (re_cfg eng)))) 1
        (nat m - 1) now (fst (checkCircuit now action eng)) w = (eng', w', t, res)"
    then have "int (nat m - 1) + 1 = m" by simp
    then show ?thesis using run_loop_room [OF loop] r by simp
  qed (use c in auto)
qed

lemma first_success:
  assumes l: "loop_calls action cl bound n now calls res" and f: "faithful_log ans calls"
    and nc: "res \<noteq> Inl (CircuitOpen action)" and j: "j < n" "snd (ans j) = Inr a"
    and before: "\<forall>i<j. \<exists>e. snd (ans i) = Inl e \<and> cl e \<noteq> Terminal"
  shows "res = Inr a"
proof -
  have ne: "calls \<noteq> []" using l by (simp add: loop_calls_def)
  then have last: "snd (snd (last calls)) = snd (ans (length calls - 1))"
    using f by (simp add: faithful_log_def last_conv_nth)
  have "\<not> Suc j < length calls"
  proof
    assume s: "Suc j < length calls"
    then have "butlast calls ! j \<in> set (butlast calls)" by (intro nth_mem) simp
    moreover have "butlast calls ! j = calls ! j" using s by (simp add: nth_butlast)
    moreover have "snd (snd (calls ! j)) = Inr a" using f s j by (simp add: faithful_log_def)
    ultimately show False using l by (fastforce simp: loop_calls_def)
  qed
  then consider "length calls = Suc j" | "length calls \<le> j" by linarith
  then show ?thesis
  proof cases
    case 1
    then have "snd (snd (last calls)) = Inr a" using last j by simp
    then show ?thesis using l nc
      by (auto simp: loop_calls_def run_outcome_def split: sum.splits run_error.splits)
  next
    case 2
    then have "length calls - 1 < j" using ne by (cases calls) auto
    then obtain e where "snd (snd (last calls)) = Inl e" "cl e \<noteq> Terminal" using last before by auto
    then show ?thesis using l nc 2 j
      by (auto simp: loop_calls_def run_outcome_def split: sum.splits run_error.splits)
  qed
qed

text \<open>C16. What a run of the retry engine does, whatever the wrapped function answers: it calls the
  function at most \<open>maxAttempts\<close> times, each time after the previous call has ended and after a delay of
  at most the maximal delay increased by the jitter; only non-terminal errors are followed by
  another call; a result is the answer of the last call. When the breaker is closed and has room
  for the failures of the run, the run is not cut short: the first success among the allowed attempts
  is returned if only non-terminal errors precede it. When the breaker is open and the reset time
  has not passed, the function is not called.\<close>

theorem retry_engine_contract:
  assumes run: "engine_run message action (logging ans) opts random now eng [] = (eng', calls, t, res)"
    and random: "\<forall>k. 0 \<le> random k \<and> random k < 1"
    and cfg: "0 \<le> jitterFactor (re_cfg eng)" "0 \<le> confirmationDelayMultiplier (re_cfg eng)"
    and m: "m = or_default (ro_maxAttempts opts) (defaultMaxAttempts (re_cfg eng))"
    and maxMs: "maxMs = max 0 (or_default (ro_maxDelayMs opts) (defaultMaxDelayMs (re_cfg eng)))"
    and cl: "cl = classify_fault message (ro_classifier opts)"
  shows "int (length calls) \<le> max 0 m \<and> spaced (delay_bound (re_cfg eng) maxMs) calls
    \<and> (\<forall>(_, _, r)\<in>set (butlast calls). \<exists>e. r = Inl e \<and> cl e \<noteq> Terminal)
    \<and> (\<forall>a. res = Inr a \<longrightarrow> calls \<noteq> [] \<and> snd (snd (last calls)) = Inr a)
    \<and> (br_state (getBreaker action eng) = Breaker_closed
        \<and> int (consecutiveFailures (getBreaker action eng)) + m \<le> circuitBreakerThreshold (re_cfg eng) \<longrightarrow>
        (\<forall>j a. int j < m \<and> snd (ans j) = Inr a \<and> (\<forall>i<j. \<exists>e. snd (ans i) = Inl e \<and> cl e \<noteq> Terminal) \<longrightarrow> res = Inr a))
    \<and> (br_state (getBreaker action eng) = Breaker_open
        \<and> now - lastFailureAt (getBreaker action eng) < circuitBreakerResetMs (re_cfg eng) \<longrightarrow>
        calls = [] \<and> res = Inl (CircuitOpen action))"
proof (intro conjI impI allI)
  note calls = engine_run_calls [OF assms]
  show "int (length calls) \<le> max 0 m" "spaced (delay_bound (re_cfg eng) maxMs) calls"
    using calls by (auto simp: loop_calls_def spaced_def)
  show "\<forall>(_, _, r)\<in>set (butlast calls). \<exists>e. r = Inl e \<and> cl e \<noteq> Terminal"
    using calls by (auto simp: loop_calls_def)
  show "calls \<noteq> []" "snd (snd (last calls)) = Inr a" if "res = Inr a" for a
    using calls that by (auto simp: loop_calls_def run_outcome_def)
  show "res = Inr a" if "br_state (getBreaker action eng) = Breaker_closed
      \<and> int (consecutiveFailures (getBreaker action eng)) + m \<le> circuitBreakerThreshold (re_cfg eng)"
    and j: "int j < m \<and> snd (ans j) = Inr a \<and> (\<forall>i<j. \<exists>e. snd (ans i) = Inl e \<and> cl e \<noteq> Terminal)" for j a
  proof -
    have nc: "res \<noteq> Inl (CircuitOpen action)"
      using engine_run_room [OF run m, of action] that(1) by (auto simp: room_def)
    then have l: "loop_calls action cl (delay_bound (re_cfg eng) maxMs) (nat m) now calls res"
      and f: "faithful_log ans calls"
      using calls j by auto
    show ?thesis by (rule first_success [OF l f nc, of j]) (use j in auto)
  qed
  show "calls = []" "res = Inl (CircuitOpen action)" if "br_state (getBreaker action eng) = Breaker_open
      \<and> now - lastFailureAt (getBreaker action eng) < circuitBreakerResetMs (re_cfg eng)"
    using run that by (auto simp: engine_run_def Let_def checkCircuit_def check_breaker_def)
qed


definition sample_answers :: "nat \<Rightarrow> nat \<times> (string + nat)" where
  "sample_answers i = (10, if i = 0 then Inl ''down'' else Inr 7)"

definition sample_options :: "string run_options" where
  "sample_options = \<lparr>ro_classifier = None, ro_maxAttempts = None, ro_baseDelayMs = None, ro_maxDelayMs = None\<rparr>"

theorem retry_engine_contract_witness:
  "\<exists>eng' calls t. engine_run (\<lambda>e. e) ''rpc'' (logging sample_answers) sample_options (\<lambda>_. 1 / 2) 0
      (new_RetryEngine default_config) [] = (eng', calls, t, Inr 7) \<and> length calls \<le> 5 \<and> spaced 36000 calls"
proof -
  let ?eng = "new_RetryEngine default_config"
  obtain eng' calls t res where run: "engine_run (\<lambda>e. e) ''rpc'' (logging sample_answers) sample_options
      (\<lambda>_. 1 / 2) 0 ?eng [] = (eng', calls, t, res)"
    by (rule prod_cases4)
  have cfg: "re_cfg ?eng = default_config" by (simp add: new_RetryEngine_def default_config_def)
  have b: "br_state (getBreaker ''rpc'' ?eng) = Breaker_closed" "consecutiveFailures (getBreaker ''rpc'' ?eng) = 0"
    by (simp_all add: getBreaker_def new_RetryEngine_def new_breaker_def)
  have c: "classify_fault (\<lambda>e. e) None ''down'' = Transient"
    by (simp add: classify_fault_def defaultClassifier_def TERMINAL_PATTERNS_def CONFIRMATION_DELAY_PATTERNS_def
        toLowerCase_def lower_char_def startsWith_def)
  have d: "delay_bound default_config 30000 = 36000"
    using js_round_int [of 36000] by (simp add: delay_bound_def default_config_def)
  have hyps: "\<forall>k::nat. 0 \<le> (1 / 2 :: rat) \<and> (1 / 2 :: rat) < 1" "0 \<le> jitterFactor (re_cfg ?eng)"
    "0 \<le> confirmationDelayMultiplier (re_cfg ?eng)"
    "5 = or_default (ro_maxAttempts sample_options) (defaultMaxAttempts (re_cfg ?eng))"
    "30000 = max 0 (or_default (ro_maxDelayMs sample_options) (defaultMaxDelayMs (re_cfg ?eng)))"
    "classify_fault (\<lambda>e. e) None = classify_fault (\<lambda>e. e) (ro_classifier sample_options)"
    unfolding cfg by (simp_all add: default_config_def sample_options_def)
  note contract = retry_engine_contract [OF run hyps]
  have "int (length calls) \<le> max 0 5" by (rule contract [THEN conjunct1])
  moreover have "spaced (delay_bound (re_cfg ?eng) 30000) calls" by (rule contract [THEN conjunct2, THEN conjunct1])
  moreover have "res = Inr 7"
  proof (rule contract [THEN conjunct2, THEN conjunct2, THEN conjunct2, THEN conjunct2, THEN conjunct1,
        THEN mp, THEN spec, THEN spec, THEN mp])
    show "br_state (getBreaker ''rpc'' ?eng) = Breaker_closed
        \<and> int (consecutiveFailures (getBreaker ''rpc'' ?eng)) + 5 \<le> circuitBreakerThreshold (re_cfg ?eng)"
      using b cfg by (simp add: default_config_def)
    show "int 1 < 5 \<and> snd (sample_answers 1) = Inr 7 \<and>
        (\<forall>i<1. \<exists>e. snd (sample_answers i) = Inl e \<and> classify_fault (\<lambda>e. e) None e \<noteq> Terminal)"
      using c by (simp add: sample_answers_def)
  qed
  ultimately show ?thesis using run d cfg by simp
qed

section \<open>The half-open breaker\<close>

text \<open>The checks of one breaker at the times \<open>ts\<close>, with no outcome reported in between; the times of
  the calls that may proceed.\<close>

fun admitted :: "int \<Rightarrow> int list \<Rightarrow> circuit_breaker \<Rightarrow> int list" where
  "admitted resetMs [] b = []"
| "admitted resetMs (t # ts) b =
     (case check_breaker resetMs t b of (b', ok) \<Rightarrow> (if ok then [t] else []) @ admitted resetMs ts b')"

lemma admitted_half_open:
  assumes "br_state b = Breaker_half_open"
  shows "admitted resetMs ts b = (if halfOpenAllowed b then take 1 ts else [])"
  using assms by (induction ts arbitrary: b) (auto simp: check_breaker_def)

text \<open>Of the calls that find a breaker open, none is admitted before the reset time has passed
  since the last failure, and then exactly two are (the documentation allows one probe); no further
  call is admitted, however late, until one of the two reports its outcome.\<close>

theorem half_open_admits_two:
  assumes "br_state b = Breaker_open"
  shows "admitted resetMs ts b = take 2 (dropWhile (\<lambda>t. t - lastFailureAt b < resetMs) ts)"
  using assms
proof (induction ts)
  case (Cons t ts)
  let ?b = "b\<lparr>br_state := Breaker_half_open, halfOpenAllowed := True\<rparr>"
  have "admitted resetMs ts ?b = take 1 ts" using admitted_half_open [of ?b] by simp
  then show ?case using Cons by (auto simp: check_breaker_def numeral_2_eq_2)
qed simp

theorem half_open_admits_two_witness:
  "admitted 60000 [100, 60100, 60101, 900000] \<lparr>br_state = Breaker_open, consecutiveFailures = 5,
     lastFailureAt = 50, halfOpenAllowed = False\<rparr> = [60100, 60101]"
  using half_open_admits_two [of "\<lparr>br_state = Breaker_open, consecutiveFailures = 5,
     lastFailureAt = 50, halfOpenAllowed = False\<rparr>"] by simp

end
