(* ===== verification/Failure_Store.thy ===== *)
theory Failure_Store
  imports File_Store Xlm_Refund Retry_Engine
begin

text \<open>
  \<open>SettlementFailureStore\<close> of \<open>relayer/src/services/settlement-failure-store.ts\<close>, the per-order log of
  failed settlement attempts, and the fault classifiers and retry settings of
  \<open>relayer/src/services/settlement-retry-policy.ts\<close> that feed it.

  A write to disk is taken to succeed (the source logs and ignores a failed one). Metrics and log lines
  are not modelled; timestamps are milliseconds.
\<close>

section \<open>Categories\<close>

datatype settlement_failure_category = Rpc_rate_limit | Rpc_timeout | Horizon_timeout | Horizon_transient | Eth_nonce_conflict
  | Eth_gas_too_low | Stellar_bad_seq | Stellar_fee_too_low | Insufficient_balance | Auth_failure | Terminal_unknown
  | Partial_settlement

datatype recoverability = Recoverable | Ambiguous_outcome | Terminal_outcome | Needs_review

fun CATEGORY_RECOVERABILITY :: "settlement_failure_category \<Rightarrow> recoverability" where
  "CATEGORY_RECOVERABILITY Rpc_rate_limit = Recoverable"
| "CATEGORY_RECOVERABILITY Rpc_timeout = Recoverable"
| "CATEGORY_RECOVERABILITY Horizon_timeout = Ambiguous_outcome"
| "CATEGORY_RECOVERABILITY Horizon_transient = Recoverable"
| "CATEGORY_RECOVERABILITY Eth_nonce_conflict = Recoverable"
| "CATEGORY_RECOVERABILITY Eth_gas_too_low = Recoverable"
| "CATEGORY_RECOVERABILITY Stellar_bad_seq = Recoverable"
| "CATEGORY_RECOVERABILITY Stellar_fee_too_low = Recoverable"
| "CATEGORY_RECOVERABILITY Insufficient_balance = Terminal_outcome"
| "CATEGORY_RECOVERABILITY Auth_failure = Terminal_outcome"
| "CATEGORY_RECOVERABILITY Terminal_unknown = Terminal_outcome"
| "CATEGORY_RECOVERABILITY Partial_settlement = Needs_review"

datatype recovery_status = Status_pending | Status_recovering | Status_recovered | Status_failed | Status_requires_review

datatype failure_chain = On_ethereum | On_stellar | On_unknown

section \<open>Errors and their classification\<close>

text \<open>What the classifiers read of a thrown value: its message, its \<open>code\<close>, the \<open>code\<close> of a nested
  \<open>error\<close>, the HTTP status of a \<open>response\<close> (0 without one), its result codes, and the typed Horizon
  error if it is one.\<close>

datatype err_code = Code_number int | Code_text string

record thrown =
  th_message :: string
  th_code :: "err_code option"
  th_nestedCode :: "int option"
  th_status :: nat
  th_resultCodes :: "string list"
  th_typed :: "refund_error option"

definition plain_error :: "string \<Rightarrow> thrown" where
  "plain_error msg = \<lparr>th_message = msg, th_code = None, th_nestedCode = None, th_status = 0, th_resultCodes = [], th_typed = None\<rparr>"

text \<open>\<open>/p1|p2|.../i.test(msg)\<close> for patterns without special characters, given in lower case.\<close>

definition matches_any :: "string list \<Rightarrow> string \<Rightarrow> bool" where
  "matches_any ps msg = list_ex (str_includes (toLowerCase msg)) ps"

definition is_429 :: "thrown \<Rightarrow> bool" where
  "is_429 e = (th_code e = Some (Code_number 429)
     \<or> th_code e = Some (Code_text ''UNKNOWN_ERROR'') \<and> th_nestedCode e = Some 429)"

definition ethRpcClassifier :: "thrown \<Rightarrow> fault_class option" where
  "ethRpcClassifier e =
     (if matches_any [''insufficient funds'', ''execution reverted'', ''invalid signature'', ''bad auth'', ''not authorized'',
          ''nonce too high'', ''gas limit exceeded'', ''replacement transaction underpriced'', ''transaction underpriced'']
          (th_message e)
      then Some Terminal
      else if matches_any [''nonce too low'', ''already known'', ''known transaction'', ''transaction not found'', ''pending'']
          (th_message e)
      then Some Confirmation_delay
      else if is_429 e
        \<or> matches_any [''rate limit'', ''compute units'', ''exceeded'', ''timeout'', ''etimedout'', ''econnreset'',
            ''socket hang up'', ''server error'', ''503'', ''502''] (th_message e)
      then Some Transient
      else None)"

definition horizonClassifier :: "thrown \<Rightarrow> fault_class option" where
  "horizonClassifier e =
     (case th_typed e of
        Some HorizonTimeout \<Rightarrow> Some Transient
      | Some (HorizonTerminal _) \<Rightarrow> Some Terminal
      | Some HorizonTransient \<Rightarrow> Some Transient
      | _ \<Rightarrow>
          if th_status e = 504 \<or> th_status e = 408 then Some Transient
          else if th_status e = 400 then
            (if list_ex (\<lambda>c. c \<in> set (th_resultCodes e))
                  [''tx_bad_auth'', ''op_no_destination'', ''op_no_trust'', ''tx_insufficient_balance'']
             then Some Terminal else Some Transient)
          else if th_status e \<ge> 500 then Some Transient
          else if matches_any [''timeout'', ''etimedout'', ''econnreset''] (th_message e) then Some Transient
          else None)"

text \<open>\<open>/insufficient.*(fund|balance)/i\<close>; the dot does not cross a line end.\<close>

fun insufficient_of :: "string \<Rightarrow> bool" where
  "insufficient_of [] = False"
| "insufficient_of (c # s) =
     (startsWith (c # s) ''insufficient''
        \<and> (let line = takeWhile (\<lambda>d. d \<noteq> CHR 0x0A \<and> d \<noteq> CHR 0x0D) (drop 12 (c # s))
           in str_includes line ''fund'' \<or> str_includes line ''balance'')
      \<or> insufficient_of s)"

definition generic_category :: "string \<Rightarrow> settlement_failure_category" where
  "generic_category msg =
     (if matches_any [''rate limit'', ''429''] msg then Rpc_rate_limit
      else if matches_any [''timeout'', ''etimedout'', ''econnreset''] msg then Rpc_timeout
      else if insufficient_of (toLowerCase msg) then Insufficient_balance
      else if matches_any [''auth'', ''permission'', ''not authorized''] msg then Auth_failure
      else Terminal_unknown)"

definition stellar_category :: "thrown \<Rightarrow> settlement_failure_category option" where
  "stellar_category e =
     (if th_status e = 504 \<or> th_status e = 408 then Some Horizon_timeout
      else if th_status e \<ge> 500 then Some Horizon_transient
      else if ''tx_bad_seq'' \<in> set (th_resultCodes e) then Some Stellar_bad_seq
      else if ''tx_insufficient_fee'' \<in> set (th_resultCodes e) then Some Stellar_fee_too_low
      else if ''tx_insufficient_balance'' \<in> set (th_resultCodes e) then Some Insufficient_balance
      else if ''tx_bad_auth'' \<in> set (th_resultCodes e) then Some Auth_failure
      else None)"

definition ethereum_category :: "thrown \<Rightarrow> settlement_failure_category option" where
  "ethereum_category e =
     (let msg = th_message e
      in if is_429 e \<or> matches_any [''rate limit'', ''compute units''] msg then Some Rpc_rate_limit
         else if matches_any [''timeout'', ''etimedout'', ''econnreset'', ''socket hang up''] msg then Some Rpc_timeout
         else if matches_any [''nonce too low''] msg then Some Eth_nonce_conflict
         else if matches_any [''gas''] msg \<and> matches_any [''low'', ''limit''] msg then Some Eth_gas_too_low
         else if matches_any [''insufficient funds''] msg then Some Insufficient_balance
         else if matches_any [''execution reverted'', ''invalid signature''] msg then Some Auth_failure
         else None)"

definition classifyFailureCategory :: "thrown \<Rightarrow> failure_chain \<Rightarrow> settlement_failure_category" where
  "classifyFailureCategory e chain =
     (case th_typed e of
        Some HorizonTimeout \<Rightarrow> Horizon_timeout
      | Some (HorizonTerminal rc) \<Rightarrow>
          if rc = ''tx_bad_seq'' then Stellar_bad_seq
          else if rc = ''tx_insufficient_fee'' then Stellar_fee_too_low
          else if rc = ''tx_insufficient_balance'' \<or> rc = ''tx_no_source_account'' then Insufficient_balance
          else if rc = ''tx_bad_auth'' then Auth_failure
          else Terminal_unknown
      | Some HorizonTransient \<Rightarrow> Horizon_transient
      | _ \<Rightarrow>
          or_default (if chain = On_stellar then stellar_category e
                      else if chain = On_ethereum then ethereum_category e else None)
            (generic_category (th_message e)))"

section \<open>Retry settings\<close>

definition ETH_RPC_RETRY :: "thrown run_options" where
  "ETH_RPC_RETRY = \<lparr>ro_classifier = Some ethRpcClassifier, ro_maxAttempts = Some 5, ro_baseDelayMs = Some 2000, ro_maxDelayMs = Some 30000\<rparr>"

definition ETH_BALANCE_RETRY :: "thrown run_options" where
  "ETH_BALANCE_RETRY = \<lparr>ro_classifier = Some ethRpcClassifier, ro_maxAttempts = Some 4, ro_baseDelayMs = Some 1000, ro_maxDelayMs = Some 16000\<rparr>"

definition ETH_SEND_RETRY :: "thrown run_options" where
  "ETH_SEND_RETRY = \<lparr>ro_classifier = Some ethRpcClassifier, ro_maxAttempts = Some 3, ro_baseDelayMs = Some 2000, ro_maxDelayMs = Some 16000\<rparr>"

definition ETH_CONFIRM_RETRY :: "thrown run_options" where
  "ETH_CONFIRM_RETRY = \<lparr>ro_classifier = Some ethRpcClassifier, ro_maxAttempts = Some 5, ro_baseDelayMs = Some 3000, ro_maxDelayMs = Some 30000\<rparr>"

definition HORIZON_VERIFY_RETRY :: "thrown run_options" where
  "HORIZON_VERIFY_RETRY = \<lparr>ro_classifier = Some horizonClassifier, ro_maxAttempts = Some 4, ro_baseDelayMs = Some 2000, ro_maxDelayMs = Some 20000\<rparr>"

definition STELLAR_SUBMIT_RETRY :: "thrown run_options" where
  "STELLAR_SUBMIT_RETRY = \<lparr>ro_classifier = Some horizonClassifier, ro_maxAttempts = Some 3, ro_baseDelayMs = Some 1500, ro_maxDelayMs = Some 15000\<rparr>"

text \<open>The errors the retry engine throws, as the classifiers see them. The message of an open circuit has a
  dash no pattern looks at; it is left out.\<close>

fun fault_name :: "fault_class \<Rightarrow> string" where
  "fault_name Transient = ''transient''"
| "fault_name Confirmation_delay = ''confirmation_delay''"
| "fault_name Terminal = ''terminal''"

definition engine_error :: "string \<Rightarrow> thrown run_error \<Rightarrow> thrown" where
  "engine_error action e =
     (case e of
        Thrown t \<Rightarrow> t
      | RetryExhausted fc n _ \<Rightarrow> plain_error (''[retry-engine] '' @ [CHR 0x27] @ action @ [CHR 0x27] @ '' exhausted ''
          @ number_string n @ '' attempts (last fault: '' @ fault_name fc @ '')'')
      | CircuitOpen a \<Rightarrow> plain_error (''[retry-engine] Circuit for '' @ [CHR 0x27] @ a @ [CHR 0x27] @ '' is open  fast-failing''))"

section \<open>Sanitised messages\<close>

definition is_hex :: "char \<Rightarrow> bool" where
  "is_hex c = (hex_value c \<noteq> None)"

definition key_char :: "char \<Rightarrow> bool" where
  "key_char c = (let n = (of_char c :: nat) in 65 \<le> n \<and> n \<le> 90 \<or> 48 \<le> n \<and> n \<le> 57)"

definition HASH_MARK :: string where "HASH_MARK = ''[address/hash]''"

definition KEY_MARK :: string where "KEY_MARK = ''[stellar-key]''"

text \<open>Where \<open>/0x[0-9a-fA-F]{40,}/\<close> and \<open>/[SG][A-Z0-9]{54,}/\<close> match; a match takes the whole run.\<close>

definition hex_at :: "string \<Rightarrow> bool" where
  "hex_at s = (startsWith s ''0x'' \<and> 40 \<le> length (takeWhile is_hex (drop 2 s)))"

definition key_at :: "string \<Rightarrow> bool" where
  "key_at s = ((startsWith s ''S'' \<or> startsWith s ''G'') \<and> 54 \<le> length (takeWhile key_char (drop 1 s)))"

function redact_hex :: "string \<Rightarrow> string" where
  "redact_hex [] = []"
| "redact_hex (c # s) =
     (if hex_at (c # s) then HASH_MARK @ redact_hex (dropWhile is_hex (drop 1 s)) else c # redact_hex s)"
  by pat_completeness auto
termination
  by (relation "measure length") (auto simp: le_imp_less_Suc intro!: le_less_trans [OF length_dropWhile_le])

function redact_key :: "string \<Rightarrow> string" where
  "redact_key [] = []"
| "redact_key (c # s) =
     (if key_at (c # s) then KEY_MARK @ redact_key (dropWhile key_char s) else c # redact_key s)"
  by pat_completeness auto
termination
  by (relation "measure length") (auto simp: le_imp_less_Suc intro!: le_less_trans [OF length_dropWhile_le])

definition sanitiseErrorMessage :: "string \<Rightarrow> string" where
  "sanitiseErrorMessage msg = take 500 (redact_key (redact_hex msg))"

section \<open>The store\<close>

record failure_event =
  fe_at :: int
  fe_category :: settlement_failure_category
  fe_recoverability :: recoverability
  fe_errorMessage :: string
  fe_direction :: string
  fe_chain :: failure_chain
  fe_attempt :: nat
  fe_recoveryAction :: "string option"

record failure_record =
  fr_orderId :: string
  fr_direction :: string
  fr_status :: recovery_status
  fr_failureCount :: nat
  fr_recoveryAttempts :: nat
  fr_firstFailedAt :: int
  fr_lastUpdatedAt :: int
  fr_events :: "failure_event list"
  fr_recoveredTxHash :: "string option"
  fr_terminalReason :: "string option"

record failure_store =
  fs_records :: "(string, failure_record) jsmap"
  fs_disk :: "(string, failure_record) jsmap option"

definition fs_filePath :: "string \<Rightarrow> string" where
  "fs_filePath oid = take 120 (safe_name oid) @ ''.json''"

definition fs_put :: "failure_record \<Rightarrow> failure_store \<Rightarrow> failure_store" where
  "fs_put r s =
     \<lparr>fs_records = jm_set (fr_orderId r) r (fs_records s),
      fs_disk = map_option (jm_set (fs_filePath (fr_orderId r)) r) (fs_disk s)\<rparr>"

definition fs_well_formed :: "failure_record \<Rightarrow> bool" where
  "fs_well_formed r = (fr_orderId r \<noteq> [])"

fun fs_load :: "(string \<times> failure_record) list \<Rightarrow> (string, failure_record) jsmap \<Rightarrow> (string, failure_record) jsmap" where
  "fs_load [] m = m"
| "fs_load ((f, r) # fs) m =
     fs_load fs (if fs_well_formed r \<and> \<not> jm_has m (fr_orderId r) then jm_set (fr_orderId r) r m else m)"

definition new_FailureStore :: "(string, failure_record) jsmap option \<Rightarrow> failure_store" where
  "new_FailureStore dir = \<lparr>fs_records = (case dir of None \<Rightarrow> [] | Some fs \<Rightarrow> fs_load fs []), fs_disk = dir\<rparr>"

record failure_report =
  fp_orderId :: string
  fp_direction :: string
  fp_category :: settlement_failure_category
  fp_errorMessage :: string
  fp_chain :: failure_chain
  fp_recoveryAction :: "string option"

definition fresh_record :: "int \<Rightarrow> failure_report \<Rightarrow> failure_record" where
  "fresh_record now p =
     \<lparr>fr_orderId = fp_orderId p, fr_direction = fp_direction p, fr_status = Status_pending, fr_failureCount = 0,
      fr_recoveryAttempts = 0, fr_firstFailedAt = now, fr_lastUpdatedAt = now, fr_events = [],
      fr_recoveredTxHash = None, fr_terminalReason = None\<rparr>"

definition append_failure :: "int \<Rightarrow> failure_report \<Rightarrow> failure_record \<Rightarrow> failure_record" where
  "append_failure now p r =
     (let recov = CATEGORY_RECOVERABILITY (fp_category p);
          event = \<lparr>fe_at = now, fe_category = fp_category p, fe_recoverability = recov,
            fe_errorMessage = sanitiseErrorMessage (fp_errorMessage p), fe_direction = fp_direction p,
            fe_chain = fp_chain p, fe_attempt = fr_failureCount r + 1, fe_recoveryAction = fp_recoveryAction p\<rparr>;
          r1 = r\<lparr>fr_failureCount := fr_failureCount r + 1, fr_lastUpdatedAt := now, fr_events := fr_events r @ [event]\<rparr>
      in case recov of
           Terminal_outcome \<Rightarrow> r1\<lparr>fr_status := Status_failed, fr_terminalReason := Some (fe_errorMessage event)\<rparr>
         | Needs_review \<Rightarrow> r1\<lparr>fr_status := Status_requires_review\<rparr>
         | _ \<Rightarrow> r1)"

definition recordFailure :: "int \<Rightarrow> failure_report \<Rightarrow> failure_store \<Rightarrow> failure_store" where
  "recordFailure now p s =
     fs_put (append_failure now p (or_default (jm_get (fs_records s) (fp_orderId p)) (fresh_record now p))) s"

definition markRecovering :: "int \<Rightarrow> string \<Rightarrow> failure_store \<Rightarrow> failure_store" where
  "markRecovering now oid s =
     (case jm_get (fs_records s) oid of
        None \<Rightarrow> s
      | Some r \<Rightarrow>
          if fr_status r = Status_failed \<or> fr_status r = Status_recovered then s
          else fs_put (r\<lparr>fr_status := Status_recovering, fr_recoveryAttempts := fr_recoveryAttempts r + 1,
                 fr_lastUpdatedAt := now\<rparr>) s)"

definition markRecovered :: "int \<Rightarrow> string \<Rightarrow> string \<Rightarrow> failure_store \<Rightarrow> failure_store" where
  "markRecovered now oid txHash s =
     (case jm_get (fs_records s) oid of
        None \<Rightarrow> s
      | Some r \<Rightarrow> fs_put (r\<lparr>fr_status := Status_recovered, fr_recoveredTxHash := Some txHash, fr_lastUpdatedAt := now\<rparr>) s)"

definition markRequiresReview :: "int \<Rightarrow> string \<Rightarrow> string \<Rightarrow> failure_store \<Rightarrow> failure_store" where
  "markRequiresReview now oid reason s =
     (case jm_get (fs_records s) oid of
        None \<Rightarrow> s
      | Some r \<Rightarrow> fs_put (r\<lparr>fr_status := Status_requires_review, fr_terminalReason := Some reason, fr_lastUpdatedAt := now\<rparr>) s)"

definition fs_get :: "string \<Rightarrow> failure_store \<Rightarrow> failure_record option" where
  "fs_get oid s = jm_get (fs_records s) oid"

definition hasFailed :: "string \<Rightarrow> failure_store \<Rightarrow> bool" where
  "hasFailed oid s = jm_has (fs_records s) oid"

definition byStatus :: "recovery_status \<Rightarrow> failure_store \<Rightarrow> failure_record list" where
  "byStatus st s = filter (\<lambda>r. fr_status r = st) (map snd (fs_records s))"

definition fs_summary :: "failure_store \<Rightarrow> recovery_status \<Rightarrow> nat" where
  "fs_summary s st = length (byStatus st s)"

definition pendingGauge :: "failure_store \<Rightarrow> nat" where
  "pendingGauge s =
     length (filter (\<lambda>r. fr_status r \<in> {Status_pending, Status_recovering, Status_requires_review}) (map snd (fs_records s)))"

section \<open>Nothing that looks like a key is logged\<close>

text \<open>The two shapes the sanitiser removes, anywhere in a text.\<close>

fun shows_hex :: "string \<Rightarrow> bool" where
  "shows_hex [] = False"
| "shows_hex (c # s) = (hex_at (c # s) \<or> shows_hex s)"

fun shows_key :: "string \<Rightarrow> bool" where
  "shows_key [] = False"
| "shows_key (c # s) = (key_at (c # s) \<or> shows_key s)"

lemma mark_chars: "\<not> is_hex (CHR ''['')" "\<not> key_char (CHR ''['')" "\<not> is_hex (CHR ''S'')" "\<not> is_hex (CHR ''G'')"
  by code_simp+

lemma hex_at_Cons: "hex_at (c # s) \<longleftrightarrow> c = CHR ''0'' \<and> (\<exists>r. s = CHR ''x'' # r \<and> 40 \<le> length (takeWhile is_hex r))"
  by (cases s) (auto simp: hex_at_def startsWith_def)

lemma key_at_Cons: "key_at (c # s) \<longleftrightarrow> (c = CHR ''S'' \<or> c = CHR ''G'') \<and> 54 \<le> length (takeWhile key_char s)"
  by (auto simp: key_at_def startsWith_def)

lemma mark_simps [simp]:
  "takeWhile is_hex (HASH_MARK @ s) = []" "takeWhile is_hex (KEY_MARK @ s) = []" "takeWhile key_char (KEY_MARK @ s) = []"
  "shows_hex (HASH_MARK @ s) \<longleftrightarrow> shows_hex s" "shows_hex (KEY_MARK @ s) \<longleftrightarrow> shows_hex s"
  "shows_key (KEY_MARK @ s) \<longleftrightarrow> shows_key s"
  by (simp_all add: HASH_MARK_def KEY_MARK_def mark_chars hex_at_Cons key_at_Cons)

lemma mark_not_Cons [simp]: "HASH_MARK @ s \<noteq> CHR ''x'' # r" "KEY_MARK @ s \<noteq> CHR ''x'' # r"
  by (simp_all add: HASH_MARK_def KEY_MARK_def)

lemma redact_hex_run: "length (takeWhile is_hex (redact_hex s)) \<le> length (takeWhile is_hex s)"
  by (induction s rule: redact_hex.induct) auto

lemma redact_hex_clean: "\<not> shows_hex (redact_hex s)"
proof (induction s rule: redact_hex.induct)
  case (2 c s)
  show ?case
  proof (cases "hex_at (c # s)")
    case False
    have "\<not> hex_at (c # redact_hex s)"
    proof
      assume a: "hex_at (c # redact_hex s)"
      then obtain r where r: "redact_hex s = CHR ''x'' # r" "40 \<le> length (takeWhile is_hex r)" "c = CHR ''0''"
        by (auto simp: hex_at_Cons)
      then obtain s' where s': "s = CHR ''x'' # s'" "r = redact_hex s'" by (cases s) (auto split: if_splits)
      then show False using False r redact_hex_run [of s'] by (auto simp: hex_at_Cons)
    qed
    then show ?thesis using 2(2) [OF False] False by simp
  qed (use 2(1) in simp)
qed simp

lemma redact_key_hex_run: "length (takeWhile is_hex (redact_key s)) \<le> length (takeWhile is_hex s)"
  by (induction s rule: redact_key.induct) auto

lemma shows_hex_drop: "shows_hex (dropWhile P s) \<Longrightarrow> shows_hex s"
  by (induction s) (auto split: if_splits)

lemma redact_key_hex: "\<not> shows_hex s \<Longrightarrow> \<not> shows_hex (redact_key s)"
proof (induction s rule: redact_key.induct)
  case (2 c s)
  show ?case
  proof (cases "key_at (c # s)")
    case False
    have "\<not> hex_at (c # redact_key s)"
    proof
      assume a: "hex_at (c # redact_key s)"
      then obtain r where r: "redact_key s = CHR ''x'' # r" "40 \<le> length (takeWhile is_hex r)" "c = CHR ''0''"
        by (auto simp: hex_at_Cons)
      then obtain s' where s': "s = CHR ''x'' # s'" "r = redact_key s'" by (cases s) (auto split: if_splits)
      then show False using 2(3) r redact_key_hex_run [of s'] by (auto simp: hex_at_Cons)
    qed
    then show ?thesis using 2(2) [OF False] 2(3) False by simp
  qed (use 2(1,3) shows_hex_drop [of key_char s] in auto)
qed simp

lemma redact_key_run: "length (takeWhile key_char (redact_key s)) \<le> length (takeWhile key_char s)"
  by (induction s rule: redact_key.induct) auto

lemma redact_key_clean: "\<not> shows_key (redact_key s)"
proof (induction s rule: redact_key.induct)
  case (2 c s)
  then show ?case using redact_key_run [of s] by (cases "key_at (c # s)") (auto simp: key_at_Cons)
qed simp

lemma run_take: "length (takeWhile P (take n s)) \<le> length (takeWhile P s)"
  by (induction s arbitrary: n) (auto simp: take_Cons split: nat.split)

lemma shows_hex_take: "shows_hex (take n s) \<Longrightarrow> shows_hex s"
proof (induction s arbitrary: n)
  case (Cons c s)
  then obtain m where n: "n = Suc m" by (cases n) auto
  have "hex_at (c # take m s) \<Longrightarrow> hex_at (c # s)"
  proof (cases m)
    case (Suc k)
    then show "hex_at (c # take m s) \<Longrightarrow> hex_at (c # s)"
      using run_take [of is_hex k "tl s"] by (cases s) (auto simp: hex_at_Cons)
  qed (simp add: hex_at_Cons)
  then show ?case using Cons n by auto
qed simp

lemma shows_key_take: "shows_key (take n s) \<Longrightarrow> shows_key s"
proof (induction s arbitrary: n)
  case (Cons c s)
  then obtain m where "n = Suc m" by (cases n) auto
  then show ?case using Cons run_take [of key_char m s] by (auto simp: key_at_Cons)
qed simp

lemma sanitised_clean:
  "\<not> shows_hex (sanitiseErrorMessage msg)" "\<not> shows_key (sanitiseErrorMessage msg)" "length (sanitiseErrorMessage msg) \<le> 500"
  using shows_hex_take [of 500 "redact_key (redact_hex msg)"] shows_key_take [of 500 "redact_key (redact_hex msg)"]
    redact_key_hex [OF redact_hex_clean, of msg] redact_key_clean [of "redact_hex msg"]
  by (auto simp: sanitiseErrorMessage_def)

section \<open>Records\<close>

definition record_ok :: "string \<Rightarrow> failure_record \<Rightarrow> bool" where
  "record_ok oid r \<longleftrightarrow> fr_orderId r = oid \<and> fr_events r \<noteq> [] \<and> fr_failureCount r = length (fr_events r)
     \<and> map fe_attempt (fr_events r) = [1..<Suc (length (fr_events r))]
     \<and> (\<forall>e\<in>set (fr_events r). fe_recoverability e = CATEGORY_RECOVERABILITY (fe_category e)
          \<and> \<not> shows_hex (fe_errorMessage e) \<and> \<not> shows_key (fe_errorMessage e) \<and> length (fe_errorMessage e) \<le> 500)
     \<and> (fr_status r = Status_failed \<longrightarrow> (\<exists>e\<in>set (fr_events r). fe_recoverability e = Terminal_outcome))
     \<and> (fr_status r = Status_recovered \<longrightarrow> fr_recoveredTxHash r \<noteq> None)
     \<and> (fr_status r = Status_recovering \<longrightarrow> 0 < fr_recoveryAttempts r)"

definition failures_ok :: "failure_store \<Rightarrow> bool" where
  "failures_ok s \<longleftrightarrow> (\<forall>oid r. jm_get (fs_records s) oid = Some r \<longrightarrow> record_ok oid r)
     \<and> (\<forall>d f r. fs_disk s = Some d \<longrightarrow> (f, r) \<in> set d \<longrightarrow> record_ok (fr_orderId r) r)"

text \<open>The calls made by the settlement paths, and a restart, which reads the directory in some order.\<close>

inductive failure_step :: "failure_store \<Rightarrow> failure_store \<Rightarrow> bool" where
  fail: "failure_step s (recordFailure now p s)"
| recovering: "failure_step s (markRecovering now oid s)"
| recovered: "failure_step s (markRecovered now oid txHash s)"
| review: "failure_step s (markRequiresReview now oid reason s)"
| restart: "fs_disk s = Some d \<Longrightarrow> set files = set d \<Longrightarrow> failure_step s (new_FailureStore (Some files))"

lemma append_failure_ok:
  assumes "record_ok oid r \<or> r = fresh_record now p" and "fr_orderId r = oid"
  shows "record_ok oid (append_failure now p r)"
proof -
  have "map fe_attempt (fr_events r) = [1..<Suc (length (fr_events r))]" "fr_failureCount r = length (fr_events r)"
    using assms by (auto simp: record_ok_def fresh_record_def)
  then have "map fe_attempt (fr_events (append_failure now p r)) = [1..<Suc (length (fr_events (append_failure now p r)))]"
    by (simp add: append_failure_def Let_def split: recoverability.split)
  then show ?thesis
    using assms sanitised_clean [of "fp_errorMessage p"]
    by (auto simp: record_ok_def append_failure_def Let_def fresh_record_def split: recoverability.split)
qed

lemma store_okD: "failures_ok s \<Longrightarrow> jm_get (fs_records s) oid = Some r \<Longrightarrow> record_ok oid r"
  by (simp add: failures_ok_def)

lemma record_ok_id: "record_ok oid r \<Longrightarrow> fr_orderId r = oid"
  by (simp add: record_ok_def)

lemma mark_record_ok:
  assumes "record_ok oid r"
  shows "record_ok (fr_orderId r) (r\<lparr>fr_status := Status_recovering, fr_recoveryAttempts := Suc n, fr_lastUpdatedAt := t\<rparr>)"
    "record_ok (fr_orderId r) (r\<lparr>fr_status := Status_recovered, fr_recoveredTxHash := Some h, fr_lastUpdatedAt := t\<rparr>)"
    "record_ok (fr_orderId r) (r\<lparr>fr_status := Status_requires_review, fr_terminalReason := Some h, fr_lastUpdatedAt := t\<rparr>)"
  using assms by (simp_all add: record_ok_def)

lemma fs_put_ok: "failures_ok s \<Longrightarrow> record_ok (fr_orderId r) r \<Longrightarrow> failures_ok (fs_put r s)"
proof -
  have "p \<in> set (jm_set k v m) \<Longrightarrow> p = (k, v) \<or> p \<in> set m" for p :: "string \<times> failure_record" and k v m
    by (induction m) (auto split: if_splits)
  then show "failures_ok s \<Longrightarrow> record_ok (fr_orderId r) r \<Longrightarrow> failures_ok (fs_put r s)"
    unfolding failures_ok_def fs_put_def by (fastforce simp: jm_get_set split: if_splits)
qed

lemma fs_load_ok:
  assumes "\<And>f r. (f, r) \<in> set fs \<Longrightarrow> record_ok (fr_orderId r) r" and "\<And>oid r. jm_get m oid = Some r \<Longrightarrow> record_ok oid r"
  shows "jm_get (fs_load fs m) oid = Some r \<Longrightarrow> record_ok oid r"
  using assms
proof (induction fs arbitrary: m)
  case (Cons p fs)
  obtain f q where p: "p = (f, q)" by (cases p)
  show ?case
    by (rule Cons.IH [of "if fs_well_formed q \<and> \<not> jm_has m (fr_orderId q) then jm_set (fr_orderId q) q m else m"])
      (use Cons.prems p in \<open>auto simp: jm_get_set split: if_splits\<close>)
qed simp

lemma failure_step_ok: "failure_step s s' \<Longrightarrow> failures_ok s \<Longrightarrow> failures_ok s'"
proof (induction rule: failure_step.induct)
  case (fail s now p)
  let ?r = "or_default (jm_get (fs_records s) (fp_orderId p)) (fresh_record now p)"
  have "(record_ok (fp_orderId p) ?r \<or> ?r = fresh_record now p) \<and> fr_orderId ?r = fp_orderId p"
    using store_okD [OF fail] record_ok_id
    by (cases "jm_get (fs_records s) (fp_orderId p)") (auto simp: fresh_record_def)
  from append_failure_ok [OF conjunct1 [OF this] conjunct2 [OF this]] show ?case
    unfolding recordFailure_def using fail record_ok_id by (intro fs_put_ok) auto
next
  case (recovering s now oid)
  then show ?case
    using mark_record_ok(1) by (auto simp: markRecovering_def split: option.split intro!: fs_put_ok dest: store_okD record_ok_id)
next
  case (recovered s now oid txHash)
  then show ?case
    using mark_record_ok(2) by (auto simp: markRecovered_def split: option.split intro!: fs_put_ok dest: store_okD record_ok_id)
next
  case (review s now oid reason)
  then show ?case
    using mark_record_ok(3) by (auto simp: markRequiresReview_def split: option.split intro!: fs_put_ok dest: store_okD record_ok_id)
next
  case (restart s d files)
  then have "record_ok (fr_orderId r) r" if "(f, r) \<in> set files" for f r using that by (auto simp: failures_ok_def)
  then show ?case using fs_load_ok [of files "[]"] by (auto simp: failures_ok_def new_FailureStore_def)
qed

interpretation failure_files: file_store fr_orderId fs_filePath fs_well_formed fs_load
proof
  show "fs_load (p # ps) m =
      fs_load ps (if fs_well_formed (snd p) \<and> \<not> jm_has m (fr_orderId (snd p)) then jm_set (fr_orderId (snd p)) (snd p) m else m)" for p ps m
    by (cases p) simp
qed simp

definition on_disk :: "failure_store \<Rightarrow> bool" where
  "on_disk s \<longleftrightarrow> (case fs_disk s of None \<Rightarrow> True
     | Some d \<Rightarrow> mirrors fr_orderId fs_filePath fs_well_formed d (fs_records s) \<and> \<not> jm_has (fs_records s) [])"

lemma on_disk_put: "on_disk s \<Longrightarrow> fr_orderId r \<noteq> [] \<Longrightarrow> on_disk (fs_put r s)"
  using mirrors_put [of fr_orderId fs_filePath fs_well_formed _ "fs_records s" r]
  by (auto simp: on_disk_def fs_put_def fs_well_formed_def jm_has_set split: option.splits)

text \<open>A restart loses no record, as long as the order ids differ in their first 120 file-name characters.\<close>

lemma restart_keeps_failures:
  assumes "on_disk s" and "fs_disk s = Some d" and "set files = set d" and "failures_ok s" and "inj_on fs_filePath (fst ` set (fs_records s))"
  shows "fs_get oid (new_FailureStore (Some files)) = fs_get oid s"
proof -
  have m: "mirrors fr_orderId fs_filePath fs_well_formed d (fs_records s)" and ne: "\<not> jm_has (fs_records s) []"
    using assms(1,2) by (simp_all add: on_disk_def)
  have sub: "{k. \<exists>r. jm_get (fs_records s) k = Some r \<and> fs_well_formed r} \<subseteq> fst ` set (fs_records s)"
    by (force dest: map_of_SomeD)
  have get: "fs_get oid (new_FailureStore (Some files)) = (case jm_get (fs_records s) oid of
      Some r \<Rightarrow> if fs_well_formed r then Some r else None | None \<Rightarrow> None)"
    using failure_files.reload [OF m assms(3) inj_on_subset [OF assms(5) sub]] by (simp add: fs_get_def new_FailureStore_def)
  show ?thesis
  proof (cases "jm_get (fs_records s) oid")
    case (Some r)
    have "oid \<noteq> []" using Some ne by (auto simp: jm_has_iff_get)
    then have "fs_well_formed r" using record_ok_id [OF store_okD [OF assms(4) Some]] by (simp add: fs_well_formed_def)
    then show ?thesis using get Some by (simp add: fs_get_def)
  qed (use get in \<open>simp add: fs_get_def\<close>)
qed

lemma failure_steps_ok: "failure_step\<^sup>*\<^sup>* s s' \<Longrightarrow> failures_ok s \<Longrightarrow> failures_ok s'"
  by (induction rule: rtranclp_induct) (auto intro: failure_step_ok)


definition example_report :: failure_report where
  "example_report = \<lparr>fp_orderId = ''o1'', fp_direction = ''xlm_to_eth'', fp_category = Rpc_timeout,
     fp_errorMessage = ''sendTransaction timeout'', fp_chain = On_ethereum, fp_recoveryAction = None\<rparr>"


lemma insufficient_of_includes: "insufficient_of s \<Longrightarrow> str_includes s ''insufficient''"
  by (induction s) auto

lemma filed_as_unknown:
  assumes "ethereum_category (plain_error msg) = None"
    and "\<not> matches_any [''rate limit'', ''429'', ''timeout'', ''etimedout'', ''econnreset'', ''insufficient'', ''auth'', ''permission'',
      ''not authorized''] msg"
  shows "classifyFailureCategory (plain_error msg) On_ethereum = Terminal_unknown"
  using assms insufficient_of_includes [of "toLowerCase msg"]
  by (auto simp: classifyFailureCategory_def plain_error_def generic_category_def matches_any_def)


end
