(* ===== verification/Refund_Paths.thy ===== *)
theory Refund_Paths
  imports Xlm_Refund
begin

text \<open>
  The three callers of \<open>refundXlmToUser\<close>: the background watchdog
  (\<open>relayer/src/services/refund-watchdog.ts\<close>), the \<open>manual-refund\<close> endpoint and the error handler of the
  \<open>xlm-to-eth\<close> endpoint (\<open>relayer/src/routes/orders.ts\<close>). They share the refund ledger, the map of active
  orders and Horizon. \<open>Date.parse\<close> is an argument; the calls of one path are not interleaved with
  those of another here (the ledger's own guarantees hold for every interleaving). What the
  endpoints check before they come to the refund is an argument of their model.
\<close>

datatype timestamp = TsNumber int | TsText string

record watchdog_order =
  wo_direction :: string
  wo_status :: string
  wo_stellarAddress :: "string option"
  wo_stellarTxHash :: "string option"
  wo_xlmReceivedAt :: "timestamp option"
  wo_created :: "timestamp option"
  wo_amount :: "string option"
  wo_refundTxHash :: "string option"
  wo_refundedAt :: "int option"
  wo_watchdogFailedAt :: "int option"

record refund_sys =
  rs_ledger :: refund_ledger
  rs_orders :: "(string, watchdog_order) jsmap"
  rs_out :: outbox

definition BACKOFF_MS :: int where "BACKOFF_MS = 10 * 60000"

definition nonzero :: "int option \<Rightarrow> bool" where
  "nonzero v = (v \<noteq> None \<and> v \<noteq> Some 0)"

definition toMillis :: "(string \<Rightarrow> int option) \<Rightarrow> timestamp option \<Rightarrow> int option" where
  "toMillis date_parse v =
     (case v of
        None \<Rightarrow> None
      | Some (TsNumber n) \<Rightarrow> Some (if n > 1000000000000 then n else n * 1000)
      | Some (TsText s) \<Rightarrow> date_parse s)"

definition isXlmToEthAwaitingEth :: "watchdog_order \<Rightarrow> bool" where
  "isXlmToEthAwaitingEth ord =
     (wo_direction ord = ''xlm_to_eth'' \<and> truthy (wo_stellarTxHash ord)
      \<and> \<not> (truthy (wo_refundTxHash ord) \<or> nonzero (wo_refundedAt ord))
      \<and> wo_status ord \<noteq> ''eth_tx_sent'' \<and> wo_status ord \<noteq> ''completed'' \<and> wo_status ord \<noteq> ''refunded'')"

definition put_order :: "string \<Rightarrow> watchdog_order \<Rightarrow> refund_sys \<Rightarrow> refund_sys" where
  "put_order oid ord s = s\<lparr>rs_orders := jm_set oid ord (rs_orders s)\<rparr>"

definition mark_refunded :: "string \<Rightarrow> int \<Rightarrow> watchdog_order \<Rightarrow> watchdog_order" where
  "mark_refunded hash at ord = ord\<lparr>wo_status := ''refunded'', wo_refundTxHash := Some hash, wo_refundedAt := Some at\<rparr>"

text \<open>\<open>refundXlmToUser\<close> on the shared state.\<close>

definition run_refund ::
    "horizon \<Rightarrow> int \<Rightarrow> refund_args \<Rightarrow> refund_sys \<Rightarrow> refund_sys \<times> (refund_error + refund_result)" where
  "run_refund hz now a s =
     (case refundXlmToUser hz now a (Some (rs_ledger s)) (rs_out s) of
        ((l, ob), res) \<Rightarrow> (s\<lparr>rs_ledger := (case l of Some l' \<Rightarrow> l' | None \<Rightarrow> rs_ledger s), rs_out := ob\<rparr>, res))"

section \<open>The watchdog\<close>

definition checkAmbiguousRefund ::
    "horizon \<Rightarrow> int \<Rightarrow> string \<Rightarrow> watchdog_order \<Rightarrow> refund_sys \<Rightarrow> refund_sys \<times> bool" where
  "checkAmbiguousRefund hz now oid order s =
     (let n = ob_calls (rs_out s); called = (\<lambda>k s. s\<lparr>rs_out := (rs_out s)\<lparr>ob_calls := n + k\<rparr>\<rparr>)
      in case hz_transactions hz n of
           Inl _ \<Rightarrow> (called 1 s, False)
         | Inr txs \<Rightarrow>
             (case find (\<lambda>tx. htx_memo tx = refund_memo oid) (take 50 txs) of
                None \<Rightarrow> (called 1 (s\<lparr>rs_ledger := rl_releaseAmbiguous oid (rs_ledger s)\<rparr>), False)
              | Some landed \<Rightarrow>
                  (case hz_operations hz (n + 1) (htx_hash landed) of
                     Inl _ \<Rightarrow> (called 2 s, False)
                   | Inr ops \<Rightarrow>
                       let amount = (case find (\<lambda>op. op_type op = ''payment'' \<and> op_asset_type op = ''native'') ops of
                                       Some op \<Rightarrow> op_amount op | None \<Rightarrow> ''0.0000000'')
                       in (called 2 (put_order oid (mark_refunded (htx_hash landed) now order)
                             (s\<lparr>rs_ledger := rl_resolveAmbiguous now oid (htx_hash landed) amount
                                  (htx_ledger landed) (rs_ledger s)\<rparr>)), True))))"

text \<open>From the back-off check to the end of an order's turn.\<close>

definition attempt_refund ::
    "(string \<Rightarrow> int option) \<Rightarrow> int \<Rightarrow> int \<Rightarrow> horizon \<Rightarrow> int \<Rightarrow> string \<Rightarrow> watchdog_order \<Rightarrow> refund_sys \<Rightarrow> refund_sys" where
  "attempt_refund date_parse staleAfterMs cap hz now oid order s =
     (if (case wo_watchdogFailedAt order of Some t \<Rightarrow> t \<noteq> 0 \<and> now - t < BACKOFF_MS | None \<Rightarrow> False) then s
      else case (case toMillis date_parse (wo_xlmReceivedAt order) of
                   Some t \<Rightarrow> Some t | None \<Rightarrow> toMillis date_parse (wo_created order)) of
        None \<Rightarrow> s
      | Some startedAt \<Rightarrow>
          if startedAt = 0 \<or> now - startedAt < staleAfterMs \<or> \<not> truthy (wo_stellarAddress order) then s
          else
            let (l, claimed) = rl_claim oid (rs_ledger s); s1 = s\<lparr>rs_ledger := l\<rparr>
            in if \<not> claimed then s
               else (case run_refund hz now
                       \<lparr>ra_orderId = oid, ra_stellarAddress = or_default (wo_stellarAddress order) [],
                        ra_stellarTxHash = wo_stellarTxHash order, ra_fallbackStroops = wo_amount order,
                        ra_maxRetries = 3, ra_feeBumpCap = cap\<rparr> s1 of
                  (s2, Inr r) \<Rightarrow> put_order oid (mark_refunded (rr_hash r) now order) s2
                | (s2, Inl RefundAmountUnknown) \<Rightarrow> s2\<lparr>rs_ledger := rl_release oid (rs_ledger s2)\<rparr>
                | (s2, Inl HorizonTimeout) \<Rightarrow>
                    put_order oid (order\<lparr>wo_watchdogFailedAt := Some now\<rparr>)
                      (s2\<lparr>rs_ledger := rl_markAmbiguous now oid ''timeout'' (rs_ledger s2)\<rparr>)
                | (s2, Inl _) \<Rightarrow>
                    put_order oid (order\<lparr>wo_watchdogFailedAt := Some now\<rparr>)
                      (s2\<lparr>rs_ledger := rl_release oid (rs_ledger s2)\<rparr>)))"

definition watch_order ::
    "(string \<Rightarrow> int option) \<Rightarrow> int \<Rightarrow> int \<Rightarrow> horizon \<Rightarrow> int \<Rightarrow> string \<Rightarrow> refund_sys \<Rightarrow> refund_sys" where
  "watch_order date_parse staleAfterMs cap hz now oid s =
     (case jm_get (rs_orders s) oid of
        None \<Rightarrow> s
      | Some order \<Rightarrow>
          if \<not> isXlmToEthAwaitingEth order then s
          else (case rl_phase oid (rs_ledger s) of
                  Some (Committed tx _ _ at) \<Rightarrow> put_order oid (mark_refunded tx at order) s
                | Some (Ambiguous _ _) \<Rightarrow>
                    (case checkAmbiguousRefund hz now oid order s of
                       (s1, True) \<Rightarrow> s1
                     | (s1, False) \<Rightarrow> attempt_refund date_parse staleAfterMs cap hz now oid order s1)
                | _ \<Rightarrow> attempt_refund date_parse staleAfterMs cap hz now oid order s))"

definition watchdog_tick ::
    "(string \<Rightarrow> int option) \<Rightarrow> int \<Rightarrow> int \<Rightarrow> horizon \<Rightarrow> int \<Rightarrow> refund_sys \<Rightarrow> refund_sys" where
  "watchdog_tick date_parse staleAfterMs cap hz now s =
     fold (watch_order date_parse staleAfterMs cap hz now) (map fst (rs_orders s)) s"

section \<open>The endpoints\<close>

datatype refund_response =
    RefundBadRequest
  | RefundDone string
  | RefundCached string
  | RefundConflict
  | RefundPending
  | RefundFailed

text \<open>The order a manual refund is for: the one the body names, else the first with the payment's hash,
  else the hash itself stands for it.\<close>

definition manual_orderId :: "string option \<Rightarrow> string \<Rightarrow> (string, watchdog_order) jsmap \<Rightarrow> string" where
  "manual_orderId body txHash orders =
     (case body of
        Some oid \<Rightarrow> oid
      | None \<Rightarrow> (case find (\<lambda>(_, r). wo_stellarTxHash r = Some txHash) orders of
                   Some (oid, _) \<Rightarrow> oid
                 | None \<Rightarrow> txHash))"

text \<open>\<open>secret\<close> is the configured signing secret and \<open>fromSecret\<close> the key the Stellar library derives from it,
  \<open>None\<close> where it throws, which the outermost \<open>catch\<close> answers with the claim still held. \<open>verify\<close> is the
  amount of the original payment to that key, or \<open>None\<close> when it could not be verified.\<close>

definition manual_refund ::
    "horizon \<Rightarrow> int \<Rightarrow> int \<Rightarrow> (string \<Rightarrow> string option) \<Rightarrow> string option \<Rightarrow> (string \<Rightarrow> string option)
     \<Rightarrow> string \<Rightarrow> string \<Rightarrow> string option \<Rightarrow> refund_sys \<Rightarrow> refund_sys \<times> refund_response" where
  "manual_refund hz now cap fromSecret secret verify addr txHash body s =
     (if txHash = [] \<or> addr = [] then (s, RefundBadRequest)
      else let oid = manual_orderId body txHash (rs_orders s) in
        case rl_phase oid (rs_ledger s) of
          Some (Committed tx _ _ _) \<Rightarrow> (s, RefundCached tx)
        | Some _ \<Rightarrow> (s, RefundConflict)
        | None \<Rightarrow>
            let s1 = s\<lparr>rs_ledger := fst (rl_claim oid (rs_ledger s))\<rparr>;
                failed = (\<lambda>s. s\<lparr>rs_ledger := rl_release oid (rs_ledger s)\<rparr>)
            in if \<not> truthy secret then (failed s1, RefundFailed)
               else case fromSecret (the secret) of
                 None \<Rightarrow> (s1, RefundFailed)
               | Some key \<Rightarrow>
                  (case verify key of
                     None \<Rightarrow> (failed s1, RefundFailed)
                   | Some amount \<Rightarrow>
                       (case run_refund hz now
                               \<lparr>ra_orderId = oid, ra_stellarAddress = addr, ra_stellarTxHash = Some txHash,
                                ra_fallbackStroops = Some amount, ra_maxRetries = 2, ra_feeBumpCap = cap\<rparr> s1 of
                          (s2, Inr r) \<Rightarrow>
                            (case jm_get (rs_orders s2) oid of
                               None \<Rightarrow> s2
                             | Some ord \<Rightarrow>
                                 put_order oid (ord\<lparr>wo_status := ''refunded'', wo_refundTxHash := Some (rr_hash r)\<rparr>) s2,
                             RefundDone (rr_hash r))
                        | (s2, Inl HorizonTimeout) \<Rightarrow>
                            (s2\<lparr>rs_ledger := rl_markAmbiguous now oid ''timeout'' (rs_ledger s2)\<rparr>, RefundPending)
                        | (s2, Inl _) \<Rightarrow> (failed s2, RefundFailed))))"

text \<open>The refund in the error handler of \<open>xlm-to-eth\<close>, when the secret and the address are configured.\<close>

definition inline_refund ::
    "horizon \<Rightarrow> int \<Rightarrow> int \<Rightarrow> string \<Rightarrow> string \<Rightarrow> string option \<Rightarrow> string \<Rightarrow> watchdog_order \<Rightarrow> refund_sys
     \<Rightarrow> refund_sys \<times> refund_response" where
  "inline_refund hz now cap oid addr txHash amount order s =
     (let (l, claimed) = rl_claim oid (rs_ledger s); s1 = s\<lparr>rs_ledger := l\<rparr>;
          paid = (\<lambda>h s. put_order oid (order\<lparr>wo_status := ''refunded'', wo_refundTxHash := Some h\<rparr>) s)
      in if \<not> claimed then
           (case rl_phase oid (rs_ledger s) of
              Some (Committed tx _ _ _) \<Rightarrow> (paid tx s, RefundDone tx)
            | _ \<Rightarrow> (s, RefundFailed))
         else (case run_refund hz now
                 \<lparr>ra_orderId = oid, ra_stellarAddress = addr, ra_stellarTxHash = txHash,
                  ra_fallbackStroops = Some amount, ra_maxRetries = 2, ra_feeBumpCap = cap\<rparr> s1 of
            (s2, Inr r) \<Rightarrow> (paid (rr_hash r) s2, RefundDone (rr_hash r))
          | (s2, Inl HorizonTimeout) \<Rightarrow>
              (put_order oid (order\<lparr>wo_watchdogFailedAt := Some now\<rparr>)
                 (s2\<lparr>rs_ledger := rl_markAmbiguous now oid ''timeout'' (rs_ledger s2)\<rparr>), RefundPending)
          | (s2, Inl _) \<Rightarrow> (s2\<lparr>rs_ledger := rl_release oid (rs_ledger s2)\<rparr>, RefundFailed)))"


section \<open>No path pays\<close>

text \<open>One call of a refund path, with any answers of Horizon and of the checks before it.\<close>

inductive refund_step :: "refund_sys \<Rightarrow> refund_sys \<Rightarrow> bool" where
  tick: "refund_step s (watchdog_tick date_parse staleAfterMs cap hz now s)"
| manual: "refund_step s (fst (manual_refund hz now cap fromSecret secret verify addr txHash body s))"
| inline: "jm_get (rs_orders s) oid = Some order \<Longrightarrow>
    refund_step s (fst (inline_refund hz now cap oid addr txHash' amount order s))"

abbreviation refund_steps :: "refund_sys \<Rightarrow> refund_sys \<Rightarrow> bool" where
  "refund_steps \<equiv> refund_step\<^sup>*\<^sup>*"

text \<open>The caller has claimed the order, so the check at the start of \<open>refundXlmToUser\<close> finds it in
  flight and throws.\<close>

lemma claimed_refund:
  assumes "snd (rl_claim oid (rs_ledger s))" and "ra_orderId a = oid"
  shows "\<exists>e. run_refund hz now a (s\<lparr>rs_ledger := fst (rl_claim oid (rs_ledger s))\<rparr>)
        = (s\<lparr>rs_ledger := fst (rl_claim oid (rs_ledger s))\<rparr>, Inl e) \<and> e \<noteq> HorizonTimeout"
proof -
  have "rl_phase oid (fst (rl_claim oid (rs_ledger s))) = Some In_flight"
    using assms(1) by (simp add: rl_claim_def split: if_splits)
  then show ?thesis using assms(2) by (simp add: run_refund_def refundXlmToUser_def)
qed

definition order_view :: "string \<Rightarrow> refund_sys \<Rightarrow> (string \<times> string option) option" where
  "order_view oid s = map_option (\<lambda>r. (wo_status r, wo_refundTxHash r)) (jm_get (rs_orders s) oid)"

text \<open>No refund is recorded as paid or as possibly paid.\<close>

definition untouched :: "refund_ledger \<Rightarrow> bool" where
  "untouched l \<longleftrightarrow> (\<forall>oid. rl_phase oid l \<in> {None, Some In_flight})"

definition unpaid :: "refund_sys \<Rightarrow> refund_sys \<Rightarrow> bool" where
  "unpaid s s' \<longleftrightarrow> ob_sent (rs_out s') = ob_sent (rs_out s)
     \<and> (untouched (rs_ledger s) \<longrightarrow>
          untouched (rs_ledger s') \<and> (\<forall>oid. order_view oid s' = order_view oid s))"

lemma unpaid_refl [simp]: "unpaid s s"
  by (simp add: unpaid_def)

lemma unpaid_trans: "unpaid s s' \<Longrightarrow> unpaid s' s'' \<Longrightarrow> unpaid s s''"
  by (simp add: unpaid_def)

lemma untouched_claim: "untouched l \<Longrightarrow> untouched (fst (rl_claim oid l))"
  by (auto simp: untouched_def rl_claim_def rl_put_def rl_phase_def jm_get_set)

lemma untouched_release: "untouched l \<Longrightarrow> untouched (rl_release oid l)"
  by (auto simp: untouched_def rl_release_def rl_phase_def jm_get_delete split: option.split refund_state.split)

lemma release_claimed_unpaid:
  "unpaid s (s\<lparr>rs_ledger := rl_release oid (fst (rl_claim oid (rs_ledger s)))\<rparr>)"
  by (simp add: unpaid_def order_view_def untouched_claim untouched_release)

lemma backoff_unpaid:
  assumes "unpaid s s'" and "jm_get (rs_orders s) oid = Some order" and "rs_orders s' = rs_orders s"
  shows "unpaid s (put_order oid (order\<lparr>wo_watchdogFailedAt := t\<rparr>) s')"
  using assms by (auto simp: unpaid_def put_order_def order_view_def jm_get_set)

lemma attempt_refund_unpaid:
  assumes "jm_get (rs_orders s) oid = Some order"
  shows "unpaid s (attempt_refund date_parse staleAfterMs cap hz now oid order s)"
proof (cases "snd (rl_claim oid (rs_ledger s))")
  case False
  then show ?thesis by (simp add: attempt_refund_def split_beta Let_def split: option.split)
next
  case True
  let ?rel = "s\<lparr>rs_ledger := rl_release oid (fst (rl_claim oid (rs_ledger s)))\<rparr>"
  let ?a = "\<lparr>ra_orderId = oid, ra_stellarAddress = or_default (wo_stellarAddress order) [],
      ra_stellarTxHash = wo_stellarTxHash order, ra_fallbackStroops = wo_amount order,
      ra_maxRetries = 3, ra_feeBumpCap = cap\<rparr>"
  obtain e where e: "run_refund hz now ?a (s\<lparr>rs_ledger := fst (rl_claim oid (rs_ledger s))\<rparr>)
      = (s\<lparr>rs_ledger := fst (rl_claim oid (rs_ledger s))\<rparr>, Inl e)" "e \<noteq> HorizonTimeout"
    using claimed_refund [OF True, of ?a] by auto
  have "attempt_refund date_parse staleAfterMs cap hz now oid order s
      \<in> {s, ?rel, put_order oid (order\<lparr>wo_watchdogFailedAt := Some now\<rparr>) ?rel}"
    using True e by (cases e) (auto simp: attempt_refund_def split_beta Let_def split: option.split)
  then show ?thesis
    using release_claimed_unpaid [of s oid] backoff_unpaid [OF release_claimed_unpaid assms, of oid] by auto
qed

lemma unpaidI:
  assumes "ob_sent (rs_out s') = ob_sent (rs_out s)" and "rl_phase oid (rs_ledger s) = Some st" and "st \<noteq> In_flight"
  shows "unpaid s s'"
proof -
  have "\<not> untouched (rs_ledger s)" using assms(2,3) by (auto simp: untouched_def intro!: exI [of _ oid])
  then show ?thesis using assms(1) by (simp add: unpaid_def)
qed

lemma checkAmbiguousRefund_sent:
  assumes "checkAmbiguousRefund hz now oid order s = (s1, resolved)"
  shows "ob_sent (rs_out s1) = ob_sent (rs_out s)" and "\<not> resolved \<Longrightarrow> rs_orders s1 = rs_orders s"
  using assms by (auto simp: checkAmbiguousRefund_def Let_def put_order_def split: sum.splits option.splits)

lemma watch_order_unpaid: "unpaid s (watch_order date_parse staleAfterMs cap hz now oid s)"
proof (cases "jm_get (rs_orders s) oid")
  case (Some order)
  let ?attempt = "attempt_refund date_parse staleAfterMs cap hz now oid order"
  have sent: "ob_sent (rs_out (?attempt s1)) = ob_sent (rs_out s1)" if "rs_orders s1 = rs_orders s" for s1
    using attempt_refund_unpaid [of s1 oid order] that Some by (simp add: unpaid_def)
  show ?thesis
  proof (cases "rl_phase oid (rs_ledger s)")
    case None
    then show ?thesis using Some attempt_refund_unpaid [OF Some] by (simp add: watch_order_def)
  next
    case (Some st)
    have flying: ?thesis if "st = In_flight"
      using that Some \<open>jm_get (rs_orders s) oid = Some order\<close> attempt_refund_unpaid [of s oid order]
      by (simp add: watch_order_def)
    obtain s1 resolved where c: "checkAmbiguousRefund hz now oid order s = (s1, resolved)"
      by (cases "checkAmbiguousRefund hz now oid order s")
    have "ob_sent (rs_out (watch_order date_parse staleAfterMs cap hz now oid s)) = ob_sent (rs_out s)"
      using \<open>jm_get (rs_orders s) oid = Some order\<close> Some c checkAmbiguousRefund_sent [OF c] sent
      by (cases st; cases resolved) (simp_all add: watch_order_def put_order_def)
    then show ?thesis using Some flying unpaidI by blast
  qed
qed (simp add: watch_order_def)

lemma watchdog_tick_unpaid: "unpaid s (watchdog_tick date_parse staleAfterMs cap hz now s)"
proof -
  have "unpaid s (fold (watch_order date_parse staleAfterMs cap hz now) oids s)" for oids
    by (induction oids arbitrary: s) (auto intro: unpaid_trans watch_order_unpaid)
  then show ?thesis by (simp add: watchdog_tick_def)
qed

lemma claim_unpaid: "unpaid s (s\<lparr>rs_ledger := fst (rl_claim oid (rs_ledger s))\<rparr>)"
  by (simp add: unpaid_def order_view_def untouched_claim)

lemma manual_refund_unpaid: "unpaid s (fst (manual_refund hz now cap fromSecret secret verify addr txHash body s))"
proof -
  define oid where "oid = manual_orderId body txHash (rs_orders s)"
  let ?s1 = "s\<lparr>rs_ledger := fst (rl_claim oid (rs_ledger s))\<rparr>"
  let ?rel = "s\<lparr>rs_ledger := rl_release oid (fst (rl_claim oid (rs_ledger s)))\<rparr>"
  let ?a = "\<lambda>amount. \<lparr>ra_orderId = oid, ra_stellarAddress = addr, ra_stellarTxHash = Some txHash,
      ra_fallbackStroops = Some amount, ra_maxRetries = 2, ra_feeBumpCap = cap\<rparr>"
  have run: "\<exists>e. run_refund hz now (?a amount) ?s1 = (?s1, Inl e) \<and> e \<noteq> HorizonTimeout"
    if "rl_phase oid (rs_ledger s) = None" for amount
    using that claimed_refund [of oid s "?a amount"] by (simp add: rl_claim_def has_phase)
  have "fst (manual_refund hz now cap fromSecret secret verify addr txHash body s) \<in> {s, ?s1, ?rel}"
  proof (cases "rl_phase oid (rs_ledger s)")
    case None
    show ?thesis
    proof (cases "fromSecret (the secret)")
      case (Some key)
      show ?thesis
      proof (cases "verify key")
        case (Some amount)
        obtain e where "run_refund hz now (?a amount) ?s1 = (?s1, Inl e)" "e \<noteq> HorizonTimeout"
          using run [OF None] by blast
        then show ?thesis using None Some \<open>fromSecret (the secret) = Some key\<close>
          by (cases e) (simp_all add: manual_refund_def Let_def oid_def [symmetric])
      qed (use None Some in \<open>simp add: manual_refund_def Let_def oid_def [symmetric]\<close>)
    qed (use None in \<open>simp add: manual_refund_def Let_def oid_def [symmetric]\<close>)
  next
    case (Some st)
    then show ?thesis by (cases st) (simp_all add: manual_refund_def Let_def oid_def [symmetric])
  qed
  then show ?thesis using release_claimed_unpaid claim_unpaid by auto
qed

lemma inline_refund_unpaid: "unpaid s (fst (inline_refund hz now cap oid addr txHash amount order s))"
proof (cases "snd (rl_claim oid (rs_ledger s))")
  case True
  let ?a = "\<lparr>ra_orderId = oid, ra_stellarAddress = addr, ra_stellarTxHash = txHash,
      ra_fallbackStroops = Some amount, ra_maxRetries = 2, ra_feeBumpCap = cap\<rparr>"
  obtain e where "run_refund hz now ?a (s\<lparr>rs_ledger := fst (rl_claim oid (rs_ledger s))\<rparr>)
      = (s\<lparr>rs_ledger := fst (rl_claim oid (rs_ledger s))\<rparr>, Inl e)" "e \<noteq> HorizonTimeout"
    using claimed_refund [OF True, of ?a] by auto
  then have "fst (inline_refund hz now cap oid addr txHash amount order s)
      = s\<lparr>rs_ledger := rl_release oid (fst (rl_claim oid (rs_ledger s)))\<rparr>"
    using True by (cases e) (simp_all add: inline_refund_def Let_def split_beta)
  then show ?thesis using release_claimed_unpaid by simp
next
  case False
  then obtain st where st: "rl_phase oid (rs_ledger s) = Some st"
    by (auto simp: rl_claim_def has_phase split: if_splits)
  have flying: ?thesis if "st = In_flight" using that st False by (simp add: inline_refund_def Let_def split_beta)
  have "ob_sent (rs_out (fst (inline_refund hz now cap oid addr txHash amount order s))) = ob_sent (rs_out s)"
    by (use False st in \<open>cases st; simp add: inline_refund_def Let_def split_beta put_order_def\<close>)
  then show ?thesis using st flying unpaidI by blast
qed

text \<open>C28. No refund is ever paid: through any sequence of watchdog ticks, manual refunds and automatic
  refunds, whatever Horizon answers, no payment is submitted; and when the ledger records no refund
  as committed or ambiguous at the start, it never does, and no order gets a refund hash or the status
  \<open>refunded\<close>. Each path claims the order in the ledger and then calls \<open>refundXlmToUser\<close> with the ledger,
  which takes the caller's own claim for a duplicate.\<close>

theorem no_refund_is_paid:
  assumes "refund_steps s s'"
  shows "ob_sent (rs_out s') = ob_sent (rs_out s)
    \<and> ((\<forall>oid. rl_phase oid (rs_ledger s) \<in> {None, Some In_flight}) \<longrightarrow>
        (\<forall>oid. rl_phase oid (rs_ledger s') \<in> {None, Some In_flight}
             \<and> map_option (\<lambda>r. (wo_status r, wo_refundTxHash r)) (jm_get (rs_orders s') oid)
               = map_option (\<lambda>r. (wo_status r, wo_refundTxHash r)) (jm_get (rs_orders s) oid)))"
proof -
  have one: "unpaid s s'" if "refund_step s s'" for s s'
    using that watchdog_tick_unpaid manual_refund_unpaid inline_refund_unpaid
    by (cases rule: refund_step.cases) auto
  have "unpaid s s'" using assms by (induction rule: rtranclp_induct) (auto intro: unpaid_trans one)
  then show ?thesis by (auto simp: unpaid_def untouched_def order_view_def)
qed

definition stale_order :: watchdog_order where
  "stale_order = \<lparr>wo_direction = ''xlm_to_eth'', wo_status = ''pending'', wo_stellarAddress = Some ''GUSER'',
     wo_stellarTxHash = Some ''t'', wo_xlmReceivedAt = Some (TsNumber 1), wo_created = None, wo_amount = Some ''5'',
     wo_refundTxHash = None, wo_refundedAt = None, wo_watchdogFailedAt = None\<rparr>"

definition stale_sys :: refund_sys where
  "stale_sys = \<lparr>rs_ledger = new_RefundLedger (Some []), rs_orders = [(''o1'', stale_order)],
     rs_out = \<lparr>ob_calls = 10, ob_sent = []\<rparr>\<rparr>"

text \<open>The order is due and Horizon would accept the payment, but none is submitted.\<close>

theorem no_refund_is_paid_witness:
  "isXlmToEthAwaitingEth stale_order
   \<and> (\<exists>r. snd (refundXlmToUser flaky_horizon 0 sample_args None (rs_out stale_sys)) = Inr r)
   \<and> ob_sent (rs_out (watchdog_tick (\<lambda>_. None) 300000 10000 flaky_horizon 600000 stale_sys)) = []"
proof (intro conjI)
  let ?s' = "watchdog_tick (\<lambda>_. None) 300000 10000 flaky_horizon 600000 stale_sys"
  show "isXlmToEthAwaitingEth stale_order" by code_simp
  have "\<not> isl (snd (refundXlmToUser flaky_horizon 0 sample_args None (rs_out stale_sys)))" by code_simp
  then show "\<exists>r. snd (refundXlmToUser flaky_horizon 0 sample_args None (rs_out stale_sys)) = Inr r"
    by (cases "snd (refundXlmToUser flaky_horizon 0 sample_args None (rs_out stale_sys))") auto
  have "refund_steps stale_sys ?s'" by (rule r_into_rtranclp) (rule refund_step.tick)
  from no_refund_is_paid [OF this] show "ob_sent (rs_out ?s') = []" by (simp add: stale_sys_def)
qed

end
