(* ===== verification/Js_Objects.thy ===== *)
theory Js_Objects
  imports Js_Numbers
begin

text \<open>
  Object literals read with a computed key, and \<open>toUpperCase\<close>.

  \<open>table[key]\<close> on an object literal also finds what the literal inherits from \<open>Object.prototype\<close>:
  the lookup of \<open>constructor\<close> is a function, not \<open>undefined\<close>. The tables of the program are literals
  without a null prototype, so the three outcomes are kept apart; an inherited value is known by its key.
\<close>

section \<open>Lookups\<close>

datatype 'a lookup = Own 'a | Inherited string | Absent

definition OBJECT_PROTOTYPE :: "string list" where
  "OBJECT_PROTOTYPE =
     [''constructor'', ''__defineGetter__'', ''__defineSetter__'', ''hasOwnProperty'', ''__lookupGetter__'',
      ''__lookupSetter__'', ''isPrototypeOf'', ''propertyIsEnumerable'', ''toString'', ''valueOf'', ''__proto__'',
      ''toLocaleString'']"

definition obj_lookup :: "(string \<times> 'a) list \<Rightarrow> string \<Rightarrow> 'a lookup" where
  "obj_lookup obj key =
     (case map_of obj key of
        Some v \<Rightarrow> Own v
      | None \<Rightarrow> if key \<in> set OBJECT_PROTOTYPE then Inherited key else Absent)"

lemma obj_lookup_Own: "obj_lookup obj key = Own v \<longleftrightarrow> map_of obj key = Some v"
  by (auto simp: obj_lookup_def split: option.splits)

section \<open>Strings\<close>

text \<open>\<open>parts.join(sep)\<close>.\<close>

fun join_with :: "string \<Rightarrow> string list \<Rightarrow> string" where
  "join_with sep [] = []"
| "join_with sep [x] = x"
| "join_with sep (x # y # xs) = x @ sep @ join_with sep (y # xs)"

definition upper_char :: "char \<Rightarrow> char" where
  "upper_char c = (let n = (of_char c :: nat) in if 97 \<le> n \<and> n \<le> 122 then char_of (n - 32) else c)"

lemma upper_char_code [code]:
  "upper_char (Char b0 b1 b2 b3 b4 b5 b6 b7) =
     (if \<not> b7 \<and> b6 \<and> b5 \<and> (b0 \<or> b1 \<or> b2 \<or> b3 \<or> b4) \<and> \<not> (b4 \<and> b3 \<and> (b2 \<or> b1 \<and> b0))
      then Char b0 b1 b2 b3 b4 False b6 b7 else Char b0 b1 b2 b3 b4 b5 b6 b7)"
  unfolding upper_char_def Let_def
  by (cases b7; cases b6; cases b5; cases b4; cases b3; cases b2; cases b1; cases b0; simp add: char_of_def bit_iff_odd)

definition toUpperCase :: "string \<Rightarrow> string" where
  "toUpperCase s = map upper_char s"

end
