(* ===== verification/Support_Policy.thy ===== *)
theory Support_Policy
  imports Js_Objects
begin

text \<open>
  The support policy of \<open>packages/config/src/support-policy.ts\<close>: what the relayer and the resolver can
  do on which chain, derived from the implemented-capability tables and the loaded configuration, with
  the placeholder detection of \<open>soroban-chain-config.ts\<close> and \<open>solana-placeholder.ts\<close>.

  A verdict keeps the denial code; the explanatory texts of verdicts and validation messages, and the
  operator-facing rendering \<open>formatSupportPolicy\<close>, are not modelled. The \<open>reason\<close> of a chain is, since
  the validation reads it.
\<close>

section \<open>Axes\<close>

datatype runtime_kind = Relayer | Resolver

datatype supported_chain = Ch_ethereum | Ch_stellar | Ch_solana

datatype supported_action = Observe | Lock | ClaimFunds | RefundFunds | SettleFunds | Register

datatype token_class = Native | Erc20 | Stellar_asset | Spl

datatype support_level = Full | Partial | Observe_only | Unconfigured | Placeholder | Unimplemented

datatype network_mode = Mode_testnet | Mode_mainnet

definition SUPPORTED_CHAINS :: "supported_chain list" where
  "SUPPORTED_CHAINS = [Ch_ethereum, Ch_stellar, Ch_solana]"

definition SUPPORTED_ACTIONS :: "supported_action list" where
  "SUPPORTED_ACTIONS = [Observe, Lock, ClaimFunds, RefundFunds, SettleFunds, Register]"

fun policy_chain_name :: "supported_chain \<Rightarrow> string" where
  "policy_chain_name Ch_ethereum = ''ethereum''"
| "policy_chain_name Ch_stellar = ''stellar''"
| "policy_chain_name Ch_solana = ''solana''"

fun token_name :: "token_class \<Rightarrow> string" where
  "token_name Native = ''native''"
| "token_name Erc20 = ''erc20''"
| "token_name Stellar_asset = ''stellar-asset''"
| "token_name Spl = ''spl''"

fun policy_action_name :: "supported_action \<Rightarrow> string" where
  "policy_action_name Observe = ''observe''"
| "policy_action_name Lock = ''lock''"
| "policy_action_name ClaimFunds = ''claim''"
| "policy_action_name RefundFunds = ''refund''"
| "policy_action_name SettleFunds = ''settle''"
| "policy_action_name Register = ''register''"

fun runtime_name :: "runtime_kind \<Rightarrow> string" where
  "runtime_name Relayer = ''relayer''"
| "runtime_name Resolver = ''resolver''"

section \<open>Chain names\<close>

definition CHAIN_ALIASES :: "(string \<times> supported_chain) list" where
  "CHAIN_ALIASES =
     [(''ethereum'', Ch_ethereum), (''eth'', Ch_ethereum), (''evm'', Ch_ethereum), (''sepolia'', Ch_ethereum),
      (''stellar'', Ch_stellar), (''soroban'', Ch_stellar), (''xlm'', Ch_stellar), (''solana'', Ch_solana),
      (''sol'', Ch_solana), (''svm'', Ch_solana)]"

text \<open>\<open>Absent\<close> is the answer \<open>null\<close>.\<close>

definition normaliseChain :: "string option \<Rightarrow> supported_chain lookup" where
  "normaliseChain raw =
     (case raw of
        None \<Rightarrow> Absent
      | Some s \<Rightarrow>
          let key = toLowerCase (js_trim s)
          in if key = [] then Absent else obj_lookup CHAIN_ALIASES key)"

definition isSupportedChain :: "string \<Rightarrow> bool" where
  "isSupportedChain raw = (raw \<in> set (map policy_chain_name SUPPORTED_CHAINS))"

section \<open>Implemented capability\<close>

fun IMPLEMENTED_ACTIONS :: "runtime_kind \<Rightarrow> supported_chain \<Rightarrow> supported_action list" where
  "IMPLEMENTED_ACTIONS Relayer Ch_ethereum = [Observe, Lock, ClaimFunds, SettleFunds, RefundFunds]"
| "IMPLEMENTED_ACTIONS Relayer Ch_stellar = [Observe, Lock, SettleFunds, RefundFunds]"
| "IMPLEMENTED_ACTIONS Relayer Ch_solana = []"
| "IMPLEMENTED_ACTIONS Resolver Ch_ethereum = [Observe, ClaimFunds, RefundFunds, Register]"
| "IMPLEMENTED_ACTIONS Resolver Ch_stellar = [Observe, ClaimFunds, RefundFunds]"
| "IMPLEMENTED_ACTIONS Resolver Ch_solana = []"

fun IMPLEMENTED_TOKEN_CLASSES :: "runtime_kind \<Rightarrow> supported_chain \<Rightarrow> token_class list" where
  "IMPLEMENTED_TOKEN_CLASSES Relayer Ch_ethereum = [Native]"
| "IMPLEMENTED_TOKEN_CLASSES Relayer Ch_stellar = [Native]"
| "IMPLEMENTED_TOKEN_CLASSES Relayer Ch_solana = []"
| "IMPLEMENTED_TOKEN_CLASSES Resolver Ch_ethereum = [Native, Erc20]"
| "IMPLEMENTED_TOKEN_CLASSES Resolver Ch_stellar = [Native, Stellar_asset]"
| "IMPLEMENTED_TOKEN_CLASSES Resolver Ch_solana = []"

record leg_requirements =
  leg_source :: "supported_action list"
  leg_destination :: "supported_action list"

fun ROUTE_ACTION_REQUIREMENTS :: "runtime_kind \<Rightarrow> leg_requirements" where
  "ROUTE_ACTION_REQUIREMENTS Relayer = \<lparr>leg_source = [Lock], leg_destination = [SettleFunds]\<rparr>"
| "ROUTE_ACTION_REQUIREMENTS Resolver = \<lparr>leg_source = [Observe], leg_destination = [ClaimFunds]\<rparr>"

section \<open>Policies and verdicts\<close>

record chain_support =
  cs_chain :: supported_chain
  cs_level :: support_level
  cs_actions :: "supported_action list"
  cs_tokenClasses :: "token_class list"
  cs_reason :: "string option"

record route_support =
  rt_from :: supported_chain
  rt_to :: supported_chain
  rt_tokenClasses :: "token_class list"

record support_policy =
  sp_runtime :: runtime_kind
  sp_network :: network_mode
  sp_chains :: "supported_chain \<Rightarrow> chain_support"
  sp_routes :: "route_support list"

datatype denial_code = CHAIN_UNKNOWN | CHAIN_UNIMPLEMENTED | CHAIN_UNCONFIGURED | CHAIN_PLACEHOLDER
  | ACTION_UNSUPPORTED | TOKEN_CLASS_UNSUPPORTED | ROUTE_UNSUPPORTED | ROUTE_SAME_CHAIN

text \<open>A check may also throw: the code reads fields of what a lookup returned.\<close>

datatype verdict = Supported | Denied denial_code | Type_error

fun levelDenialCode :: "support_level \<Rightarrow> denial_code" where
  "levelDenialCode Unimplemented = CHAIN_UNIMPLEMENTED"
| "levelDenialCode Placeholder = CHAIN_PLACEHOLDER"
| "levelDenialCode _ = CHAIN_UNCONFIGURED"

section \<open>Queries\<close>

text \<open>The support record found under the canonical chain; an inherited value is no key of \<open>chains\<close>,
  so nothing is found under it.\<close>

definition getChainSupport :: "support_policy \<Rightarrow> string \<Rightarrow> chain_support option" where
  "getChainSupport policy chain =
     (case normaliseChain (Some chain) of Own c \<Rightarrow> Some (sp_chains policy c) | _ \<Rightarrow> None)"

definition supportsChain :: "support_policy \<Rightarrow> string \<Rightarrow> verdict" where
  "supportsChain policy chain =
     (case normaliseChain (Some chain) of
        Absent \<Rightarrow> Denied CHAIN_UNKNOWN
      | Inherited _ \<Rightarrow> Type_error
      | Own c \<Rightarrow>
          let support = sp_chains policy c
          in if cs_actions support = [] then Denied (levelDenialCode (cs_level support)) else Supported)"

definition supportsAction :: "support_policy \<Rightarrow> string \<Rightarrow> supported_action \<Rightarrow> verdict" where
  "supportsAction policy chain action =
     (let chainVerdict = supportsChain policy chain
      in if chainVerdict \<noteq> Supported then chainVerdict
         else case normaliseChain (Some chain) of
             Own c \<Rightarrow> if action \<in> set (cs_actions (sp_chains policy c)) then Supported else Denied ACTION_UNSUPPORTED
           | _ \<Rightarrow> Type_error)"

definition supportsTokenClass :: "support_policy \<Rightarrow> string \<Rightarrow> string \<Rightarrow> verdict" where
  "supportsTokenClass policy chain tokenClass =
     (let chainVerdict = supportsChain policy chain
      in if chainVerdict \<noteq> Supported then chainVerdict
         else case normaliseChain (Some chain) of
             Own c \<Rightarrow> if tokenClass \<in> set (map token_name (cs_tokenClasses (sp_chains policy c))) then Supported
                       else Denied TOKEN_CLASS_UNSUPPORTED
           | _ \<Rightarrow> Type_error)"

record route_query =
  rq_from :: "string option"
  rq_to :: "string option"
  rq_tokenClass :: "string option"

text \<open>The loop over a leg's required actions stops at the first refusal; an inherited value has no
  \<open>trim\<close> method, so asking about it throws.\<close>

fun leg_verdict :: "support_policy \<Rightarrow> supported_chain lookup \<Rightarrow> supported_action list \<Rightarrow> verdict" where
  "leg_verdict policy chain [] = Supported"
| "leg_verdict policy chain (a # as) =
     (let v = (case chain of Own c \<Rightarrow> supportsAction policy (policy_chain_name c) a | _ \<Rightarrow> Type_error)
      in if v = Supported then leg_verdict policy chain as else v)"

definition route_verdict :: "support_policy \<Rightarrow> supported_chain lookup \<Rightarrow> supported_chain lookup \<Rightarrow> string option \<Rightarrow> verdict" where
  "route_verdict policy from to tokenClass =
     (case find (\<lambda>r. Own (rt_from r) = from \<and> Own (rt_to r) = to) (sp_routes policy) of
        None \<Rightarrow> Denied ROUTE_UNSUPPORTED
      | Some r \<Rightarrow>
          (case tokenClass of
             None \<Rightarrow> Supported
           | Some t \<Rightarrow> if t \<in> set (map token_name (rt_tokenClasses r)) then Supported
                        else Denied TOKEN_CLASS_UNSUPPORTED))"

definition supportsRoute :: "support_policy \<Rightarrow> route_query \<Rightarrow> verdict" where
  "supportsRoute policy query =
     (let from = normaliseChain (rq_from query); to = normaliseChain (rq_to query);
          requirements = ROUTE_ACTION_REQUIREMENTS (sp_runtime policy)
      in if from = Absent then Denied CHAIN_UNKNOWN
         else if to = Absent then Denied CHAIN_UNKNOWN
         else if from = to then Denied ROUTE_SAME_CHAIN
         else let source = leg_verdict policy from (leg_source requirements)
              in if source \<noteq> Supported then source
                 else let destination = leg_verdict policy to (leg_destination requirements)
                      in if destination \<noteq> Supported then destination
                         else route_verdict policy from to (rq_tokenClass query))"

definition isActionable :: "support_policy \<Rightarrow> bool" where
  "isActionable policy = (sp_routes policy \<noteq> [])"

section \<open>Route generation\<close>

definition route_of ::
    "runtime_kind \<Rightarrow> (supported_chain \<Rightarrow> chain_support) \<Rightarrow> supported_chain \<Rightarrow> supported_chain \<Rightarrow> route_support list" where
  "route_of runtime supports from to =
     (let requirements = ROUTE_ACTION_REQUIREMENTS runtime;
          sourceOk = list_all (\<lambda>a. a \<in> set (cs_actions (supports from))) (leg_source requirements);
          destOk = list_all (\<lambda>a. a \<in> set (cs_actions (supports to))) (leg_destination requirements)
      in if from = to then []
         else if \<not> sourceOk \<or> \<not> destOk then []
         else if cs_tokenClasses (supports from) = [] then []
         else [\<lparr>rt_from = from, rt_to = to, rt_tokenClasses = cs_tokenClasses (supports from)\<rparr>])"

definition generateRoutes :: "runtime_kind \<Rightarrow> (supported_chain \<Rightarrow> chain_support) \<Rightarrow> route_support list" where
  "generateRoutes runtime supports =
     concat (map (\<lambda>from. concat (map (route_of runtime supports from) SUPPORTED_CHAINS)) SUPPORTED_CHAINS)"

section \<open>Validation\<close>

datatype policy_error = NO_SUPPORTED_CHAIN | NO_SUPPORTED_ROUTE | ACTION_NOT_IMPLEMENTED | LEVEL_CONTRADICTS_ACTIONS
  | MISSING_TOKEN_CLASS | ROUTE_CHAIN_INCAPABLE | REASON_MISSING

datatype policy_warning = Warn_observe_only | Warn_partial | Warn_unconfigured | Warn_placeholder | Warn_unimplemented
  | Warn_partial_route_coverage

datatype subject = Subj_chain supported_chain | Subj_route supported_chain supported_chain | Subj_runtime runtime_kind

record policy_validation =
  pv_ok :: bool
  pv_errors :: "(policy_error \<times> subject) list"
  pv_warnings :: "(policy_warning \<times> subject) list"

definition push_if :: "bool \<Rightarrow> 'a \<Rightarrow> 'a list" where
  "push_if b x = (if b then [x] else [])"

definition chain_errors :: "support_policy \<Rightarrow> supported_chain \<Rightarrow> (policy_error \<times> subject) list" where
  "chain_errors policy chain =
     (let support = sp_chains policy chain; implemented = IMPLEMENTED_ACTIONS (sp_runtime policy) chain;
          unusableLevel = cs_level support \<in> {Unconfigured, Placeholder, Unimplemented}
      in map (\<lambda>_. (ACTION_NOT_IMPLEMENTED, Subj_chain chain)) (filter (\<lambda>a. a \<notin> set implemented) (cs_actions support))
         @ push_if (unusableLevel \<and> cs_actions support \<noteq> []) (LEVEL_CONTRADICTS_ACTIONS, Subj_chain chain)
         @ push_if (cs_actions support \<noteq> [] \<and> cs_tokenClasses support = []) (MISSING_TOKEN_CLASS, Subj_chain chain)
         @ push_if (cs_level support \<noteq> Full \<and> \<not> truthy (cs_reason support)) (REASON_MISSING, Subj_chain chain))"

definition chain_warnings :: "support_policy \<Rightarrow> supported_chain \<Rightarrow> (policy_warning \<times> subject) list" where
  "chain_warnings policy chain =
     (case cs_level (sp_chains policy chain) of
        Observe_only \<Rightarrow> [(Warn_observe_only, Subj_chain chain)]
      | Partial \<Rightarrow> [(Warn_partial, Subj_chain chain)]
      | Unconfigured \<Rightarrow> [(Warn_unconfigured, Subj_chain chain)]
      | Placeholder \<Rightarrow> [(Warn_placeholder, Subj_chain chain)]
      | Unimplemented \<Rightarrow> [(Warn_unimplemented, Subj_chain chain)]
      | Full \<Rightarrow> [])"

definition route_errors :: "support_policy \<Rightarrow> route_support \<Rightarrow> (policy_error \<times> subject) list" where
  "route_errors policy r =
     (let requirements = ROUTE_ACTION_REQUIREMENTS (sp_runtime policy); subj = Subj_route (rt_from r) (rt_to r);
          incapable = (\<lambda>chain as. map (\<lambda>_. (ROUTE_CHAIN_INCAPABLE, subj))
                         (filter (\<lambda>a. a \<notin> set (cs_actions (sp_chains policy chain))) as))
      in incapable (rt_from r) (leg_source requirements) @ incapable (rt_to r) (leg_destination requirements)
         @ push_if (rt_tokenClasses r = []) (MISSING_TOKEN_CLASS, subj))"

definition validateSupportPolicy :: "support_policy \<Rightarrow> policy_validation" where
  "validateSupportPolicy policy =
     (let subj = Subj_runtime (sp_runtime policy);
          usableChains = filter (\<lambda>c. cs_actions (sp_chains policy c) \<noteq> []) SUPPORTED_CHAINS;
          totalPairs = length SUPPORTED_CHAINS * (length SUPPORTED_CHAINS - 1);
          errors = concat (map (chain_errors policy) SUPPORTED_CHAINS)
            @ concat (map (route_errors policy) (sp_routes policy))
            @ push_if (usableChains = []) (NO_SUPPORTED_CHAIN, subj)
            @ push_if (sp_routes policy = []) (NO_SUPPORTED_ROUTE, subj);
          warnings = concat (map (chain_warnings policy) SUPPORTED_CHAINS)
            @ push_if (sp_routes policy \<noteq> [] \<and> length (sp_routes policy) < totalPairs) (Warn_partial_route_coverage, subj)
      in \<lparr>pv_ok = (errors = []), pv_errors = errors, pv_warnings = warnings\<rparr>)"

text \<open>\<open>Inl\<close> is the thrown \<open>SupportPolicyValidationError\<close>.\<close>

definition assertSupportPolicy :: "support_policy \<Rightarrow> policy_validation + unit" where
  "assertSupportPolicy policy =
     (let validation = validateSupportPolicy policy in if \<not> pv_ok validation then Inl validation else Inr ())"

section \<open>Introspection\<close>

record policy_summary_data =
  ps_runtime :: runtime_kind
  ps_network :: network_mode
  ps_actionable :: bool
  ps_chains :: "chain_support list"
  ps_routes :: "route_support list"
  ps_unsupportedRoutes :: "(supported_chain \<times> supported_chain \<times> verdict) list"

definition describeSupportPolicy :: "support_policy \<Rightarrow> policy_summary_data" where
  "describeSupportPolicy policy =
     \<lparr>ps_runtime = sp_runtime policy, ps_network = sp_network policy, ps_actionable = isActionable policy,
      ps_chains = map (\<lambda>c. (sp_chains policy c)\<lparr>cs_chain := c\<rparr>) SUPPORTED_CHAINS,
      ps_routes = sp_routes policy,
      ps_unsupportedRoutes = concat (map (\<lambda>from. concat (map (\<lambda>to.
        let v = supportsRoute policy \<lparr>rq_from = Some (policy_chain_name from), rq_to = Some (policy_chain_name to), rq_tokenClass = None\<rparr>
        in push_if (from \<noteq> to \<and> v \<noteq> Supported) (from, to, v)) SUPPORTED_CHAINS)) SUPPORTED_CHAINS)\<rparr>"

section \<open>Placeholders\<close>

definition CONTRACT_PLACEHOLDER_VALUES :: "string list" where
  "CONTRACT_PLACEHOLDER_VALUES =
     ['''', ''PLACEHOLDER'', ''YOUR_CONTRACT_ID'', ''YOUR_SOROBAN_CONTRACT'', ''YOUR_SOROBAN_HTLC'',
      ''YOUR_RESOLVER_REGISTRY'', ''YOUR_ETH_HTLC_ESCROW'', ''YOUR_ETH_RESOLVER_REGISTRY'',
      ''YOUR_SOLANA_HTLC_PROGRAM'', ''YOUR_SOLANA_PROGRAM'', ''YOUR_PROGRAM_ID'',
      ''CAAAAAAAAAAAAAAAAAAAAAAAAAAAAAAAAAAAAAAAAAAAAAAAAAAAB42222'', ''11111111111111111111111111111111'',
      ''0X0000000000000000000000000000000000000000'', ''0X1111111111111111111111111111111111111111'',
      ''0x0000000000000000000000000000000000000000'', ''0x1111111111111111111111111111111111111111'']"

definition isPlaceholderValue :: "string option \<Rightarrow> bool" where
  "isPlaceholderValue value =
     (case value of
        None \<Rightarrow> True
      | Some v \<Rightarrow>
          let trimmed = js_trim v; upper = toUpperCase trimmed
          in trimmed = [] \<or> upper \<in> set CONTRACT_PLACEHOLDER_VALUES \<or> str_includes upper ''PLACEHOLDER''
             \<or> startsWith upper ''YOUR_'')"

definition normaliseContractId :: "string option \<Rightarrow> string option" where
  "normaliseContractId raw = (if isPlaceholderValue raw then None else map_option js_trim raw)"

definition SOLANA_PLACEHOLDER_VALUES :: "string list" where
  "SOLANA_PLACEHOLDER_VALUES =
     [''PLACEHOLDER'', ''YOUR_SOLANA_HTLC_PROGRAM'', ''YOUR_SOLANA_PROGRAM'', ''YOUR_PROGRAM_ID'',
      ''11111111111111111111111111111111'']"

definition isSolanaPlaceholder :: "string option \<Rightarrow> bool" where
  "isSolanaPlaceholder programId =
     (case programId of
        None \<Rightarrow> True
      | Some p \<Rightarrow>
          let upper = toUpperCase (js_trim p)
          in js_trim p = [] \<or> upper \<in> set SOLANA_PLACEHOLDER_VALUES \<or> str_includes upper ''PLACEHOLDER''
             \<or> startsWith upper ''YOUR_'')"

datatype solana_status = Solana_placeholder | Solana_configured

definition checkSolanaConfig :: "string option \<Rightarrow> solana_status" where
  "checkSolanaConfig programId = (if isSolanaPlaceholder programId then Solana_placeholder else Solana_configured)"

definition isPresentButPlaceholder :: "string option \<Rightarrow> bool" where
  "isPresentButPlaceholder value =
     (case value of None \<Rightarrow> False | Some v \<Rightarrow> js_trim v \<noteq> [] \<and> isPlaceholderValue value)"

section \<open>Builders\<close>

definition buildChainSupport ::
    "runtime_kind \<Rightarrow> supported_chain \<Rightarrow> supported_action list \<Rightarrow> string option \<Rightarrow> bool \<Rightarrow> chain_support" where
  "buildChainSupport runtime chain available unavailableReason placeholder =
     (let implemented = IMPLEMENTED_ACTIONS runtime chain;
          tokenClasses = IMPLEMENTED_TOKEN_CLASSES runtime chain;
          actions = filter (\<lambda>a. a \<in> set available) implemented;
          missing = filter (\<lambda>a. a \<notin> set actions) implemented
      in if implemented = []
         then \<lparr>cs_chain = chain, cs_level = Unimplemented, cs_actions = [], cs_tokenClasses = [],
               cs_reason = Some (or_default unavailableReason
                 (''no '' @ runtime_name runtime @ '' code path exists for '' @ policy_chain_name chain))\<rparr>
         else if actions = []
         then \<lparr>cs_chain = chain, cs_level = (if placeholder then Placeholder else Unconfigured), cs_actions = [],
               cs_tokenClasses = [],
               cs_reason = Some (or_default unavailableReason (policy_chain_name chain @ '' configuration is absent''))\<rparr>
         else if length actions = length implemented
         then \<lparr>cs_chain = chain, cs_level = Full, cs_actions = actions, cs_tokenClasses = tokenClasses, cs_reason = None\<rparr>
         else \<lparr>cs_chain = chain, cs_level = (if length actions = 1 \<and> hd actions = Observe then Observe_only else Partial),
               cs_actions = actions, cs_tokenClasses = tokenClasses,
               cs_reason = Some (or_default unavailableReason
                 (''unavailable actions on '' @ policy_chain_name chain @ '': '' @ join_with '', '' (map policy_action_name missing)))\<rparr>)"

definition not_configured :: "string list \<Rightarrow> string option" where
  "not_configured missing = (if missing = [] then None else Some (''not configured: '' @ join_with '', '' missing))"

record resolver_input =
  ri_network :: network_mode
  ri_ethRpcUrl :: string
  ri_htlcEscrow :: "string option"
  ri_ethRegistry :: "string option"
  ri_privateKey :: "string option"
  ri_sorobanRpcUrl :: string
  ri_htlc :: "string option"
  ri_sorobanRegistry :: "string option"
  ri_resolverSecret :: "string option"

definition resolver_ethereum :: "resolver_input \<Rightarrow> chain_support" where
  "resolver_ethereum input =
     (let ethRpc = \<not> isPlaceholderValue (Some (ri_ethRpcUrl input));
          ethKey = \<not> isPlaceholderValue (ri_privateKey input);
          ethEscrow = \<not> isPlaceholderValue (ri_htlcEscrow input);
          ethRegistry = \<not> isPlaceholderValue (ri_ethRegistry input);
          actions = push_if ethRpc Observe
            @ (if ethRpc \<and> ethKey \<and> ethEscrow then [ClaimFunds, RefundFunds] else [])
            @ push_if (ethRpc \<and> ethKey \<and> ethRegistry) Register;
          missing = push_if (\<not> ethRpc) ''ETHEREUM_RPC_URL'' @ push_if (\<not> ethKey) ''RESOLVER_ETH_PRIVATE_KEY''
            @ push_if (\<not> ethEscrow) ''ETH_HTLC_ESCROW'' @ push_if (\<not> ethRegistry) ''ETH_RESOLVER_REGISTRY''
      in buildChainSupport Resolver Ch_ethereum actions (not_configured missing)
           (list_ex isPresentButPlaceholder [Some (ri_ethRpcUrl input), ri_htlcEscrow input, ri_ethRegistry input]))"

definition resolver_stellar :: "resolver_input \<Rightarrow> chain_support" where
  "resolver_stellar input =
     (let sorRpc = \<not> isPlaceholderValue (Some (ri_sorobanRpcUrl input));
          sorSecret = \<not> isPlaceholderValue (ri_resolverSecret input);
          sorHtlc = \<not> isPlaceholderValue (ri_htlc input);
          actions = push_if sorRpc Observe @ (if sorRpc \<and> sorSecret \<and> sorHtlc then [ClaimFunds, RefundFunds] else []);
          missing = push_if (\<not> sorRpc) ''SOROBAN_RPC_URL'' @ push_if (\<not> sorSecret) ''RESOLVER_STELLAR_SECRET''
            @ push_if (\<not> sorHtlc) ''SOROBAN_HTLC_CONTRACT''
      in buildChainSupport Resolver Ch_stellar actions (not_configured missing)
           (list_ex isPresentButPlaceholder [Some (ri_sorobanRpcUrl input), ri_htlc input]))"

definition buildResolverSupportPolicy :: "resolver_input \<Rightarrow> support_policy" where
  "buildResolverSupportPolicy input =
     (let supports = (\<lambda>c. case c of
            Ch_ethereum \<Rightarrow> resolver_ethereum input
          | Ch_stellar \<Rightarrow> resolver_stellar input
          | Ch_solana \<Rightarrow> buildChainSupport Resolver Ch_solana [] None False)
      in \<lparr>sp_runtime = Resolver, sp_network = ri_network input, sp_chains = supports,
          sp_routes = generateRoutes Resolver supports\<rparr>)"

record relayer_input =
  rl_network :: network_mode
  rl_rpcUrl :: string
  rl_privateKey :: string
  rl_escrowFactory :: "string option"
  rl_horizonUrl :: string
  rl_secretKey :: string
  rl_programId :: "string option"

definition relayer_ethereum :: "relayer_input \<Rightarrow> chain_support" where
  "relayer_ethereum input =
     (let ethRpc = \<not> isPlaceholderValue (Some (rl_rpcUrl input));
          ethKey = \<not> isPlaceholderValue (Some (rl_privateKey input));
          ethFactory = \<not> isPlaceholderValue (rl_escrowFactory input);
          actions = push_if ethRpc Observe
            @ (if ethRpc \<and> ethKey \<and> ethFactory then [Lock, ClaimFunds, SettleFunds, RefundFunds] else []);
          missing = push_if (\<not> ethRpc) ''ETHEREUM_RPC_URL'' @ push_if (\<not> ethKey) ''RELAYER_PRIVATE_KEY''
            @ push_if (\<not> ethFactory) ''ESCROW_FACTORY_ADDRESS''
      in buildChainSupport Relayer Ch_ethereum actions (not_configured missing)
           (list_ex isPresentButPlaceholder [Some (rl_rpcUrl input), rl_escrowFactory input]))"

definition relayer_stellar :: "relayer_input \<Rightarrow> chain_support" where
  "relayer_stellar input =
     (let horizon = \<not> isPlaceholderValue (Some (rl_horizonUrl input));
          stellarKey = \<not> isPlaceholderValue (Some (rl_secretKey input));
          actions = push_if horizon Observe @ (if horizon \<and> stellarKey then [Lock, SettleFunds, RefundFunds] else []);
          missing = push_if (\<not> horizon) ''STELLAR_HORIZON_URL'' @ push_if (\<not> stellarKey) ''RELAYER_STELLAR_SECRET''
      in buildChainSupport Relayer Ch_stellar actions (not_configured missing)
           (isPresentButPlaceholder (Some (rl_horizonUrl input))))"

definition relayer_solana :: "relayer_input \<Rightarrow> chain_support" where
  "relayer_solana input =
     (let solanaPlaceholder = isSolanaPlaceholder (rl_programId input)
      in buildChainSupport Relayer Ch_solana []
           (Some (if solanaPlaceholder then ''SOLANA_HTLC_PROGRAM is a placeholder and no settlement path is implemented''
                  else ''no relayer settlement path is implemented for Solana''))
           solanaPlaceholder)"

definition buildRelayerSupportPolicy :: "relayer_input \<Rightarrow> support_policy" where
  "buildRelayerSupportPolicy input =
     (let supports = (\<lambda>c. case c of
            Ch_ethereum \<Rightarrow> relayer_ethereum input
          | Ch_stellar \<Rightarrow> relayer_stellar input
          | Ch_solana \<Rightarrow> relayer_solana input)
      in \<lparr>sp_runtime = Relayer, sp_network = rl_network input, sp_chains = supports,
          sp_routes = generateRoutes Relayer supports\<rparr>)"

section \<open>Chain names and legs\<close>

lemma normalise_canonical:
  "normaliseChain (Some ''ethereum'') = Own Ch_ethereum" "normaliseChain (Some ''stellar'') = Own Ch_stellar"
  "normaliseChain (Some ''solana'') = Own Ch_solana"
  by code_simp+

lemma normalise_chain_name [simp]: "normaliseChain (Some (policy_chain_name c)) = Own c"
  by (cases c) (simp_all add: normalise_canonical)

lemma in_SUPPORTED_CHAINS [simp]: "c \<in> set SUPPORTED_CHAINS"
  by (cases c) (simp_all add: SUPPORTED_CHAINS_def)

lemma supportsAction_iff:
  "supportsAction policy chain a = Supported
   \<longleftrightarrow> (\<exists>c. normaliseChain (Some chain) = Own c \<and> a \<in> set (cs_actions (sp_chains policy c)))"
  by (auto simp: supportsAction_def supportsChain_def Let_def split: lookup.splits)

lemma leg_verdict_iff:
  "as \<noteq> [] \<Longrightarrow> leg_verdict policy chain as = Supported
   \<longleftrightarrow> (\<exists>c. chain = Own c \<and> (\<forall>a\<in>set as. a \<in> set (cs_actions (sp_chains policy c))))"
proof (induction as)
  case (Cons a as)
  then show ?case
    by (cases "as = []") (auto simp: Let_def supportsAction_iff split: lookup.splits if_splits)
qed simp

lemma requirements_nonempty [simp]:
  "leg_source (ROUTE_ACTION_REQUIREMENTS rt) \<noteq> []" "leg_destination (ROUTE_ACTION_REQUIREMENTS rt) \<noteq> []"
  by (cases rt; simp)+

definition carries :: "runtime_kind \<Rightarrow> (supported_chain \<Rightarrow> chain_support) \<Rightarrow> supported_chain \<Rightarrow> supported_chain \<Rightarrow> bool" where
  "carries rt supports from to \<longleftrightarrow> from \<noteq> to
     \<and> set (leg_source (ROUTE_ACTION_REQUIREMENTS rt)) \<subseteq> set (cs_actions (supports from))
     \<and> set (leg_destination (ROUTE_ACTION_REQUIREMENTS rt)) \<subseteq> set (cs_actions (supports to))
     \<and> cs_tokenClasses (supports from) \<noteq> []"

lemma route_of_eq:
  "route_of rt supports from to =
     (if carries rt supports from to
      then [\<lparr>rt_from = from, rt_to = to, rt_tokenClasses = cs_tokenClasses (supports from)\<rparr>] else [])"
  by (auto simp: route_of_def carries_def Let_def list_all_iff)

lemma set_generateRoutes:
  "r \<in> set (generateRoutes rt supports)
   \<longleftrightarrow> carries rt supports (rt_from r) (rt_to r) \<and> rt_tokenClasses r = cs_tokenClasses (supports (rt_from r))"
  by (cases r) (auto simp: generateRoutes_def route_of_eq)

lemma find_generated_route:
  "find (\<lambda>r. rt_from r = from \<and> rt_to r = to) (generateRoutes rt supports) =
     (if carries rt supports from to
      then Some \<lparr>rt_from = from, rt_to = to, rt_tokenClasses = cs_tokenClasses (supports from)\<rparr> else None)"
proof (cases "find (\<lambda>r. rt_from r = from \<and> rt_to r = to) (generateRoutes rt supports)")
  case None
  then have "\<not> carries rt supports from to"
    using set_generateRoutes [of "\<lparr>rt_from = from, rt_to = to, rt_tokenClasses = cs_tokenClasses (supports from)\<rparr>" rt supports]
    by (force simp: find_None_iff)
  with None show ?thesis by simp
next
  case (Some r)
  then have r: "r \<in> set (generateRoutes rt supports)" "rt_from r = from" "rt_to r = to"
    by (auto simp: find_Some_iff)
  then have "carries rt supports from to" "rt_tokenClasses r = cs_tokenClasses (supports from)"
    by (simp_all add: set_generateRoutes)
  then show ?thesis using Some r(2,3) by (cases r) simp
qed

lemma supportsRoute_carries:
  assumes "sp_routes policy = generateRoutes (sp_runtime policy) (sp_chains policy)"
  shows "supportsRoute policy query = Supported
    \<longleftrightarrow> (\<exists>from to. normaliseChain (rq_from query) = Own from \<and> normaliseChain (rq_to query) = Own to
          \<and> carries (sp_runtime policy) (sp_chains policy) from to
          \<and> (case rq_tokenClass query of None \<Rightarrow> True
             | Some t \<Rightarrow> t \<in> token_name ` set (cs_tokenClasses (sp_chains policy from))))"
proof -
  let ?S = "leg_source (ROUTE_ACTION_REQUIREMENTS (sp_runtime policy))"
  let ?D = "leg_destination (ROUTE_ACTION_REQUIREMENTS (sp_runtime policy))"
  have legs: "leg_verdict policy c ?S = Supported \<longleftrightarrow> (\<exists>x. c = Own x \<and> set ?S \<subseteq> set (cs_actions (sp_chains policy x)))"
    "leg_verdict policy c ?D = Supported \<longleftrightarrow> (\<exists>x. c = Own x \<and> set ?D \<subseteq> set (cs_actions (sp_chains policy x)))" for c
    by (auto simp: leg_verdict_iff)
  show ?thesis
    by (cases "normaliseChain (rq_from query)"; cases "normaliseChain (rq_to query)")
      (auto simp: supportsRoute_def Let_def legs route_verdict_def assms find_generated_route carries_def
        split: option.splits)
qed

text \<open>C35. The route query and the generated route table agree. For a policy whose routes were generated
  from its chains, \<open>supportsRoute\<close> answers yes exactly when both names resolve to different canonical chains,
  the source offers every source-leg action, the destination every destination-leg action, the source has an
  asset class to move, and the requested asset class, if any, is one of the source's. So no accepted route
  locks funds that the destination leg could not settle.\<close>

theorem supportsRoute_exact:
  assumes "sp_routes policy = generateRoutes (sp_runtime policy) (sp_chains policy)"
  shows "supportsRoute policy query = Supported
    \<longleftrightarrow> (\<exists>from to. normaliseChain (rq_from query) = Own from \<and> normaliseChain (rq_to query) = Own to \<and> from \<noteq> to
          \<and> set (leg_source (ROUTE_ACTION_REQUIREMENTS (sp_runtime policy))) \<subseteq> set (cs_actions (sp_chains policy from))
          \<and> set (leg_destination (ROUTE_ACTION_REQUIREMENTS (sp_runtime policy))) \<subseteq> set (cs_actions (sp_chains policy to))
          \<and> cs_tokenClasses (sp_chains policy from) \<noteq> []
          \<and> (case rq_tokenClass query of None \<Rightarrow> True
             | Some t \<Rightarrow> t \<in> token_name ` set (cs_tokenClasses (sp_chains policy from))))"
  unfolding supportsRoute_carries [OF assms] carries_def by blast

definition example_relayer :: relayer_input where
  "example_relayer = \<lparr>rl_network = Mode_testnet, rl_rpcUrl = ''https://rpc'', rl_privateKey = ''0xabc'',
     rl_escrowFactory = Some ''0xfac'', rl_horizonUrl = ''https://horizon'', rl_secretKey = ''SABC'', rl_programId = None\<rparr>"

theorem supportsRoute_exact_witness:
  "sp_routes (buildRelayerSupportPolicy example_relayer) =
     generateRoutes (sp_runtime (buildRelayerSupportPolicy example_relayer)) (sp_chains (buildRelayerSupportPolicy example_relayer))
   \<and> supportsRoute (buildRelayerSupportPolicy example_relayer)
       \<lparr>rq_from = Some ''Soroban'', rq_to = Some ''eth'', rq_tokenClass = Some ''native''\<rparr> = Supported
   \<and> \<not> (\<exists>f t. normaliseChain (Some ''eth'') = Own f \<and> normaliseChain (Some ''sol'') = Own t \<and> f \<noteq> t
        \<and> {Lock} \<subseteq> set (cs_actions (sp_chains (buildRelayerSupportPolicy example_relayer) f))
        \<and> {SettleFunds} \<subseteq> set (cs_actions (sp_chains (buildRelayerSupportPolicy example_relayer) t))
        \<and> cs_tokenClasses (sp_chains (buildRelayerSupportPolicy example_relayer) f) \<noteq> [])"
proof -
  let ?p = "buildRelayerSupportPolicy example_relayer"
  have routes: "sp_routes ?p = generateRoutes (sp_runtime ?p) (sp_chains ?p)"
    by (simp add: buildRelayerSupportPolicy_def Let_def)
  have yes: "supportsRoute ?p \<lparr>rq_from = Some ''Soroban'', rq_to = Some ''eth'', rq_tokenClass = Some ''native''\<rparr> = Supported"
    by code_simp
  have no: "supportsRoute ?p \<lparr>rq_from = Some ''eth'', rq_to = Some ''sol'', rq_tokenClass = None\<rparr> \<noteq> Supported"
    by code_simp
  have "sp_runtime ?p = Relayer" by (simp add: buildRelayerSupportPolicy_def Let_def)
  with supportsRoute_exact [OF routes, of "\<lparr>rq_from = Some ''eth'', rq_to = Some ''sol'', rq_tokenClass = None\<rparr>"] no
  show ?thesis using routes yes by simp
qed

section \<open>Built policies\<close>

text \<open>What the validation asks of one chain.\<close>

definition policy_coherent :: "runtime_kind \<Rightarrow> supported_chain \<Rightarrow> chain_support \<Rightarrow> bool" where
  "policy_coherent rt c s \<longleftrightarrow> set (cs_actions s) \<subseteq> set (IMPLEMENTED_ACTIONS rt c)
     \<and> (cs_level s \<in> {Unconfigured, Placeholder, Unimplemented} \<longleftrightarrow> cs_actions s = [])
     \<and> (cs_actions s = [] \<or> cs_tokenClasses s \<noteq> []) \<and> (cs_level s = Full \<or> truthy (cs_reason s))"

lemma tokens_implemented: "IMPLEMENTED_ACTIONS rt c \<noteq> [] \<Longrightarrow> IMPLEMENTED_TOKEN_CLASSES rt c \<noteq> []"
  by (cases rt; cases c) simp_all

lemma truthy_default: "reason \<noteq> Some [] \<Longrightarrow> d \<noteq> [] \<Longrightarrow> truthy (Some (or_default reason d))"
  by (cases reason) (simp_all add: truthy_def)

lemma policy_chain_name_nonempty [simp]: "policy_chain_name c \<noteq> []"
  by (cases c) simp_all

lemma buildChainSupport_coherent:
  assumes "reason \<noteq> Some []"
  shows "policy_coherent rt c (buildChainSupport rt c available reason placeholder)"
  using assms tokens_implemented [of rt c] by (auto simp: policy_coherent_def buildChainSupport_def Let_def truthy_default)

lemma buildChainSupport_actions:
  "cs_actions (buildChainSupport rt c available reason placeholder) = filter (\<lambda>a. a \<in> set available) (IMPLEMENTED_ACTIONS rt c)"
  by (simp add: buildChainSupport_def Let_def)

lemma not_configured_nonempty [simp]: "not_configured missing \<noteq> Some []"
  by (simp add: not_configured_def)

lemma chain_errors_coherent: "policy_coherent (sp_runtime p) c (sp_chains p c) \<Longrightarrow> chain_errors p c = []"
  by (auto simp: chain_errors_def policy_coherent_def Let_def push_if_def filter_empty_conv)

lemma route_errors_generated:
  assumes "r \<in> set (generateRoutes (sp_runtime p) (sp_chains p))"
  shows "route_errors p r = []"
  using assms by (auto simp: set_generateRoutes carries_def route_errors_def Let_def push_if_def filter_empty_conv)

lemma routes_use_chains: "carries rt supports from to \<Longrightarrow> cs_actions (supports from) \<noteq> []"
  using requirements_nonempty(1) [of rt] by (cases "leg_source (ROUTE_ACTION_REQUIREMENTS rt)") (auto simp: carries_def)

lemma validate_generated:
  assumes "\<And>c. policy_coherent (sp_runtime p) c (sp_chains p c)"
    and "sp_routes p = generateRoutes (sp_runtime p) (sp_chains p)"
  shows "fst ` set (pv_errors (validateSupportPolicy p)) \<subseteq> {NO_SUPPORTED_CHAIN, NO_SUPPORTED_ROUTE}"
    and "assertSupportPolicy p = Inr () \<longleftrightarrow> (\<exists>from to. carries (sp_runtime p) (sp_chains p) from to)"
proof -
  have none: "concat (map (chain_errors p) SUPPORTED_CHAINS) = []" "concat (map (route_errors p) (sp_routes p)) = []"
    using assms chain_errors_coherent [of p] route_errors_generated [of _ p] by (simp_all add: concat_eq_Nil_conv)
  show "fst ` set (pv_errors (validateSupportPolicy p)) \<subseteq> {NO_SUPPORTED_CHAIN, NO_SUPPORTED_ROUTE}"
    unfolding validateSupportPolicy_def Let_def none by (auto simp: push_if_def)
  have "sp_routes p \<noteq> [] \<longleftrightarrow> (\<exists>from to. carries (sp_runtime p) (sp_chains p) from to)"
  proof
    assume "sp_routes p \<noteq> []"
    then show "\<exists>from to. carries (sp_runtime p) (sp_chains p) from to"
      using set_generateRoutes [of "hd (sp_routes p)" "sp_runtime p" "sp_chains p"] assms(2) hd_in_set by auto
  next
    assume "\<exists>from to. carries (sp_runtime p) (sp_chains p) from to"
    then obtain f t where "carries (sp_runtime p) (sp_chains p) f t" by blast
    then show "sp_routes p \<noteq> []" using find_generated_route [of f t "sp_runtime p" "sp_chains p"] assms(2) by (cases "sp_routes p") auto
  qed
  moreover have "sp_routes p \<noteq> [] \<longrightarrow> filter (\<lambda>c. cs_actions (sp_chains p c) \<noteq> []) SUPPORTED_CHAINS \<noteq> []"
    unfolding filter_empty_conv using calculation in_SUPPORTED_CHAINS routes_use_chains by metis
  ultimately show "assertSupportPolicy p = Inr () \<longleftrightarrow> (\<exists>from to. carries (sp_runtime p) (sp_chains p) from to)"
    unfolding assertSupportPolicy_def validateSupportPolicy_def Let_def none
    by (auto simp: push_if_def)
qed

lemma relayer_coherent: "policy_coherent Relayer c (sp_chains (buildRelayerSupportPolicy i) c)"
  by (cases c) (simp_all add: buildRelayerSupportPolicy_def Let_def relayer_ethereum_def relayer_stellar_def
      relayer_solana_def buildChainSupport_coherent)

lemma resolver_coherent: "policy_coherent Resolver c (sp_chains (buildResolverSupportPolicy i) c)"
  by (cases c) (simp_all add: buildResolverSupportPolicy_def Let_def resolver_ethereum_def resolver_stellar_def
      buildChainSupport_coherent)

lemma built_policy_fields [simp]:
  "sp_runtime (buildRelayerSupportPolicy i) = Relayer" "sp_runtime (buildResolverSupportPolicy j) = Resolver"
  "sp_routes (buildRelayerSupportPolicy i) = generateRoutes Relayer (sp_chains (buildRelayerSupportPolicy i))"
  "sp_routes (buildResolverSupportPolicy j) = generateRoutes Resolver (sp_chains (buildResolverSupportPolicy j))"
  by (simp_all add: buildRelayerSupportPolicy_def buildResolverSupportPolicy_def Let_def)

definition configured :: "string option \<Rightarrow> bool" where
  "configured v = (\<not> isPlaceholderValue v)"

lemma relayer_actions:
  "set (cs_actions (sp_chains (buildRelayerSupportPolicy i) Ch_ethereum)) =
     (if configured (Some (rl_rpcUrl i)) then {Observe} else {})
     \<union> (if configured (Some (rl_rpcUrl i)) \<and> configured (Some (rl_privateKey i)) \<and> configured (rl_escrowFactory i)
        then {Lock, ClaimFunds, SettleFunds, RefundFunds} else {})"
  "set (cs_actions (sp_chains (buildRelayerSupportPolicy i) Ch_stellar)) =
     (if configured (Some (rl_horizonUrl i)) then {Observe} else {})
     \<union> (if configured (Some (rl_horizonUrl i)) \<and> configured (Some (rl_secretKey i)) then {Lock, SettleFunds, RefundFunds} else {})"
  "cs_actions (sp_chains (buildRelayerSupportPolicy i) Ch_solana) = []"
  by (auto simp: buildRelayerSupportPolicy_def relayer_ethereum_def relayer_stellar_def relayer_solana_def Let_def
      buildChainSupport_actions push_if_def configured_def)

lemma resolver_actions:
  "set (cs_actions (sp_chains (buildResolverSupportPolicy i) Ch_ethereum)) =
     (if configured (Some (ri_ethRpcUrl i)) then {Observe} else {})
     \<union> (if configured (Some (ri_ethRpcUrl i)) \<and> configured (ri_privateKey i) \<and> configured (ri_htlcEscrow i)
        then {ClaimFunds, RefundFunds} else {})
     \<union> (if configured (Some (ri_ethRpcUrl i)) \<and> configured (ri_privateKey i) \<and> configured (ri_ethRegistry i)
        then {Register} else {})"
  "set (cs_actions (sp_chains (buildResolverSupportPolicy i) Ch_stellar)) =
     (if configured (Some (ri_sorobanRpcUrl i)) then {Observe} else {})
     \<union> (if configured (Some (ri_sorobanRpcUrl i)) \<and> configured (ri_resolverSecret i) \<and> configured (ri_htlc i)
        then {ClaimFunds, RefundFunds} else {})"
  "cs_actions (sp_chains (buildResolverSupportPolicy i) Ch_solana) = []"
  by (auto simp: buildResolverSupportPolicy_def resolver_ethereum_def resolver_stellar_def Let_def
      buildChainSupport_actions push_if_def configured_def)

lemma tokens_of_coherent: "policy_coherent rt c s \<Longrightarrow> a \<in> set (cs_actions s) \<Longrightarrow> cs_tokenClasses s \<noteq> []"
  by (auto simp: policy_coherent_def)

lemma relayer_carries:
  "(\<exists>from to. carries Relayer (sp_chains (buildRelayerSupportPolicy i)) from to)
   \<longleftrightarrow> configured (Some (rl_rpcUrl i)) \<and> configured (Some (rl_privateKey i)) \<and> configured (rl_escrowFactory i)
     \<and> configured (Some (rl_horizonUrl i)) \<and> configured (Some (rl_secretKey i))" (is "?l \<longleftrightarrow> ?r")
proof
  assume ?l
  then obtain f t where "carries Relayer (sp_chains (buildRelayerSupportPolicy i)) f t" by blast
  then show ?r by (cases f; cases t) (auto simp: carries_def relayer_actions split: if_splits)
next
  assume ?r
  then have "carries Relayer (sp_chains (buildRelayerSupportPolicy i)) Ch_ethereum Ch_stellar"
    using tokens_of_coherent [OF relayer_coherent [of Ch_ethereum i], of Lock] by (simp add: carries_def relayer_actions)
  then show ?l by blast
qed

lemma resolver_carries:
  "(\<exists>from to. carries Resolver (sp_chains (buildResolverSupportPolicy i)) from to)
   \<longleftrightarrow> configured (Some (ri_ethRpcUrl i)) \<and> configured (Some (ri_sorobanRpcUrl i))
     \<and> (configured (ri_privateKey i) \<and> configured (ri_htlcEscrow i)
        \<or> configured (ri_resolverSecret i) \<and> configured (ri_htlc i))" (is "?l \<longleftrightarrow> ?r")
proof
  assume ?l
  then obtain f t where "carries Resolver (sp_chains (buildResolverSupportPolicy i)) f t" by blast
  then show ?r by (cases f; cases t) (auto simp: carries_def resolver_actions split: if_splits)
next
  assume ?r
  then have "carries Resolver (sp_chains (buildResolverSupportPolicy i)) Ch_ethereum Ch_stellar
      \<or> carries Resolver (sp_chains (buildResolverSupportPolicy i)) Ch_stellar Ch_ethereum"
    using tokens_of_coherent [OF resolver_coherent [of Ch_ethereum i], of Observe]
      tokens_of_coherent [OF resolver_coherent [of Ch_stellar i], of Observe]
    by (auto simp: carries_def resolver_actions)
  then show ?l by blast
qed

text \<open>Startup validation accepts exactly the usable deployments. The relayer's policy passes
  \<open>assertSupportPolicy\<close> if and only if its two endpoints, two keys and escrow factory are real values; the
  resolver's if and only if both endpoints are and at least one chain has both its key and its HTLC
  contract. What the validation reports of a built policy is only ever a dead end (no usable chain, no
  route): the builders never produce a policy that contradicts itself or claims an action without code.\<close>

theorem startup_validation_exact:
  "(assertSupportPolicy (buildRelayerSupportPolicy i) = Inr ()
    \<longleftrightarrow> \<not> isPlaceholderValue (Some (rl_rpcUrl i)) \<and> \<not> isPlaceholderValue (Some (rl_privateKey i))
      \<and> \<not> isPlaceholderValue (rl_escrowFactory i) \<and> \<not> isPlaceholderValue (Some (rl_horizonUrl i))
      \<and> \<not> isPlaceholderValue (Some (rl_secretKey i)))
   \<and> (assertSupportPolicy (buildResolverSupportPolicy j) = Inr ()
    \<longleftrightarrow> \<not> isPlaceholderValue (Some (ri_ethRpcUrl j)) \<and> \<not> isPlaceholderValue (Some (ri_sorobanRpcUrl j))
      \<and> (\<not> isPlaceholderValue (ri_privateKey j) \<and> \<not> isPlaceholderValue (ri_htlcEscrow j)
         \<or> \<not> isPlaceholderValue (ri_resolverSecret j) \<and> \<not> isPlaceholderValue (ri_htlc j)))
   \<and> fst ` set (pv_errors (validateSupportPolicy (buildRelayerSupportPolicy i))) \<subseteq> {NO_SUPPORTED_CHAIN, NO_SUPPORTED_ROUTE}
   \<and> fst ` set (pv_errors (validateSupportPolicy (buildResolverSupportPolicy j))) \<subseteq> {NO_SUPPORTED_CHAIN, NO_SUPPORTED_ROUTE}"
  using validate_generated [of "buildRelayerSupportPolicy i"] validate_generated [of "buildResolverSupportPolicy j"]
  by (simp add: relayer_coherent resolver_coherent relayer_carries resolver_carries configured_def)

section \<open>Inherited names\<close>

lemma lower_inherited: "toLowerCase key = key \<Longrightarrow> key \<in> set OBJECT_PROTOTYPE \<longleftrightarrow> key \<in> {''constructor'', ''__proto__''}"
proof -
  have "filter (\<lambda>k. toLowerCase k = k) OBJECT_PROTOTYPE = [''constructor'', ''__proto__'']" by code_simp
  from arg_cong [OF this, of set] show "toLowerCase key = key \<Longrightarrow> key \<in> set OBJECT_PROTOTYPE \<longleftrightarrow> key \<in> {''constructor'', ''__proto__''}"
    by auto
qed

lemma inherited_no_alias: "map_of CHAIN_ALIASES ''constructor'' = None" "map_of CHAIN_ALIASES ''__proto__'' = None"
  by code_simp+

text \<open>\<open>CHAIN_ALIASES\<close> is an object literal, so \<open>constructor\<close> and \<open>__proto__\<close> are found in it: the chain check
  throws for exactly these two names, in any case and with any surrounding space, instead of denying
  them as unknown.\<close>

theorem chain_check_throws_iff:
  "supportsChain policy raw = Type_error \<longleftrightarrow> toLowerCase (js_trim raw) \<in> {''constructor'', ''__proto__''}"
proof -
  let ?k = "toLowerCase (js_trim raw)"
  have "supportsChain policy raw = Type_error \<longleftrightarrow> ?k \<noteq> [] \<and> map_of CHAIN_ALIASES ?k = None \<and> ?k \<in> set OBJECT_PROTOTYPE"
    by (auto simp: supportsChain_def normaliseChain_def obj_lookup_def Let_def split: option.splits)
  also have "\<dots> \<longleftrightarrow> ?k \<in> {''constructor'', ''__proto__''}"
    using lower_inherited [of ?k] inherited_no_alias by auto
  finally show ?thesis .
qed

end
