(* ===== verification/Settlement_Permissions.thy ===== *)
theory Settlement_Permissions
  imports Support_Policy
begin

text \<open>
  The decisions the relayer takes before it moves funds: \<open>decideOrderRoute\<close> at order creation
  (\<open>relayer/src/support.ts\<close>), \<open>authorizeSettlementCommand\<close> and the checks built on it
  (\<open>relayer/src/settlement-permissions.ts\<close>), and \<open>validateSettlementRoute\<close> before a transaction is
  built (\<open>relayer/src/services/route-validator.ts\<close>).

  Decisions keep their codes; the texts and the account descriptions for the log are not modelled.
\<close>

section \<open>Order creation\<close>

text \<open>A field of a request body: missing, null, a string, or another value with its \<open>String\<close> conversion.\<close>

datatype json_field = Undefined | Null | Text string | Other string

definition present_field :: "json_field \<Rightarrow> string option" where
  "present_field v = (case v of Text s \<Rightarrow> Some s | Other s \<Rightarrow> Some s | _ \<Rightarrow> None)"

definition DIRECTION_ROUTES :: "(string \<times> supported_chain \<times> supported_chain) list" where
  "DIRECTION_ROUTES = [(''eth_to_xlm'', Ch_ethereum, Ch_stellar), (''xlm_to_eth'', Ch_stellar, Ch_ethereum)]"

fun NATIVE_SYMBOLS :: "supported_chain \<Rightarrow> string" where
  "NATIVE_SYMBOLS Ch_ethereum = ''ETH''"
| "NATIVE_SYMBOLS Ch_stellar = ''XLM''"
| "NATIVE_SYMBOLS Ch_solana = ''SOL''"

definition classifyToken :: "supported_chain \<Rightarrow> string \<Rightarrow> token_class" where
  "classifyToken chain symbol =
     (if toUpperCase (js_trim symbol) = NATIVE_SYMBOLS chain then Native
      else case chain of Ch_ethereum \<Rightarrow> Erc20 | Ch_stellar \<Rightarrow> Stellar_asset | Ch_solana \<Rightarrow> Spl)"

record order_route_request =
  orq_direction :: json_field
  orq_fromChain :: json_field
  orq_toChain :: json_field
  orq_fromToken :: json_field

datatype reject_code = Direction_unsupported | Chain_unknown | Route_inconsistent | Policy_denied denial_code

datatype order_route_decision =
  Route_accepted supported_chain supported_chain token_class | Route_rejected reject_code | Decision_threw

text \<open>A chain the client names must agree with the direction's. An inherited entry has no chains:
  \<open>expected\<close> is then missing and every named chain differs from it.\<close>

definition check_declared :: "json_field \<Rightarrow> supported_chain option \<Rightarrow> reject_code option" where
  "check_declared declared expected =
     (case present_field declared of
        None \<Rightarrow> None
      | Some raw \<Rightarrow>
          (case normaliseChain (Some raw) of
             Absent \<Rightarrow> Some Chain_unknown
           | Inherited _ \<Rightarrow> Some Route_inconsistent
           | Own c \<Rightarrow> if Some c \<noteq> expected then Some Route_inconsistent else None))"

definition requested_token :: "supported_chain option \<Rightarrow> json_field \<Rightarrow> token_class option" where
  "requested_token from fromToken =
     (case fromToken of
        Text s \<Rightarrow> if js_trim s \<noteq> [] then map_option (\<lambda>c. classifyToken c s) from else Some Native
      | _ \<Rightarrow> Some Native)"

definition decideOrderRoute :: "support_policy \<Rightarrow> order_route_request \<Rightarrow> order_route_decision" where
  "decideOrderRoute policy request =
     (let direction = (case orq_direction request of Text s \<Rightarrow> js_trim s | _ \<Rightarrow> [])
      in case obj_lookup DIRECTION_ROUTES direction of
           Absent \<Rightarrow> Route_rejected Direction_unsupported
         | entry \<Rightarrow>
             let from = (case entry of Own (f, _) \<Rightarrow> Some f | _ \<Rightarrow> None);
                 to = (case entry of Own (_, t) \<Rightarrow> Some t | _ \<Rightarrow> None);
                 tokenClass = requested_token from (orq_fromToken request)
             in case check_declared (orq_fromChain request) from of
                  Some code \<Rightarrow> Route_rejected code
                | None \<Rightarrow>
                    (case check_declared (orq_toChain request) to of
                       Some code \<Rightarrow> Route_rejected code
                     | None \<Rightarrow>
                         (case supportsRoute policy \<lparr>rq_from = map_option policy_chain_name from, rq_to = map_option policy_chain_name to,
                                                     rq_tokenClass = map_option token_name tokenClass\<rparr> of
                            Denied code \<Rightarrow> Route_rejected (Policy_denied code)
                          | Type_error \<Rightarrow> Decision_threw
                          | Supported \<Rightarrow> Route_accepted (the from) (the to) (the tokenClass))))"

section \<open>Settlement commands\<close>

datatype settlement_command = Cmd_lock | Cmd_settle | Cmd_refund | Cmd_verify

definition SETTLEMENT_COMMANDS :: "(string \<times> settlement_command) list" where
  "SETTLEMENT_COMMANDS = [(''lock'', Cmd_lock), (''settle'', Cmd_settle), (''refund'', Cmd_refund), (''verify'', Cmd_verify)]"

fun COMMAND_REQUIRED_ACTION :: "settlement_command \<Rightarrow> supported_action" where
  "COMMAND_REQUIRED_ACTION Cmd_lock = Lock"
| "COMMAND_REQUIRED_ACTION Cmd_settle = SettleFunds"
| "COMMAND_REQUIRED_ACTION Cmd_refund = RefundFunds"
| "COMMAND_REQUIRED_ACTION Cmd_verify = Observe"

definition DIRECTION_COMMAND_CHAINS :: "(string \<times> supported_chain \<times> supported_chain) list" where
  "DIRECTION_COMMAND_CHAINS = [(''eth_to_xlm'', Ch_ethereum, Ch_stellar), (''xlm_to_eth'', Ch_stellar, Ch_ethereum)]"

text \<open>An inherited entry has neither \<open>source\<close> nor \<open>destination\<close>.\<close>

definition resolveCommandChain :: "string \<Rightarrow> settlement_command \<Rightarrow> supported_chain option" where
  "resolveCommandChain direction command =
     (case obj_lookup DIRECTION_COMMAND_CHAINS direction of
        Own (source, destination) \<Rightarrow>
          Some (case command of Cmd_settle \<Rightarrow> destination | _ \<Rightarrow> source)
      | _ \<Rightarrow> None)"

record account_config =
  ac_privateKey :: "string option"
  ac_escrowFactory :: "string option"
  ac_secretKey :: "string option"
  ac_horizonUrl :: "string option"

definition isAbsentOrPlaceholder :: "string option \<Rightarrow> bool" where
  "isAbsentOrPlaceholder value =
     (case value of
        None \<Rightarrow> True
      | Some raw \<Rightarrow>
          let v = toUpperCase (js_trim raw); digits = (if startsWith v ''0X'' then drop 2 v else v)
          in js_trim raw = [] \<or> startsWith v ''YOUR_'' \<or> startsWith v ''REPLACE_''
             \<or> v = ''0X0000000000000000000000000000000000000000000000000000000000000001''
             \<or> digits \<noteq> [] \<and> list_all (\<lambda>c. c = CHR ''0'') digits)"

datatype permission_denial = Perm_direction_unsupported | Perm_command_unknown | Perm_chain_mismatch
  | Perm_route_unsupported | Perm_action_unavailable | Perm_account_not_ready

datatype authorization = Granted settlement_command supported_chain | Refused permission_denial | Authorization_threw

definition account_missing :: "account_config \<Rightarrow> settlement_command \<Rightarrow> supported_chain \<Rightarrow> bool" where
  "account_missing config command chain =
     (case chain of
        Ch_ethereum \<Rightarrow> isAbsentOrPlaceholder (ac_privateKey config)
          \<or> command \<noteq> Cmd_verify \<and> isAbsentOrPlaceholder (ac_escrowFactory config)
      | Ch_stellar \<Rightarrow> isAbsentOrPlaceholder (ac_secretKey config) \<or> isAbsentOrPlaceholder (ac_horizonUrl config)
      | Ch_solana \<Rightarrow> True)"

text \<open>Steps 4 to 6: the policy must carry the direction's route and offer the action, and the account must be ready.\<close>

definition authorize_on ::
    "support_policy \<Rightarrow> account_config \<Rightarrow> string \<Rightarrow> settlement_command \<Rightarrow> supported_chain \<Rightarrow> authorization" where
  "authorize_on policy config direction command chain =
     (let routeVerdict = (case obj_lookup DIRECTION_ROUTES direction of
            Own (f, t) \<Rightarrow> supportsRoute policy
              \<lparr>rq_from = Some (policy_chain_name f), rq_to = Some (policy_chain_name t), rq_tokenClass = None\<rparr>
          | Inherited _ \<Rightarrow> supportsRoute policy \<lparr>rq_from = None, rq_to = None, rq_tokenClass = None\<rparr>
          | Absent \<Rightarrow> Supported)
      in case routeVerdict of
           Type_error \<Rightarrow> Authorization_threw
         | Denied _ \<Rightarrow> Refused Perm_route_unsupported
         | Supported \<Rightarrow>
             (case supportsAction policy (policy_chain_name chain) (COMMAND_REQUIRED_ACTION command) of
                Type_error \<Rightarrow> Authorization_threw
              | Denied _ \<Rightarrow> Refused Perm_action_unavailable
              | Supported \<Rightarrow>
                  if account_missing config command chain then Refused Perm_account_not_ready else Granted command chain))"

record command_request =
  cr_command :: string
  cr_direction :: string
  cr_chain :: json_field

definition authorizeSettlementCommand :: "support_policy \<Rightarrow> account_config \<Rightarrow> command_request \<Rightarrow> authorization" where
  "authorizeSettlementCommand policy config request =
     (case map_of SETTLEMENT_COMMANDS (cr_command request) of
        None \<Rightarrow> Refused Perm_command_unknown
      | Some command \<Rightarrow>
          if obj_lookup DIRECTION_COMMAND_CHAINS (cr_direction request) = Absent then Refused Perm_direction_unsupported
          else (case resolveCommandChain (cr_direction request) command of
             None \<Rightarrow> Refused Perm_direction_unsupported
           | Some resolved \<Rightarrow>
               if (case present_field (cr_chain request) of
                     None \<Rightarrow> False
                   | Some raw \<Rightarrow> normaliseChain (Some raw) \<noteq> Own resolved)
               then Refused Perm_chain_mismatch
               else authorize_on policy config (cr_direction request) command resolved))"

definition authorizeAllCommands :: "support_policy \<Rightarrow> account_config \<Rightarrow> string \<Rightarrow> (string \<times> authorization) list" where
  "authorizeAllCommands policy config direction =
     map (\<lambda>(name, _). (name, authorizeSettlementCommand policy config
           \<lparr>cr_command = name, cr_direction = direction, cr_chain = Undefined\<rparr>)) SETTLEMENT_COMMANDS"

definition granted :: "authorization \<Rightarrow> bool" where
  "granted a = (case a of Granted _ _ \<Rightarrow> True | _ \<Rightarrow> False)"

text \<open>The first refusal among \<open>lock\<close> and \<open>settle\<close>.\<close>

definition checkOrderSettleable :: "support_policy \<Rightarrow> account_config \<Rightarrow> string \<Rightarrow> authorization option" where
  "checkOrderSettleable policy config direction =
     find (\<lambda>a. \<not> granted a) (map (\<lambda>name. authorizeSettlementCommand policy config
       \<lparr>cr_command = name, cr_direction = direction, cr_chain = Undefined\<rparr>) [''lock'', ''settle''])"

section \<open>Settlement-time route validation\<close>

record settlement_route =
  sr_direction :: string
  sr_fromChain :: string
  sr_toChain :: string
  supportedFromAssets :: "string list"
  supportedToAssets :: "string list"

definition SUPPORTED_SETTLEMENT_ROUTES :: "settlement_route list" where
  "SUPPORTED_SETTLEMENT_ROUTES =
     [\<lparr>sr_direction = ''eth_to_xlm'', sr_fromChain = ''ethereum'', sr_toChain = ''stellar'',
       supportedFromAssets = [''ETH''], supportedToAssets = [''XLM'']\<rparr>,
      \<lparr>sr_direction = ''xlm_to_eth'', sr_fromChain = ''stellar'', sr_toChain = ''ethereum'',
       supportedFromAssets = [''XLM''], supportedToAssets = [''ETH'']\<rparr>]"

definition normalise_text :: "json_field \<Rightarrow> string" where
  "normalise_text v = (case v of Text s \<Rightarrow> toLowerCase (js_trim s) | _ \<Rightarrow> [])"

definition normaliseAsset :: "json_field \<Rightarrow> string" where
  "normaliseAsset v = (case v of Text s \<Rightarrow> toUpperCase (js_trim s) | _ \<Rightarrow> [])"

datatype route_failure = DIRECTION_UNSUPPORTED | CHAIN_MISMATCH | ASSET_UNSUPPORTED

definition validateSettlementRoute :: "order_route_request \<Rightarrow> route_failure + settlement_route" where
  "validateSettlementRoute request =
     (case find (\<lambda>r. sr_direction r = normalise_text (orq_direction request)) SUPPORTED_SETTLEMENT_ROUTES of
        None \<Rightarrow> Inl DIRECTION_UNSUPPORTED
      | Some route \<Rightarrow>
          let declaredFrom = normalise_text (orq_fromChain request);
              declaredTo = normalise_text (orq_toChain request);
              asset = normaliseAsset (orq_fromToken request)
          in if declaredFrom \<noteq> [] \<and> declaredFrom \<noteq> sr_fromChain route then Inl CHAIN_MISMATCH
             else if declaredTo \<noteq> [] \<and> declaredTo \<noteq> sr_toChain route then Inl CHAIN_MISMATCH
             else if asset \<noteq> [] \<and> asset \<notin> set (supportedFromAssets route) then Inl ASSET_UNSUPPORTED
             else Inr route)"

definition assertSettlementRoute :: "order_route_request \<Rightarrow> route_failure + settlement_route" where
  "assertSettlementRoute request = validateSettlementRoute request"

section \<open>What a grant means\<close>

lemma direction_tables: "DIRECTION_COMMAND_CHAINS = DIRECTION_ROUTES"
  by (simp add: DIRECTION_COMMAND_CHAINS_def DIRECTION_ROUTES_def)

lemma authorize_on_Granted:
  assumes "map_of DIRECTION_ROUTES direction = Some (f, t)"
  shows "authorize_on policy config direction command chain = Granted c ch
    \<longleftrightarrow> c = command \<and> ch = chain
      \<and> supportsRoute policy \<lparr>rq_from = Some (policy_chain_name f), rq_to = Some (policy_chain_name t), rq_tokenClass = None\<rparr> = Supported
      \<and> COMMAND_REQUIRED_ACTION command \<in> set (cs_actions (sp_chains policy chain))
      \<and> \<not> account_missing config command chain"
proof -
  have act: "a \<in> set (cs_actions (sp_chains policy chain)) \<longleftrightarrow> supportsAction policy (policy_chain_name chain) a = Supported" for a
    by (auto simp: supportsAction_iff)
  show ?thesis
    unfolding act using assms by (auto simp: authorize_on_def obj_lookup_def Let_def split: verdict.splits)
qed

lemma resolve_eq:
  "resolveCommandChain direction command =
     (case map_of DIRECTION_ROUTES direction of
        None \<Rightarrow> None | Some (source, destination) \<Rightarrow> Some (if command = Cmd_settle then destination else source))"
  by (auto simp: resolveCommandChain_def direction_tables obj_lookup_def split: option.splits settlement_command.splits)

lemma authorize_request:
  "authorizeSettlementCommand policy config request =
     (case map_of SETTLEMENT_COMMANDS (cr_command request) of
        None \<Rightarrow> Refused Perm_command_unknown
      | Some command \<Rightarrow>
          (case map_of DIRECTION_ROUTES (cr_direction request) of
             None \<Rightarrow> Refused Perm_direction_unsupported
           | Some (source, destination) \<Rightarrow>
               let resolved = (if command = Cmd_settle then destination else source)
               in if (case present_field (cr_chain request) of None \<Rightarrow> False
                      | Some raw \<Rightarrow> normaliseChain (Some raw) \<noteq> Own resolved)
                  then Refused Perm_chain_mismatch
                  else authorize_on policy config (cr_direction request) command resolved))"
  by (auto simp: authorizeSettlementCommand_def resolve_eq direction_tables obj_lookup_def Let_def split: option.splits)

text \<open>C36. A settlement command is granted exactly when everything it relies on holds: the command is
  known, the direction is one of the two declared ones, the command runs on the chain that direction binds it
  to (settle on the destination, every other command on the source) and a chain named by the caller resolves to
  that very chain, the policy carries the direction's route, the chain offers the command's action, and the
  signing account of the chain is real.\<close>

theorem authorization_exact:
  "authorizeSettlementCommand policy config request = Granted command chain
   \<longleftrightarrow> (\<exists>source destination.
        map_of SETTLEMENT_COMMANDS (cr_command request) = Some command
        \<and> map_of DIRECTION_ROUTES (cr_direction request) = Some (source, destination)
        \<and> chain = (if command = Cmd_settle then destination else source)
        \<and> (case present_field (cr_chain request) of None \<Rightarrow> True | Some raw \<Rightarrow> normaliseChain (Some raw) = Own chain)
        \<and> supportsRoute policy
            \<lparr>rq_from = Some (policy_chain_name source), rq_to = Some (policy_chain_name destination), rq_tokenClass = None\<rparr> = Supported
        \<and> COMMAND_REQUIRED_ACTION command \<in> set (cs_actions (sp_chains policy chain))
        \<and> \<not> account_missing config command chain)"
  by (cases "map_of SETTLEMENT_COMMANDS (cr_command request)";
      cases "map_of DIRECTION_ROUTES (cr_direction request)")
    (auto simp: authorize_request authorize_on_Granted split: option.splits if_splits)

section \<open>Accepted orders\<close>

lemma settleable_granted:
  assumes "checkOrderSettleable policy config d = None"
  shows "granted (authorizeSettlementCommand policy config \<lparr>cr_command = ''lock'', cr_direction = d, cr_chain = Undefined\<rparr>)"
    and "granted (authorizeSettlementCommand policy config \<lparr>cr_command = ''settle'', cr_direction = d, cr_chain = Undefined\<rparr>)"
  using assms by (auto simp: checkOrderSettleable_def split: if_splits)

lemma grantedE:
  assumes "granted a"
  obtains command chain where "a = Granted command chain"
  using assms by (auto simp: granted_def split: authorization.splits)

lemma command_table [simp]:
  "map_of SETTLEMENT_COMMANDS ''lock'' = Some Cmd_lock" "map_of SETTLEMENT_COMMANDS ''settle'' = Some Cmd_settle"
  "map_of SETTLEMENT_COMMANDS ''refund'' = Some Cmd_refund" "map_of SETTLEMENT_COMMANDS ''verify'' = Some Cmd_verify"
  by (simp_all add: SETTLEMENT_COMMANDS_def)

lemma direction_cases:
  assumes "map_of DIRECTION_ROUTES d = Some (f, t)"
  obtains "d = ''eth_to_xlm'' \<and> f = Ch_ethereum \<and> t = Ch_stellar" | "d = ''xlm_to_eth'' \<and> f = Ch_stellar \<and> t = Ch_ethereum"
  using assms by (auto simp: DIRECTION_ROUTES_def split: if_splits)

lemma trim_direction: "js_trim ''eth_to_xlm'' = ''eth_to_xlm''" "js_trim ''xlm_to_eth'' = ''xlm_to_eth''"
  by code_simp+

lemma missing_chain_denied: "rq_from q = None \<Longrightarrow> supportsRoute policy q = Denied CHAIN_UNKNOWN"
  by (simp add: supportsRoute_def normaliseChain_def)

lemma decide_direction:
  assumes "decideOrderRoute policy req = Route_accepted f t tok" and "orq_direction req = Text d"
  shows "map_of DIRECTION_ROUTES (js_trim d) = Some (f, t)"
    and "\<exists>q. supportsRoute policy q = Supported \<and> rq_from q = Some (policy_chain_name f) \<and> rq_tokenClass q = Some (token_name tok)"
  using assms
  by (auto simp: decideOrderRoute_def obj_lookup_def Let_def requested_token_def missing_chain_denied
      split: option.splits lookup.splits verdict.splits json_field.splits if_splits)

lemma relayer_writes:
  assumes "Lock \<in> set (cs_actions (sp_chains (buildRelayerSupportPolicy i) c))"
  shows "{Observe, SettleFunds, RefundFunds} \<subseteq> set (cs_actions (sp_chains (buildRelayerSupportPolicy i) c))"
  using assms by (cases c) (auto simp: relayer_actions split: if_splits)

lemma relayer_tokens: "set (cs_tokenClasses (sp_chains (buildRelayerSupportPolicy i) c)) \<subseteq> {Native}"
  by (cases c) (auto simp: buildRelayerSupportPolicy_def relayer_ethereum_def relayer_stellar_def relayer_solana_def
      Let_def buildChainSupport_def)

lemma token_name_native: "token_name tok = ''native'' \<longleftrightarrow> tok = Native"
  by (cases tok) simp_all

lemma granted_iff:
  assumes "map_of DIRECTION_ROUTES d = Some (f, t)" and "map_of SETTLEMENT_COMMANDS name = Some command"
    and "chain = (if command = Cmd_settle then t else f)" and "field \<in> {Undefined, Text (policy_chain_name chain)}"
  shows "authorizeSettlementCommand policy config \<lparr>cr_command = name, cr_direction = d, cr_chain = field\<rparr> = Granted command chain
    \<longleftrightarrow> supportsRoute policy \<lparr>rq_from = Some (policy_chain_name f), rq_to = Some (policy_chain_name t), rq_tokenClass = None\<rparr> = Supported
      \<and> COMMAND_REQUIRED_ACTION command \<in> set (cs_actions (sp_chains policy chain)) \<and> \<not> account_missing config command chain"
  using assms by (auto simp: authorize_request authorize_on_Granted present_field_def Let_def)

lemma granted_command:
  assumes "authorizeSettlementCommand policy config \<lparr>cr_command = name, cr_direction = d, cr_chain = Undefined\<rparr> = Granted c ch"
  shows "\<exists>f t. map_of DIRECTION_ROUTES d = Some (f, t) \<and> map_of SETTLEMENT_COMMANDS name = Some c
    \<and> ch = (if c = Cmd_settle then t else f)"
  using assms
  by (cases "c = Cmd_settle") (auto simp: authorize_request authorize_on_Granted present_field_def Let_def split: option.splits)

lemma table_route_valid:
  assumes "map_of DIRECTION_ROUTES d = Some (f, t)"
  shows "\<exists>route. assertSettlementRoute \<lparr>orq_direction = Text d, orq_fromChain = Text (policy_chain_name f),
    orq_toChain = Text (policy_chain_name t), orq_fromToken = Undefined\<rparr> = Inr route"
  using assms
proof (rule direction_cases)
  assume "d = ''eth_to_xlm'' \<and> f = Ch_ethereum \<and> t = Ch_stellar"
  then show ?thesis by (auto intro!: exI [of _ "hd SUPPORTED_SETTLEMENT_ROUTES"]) code_simp
next
  assume "d = ''xlm_to_eth'' \<and> f = Ch_stellar \<and> t = Ch_ethereum"
  then show ?thesis by (auto intro!: exI [of _ "hd (tl SUPPORTED_SETTLEMENT_ROUTES)"]) code_simp
qed

lemma accepted_order_checks:
  assumes "decideOrderRoute (buildRelayerSupportPolicy i) req = Route_accepted f t tok"
    and "orq_direction req = Text d" and "checkOrderSettleable (buildRelayerSupportPolicy i) config d = None"
  shows "tok = Native
    \<and> authorizeSettlementCommand (buildRelayerSupportPolicy i) config
        \<lparr>cr_command = ''settle'', cr_direction = d, cr_chain = Text (policy_chain_name t)\<rparr> = Granted Cmd_settle t
    \<and> (\<forall>(name, command) \<in> {(''lock'', Cmd_lock), (''refund'', Cmd_refund), (''verify'', Cmd_verify)}.
        authorizeSettlementCommand (buildRelayerSupportPolicy i) config
          \<lparr>cr_command = name, cr_direction = d, cr_chain = Text (policy_chain_name f)\<rparr> = Granted command f)
    \<and> (\<exists>route. assertSettlementRoute \<lparr>orq_direction = Text d, orq_fromChain = Text (policy_chain_name f),
        orq_toChain = Text (policy_chain_name t), orq_fromToken = Undefined\<rparr> = Inr route)"
proof -
  let ?p = "buildRelayerSupportPolicy i"
  obtain c1 ch1 c2 ch2 where g: "authorizeSettlementCommand ?p config \<lparr>cr_command = ''lock'', cr_direction = d, cr_chain = Undefined\<rparr> = Granted c1 ch1"
    "authorizeSettlementCommand ?p config \<lparr>cr_command = ''settle'', cr_direction = d, cr_chain = Undefined\<rparr> = Granted c2 ch2"
    using settleable_granted [OF assms(3)] by (auto elim!: grantedE)
  obtain f' t' where d: "map_of DIRECTION_ROUTES d = Some (f', t')" using granted_command [OF g(1)] by blast
  have "js_trim d = d" using d by (rule direction_cases) (simp_all add: trim_direction)
  then have ft: "f' = f" "t' = t" using decide_direction(1) [OF assms(1,2)] d by simp_all
  have c: "c1 = Cmd_lock" "ch1 = f" "c2 = Cmd_settle" "ch2 = t"
    using granted_command [OF g(1)] granted_command [OF g(2)] d ft by auto
  have ok: "supportsRoute ?p \<lparr>rq_from = Some (policy_chain_name f), rq_to = Some (policy_chain_name t), rq_tokenClass = None\<rparr> = Supported"
    "Lock \<in> set (cs_actions (sp_chains ?p f))" "\<not> account_missing config Cmd_lock f"
    "SettleFunds \<in> set (cs_actions (sp_chains ?p t))" "\<not> account_missing config Cmd_settle t"
    using g granted_iff [OF d, of "''lock''" Cmd_lock] granted_iff [OF d, of "''settle''" Cmd_settle] unfolding c ft by simp_all
  have "\<not> account_missing config Cmd_refund f" "\<not> account_missing config Cmd_verify f"
    using ok(3) by (cases f; simp add: account_missing_def)+
  moreover have "tok = Native"
  proof -
    obtain q where "supportsRoute ?p q = Supported" "rq_from q = Some (policy_chain_name f)" "rq_tokenClass q = Some (token_name tok)"
      using decide_direction(2) [OF assms(1,2)] by blast
    then have "token_name tok \<in> token_name ` set (cs_tokenClasses (sp_chains ?p f))"
      using supportsRoute_carries [of ?p q] by auto
    then show ?thesis using relayer_tokens [of i f] token_name_native by auto
  qed
  moreover note table_route_valid [OF d [unfolded ft]]
  ultimately show ?thesis
    using ok relayer_writes [OF ok(2)] by (simp add: granted_iff [OF d [unfolded ft]])
qed

text \<open>C37. An order the relayer accepts can be carried to its end. If order creation passed both of its
  checks under the relayer's policy, then the asset is native and, under the same policy and configuration, the
  settlement-time checks cannot fail: \<open>settle\<close> is authorised on the destination chain, \<open>lock\<close>, \<open>refund\<close> and
  \<open>verify\<close> on the source chain, and the route validator accepts the order's direction and chains.\<close>

theorem accepted_order_settles:
  assumes "decideOrderRoute (buildRelayerSupportPolicy i) req = Route_accepted f t tok"
    and "orq_direction req = Text d" and "checkOrderSettleable (buildRelayerSupportPolicy i) config d = None"
  shows "tok = Native
    \<and> authorizeSettlementCommand (buildRelayerSupportPolicy i) config
        \<lparr>cr_command = ''settle'', cr_direction = d, cr_chain = Text (policy_chain_name t)\<rparr> = Granted Cmd_settle t
    \<and> (\<forall>(name, command) \<in> {(''lock'', Cmd_lock), (''refund'', Cmd_refund), (''verify'', Cmd_verify)}.
        authorizeSettlementCommand (buildRelayerSupportPolicy i) config
          \<lparr>cr_command = name, cr_direction = d, cr_chain = Text (policy_chain_name f)\<rparr> = Granted command f)
    \<and> (\<exists>route. assertSettlementRoute \<lparr>orq_direction = Text d, orq_fromChain = Text (policy_chain_name f),
        orq_toChain = Text (policy_chain_name t), orq_fromToken = Undefined\<rparr> = Inr route)"
  using assms by (rule accepted_order_checks)

definition example_request :: order_route_request where
  "example_request = \<lparr>orq_direction = Text ''xlm_to_eth'', orq_fromChain = Text ''Soroban'', orq_toChain = Text ''eth'',
     orq_fromToken = Text '' xlm ''\<rparr>"

definition example_accounts :: account_config where
  "example_accounts = \<lparr>ac_privateKey = Some ''0xabc'', ac_escrowFactory = Some ''0xfac'', ac_secretKey = Some ''SABC'',
     ac_horizonUrl = Some ''https://horizon''\<rparr>"

theorem accepted_order_settles_witness:
  "decideOrderRoute (buildRelayerSupportPolicy example_relayer) example_request = Route_accepted Ch_stellar Ch_ethereum Native
   \<and> checkOrderSettleable (buildRelayerSupportPolicy example_relayer) example_accounts ''xlm_to_eth'' = None
   \<and> authorizeSettlementCommand (buildRelayerSupportPolicy example_relayer) example_accounts
        \<lparr>cr_command = ''settle'', cr_direction = ''xlm_to_eth'', cr_chain = Text ''ethereum''\<rparr> = Granted Cmd_settle Ch_ethereum"
proof -
  have acc: "decideOrderRoute (buildRelayerSupportPolicy example_relayer) example_request = Route_accepted Ch_stellar Ch_ethereum Native"
    by code_simp
  have dir: "orq_direction example_request = Text ''xlm_to_eth''" by (simp add: example_request_def)
  have ok: "checkOrderSettleable (buildRelayerSupportPolicy example_relayer) example_accounts ''xlm_to_eth'' = None"
    by code_simp
  show ?thesis using accepted_order_settles [OF acc dir ok] acc ok by simp
qed

end
