(* ===== verification/Coordinator_Client.thy ===== *)
theory Coordinator_Client
  imports Prelude
begin

text \<open>
  \<open>CoordinatorClient\<close> of \<open>relayer/src/services/coordinator-client.ts\<close>: the gate that keeps the relayer from
  settling on missing or stale order metadata. The answer of an HTTP call is an argument; metrics, log lines
  and the building of the URL are not modelled.
\<close>

record order_metadata =
  om_orderId :: string
  om_status :: string

record coordinator_client =
  cc_maxFailures :: nat
  cc_failures :: nat
  cc_lastSuccessAt :: "int option"
  cc_safeMode :: bool
  cc_safeModeReason :: "string option"

definition MAX_CONSECUTIVE_FAILURES :: nat where "MAX_CONSECUTIVE_FAILURES = 3"

definition STALE_THRESHOLD_MS :: int where "STALE_THRESHOLD_MS = 30000"

definition new_CoordinatorClient :: "nat option \<Rightarrow> coordinator_client" where
  "new_CoordinatorClient maxFailures =
     \<lparr>cc_maxFailures = or_default maxFailures MAX_CONSECUTIVE_FAILURES, cc_failures = 0, cc_lastSuccessAt = None,
      cc_safeMode = False, cc_safeModeReason = None\<rparr>"

definition isAvailable :: "int \<Rightarrow> coordinator_client \<Rightarrow> bool" where
  "isAvailable now c =
     (\<not> cc_safeMode c \<and> (case cc_lastSuccessAt c of None \<Rightarrow> False | Some t \<Rightarrow> now - t < STALE_THRESHOLD_MS))"

definition cc_recordSuccess :: "int \<Rightarrow> coordinator_client \<Rightarrow> coordinator_client" where
  "cc_recordSuccess now c =
     (let c1 = c\<lparr>cc_failures := 0, cc_lastSuccessAt := Some now\<rparr>
      in if cc_safeMode c then c1\<lparr>cc_safeMode := False, cc_safeModeReason := None\<rparr> else c1)"

definition cc_recordFailure :: "string \<Rightarrow> coordinator_client \<Rightarrow> coordinator_client" where
  "cc_recordFailure reason c =
     (let n = cc_failures c + 1; c1 = c\<lparr>cc_failures := n\<rparr>
      in if \<not> cc_safeMode c \<and> n \<ge> cc_maxFailures c
         then c1\<lparr>cc_safeMode := True,
               cc_safeModeReason := Some (decimal n @ '' consecutive failures (last: '' @ reason @ '')'')\<rparr>
         else c1)"

datatype 'a http_answer = Http_ok 'a | Http_status nat | Http_timeout | Http_unreachable

text \<open>\<open>Http_ok\<close> is a 2xx response whose body parses; an unparsable body ends in the same \<open>catch\<close> as a network error.\<close>

definition cc_fetch :: "int \<Rightarrow> 'a http_answer \<Rightarrow> coordinator_client \<Rightarrow> coordinator_client \<times> 'a option" where
  "cc_fetch now answer c =
     (case answer of
        Http_ok body \<Rightarrow> (cc_recordSuccess now c, Some body)
      | Http_status status \<Rightarrow> (cc_recordFailure (''http_'' @ decimal status) c, None)
      | Http_timeout \<Rightarrow> (cc_recordFailure ''timeout'' c, None)
      | Http_unreachable \<Rightarrow> (cc_recordFailure ''connection_error'' c, None))"

definition getOrderMetadata ::
    "int \<Rightarrow> order_metadata http_answer \<Rightarrow> coordinator_client \<Rightarrow> coordinator_client \<times> order_metadata option" where
  "getOrderMetadata now answer c = (if cc_safeMode c then (c, None) else cc_fetch now answer c)"

definition cc_probe :: "int \<Rightarrow> unit http_answer \<Rightarrow> coordinator_client \<Rightarrow> coordinator_client \<times> bool" where
  "cc_probe now answer c = (let (c', r) = cc_fetch now answer c in (c', r \<noteq> None))"

text \<open>\<open>None\<close> is the verdict \<open>safe\<close>.\<close>

definition assertCoordinatorSafe :: "int \<Rightarrow> coordinator_client \<Rightarrow> order_metadata option \<Rightarrow> string option" where
  "assertCoordinatorSafe now c metadata =
     (if \<not> isAvailable now c then Some (or_default (cc_safeModeReason c) ''coordinator_unreachable'')
      else if metadata = None then Some ''null_metadata''
      else None)"

section \<open>Runs\<close>

datatype client_call = Call_metadata int "order_metadata http_answer" | Call_probe int "unit http_answer"

fun do_client_call :: "client_call \<Rightarrow> coordinator_client \<Rightarrow> coordinator_client" where
  "do_client_call (Call_metadata now a) c = fst (getOrderMetadata now a c)"
| "do_client_call (Call_probe now a) c = fst (cc_probe now a c)"

definition client_ok :: "coordinator_client \<Rightarrow> bool" where
  "client_ok c \<longleftrightarrow> 0 < cc_maxFailures c \<and> (cc_safeMode c \<longleftrightarrow> cc_maxFailures c \<le> cc_failures c)
     \<and> (cc_safeMode c \<longleftrightarrow> cc_safeModeReason c \<noteq> None)"

lemma client_call_ok:
  assumes "client_ok c"
  shows "client_ok (do_client_call k c) \<and> cc_maxFailures (do_client_call k c) = cc_maxFailures c"
  using assms
  by (cases k) (auto simp: client_ok_def getOrderMetadata_def cc_probe_def cc_fetch_def cc_recordSuccess_def
      cc_recordFailure_def Let_def split: http_answer.split)

lemma client_run_ok: "client_ok c \<Longrightarrow> client_ok (fold do_client_call ks c) \<and> cc_maxFailures (fold do_client_call ks c) = cc_maxFailures c"
  using client_call_ok by (induction ks arbitrary: c) auto

lemma coordinator_gate_iff:
  assumes "getOrderMetadata now answer c = (c', m)"
  shows "assertCoordinatorSafe now' c' m = None
    \<longleftrightarrow> \<not> cc_safeMode c \<and> (\<exists>body. answer = Http_ok body) \<and> now' - now < STALE_THRESHOLD_MS"
  using assms
  by (auto simp: getOrderMetadata_def assertCoordinatorSafe_def isAvailable_def cc_fetch_def cc_recordSuccess_def Let_def
      split: http_answer.splits if_splits)

text \<open>C38. No settlement on missing or stale metadata. After any history of calls, the verdict on the metadata just
  requested is \<open>safe\<close> exactly when the client was not in safe mode, the coordinator answered this very request and
  less than thirty seconds have passed since; and the client is in safe mode exactly while the consecutive
  failures have reached the limit, a state that metadata requests do not change.\<close>

theorem coordinator_gate_exact:
  assumes "c = fold do_client_call ks (new_CoordinatorClient None)" and "getOrderMetadata now answer c = (c', m)"
  shows "(assertCoordinatorSafe now' c' m = None
      \<longleftrightarrow> \<not> cc_safeMode c \<and> (\<exists>body. answer = Http_ok body) \<and> now' - now < STALE_THRESHOLD_MS)
    \<and> (cc_safeMode c \<longleftrightarrow> MAX_CONSECUTIVE_FAILURES \<le> cc_failures c) \<and> (cc_safeMode c \<longrightarrow> c' = c)"
proof -
  have "client_ok (new_CoordinatorClient None)" by (simp add: client_ok_def new_CoordinatorClient_def MAX_CONSECUTIVE_FAILURES_def)
  from client_run_ok [OF this, of ks] have "client_ok c" "cc_maxFailures c = MAX_CONSECUTIVE_FAILURES"
    by (simp_all add: assms(1) new_CoordinatorClient_def)
  then show ?thesis
    using coordinator_gate_iff [OF assms(2)] assms(2) by (auto simp: client_ok_def getOrderMetadata_def)
qed

theorem coordinator_gate_exact_witness:
  "assertCoordinatorSafe 60 (fst (getOrderMetadata 50 (Http_ok \<lparr>om_orderId = ''o'', om_status = ''announced''\<rparr>)
       (fold do_client_call [Call_probe 10 Http_timeout] (new_CoordinatorClient None))))
     (snd (getOrderMetadata 50 (Http_ok \<lparr>om_orderId = ''o'', om_status = ''announced''\<rparr>)
       (fold do_client_call [Call_probe 10 Http_timeout] (new_CoordinatorClient None)))) = None"
proof -
  let ?c = "fold do_client_call [Call_probe 10 Http_timeout] (new_CoordinatorClient None)"
  let ?a = "Http_ok \<lparr>om_orderId = ''o'', om_status = ''announced''\<rparr>"
  obtain c' m where r: "getOrderMetadata 50 ?a ?c = (c', m)" by (cases "getOrderMetadata 50 ?a ?c")
  have "\<not> cc_safeMode ?c" by code_simp
  then have "assertCoordinatorSafe 60 c' m = None"
    using coordinator_gate_exact [OF refl r, of 60] by (simp add: STALE_THRESHOLD_MS_def)
  then show ?thesis unfolding r by simp
qed

end
