(* ===== verification/Order_Routes.thy ===== *)
theory Order_Routes
  imports Payment_Proofs Failure_Store Refund_Paths Settlement_Permissions Coordinator_Client
begin

text \<open>
  The endpoints of \<open>relayer/src/routes/orders.ts\<close>: \<open>/api/orders/create\<close>, \<open>/api/orders/xlm-to-eth\<close>, both directions
  of \<open>/api/orders/process\<close> with \<open>processEscrowToStellar\<close>, and the history, over the relayer's shared state: the
  active orders, the proof ledger, the refund ledger, the failure store, the retry engine and the coordinator
  client. The manual refund is in \<open>Refund_Paths\<close>. Also the order predicates of \<open>relayer/src/utils/order-poll-utils.ts\<close>
  and the choice of the RPC URL in \<open>packages/config/src/ethereum-rpc-url.ts\<close>.

  The Ethereum wallet, Horizon, the Stellar library, the coordinator's answers, the environment variables and
  whether a ledger write succeeds are arguments. A request runs to its end before the next one starts; the
  proof ledger's own guarantee holds for every interleaving. Amounts that the code computes in double
  arithmetic (\<open>toFixed\<close>, \<open>parseFloat\<close> comparisons of XLM balances) are arguments too; \<open>bigint\<close> amounts
  are exact. Metrics and log lines are not modelled.
\<close>

section \<open>State and environment\<close>

text \<open>What \<open>Number(v)\<close> gives for a stored exchange rate.\<close>

datatype js_num = NaN | Infinite | Finite rat

record relay_order =
  ro_base :: watchdog_order
  ro_ethAddress :: "string option"
  ro_networkMode :: "string option"
  ro_exchangeRate :: "js_num option"
  ro_ethTxHash :: "string option"
  ro_contractType :: "string option"
  ro_timestamp :: "int option"

record eth_transfer =
  et_to :: string
  et_value :: int

text \<open>Every transaction handed to the wallet, with the Stellar payment it is for and whether it reached the network.\<close>

record eth_send =
  es_proof :: string
  es_tx :: eth_transfer
  es_reached :: bool

record chain_world =
  cw_calls :: nat
  cw_sends :: "eth_send list"
  cw_xlm :: "(payment \<times> (thrown + string)) list"

record route_sys =
  rx_orders :: "(string, relay_order) jsmap"
  rx_proofs :: proof_ledger
  rx_refunds :: refund_ledger
  rx_failures :: failure_store
  rx_engine :: retry_engine
  rx_coord :: coordinator_client
  rx_world :: chain_world
  rx_out :: outbox

text \<open>The answers of the wallet to its calls, numbered: how long each takes, and for a transaction whether it
  reaches the network, which may happen although the call fails or takes too long.\<close>

record wallet =
  wl_balance :: "nat \<Rightarrow> nat \<times> (thrown + int)"
  wl_send :: "nat \<Rightarrow> eth_transfer \<Rightarrow> nat \<times> bool \<times> (thrown + string)"
  wl_wait :: "nat \<Rightarrow> nat \<times> (thrown + string option)"

record stellar_account =
  sa_balance :: "nat \<Rightarrow> thrown + string"
  sa_build :: "payment \<Rightarrow> thrown option"
  sa_submit :: "nat \<Rightarrow> payment \<Rightarrow> thrown + string"

record route_env =
  ev_env :: "string \<Rightarrow> string option"
  ev_wallet :: "string \<Rightarrow> string \<Rightarrow> thrown + wallet"
  ev_fromSecret :: "string \<Rightarrow> thrown + string"
  ev_payments :: "string \<Rightarrow> payment_horizon"
  ev_refunds :: "string \<Rightarrow> horizon"
  ev_stellar :: "string \<Rightarrow> string \<Rightarrow> stellar_account"
  ev_coordinator :: "order_metadata http_answer"
  ev_policy :: support_policy
  ev_accounts :: account_config
  ev_defaultNetwork :: string
  ev_rpcTimeoutMs :: nat
  ev_random :: "nat \<Rightarrow> rat"
  ev_written :: bool
  ev_feeBumpCap :: int
  ev_baseFee :: int
  ev_xlmAmount :: "string \<Rightarrow> js_num \<Rightarrow> string option"
  ev_less :: "string \<Rightarrow> string \<Rightarrow> bool"

datatype reply = Reply nat string

section \<open>Configuration\<close>

definition PUBLIC_SEPOLIA :: string where "PUBLIC_SEPOLIA = ''https://ethereum-sepolia-rpc.publicnode.com''"

definition PUBLIC_MAINNET :: string where "PUBLIC_MAINNET = ''https://ethereum-rpc.publicnode.com''"

definition infuraRpcUrl :: "bool \<Rightarrow> string \<Rightarrow> string" where
  "infuraRpcUrl mainnet apiKey =
     (if mainnet then ''https://mainnet.infura.io/v3'' else ''https://sepolia.infura.io/v3'') @ ''/'' @ js_trim apiKey"

definition resolveEthereumRpcUrl :: "bool \<Rightarrow> (string \<Rightarrow> string option) \<Rightarrow> string" where
  "resolveEthereumRpcUrl mainnet env =
     (let infuraKey = or_default (map_option js_trim (env ''INFURA_API_KEY'')) [];
          candidates = [or_default (map_option js_trim (env (if mainnet then ''MAINNET_RPC_URL'' else ''SEPOLIA_RPC_URL''))) [],
            or_default (map_option js_trim (env ''ETHEREUM_RPC_URL'')) [],
            if infuraKey \<noteq> [] then infuraRpcUrl mainnet infuraKey else []]
      in or_default (find (\<lambda>u. u \<noteq> []) candidates) (if mainnet then PUBLIC_MAINNET else PUBLIC_SEPOLIA))"

definition known_network :: "string \<Rightarrow> bool" where
  "known_network net = (net \<in> {''mainnet'', ''testnet''})"

definition relayer_secret :: "route_env \<Rightarrow> string \<Rightarrow> string option" where
  "relayer_secret ev net =
     (case ev_env ev (if net = ''mainnet'' then ''RELAYER_STELLAR_SECRET_MAINNET'' else ''RELAYER_STELLAR_SECRET_TESTNET'') of
        Some s \<Rightarrow> Some s
      | None \<Rightarrow> ev_env ev ''RELAYER_STELLAR_SECRET'')"

section \<open>Amounts\<close>

text \<open>\<open>bigint\<close> division truncates.\<close>

definition bigint_quot :: "int \<Rightarrow> int \<Rightarrow> int" where
  "bigint_quot a b = sgn a * sgn b * (\<bar>a\<bar> div \<bar>b\<bar>)"

definition bigint_rem :: "int \<Rightarrow> int \<Rightarrow> int" where
  "bigint_rem a b = a - bigint_quot a b * b"

text \<open>\<open>BigInt(iPart) * 10_000_000n + BigInt(fPart.padEnd(7, '0').substring(0, 7))\<close> of the first two parts.\<close>

definition payment_stroops :: "string \<Rightarrow> int option" where
  "payment_stroops amount =
     (case bigint_of_string (before_dot amount) of
        None \<Rightarrow> None
      | Some i \<Rightarrow>
          (case bigint_of_string (take 7 (padEnd 7 (CHR ''0'') (before_dot (after_dot amount)))) of
             None \<Rightarrow> None
           | Some f \<Rightarrow> Some (i * 10000000 + f)))"

definition isSafeInteger :: "int \<Rightarrow> bool" where
  "isSafeInteger n = (\<bar>n\<bar> \<le> 9007199254740991)"

datatype 'a step_result = Value 'a | Respond reply | Throws thrown

definition release_wei :: "js_num option \<Rightarrow> string \<Rightarrow> int step_result" where
  "release_wei rate amount =
     (case rate of
        Some (Finite r) \<Rightarrow>
          if r \<le> 0 then Respond (Reply 400 ''Missing valid exchange rate'')
          else (case payment_stroops amount of
             None \<Rightarrow> Throws (plain_error ''Cannot convert to a BigInt'')
           | Some stroops \<Rightarrow>
               let rateBig = js_round r
               in if \<not> isSafeInteger rateBig then Respond (Reply 400 ''Exchange rate is too large to convert safely'')
                  else if rateBig = 0 then Respond (Reply 400 ''Exchange rate rounds to zero'')
                  else let wei = bigint_quot (stroops * 1000000000000000000) (rateBig * 10000000)
                       in if wei = 0 then Respond (Reply 400 ''XLM too small to release ETH'') else Value wei)
      | _ \<Rightarrow> Respond (Reply 400 ''Missing valid exchange rate''))"

definition GAS_COST :: int where "GAS_COST = 21000 * (20 * 1000000000)"

section \<open>Retried Ethereum calls\<close>

definition with_timeout :: "nat option \<Rightarrow> string \<Rightarrow> nat \<times> (thrown + 'a) \<Rightarrow> nat \<times> (thrown + 'a)" where
  "with_timeout ms msg answer =
     (case ms of None \<Rightarrow> answer | Some t \<Rightarrow> if fst answer < t then answer else (t, Inl (plain_error msg)))"

definition counted :: "chain_world \<Rightarrow> chain_world" where
  "counted w = w\<lparr>cw_calls := cw_calls w + 1\<rparr>"

definition balance_call :: "wallet \<Rightarrow> nat option \<Rightarrow> (chain_world, thrown, int) effect" where
  "balance_call wl ms now w =
     (let (d, r) = with_timeout ms ''getBalance timeout'' (wl_balance wl (cw_calls w)) in (counted w, d, r))"

definition send_call :: "wallet \<Rightarrow> nat option \<Rightarrow> string \<Rightarrow> eth_transfer \<Rightarrow> (chain_world, thrown, string) effect" where
  "send_call wl ms proof tx now w =
     (case wl_send wl (cw_calls w) tx of
        (d, reached, r) \<Rightarrow>
          let (d', r') = with_timeout ms ''sendTransaction timeout'' (d, r)
          in (counted (w\<lparr>cw_sends := cw_sends w @ [\<lparr>es_proof = proof, es_tx = tx, es_reached = reached\<rparr>]\<rparr>), d', r'))"

definition wait_call :: "wallet \<Rightarrow> (chain_world, thrown, string option) effect" where
  "wait_call wl now w = (let (d, r) = wl_wait wl (cw_calls w) in (counted w, d, r))"

text \<open>\<open>runWithSettlementRetry\<close>; the failure store is told before and after.\<close>

definition runWithSettlementRetry ::
    "route_env \<Rightarrow> string \<Rightarrow> thrown run_options \<Rightarrow> (chain_world, thrown, 'a) effect \<Rightarrow> string \<Rightarrow> string
     \<Rightarrow> ('a \<Rightarrow> string option) \<Rightarrow> int \<Rightarrow> route_sys \<Rightarrow> route_sys \<times> int \<times> (thrown + 'a)" where
  "runWithSettlementRetry ev action opts fn oid direction txHash now s =
     (let s1 = (if hasFailed oid (rx_failures s) then s\<lparr>rx_failures := markRecovering now oid (rx_failures s)\<rparr> else s)
      in case engine_run th_message action fn opts (ev_random ev) now (rx_engine s1) (rx_world s1) of
           (eng, w, t, Inr a) \<Rightarrow>
             let s2 = s1\<lparr>rx_engine := eng, rx_world := w\<rparr>
             in (if hasFailed oid (rx_failures s2)
                 then s2\<lparr>rx_failures := markRecovered t oid (or_default (txHash a) []) (rx_failures s2)\<rparr> else s2, t, Inr a)
         | (eng, w, t, Inl err) \<Rightarrow>
             let e = engine_error action err
             in (s1\<lparr>rx_engine := eng, rx_world := w,
                   rx_failures := recordFailure t \<lparr>fp_orderId = oid, fp_direction = direction,
                     fp_category = classifyFailureCategory e On_ethereum, fp_errorMessage = th_message e,
                     fp_chain = On_ethereum,
                     fp_recoveryAction = Some (''RetryEngine exhausted for action='' @ action)\<rparr> (rx_failures s1)\<rparr>, t, Inl e))"

section \<open>Checks before a release\<close>

text \<open>The empty direction stands for a missing one.\<close>

definition order_direction :: "relay_order \<Rightarrow> string" where
  "order_direction ord = (if wo_direction (ro_base ord) = [] then ''xlm_to_eth'' else wo_direction (ro_base ord))"

definition route_check :: "relay_order \<Rightarrow> reply option" where
  "route_check ord =
     (case assertSettlementRoute \<lparr>orq_direction = Text (order_direction ord), orq_fromChain = Text ''stellar'',
             orq_toChain = Text ''ethereum'', orq_fromToken = Undefined\<rparr> of
        Inl _ \<Rightarrow> Some (Reply 400 ''invalid_route'')
      | Inr _ \<Rightarrow> None)"

definition coordinator_check :: "route_env \<Rightarrow> int \<Rightarrow> route_sys \<Rightarrow> route_sys \<times> reply option" where
  "coordinator_check ev now s =
     (let (c, m) = getOrderMetadata now (ev_coordinator ev) (rx_coord s)
      in (s\<lparr>rx_coord := c\<rparr>,
          case assertCoordinatorSafe now c m of None \<Rightarrow> None | Some _ \<Rightarrow> Some (Reply 503 ''coordinator_unavailable'')))"

definition permission_check :: "route_env \<Rightarrow> relay_order \<Rightarrow> unit step_result" where
  "permission_check ev ord =
     (case authorizeSettlementCommand (ev_policy ev) (ev_accounts ev)
             \<lparr>cr_command = ''settle'', cr_direction = order_direction ord, cr_chain = Text ''ethereum''\<rparr> of
        Granted _ _ \<Rightarrow> Value ()
      | Refused _ \<Rightarrow> Respond (Reply 403 ''settlement_permission_denied'')
      | Authorization_threw \<Rightarrow> Throws (plain_error ''Cannot read properties of undefined''))"

text \<open>The route, coordinator and permission checks, in the order of the code.\<close>

definition settlement_checks :: "route_env \<Rightarrow> relay_order \<Rightarrow> int \<Rightarrow> route_sys \<Rightarrow> route_sys \<times> unit step_result" where
  "settlement_checks ev ord now s =
     (case route_check ord of
        Some r \<Rightarrow> (s, Respond r)
      | None \<Rightarrow>
          (case coordinator_check ev now s of
             (s1, Some r) \<Rightarrow> (s1, Respond r)
           | (s1, None) \<Rightarrow> (s1, permission_check ev ord)))"

definition put_relay_order :: "string \<Rightarrow> relay_order \<Rightarrow> route_sys \<Rightarrow> route_sys" where
  "put_relay_order oid ord s = s\<lparr>rx_orders := jm_set oid ord (rx_orders s)\<rparr>"

section \<open>The release of \<open>xlm-to-eth\<close>\<close>

record release_job =
  rj_orderId :: string
  rj_hash :: string
  rj_to :: string
  rj_amount :: string
  rj_rpcUrl :: string
  rj_privateKey :: string

text \<open>The \<open>try\<close> block from the wallet on.\<close>

definition release_send :: "route_env \<Rightarrow> wallet \<Rightarrow> release_job \<Rightarrow> relay_order \<Rightarrow> int \<Rightarrow> int \<Rightarrow> route_sys \<Rightarrow> route_sys \<times> int \<times> string step_result" where
  "release_send ev wl j ord balance now s =
     (case release_wei (ro_exchangeRate ord) (rj_amount j) of
        Respond r \<Rightarrow> (s, now, Respond r)
      | Throws e \<Rightarrow> (s, now, Throws e)
      | Value wei \<Rightarrow>
          if balance < wei + GAS_COST then (s, now, Respond (Reply 400 ''Insufficient relayer balance''))
          else (case runWithSettlementRetry ev ''eth-send'' ETH_SEND_RETRY
                       (send_call wl (Some (ev_rpcTimeoutMs ev)) (rj_hash j) \<lparr>et_to = rj_to j, et_value = wei\<rparr>)
                       (rj_orderId j) (order_direction ord) Some now s of
             (s1, t, Inl e) \<Rightarrow> (s1, t, Throws e)
           | (s1, t, Inr hash) \<Rightarrow> (s1, t, Value hash)))"

definition release_attempt :: "route_env \<Rightarrow> release_job \<Rightarrow> relay_order \<Rightarrow> int \<Rightarrow> route_sys \<Rightarrow> route_sys \<times> int \<times> string step_result" where
  "release_attempt ev j ord now s =
     (case settlement_checks ev ord now s of
        (s1, Respond r) \<Rightarrow> (s1, now, Respond r)
      | (s1, Throws e) \<Rightarrow> (s1, now, Throws e)
      | (s1, Value _) \<Rightarrow>
          (case ev_wallet ev (rj_rpcUrl j) (rj_privateKey j) of
             Inl e \<Rightarrow> (s1, now, Throws e)
           | Inr wl \<Rightarrow>
               (case runWithSettlementRetry ev ''eth-balance'' ETH_BALANCE_RETRY (balance_call wl (Some (ev_rpcTimeoutMs ev)))
                       (rj_orderId j) (order_direction ord) (\<lambda>_. None) now s1 of
                  (s2, t, Inl e) \<Rightarrow> (s2, t, Throws e)
                | (s2, t, Inr balance) \<Rightarrow> release_send ev wl j ord balance t s2)))"

text \<open>The \<open>catch\<close> block: an inline refund when the request named its Stellar address, and a failure record.\<close>

definition release_failed ::
    "route_env \<Rightarrow> release_job \<Rightarrow> string option \<Rightarrow> string \<Rightarrow> relay_order \<Rightarrow> thrown \<Rightarrow> int \<Rightarrow> route_sys \<Rightarrow> route_sys" where
  "release_failed ev j addr net ord e now s =
     (let s1 = (if truthy addr then
                  (let rs = \<lparr>rs_ledger = rx_refunds s, rs_orders = [(rj_orderId j, ro_base ord)], rs_out = rx_out s\<rparr>;
                       rs' = fst (inline_refund (ev_refunds ev net) now (ev_feeBumpCap ev) (rj_orderId j) (the addr)
                                    (Some (rj_hash j)) (rj_amount j) (ro_base ord) rs)
                   in put_relay_order (rj_orderId j)
                        (ord\<lparr>ro_base := or_default (jm_get (rs_orders rs') (rj_orderId j)) (ro_base ord)\<rparr>)
                        (s\<lparr>rx_refunds := rs_ledger rs', rx_out := rs_out rs'\<rparr>))
                else s)
      in s1\<lparr>rx_failures := recordFailure now \<lparr>fp_orderId = rj_orderId j, fp_direction = order_direction ord,
             fp_category = classifyFailureCategory e On_ethereum, fp_errorMessage = th_message e, fp_chain = On_ethereum,
             fp_recoveryAction = Some ''XLM refund attempted; watchdog will follow up''\<rparr> (rx_failures s1)\<rparr>)"

definition release_eth ::
    "route_env \<Rightarrow> release_job \<Rightarrow> string option \<Rightarrow> string \<Rightarrow> relay_order \<Rightarrow> int \<Rightarrow> route_sys \<Rightarrow> route_sys \<times> reply" where
  "release_eth ev j addr net ord now s =
     (case release_attempt ev j ord now s of
        (s1, t, Respond r) \<Rightarrow> (s1, r)
      | (s1, t, Throws e) \<Rightarrow> (release_failed ev j addr net ord e t s1, Reply 500 ''ETH release failed'')
      | (s1, t, Value hash) \<Rightarrow>
          (put_relay_order (rj_orderId j)
             (ord\<lparr>ro_base := (ro_base ord)\<lparr>wo_status := ''eth_tx_sent''\<rparr>, ro_ethTxHash := Some hash\<rparr>) s1,
           Reply 200 hash))"

section \<open>The endpoint \<open>xlm-to-eth\<close>\<close>

record eth_request =
  xq_orderId :: string
  xq_stellarTxHash :: string
  xq_stellarAddress :: "string option"
  xq_ethAddress :: string
  xq_networkMode :: "string option"
  xq_queryNetwork :: "string option"

definition requested_network :: "route_env \<Rightarrow> eth_request \<Rightarrow> string" where
  "requested_network ev q =
     (case xq_networkMode q of Some n \<Rightarrow> n | None \<Rightarrow> or_default (xq_queryNetwork q) (ev_defaultNetwork ev))"

text \<open>What the request writes into the stored order before anything is verified.\<close>

definition touch_order :: "route_env \<Rightarrow> eth_request \<Rightarrow> int \<Rightarrow> relay_order \<Rightarrow> relay_order" where
  "touch_order ev q now ord =
     (let b = ro_base ord;
          b1 = b\<lparr>wo_xlmReceivedAt := (case wo_xlmReceivedAt b of None \<Rightarrow> Some (TsNumber now) | some \<Rightarrow> some),
                 wo_stellarTxHash := Some (xq_stellarTxHash q)\<rparr>;
          b2 = (if truthy (xq_stellarAddress q) then b1\<lparr>wo_stellarAddress := xq_stellarAddress q\<rparr> else b1)
      in ord\<lparr>ro_base := b2,
             ro_networkMode := (case ro_networkMode ord of None \<Rightarrow> Some (requested_network ev q) | some \<Rightarrow> some)\<rparr>)"

definition verify_reply :: "verify_error \<Rightarrow> reply" where
  "verify_reply e =
     (case e of
        TxNotFound \<Rightarrow> Reply 404 ''Stellar tx not found''
      | TxFailed \<Rightarrow> Reply 400 ''Stellar tx failed''
      | PaymentMismatch \<Rightarrow> Reply 400 ''Stellar payment mismatch''
      | FetchError \<Rightarrow> Reply 503 ''Horizon verification unavailable'')"

text \<open>From the verification of the payment to the end.\<close>

definition verified_release ::
    "route_env \<Rightarrow> eth_request \<Rightarrow> string \<Rightarrow> string \<Rightarrow> string \<Rightarrow> relay_order \<Rightarrow> int \<Rightarrow> route_sys \<Rightarrow> route_sys \<times> reply" where
  "verified_release ev q net pk relayer ord now s =
     (case verifyIncomingStellarPayment (ev_payments ev net) (xq_stellarTxHash q) relayer (xq_stellarAddress q) of
        Inl e \<Rightarrow> (s, verify_reply e)
      | Inr v \<Rightarrow>
          (case pl_consume (ev_written ev) now (xq_stellarTxHash q) (xq_orderId q) (vp_amount v) (vp_ledgerSequence v) (rx_proofs s) of
             (l, False) \<Rightarrow> (s, Reply 409 ''Stellar tx consumed by concurrent request'')
           | (l, True) \<Rightarrow>
               release_eth ev \<lparr>rj_orderId = xq_orderId q, rj_hash = xq_stellarTxHash q, rj_to = xq_ethAddress q,
                   rj_amount = vp_amount v, rj_rpcUrl = resolveEthereumRpcUrl (net \<noteq> ''testnet'') (ev_env ev), rj_privateKey = pk\<rparr>
                 (xq_stellarAddress q) net ord now (s\<lparr>rx_proofs := l\<rparr>)))"

text \<open>The checks on the stored order, up to the verification.\<close>

definition settle_order :: "route_env \<Rightarrow> eth_request \<Rightarrow> relay_order \<Rightarrow> int \<Rightarrow> route_sys \<Rightarrow> route_sys \<times> reply" where
  "settle_order ev q ord now s =
     (let net = (if requested_network ev q \<noteq> [] then requested_network ev q
                 else if truthy (ro_networkMode ord) then the (ro_networkMode ord) else ''mainnet'');
          failed = Reply 500 ''processing failed''; status = wo_status (ro_base ord); direction = wo_direction (ro_base ord)
      in if \<not> truthy (ev_env ev ''RELAYER_PRIVATE_KEY'') then (s, failed)
         else if direction \<noteq> [] \<and> direction \<noteq> ''xlm_to_eth'' then (s, Reply 400 ''Order direction mismatch'')
         else if status = ''eth_tx_sent'' \<or> status = ''completed'' then (s, Reply 200 ''Order already settled.'')
         else if status = ''refunded'' \<or> status = ''stellar_transfer_failed'' then (s, Reply 409 ''Order in terminal state'')
         else if \<not> known_network net then (s, failed)
         else if \<not> truthy (relayer_secret ev net) then (s, Reply 500 ''Relayer Stellar secret not configured'')
         else (case ev_fromSecret ev (the (relayer_secret ev net)) of
            Inl _ \<Rightarrow> (s, failed)
          | Inr relayer \<Rightarrow> verified_release ev q net (the (ev_env ev ''RELAYER_PRIVATE_KEY'')) relayer ord now s))"

definition xlm_to_eth :: "route_env \<Rightarrow> eth_request \<Rightarrow> int \<Rightarrow> route_sys \<Rightarrow> route_sys \<times> reply" where
  "xlm_to_eth ev q now s =
     (if xq_orderId q = [] \<or> xq_stellarTxHash q = [] \<or> xq_ethAddress q = [] then (s, Reply 400 ''Missing required fields'')
      else if isConsumed (xq_stellarTxHash q) (rx_proofs s) then (s, Reply 409 ''Stellar transaction already consumed'')
      else case jm_get (rx_orders s) (xq_orderId q) of
        None \<Rightarrow> (s, Reply 404 ''Order not found'')
      | Some stored \<Rightarrow>
          let ord = touch_order ev q now stored
          in settle_order ev q ord now (put_relay_order (xq_orderId q) ord s))"

section \<open>The endpoint \<open>process\<close>\<close>

record process_request =
  pq_orderId :: string
  pq_txHash :: "string option"
  pq_stellarTxHash :: "string option"
  pq_stellarAddress :: "string option"
  pq_ethAddress :: "string option"

text \<open>\<open>processEscrowToStellar\<close>: the amount, the checks and the payment.\<close>

definition escrow_stroops :: "relay_order \<Rightarrow> int option" where
  "escrow_stroops ord =
     (case Option.bind (wo_amount (ro_base ord)) bigint_of_string of
        None \<Rightarrow> None
      | Some wei \<Rightarrow>
          (case or_default (ro_exchangeRate ord) (Finite 10000) of
             Finite r \<Rightarrow>
               if isSafeInteger (js_round r) then Some (bigint_quot (wei * js_round r) 1000000000000000000) else None
           | _ \<Rightarrow> None))"

definition escrow_xlm :: "int \<Rightarrow> string" where
  "escrow_xlm stroops =
     number_string (bigint_quot stroops 10000000) @ ''.''
     @ padStart 7 (CHR ''0'') (number_string (bigint_rem stroops 10000000))"

definition pay_xlm :: "stellar_account \<Rightarrow> payment \<Rightarrow> chain_world \<Rightarrow> chain_world \<times> (thrown + string)" where
  "pay_xlm acc p w =
     (case sa_build acc p of
        Some e \<Rightarrow> (w, Inl e)
      | None \<Rightarrow> let answer = sa_submit acc (cw_calls w) p
                in (counted (w\<lparr>cw_xlm := cw_xlm w @ [(p, answer)]\<rparr>), answer))"

definition stellar_pay ::
    "route_env \<Rightarrow> string \<Rightarrow> string option \<Rightarrow> string option \<Rightarrow> string \<Rightarrow> chain_world \<Rightarrow> chain_world \<times> (thrown + string)" where
  "stellar_pay ev net destination amount memo w =
     (let secret = relayer_secret ev net
      in if \<not> truthy secret \<or> startsWith (the secret) ''SAXXX'' then (w, Inl (plain_error ''Stellar secret not configured''))
         else case ev_fromSecret ev (the secret) of
           Inl e \<Rightarrow> (w, Inl e)
         | Inr key \<Rightarrow>
             (case sa_balance (ev_stellar ev net key) (cw_calls w) of
                Inl e \<Rightarrow> (counted w, Inl e)
              | Inr balance \<Rightarrow>
                  (case amount of
                     None \<Rightarrow> (counted w, Inl (plain_error ''Invalid amount''))
                   | Some xlm \<Rightarrow>
                       if ev_less ev balance xlm then (counted w, Inl (plain_error ''Insufficient XLM''))
                       else pay_xlm (ev_stellar ev net key)
                              \<lparr>p_destination = or_default destination [], p_amount = xlm, p_fee = ev_baseFee ev, p_memo = memo\<rparr>
                              (counted w))))"

definition processEscrowToStellar :: "route_env \<Rightarrow> string \<Rightarrow> relay_order \<Rightarrow> chain_world \<Rightarrow> chain_world \<times> relay_order" where
  "processEscrowToStellar ev oid ord w =
     (case stellar_pay ev ''mainnet'' (wo_stellarAddress (ro_base ord)) (map_option escrow_xlm (escrow_stroops ord))
             (''EscrowBridge:'' @ take 20 oid) w of
        (w', Inl _) \<Rightarrow> (w', ord\<lparr>ro_base := (ro_base ord)\<lparr>wo_status := ''stellar_transfer_failed''\<rparr>\<rparr>)
      | (w', Inr hash) \<Rightarrow>
          (w', ord\<lparr>ro_base := (ro_base ord)\<lparr>wo_status := ''completed'', wo_stellarTxHash := Some hash\<rparr>\<rparr>))"

text \<open>The direction ETH to XLM: the payment goes out on the strength of the request alone.\<close>

definition process_eth_to_xlm :: "route_env \<Rightarrow> string \<Rightarrow> string option \<Rightarrow> relay_order \<Rightarrow> route_sys \<Rightarrow> route_sys \<times> reply" where
  "process_eth_to_xlm ev oid userStellar ord s =
     (case stellar_pay ev (if str_includes (or_default (ro_contractType ord) []) ''ONEINCH'' then ''mainnet'' else ''testnet'')
             userStellar
             (ev_xlmAmount ev (or_default (wo_amount (ro_base ord)) ''1000000000000000'')
                (or_default (ro_exchangeRate ord) (Finite 10000)))
             (''Bridge:'' @ take 20 oid) (rx_world s) of
        (w, Inl _) \<Rightarrow> (s\<lparr>rx_world := w\<rparr>, Reply 502 ''Stellar transaction failed'')
      | (w, Inr hash) \<Rightarrow>
          (put_relay_order oid (ord\<lparr>ro_base := (ro_base ord)\<lparr>wo_status := ''completed'', wo_stellarTxHash := Some hash\<rparr>\<rparr>)
             (s\<lparr>rx_world := w\<rparr>), Reply 200 hash))"

text \<open>The direction XLM to ETH, after the proof is consumed: amount, checks, balance, transaction, confirmation.\<close>

definition process_send ::
    "route_env \<Rightarrow> wallet \<Rightarrow> release_job \<Rightarrow> relay_order \<Rightarrow> int \<Rightarrow> int \<Rightarrow> route_sys \<Rightarrow> route_sys \<times> string option step_result" where
  "process_send ev wl j ord wei now s =
     (let dir = order_direction ord; oid = rj_orderId j
      in case runWithSettlementRetry ev ''eth-balance'' ETH_BALANCE_RETRY (balance_call wl None) oid dir (\<lambda>_. None) now s of
           (s1, t, Inl e) \<Rightarrow> (s1, Throws e)
         | (s1, t, Inr balance) \<Rightarrow>
             if balance < wei + GAS_COST then (s1, Respond (Reply 400 ''Insufficient relayer balance''))
             else (case runWithSettlementRetry ev ''eth-send'' ETH_SEND_RETRY
                          (send_call wl None (rj_hash j) \<lparr>et_to = rj_to j, et_value = wei\<rparr>) oid dir Some t s1 of
                (s2, t2, Inl e) \<Rightarrow> (s2, Throws e)
              | (s2, t2, Inr hash) \<Rightarrow>
                  (case runWithSettlementRetry ev ''eth-confirm'' ETH_CONFIRM_RETRY (wait_call wl) oid dir (\<lambda>_. None) t2 s2 of
                     (s3, t3, Inl e) \<Rightarrow> (s3, Throws e)
                   | (s3, t3, Inr receipt) \<Rightarrow> (s3, Value receipt))))"

definition process_release :: "route_env \<Rightarrow> release_job \<Rightarrow> relay_order \<Rightarrow> int \<Rightarrow> route_sys \<Rightarrow> route_sys \<times> string option step_result" where
  "process_release ev j ord now s =
     (case release_wei (ro_exchangeRate ord) (rj_amount j) of
        Respond r \<Rightarrow> (s, Respond r)
      | Throws e \<Rightarrow> (s, Throws e)
      | Value wei \<Rightarrow>
          (case settlement_checks ev ord now s of
             (s1, Respond r) \<Rightarrow> (s1, Respond r)
           | (s1, Throws e) \<Rightarrow> (s1, Throws e)
           | (s1, Value _) \<Rightarrow>
               (case ev_wallet ev (rj_rpcUrl j) (rj_privateKey j) of
                  Inl e \<Rightarrow> (s1, Throws e)
                | Inr wl \<Rightarrow> process_send ev wl j ord wei now s1)))"

definition process_verified ::
    "route_env \<Rightarrow> release_job \<Rightarrow> string \<Rightarrow> string \<Rightarrow> string option \<Rightarrow> relay_order \<Rightarrow> int \<Rightarrow> route_sys \<Rightarrow> route_sys \<times> reply" where
  "process_verified ev j net relayer userStellar ord now s =
     (if \<not> truthy userStellar then (s, Reply 400 ''Cannot verify payment'')
      else case verifyIncomingStellarPayment (ev_payments ev net) (rj_hash j) relayer userStellar of
        Inl e \<Rightarrow> (s, verify_reply e)
      | Inr v \<Rightarrow>
          (case pl_consume (ev_written ev) now (rj_hash j) (rj_orderId j) (vp_amount v) (vp_ledgerSequence v) (rx_proofs s) of
             (l, False) \<Rightarrow> (s, Reply 409 ''Stellar tx consumed by concurrent request'')
           | (l, True) \<Rightarrow>
               (case process_release ev (j\<lparr>rj_amount := vp_amount v\<rparr>) ord now (s\<lparr>rx_proofs := l\<rparr>) of
                  (s1, Respond r) \<Rightarrow> (s1, r)
                | (s1, Throws e) \<Rightarrow> (s1, Reply 500 ''ETH release failed'')
                | (s1, Value receipt) \<Rightarrow>
                    (put_relay_order (rj_orderId j)
                       (ord\<lparr>ro_base := (ro_base ord)\<lparr>wo_status := ''completed''\<rparr>, ro_ethTxHash := receipt\<rparr>) s1,
                     Reply 200 (or_default receipt [])))))"

definition process_xlm_to_eth ::
    "route_env \<Rightarrow> string \<Rightarrow> string \<Rightarrow> string option \<Rightarrow> string option \<Rightarrow> relay_order \<Rightarrow> int \<Rightarrow> route_sys \<Rightarrow> route_sys \<times> reply" where
  "process_xlm_to_eth ev oid hash userStellar userEth ord now s =
     (let net = or_default (ro_networkMode ord) ''mainnet''; failed = Reply 500 ''ETH release failed''
      in if \<not> truthy (ev_env ev ''RELAYER_PRIVATE_KEY'') then (s, failed)
         else if isConsumed hash (rx_proofs s) then (s, Reply 409 ''Stellar transaction already consumed'')
         else if \<not> truthy (relayer_secret ev net) \<or> \<not> known_network net then (s, Reply 500 ''Relayer Stellar config not available'')
         else (case ev_fromSecret ev (the (relayer_secret ev net)) of
            Inl _ \<Rightarrow> (s, failed)
          | Inr relayer \<Rightarrow>
              process_verified ev \<lparr>rj_orderId = oid, rj_hash = hash, rj_to = or_default userEth [], rj_amount = [],
                  rj_rpcUrl = resolveEthereumRpcUrl (net \<noteq> ''testnet'') (ev_env ev),
                  rj_privateKey = the (ev_env ev ''RELAYER_PRIVATE_KEY'')\<rparr> net relayer userStellar ord now s))"

definition process :: "route_env \<Rightarrow> process_request \<Rightarrow> int \<Rightarrow> route_sys \<Rightarrow> route_sys \<times> reply" where
  "process ev q now s =
     (if pq_orderId q = [] then (s, Reply 400 ''Order ID is required'')
      else case jm_get (rx_orders s) (pq_orderId q) of
        None \<Rightarrow> (s, Reply 404 ''Order not found'')
      | Some ord \<Rightarrow>
          let userStellar = (case wo_stellarAddress (ro_base ord) of None \<Rightarrow> pq_stellarAddress q | some \<Rightarrow> some);
              userEth = (case ro_ethAddress ord of None \<Rightarrow> pq_ethAddress q | some \<Rightarrow> some)
          in if ro_contractType ord = Some ''ONEINCH_ESCROW_FACTORY'' \<and> wo_status (ro_base ord) = ''pending_escrow_deployment''
             then (let ord1 = ord\<lparr>ro_base := (ro_base ord)\<lparr>wo_status := ''escrow_deployed''\<rparr>, ro_ethTxHash := pq_txHash q\<rparr>;
                       (w, ord2) = processEscrowToStellar ev (pq_orderId q) ord1 (rx_world s)
                   in (put_relay_order (pq_orderId q) ord2 (s\<lparr>rx_world := w\<rparr>), Reply 200 ''processing_stellar_transfer''))
             else if truthy (pq_stellarTxHash q) \<and> \<not> truthy (pq_txHash q)
             then process_xlm_to_eth ev (pq_orderId q) (the (pq_stellarTxHash q)) userStellar userEth ord now s
             else if truthy (pq_txHash q) \<and> \<not> truthy (pq_stellarTxHash q)
             then process_eth_to_xlm ev (pq_orderId q) userStellar ord s
             else (s, Reply 500 ''Order processing failed''))"

section \<open>The endpoint \<open>create\<close>\<close>

text \<open>The fields of a stored order that other code reads; secret, hash lock, escrow parameters and the
  display fields of the response are left out, and so is waking the chain listeners. The prices, the safety
  deposit, \<open>parseEther\<close> and the rounding of a double to stroops are arguments, \<open>None\<close> or \<open>Inl\<close> where they throw;
  \<open>ce_encodes\<close> says whether the contract's address and call data for the response can be built.\<close>

record create_request =
  cq_fromChain :: "string option"
  cq_toChain :: "string option"
  cq_fromToken :: "string option"
  cq_toToken :: "string option"
  cq_amount :: "string option"
  cq_ethAddress :: "string option"
  cq_stellarAddress :: "string option"
  cq_direction :: "string option"
  cq_exchangeRate :: "js_num option"
  cq_network :: "string option"
  cq_networkMode :: "string option"
  cq_queryNetwork :: "string option"

record create_env =
  ce_mockMode :: bool
  ce_rate :: "thrown + js_num"
  ce_parseEther :: "string \<Rightarrow> int option"
  ce_deposit :: "int \<Rightarrow> int option"
  ce_encodes :: bool
  ce_stroops :: "string \<Rightarrow> int option"
  ce_isoString :: "int \<Rightarrow> string"

definition text_field :: "string option \<Rightarrow> json_field" where
  "text_field v = (case v of None \<Rightarrow> Undefined | Some s \<Rightarrow> Text s)"

definition created_order ::
    "string \<Rightarrow> string \<Rightarrow> string \<Rightarrow> string \<Rightarrow> string option \<Rightarrow> string \<Rightarrow> js_num \<Rightarrow> string option \<Rightarrow> string option \<Rightarrow> relay_order" where
  "created_order direction status addr created amount eth rate net contract =
     \<lparr>ro_base = \<lparr>wo_direction = direction, wo_status = status, wo_stellarAddress = Some addr, wo_stellarTxHash = None,
        wo_xlmReceivedAt = None, wo_created = Some (TsText created), wo_amount = amount, wo_refundTxHash = None,
        wo_refundedAt = None, wo_watchdogFailedAt = None\<rparr>,
      ro_ethAddress = Some eth, ro_networkMode = net, ro_exchangeRate = Some rate, ro_ethTxHash = None,
      ro_contractType = contract, ro_timestamp = None\<rparr>"

definition CREATED :: reply where "CREATED = Reply 200 ''created''"

definition CREATION_FAILED :: reply where "CREATION_FAILED = Reply 500 ''Bridge order creation failed''"

definition create_eth_to_xlm ::
    "create_env \<Rightarrow> string \<Rightarrow> int \<Rightarrow> string \<Rightarrow> create_request \<Rightarrow> route_sys \<Rightarrow> route_sys \<times> reply" where
  "create_eth_to_xlm ce oid now net q s =
     (let eth = toLowerCase (the (cq_ethAddress q)); addr = the (cq_stellarAddress q); iso = ce_isoString ce now;
          rate = or_default (cq_exchangeRate q) (Finite 10000)
      in if net = ''mainnet'' then
           (if ce_mockMode ce then
              (case ce_parseEther ce (the (cq_amount q)) of
                 None \<Rightarrow> (s, CREATION_FAILED)
               | Some wei \<Rightarrow>
                   (put_relay_order oid (created_order ''eth_to_xlm'' ''mock_escrow_created'' addr iso (Some (number_string wei))
                      eth rate None (Some ''MOCK_1INCH_ESCROW_FACTORY'')) s, CREATED))
            else case ce_rate ce of
              Inl _ \<Rightarrow> (s, CREATION_FAILED)
            | Inr ethToXlmRate \<Rightarrow>
                (case ce_parseEther ce (the (cq_amount q)) of
                   None \<Rightarrow> (s, CREATION_FAILED)
                 | Some wei \<Rightarrow>
                     if ce_deposit ce wei = None then (s, CREATION_FAILED)
                     else (put_relay_order oid (created_order [] ''pending_dst_escrow_deployment'' addr iso
                             (Some (number_string wei)) eth ethToXlmRate (Some net)
                             (Some ''ONEINCH_ESCROW_FACTORY_MAINNET_DST'')) s,
                           if ce_encodes ce then CREATED else CREATION_FAILED)))
         else (case ce_parseEther ce (the (cq_amount q)) of
                 None \<Rightarrow> (s, CREATION_FAILED)
               | Some wei \<Rightarrow>
                   (put_relay_order oid (created_order [] ''pending_direct_escrow'' addr iso (Some (number_string wei))
                      eth rate (Some net) None) s,
                    if ce_deposit ce wei \<noteq> None \<and> ce_encodes ce then CREATED else CREATION_FAILED)))"

definition create_xlm_to_eth ::
    "create_env \<Rightarrow> string \<Rightarrow> int \<Rightarrow> create_request \<Rightarrow> route_sys \<Rightarrow> route_sys \<times> reply" where
  "create_xlm_to_eth ce oid now q s =
     (case (ce_rate ce, ce_stroops ce (the (cq_amount q))) of
        (Inr ethToXlmRate, Some _) \<Rightarrow>
          let (status, contract) = (if ce_mockMode ce then (''mock_htlc_created'', ''MOCK_DUAL_HTLC'')
                                    else (''awaiting_xlm_payment'', ''XLM_TO_ETH_PENDING''))
          in (put_relay_order oid (created_order ''xlm_to_eth'' status (the (cq_stellarAddress q)) (ce_isoString ce now) None
                (the (cq_ethAddress q)) ethToXlmRate None (Some contract)) s, CREATED)
      | _ \<Rightarrow> (s, CREATION_FAILED))"

definition create :: "route_env \<Rightarrow> create_env \<Rightarrow> string \<Rightarrow> int \<Rightarrow> create_request \<Rightarrow> route_sys \<Rightarrow> route_sys \<times> reply" where
  "create ev ce oid now q s =
     (if list_ex (\<lambda>v. \<not> truthy v) [cq_fromChain q, cq_toChain q, cq_fromToken q, cq_toToken q, cq_amount q,
           cq_ethAddress q, cq_stellarAddress q]
      then (s, Reply 400 ''Missing required fields'')
      else case decideOrderRoute (ev_policy ev) \<lparr>orq_direction = text_field (cq_direction q),
             orq_fromChain = text_field (cq_fromChain q), orq_toChain = text_field (cq_toChain q),
             orq_fromToken = text_field (cq_fromToken q)\<rparr> of
        Route_rejected _ \<Rightarrow> (s, Reply 400 ''Unsupported route'')
      | Decision_threw \<Rightarrow> (s, CREATION_FAILED)
      | Route_accepted _ _ _ \<Rightarrow>
          let direction = or_default (cq_direction q) []
          in case checkOrderSettleable (ev_policy ev) (ev_accounts ev) direction of
               Some (Refused _) \<Rightarrow> (s, Reply 403 ''settlement_permission_denied'')
             | Some _ \<Rightarrow> (s, CREATION_FAILED)
             | None \<Rightarrow>
                 let net = (case cq_networkMode q of Some n \<Rightarrow> n | None \<Rightarrow>
                       (case cq_network q of Some n \<Rightarrow> n | None \<Rightarrow> or_default (cq_queryNetwork q) (ev_defaultNetwork ev)))
                 in if direction = ''eth_to_xlm'' then create_eth_to_xlm ce oid now net q s
                    else if direction = ''xlm_to_eth'' then create_xlm_to_eth ce oid now q s
                    else (s, CREATION_FAILED))"

section \<open>The history endpoint\<close>

record history_row =
  hr_id :: string
  hr_txHash :: string
  hr_fromNetwork :: string
  hr_toNetwork :: string
  hr_fromToken :: string
  hr_toToken :: string
  hr_amount :: string
  hr_status :: string
  hr_timestamp :: int

definition history_of :: "string \<Rightarrow> int \<Rightarrow> string \<Rightarrow> relay_order \<Rightarrow> history_row" where
  "history_of defaultNetwork now oid ord =
     (let b = ro_base ord; eth_first = (wo_direction b = ''eth-to-xlm'');
          eth = (if defaultNetwork = ''mainnet'' then ''ETH Mainnet'' else ''ETH Sepolia'');
          xlm = (if defaultNetwork = ''mainnet'' then ''Stellar Mainnet'' else ''Stellar Testnet'')
      in \<lparr>hr_id = oid,
          hr_txHash = (case ro_ethTxHash ord of Some h \<Rightarrow> h | None \<Rightarrow> or_default (wo_stellarTxHash b) oid),
          hr_fromNetwork = (if eth_first then eth else xlm), hr_toNetwork = (if eth_first then xlm else eth),
          hr_fromToken = (if eth_first then ''ETH'' else ''XLM''), hr_toToken = (if eth_first then ''XLM'' else ''ETH''),
          hr_amount = or_default (wo_amount b) ''0'',
          hr_status = (if wo_status b \<in> {''completed'', ''failed'', ''cancelled''} then wo_status b else ''pending''),
          hr_timestamp = or_default (ro_timestamp ord) now\<rparr>)"

definition transactions_history ::
    "string \<Rightarrow> int \<Rightarrow> string option \<Rightarrow> string option \<Rightarrow> (string, relay_order) jsmap \<Rightarrow> history_row list" where
  "transactions_history defaultNetwork now eth stellar orders =
     sort_key (\<lambda>r. - hr_timestamp r)
       (map (\<lambda>(oid, ord). history_of defaultNetwork now oid ord)
         (filter (\<lambda>(_, ord). (truthy eth \<and> ro_ethAddress ord = eth)
            \<or> (truthy stellar \<and> wo_stellarAddress (ro_base ord) = stellar)) orders))"

section \<open>Order polling\<close>

definition TERMINAL_STATUSES :: "string list" where
  "TERMINAL_STATUSES = [''completed'', ''cancelled'', ''failed'', ''refunded'', ''expired'', ''escrow_creation_failed'']"

definition MOCK_STATUSES :: "string list" where
  "MOCK_STATUSES = [''mock_escrow_created'', ''mock_htlc_created'']"

definition PRE_DEPOSIT_STATUSES :: "string list" where
  "PRE_DEPOSIT_STATUSES = [''pending_relayer_escrow'', ''pending_direct_escrow'', ''pending_dst_escrow_deployment'',
     ''awaiting_xlm_payment'']"

definition parseOrderCreatedMs :: "(string \<Rightarrow> int option) \<Rightarrow> timestamp option \<Rightarrow> int option" where
  "parseOrderCreatedMs date_parse v =
     (case v of None \<Rightarrow> None | Some (TsNumber n) \<Rightarrow> Some n | Some (TsText t) \<Rightarrow> date_parse t)"

definition hasPendingRelayerEscrow :: "(string, relay_order) jsmap \<Rightarrow> bool" where
  "hasPendingRelayerEscrow orders = list_ex (\<lambda>(_, r). wo_status (ro_base r) = ''pending_relayer_escrow'') orders"

definition hasAwaitingXlmPayment :: "(string, relay_order) jsmap \<Rightarrow> bool" where
  "hasAwaitingXlmPayment orders = list_ex (\<lambda>(_, r). wo_status (ro_base r) = ''awaiting_xlm_payment'') orders"

definition needsChainMonitoring :: "(string, relay_order) jsmap \<Rightarrow> bool" where
  "needsChainMonitoring orders =
     list_ex (\<lambda>(_, r). let status = wo_status (ro_base r)
       in status \<noteq> [] \<and> status \<notin> set TERMINAL_STATUSES \<and> status \<notin> set MOCK_STATUSES) orders"

definition expire_order :: "(string \<Rightarrow> int option) \<Rightarrow> int \<Rightarrow> int \<Rightarrow> relay_order \<Rightarrow> relay_order option" where
  "expire_order date_parse now maxAgeMs r =
     (if wo_status (ro_base r) \<notin> set PRE_DEPOSIT_STATUSES then None
      else case parseOrderCreatedMs date_parse (wo_created (ro_base r)) of
        None \<Rightarrow> None
      | Some createdMs \<Rightarrow>
          if now - createdMs < maxAgeMs then None
          else Some (r\<lparr>ro_base := (ro_base r)\<lparr>wo_status := ''expired''\<rparr>\<rparr>))"

definition expireAbandonedOrders ::
    "(string \<Rightarrow> int option) \<Rightarrow> int \<Rightarrow> int \<Rightarrow> (string, relay_order) jsmap \<Rightarrow> (string, relay_order) jsmap \<times> nat" where
  "expireAbandonedOrders date_parse now maxAgeMs orders =
     (map (\<lambda>(oid, r). (oid, or_default (expire_order date_parse now maxAgeMs r) r)) orders,
      length (filter (\<lambda>(_, r). expire_order date_parse now maxAgeMs r \<noteq> None) orders))"

end
