(* ===== verification/Order_Route_Properties.thy ===== *)
theory Order_Route_Properties
  imports Order_Routes
begin

text \<open>
  Properties of the relayer's order endpoints: what one verified payment can release, what a created order comes
  to, and where the handlers pay too much, too little or not at all.
\<close>

section \<open>Retried calls\<close>

lemma run_loop_bounded:
  assumes "run_loop action fn cl random baseMs maxMs attempt left now eng w = (eng', w', t, res)"
    and R: "\<And>now w. R w (fst (fn now w))"
  shows "\<exists>n \<le> Suc left. (R ^^ n) w w'"
  using assms(1)
proof (induction left arbitrary: attempt now eng w)
  case 0
  have "w' = fst (fn now w)" using 0 by (auto simp: run_loop.simps Let_def split: prod.splits sum.splits if_splits)
  then show ?case using R [of w now] by (intro exI [of _ 1]) (simp add: relpowp_1 del: relpowp.simps)
next
  case (Suc left)
  define w1 where "w1 = fst (fn now w)"
  have step: "R w w1" by (simp add: w1_def R)
  show ?case
  proof (cases "w' = w1")
    case True
    then show ?thesis using step by (intro exI [of _ 1]) (simp add: relpowp_1 del: relpowp.simps)
  next
    case False
    then obtain now2 eng2 where
      "run_loop action fn cl random baseMs maxMs (attempt + 1) left now2 eng2 w1 = (eng', w', t, res)"
      using Suc.prems
      by (auto simp: w1_def run_loop.simps [of _ _ _ _ _ _ _ "Suc left"] Let_def split: if_splits prod.splits sum.splits)
    then obtain n where "n \<le> Suc left" "(R ^^ n) w1 w'" using Suc.IH by blast
    then show ?thesis using step by (intro exI [of _ "Suc n"]) (simp add: relpowp_Suc_I2 del: relpowp.simps)
  qed
qed

lemma engine_run_bounded:
  assumes "engine_run message action fn opts random now eng w = (eng', w', t, res)"
    and "\<And>now w. R w (fst (fn now w))" and "ro_maxAttempts opts = Some m"
  shows "\<exists>n \<le> nat m. (R ^^ n) w w'"
  using run_unfold [OF assms(1) refl refl refl]
proof (elim disjE conjE)
  assume "1 \<le> or_default (ro_maxAttempts opts) (defaultMaxAttempts (re_cfg eng))"
    and loop: "run_loop action fn (classify_fault message (ro_classifier opts)) random
      (max 0 (or_default (ro_baseDelayMs opts) (defaultBaseDelayMs (re_cfg eng))))
      (max 0 (or_default (ro_maxDelayMs opts) (defaultMaxDelayMs (re_cfg eng)))) 1
      (nat (or_default (ro_maxAttempts opts) (defaultMaxAttempts (re_cfg eng))) - 1) now
      (fst (checkCircuit now action eng)) w = (eng', w', t, res)"
  then show ?thesis using run_loop_bounded [where R = R, OF loop assms(2)] assms(3) by simp
qed (auto intro: exI [of _ 0])

text \<open>What a retried step leaves as it is.\<close>

lemma settlement_retry_frame:
  assumes "runWithSettlementRetry ev action opts fn oid direction txHash now s = (s', t, res)"
  shows "rx_proofs s' = rx_proofs s" and "rx_orders s' = rx_orders s" and "rx_refunds s' = rx_refunds s"
    and "rx_coord s' = rx_coord s" and "rx_out s' = rx_out s"
  using assms by (auto simp: runWithSettlementRetry_def Let_def split: prod.splits sum.splits if_splits)

lemma settlement_retry_world:
  assumes "runWithSettlementRetry ev action opts fn oid direction txHash now s = (s', t, res)"
    and "\<And>now w. R w (fst (fn now w))" and "ro_maxAttempts opts = Some m"
  shows "\<exists>n \<le> nat m. (R ^^ n) (rx_world s) (rx_world s')"
proof -
  let ?f = "if hasFailed oid (rx_failures s) then s\<lparr>rx_failures := markRecovering now oid (rx_failures s)\<rparr> else s"
  obtain eng w t' r where run: "engine_run th_message action fn opts (ev_random ev) now (rx_engine ?f) (rx_world ?f) = (eng, w, t', r)"
    by (cases "engine_run th_message action fn opts (ev_random ev) now (rx_engine ?f) (rx_world ?f)")
  moreover have "rx_world s' = w"
    using assms(1) run by (auto simp: runWithSettlementRetry_def Let_def split: prod.splits sum.splits if_splits)
  ultimately show ?thesis using engine_run_bounded [where R = R, OF run assms(2,3)] by (auto split: if_splits)
qed

section \<open>The transfers of one request\<close>

definition same_sends :: "chain_world \<Rightarrow> chain_world \<Rightarrow> bool" where
  "same_sends w w' \<longleftrightarrow> cw_sends w' = cw_sends w"

definition one_send :: "string \<Rightarrow> eth_transfer \<Rightarrow> chain_world \<Rightarrow> chain_world \<Rightarrow> bool" where
  "one_send proof tx w w' \<longleftrightarrow> (\<exists>b. cw_sends w' = cw_sends w @ [\<lparr>es_proof = proof, es_tx = tx, es_reached = b\<rparr>])"

lemma call_effects:
  "same_sends w (fst (balance_call wl ms now w))" "same_sends w (fst (wait_call wl now w))"
  "one_send proof tx w (fst (send_call wl ms proof tx now w))"
  by (auto simp: same_sends_def one_send_def balance_call_def wait_call_def send_call_def counted_def Let_def split_beta)

lemma same_sends_power: "(same_sends ^^ n) w w' \<Longrightarrow> cw_sends w' = cw_sends w"
  by (induction n arbitrary: w') (auto simp: same_sends_def)

lemma one_send_power:
  "(one_send proof tx ^^ n) w w' \<Longrightarrow>
     \<exists>bs. length bs = n \<and> cw_sends w' = cw_sends w @ map (\<lambda>b. \<lparr>es_proof = proof, es_tx = tx, es_reached = b\<rparr>) bs"
proof (induction n arbitrary: w')
  case (Suc n)
  then obtain v where "(one_send proof tx ^^ n) w v" "one_send proof tx v w'" by auto
  then obtain bs where "length bs = n" "cw_sends v = cw_sends w @ map (\<lambda>b. \<lparr>es_proof = proof, es_tx = tx, es_reached = b\<rparr>) bs"
    using Suc.IH [of v] by blast
  moreover obtain b where "cw_sends w' = cw_sends v @ [\<lparr>es_proof = proof, es_tx = tx, es_reached = b\<rparr>]"
    using \<open>one_send proof tx v w'\<close> by (auto simp: one_send_def)
  ultimately show ?case by (intro exI [of _ "bs @ [b]"]) simp
qed auto

lemma retried_balance:
  assumes "runWithSettlementRetry ev ''eth-balance'' ETH_BALANCE_RETRY (balance_call wl ms) oid direction txHash now s = (s', t, res)"
  shows "cw_sends (rx_world s') = cw_sends (rx_world s)"
  using settlement_retry_world [where R = same_sends, OF assms] call_effects(1) same_sends_power
  by (fastforce simp: ETH_BALANCE_RETRY_def)

lemma retried_wait:
  assumes "runWithSettlementRetry ev ''eth-confirm'' ETH_CONFIRM_RETRY (wait_call wl) oid direction txHash now s = (s', t, res)"
  shows "cw_sends (rx_world s') = cw_sends (rx_world s)"
  using settlement_retry_world [where R = same_sends, OF assms] call_effects(2) same_sends_power
  by (fastforce simp: ETH_CONFIRM_RETRY_def)

lemma retried_send:
  assumes "runWithSettlementRetry ev ''eth-send'' ETH_SEND_RETRY (send_call wl ms proof tx) oid direction txHash now s = (s', t, res)"
  obtains bs where "length bs \<le> 3"
    and "cw_sends (rx_world s') = cw_sends (rx_world s) @ map (\<lambda>b. \<lparr>es_proof = proof, es_tx = tx, es_reached = b\<rparr>) bs"
proof -
  obtain n where "n \<le> 3" "(one_send proof tx ^^ n) (rx_world s) (rx_world s')"
    using settlement_retry_world [where R = "one_send proof tx", OF assms] call_effects(3) by (fastforce simp: ETH_SEND_RETRY_def)
  then show thesis using one_send_power that by blast
qed


text \<open>Up to three identical transfers, tagged with the payment and of the amount it is worth.\<close>

definition pays :: "release_job \<Rightarrow> js_num option \<Rightarrow> chain_world \<Rightarrow> chain_world \<Rightarrow> bool" where
  "pays j rate w w' \<longleftrightarrow> (\<exists>wei bs. length bs \<le> 3
     \<and> cw_sends w' = cw_sends w
         @ map (\<lambda>b. \<lparr>es_proof = rj_hash j, es_tx = \<lparr>et_to = rj_to j, et_value = wei\<rparr>, es_reached = b\<rparr>) bs
     \<and> (bs \<noteq> [] \<longrightarrow> release_wei rate (rj_amount j) = Value wei))"

lemma pays_nothing: "cw_sends w' = cw_sends w \<Longrightarrow> pays j rate w w'"
  unfolding pays_def by (rule exI [of _ 0], rule exI [of _ "[]"]) simp

lemma put_relay_order_frame [simp]:
  "rx_proofs (put_relay_order oid ord s) = rx_proofs s" "rx_world (put_relay_order oid ord s) = rx_world s"
  "rx_refunds (put_relay_order oid ord s) = rx_refunds s" "rx_failures (put_relay_order oid ord s) = rx_failures s"
  "rx_out (put_relay_order oid ord s) = rx_out s" "rx_orders (put_relay_order oid ord s) = jm_set oid ord (rx_orders s)"
  "rx_coord (put_relay_order oid ord s) = rx_coord s" "rx_engine (put_relay_order oid ord s) = rx_engine s"
  by (simp_all add: put_relay_order_def)

lemma settlement_checks_frame:
  assumes "settlement_checks ev ord now s = (s', r)"
  obtains c where "s' = s\<lparr>rx_coord := c\<rparr>"
proof -
  have "\<exists>c. s' = s\<lparr>rx_coord := c\<rparr>"
    using assms by (auto simp: settlement_checks_def coordinator_check_def Let_def split_beta split: option.splits intro: exI [of _ "rx_coord s"])
  then show thesis using that by blast
qed

lemma release_failed_frame [simp]:
  "rx_proofs (release_failed ev j addr net ord e now s) = rx_proofs s"
  "rx_world (release_failed ev j addr net ord e now s) = rx_world s"
  by (simp_all add: release_failed_def Let_def)

lemma release_send_pays:
  assumes "release_send ev wl j ord balance now s = (s', t, r)"
  shows "rx_proofs s' = rx_proofs s \<and> pays j (ro_exchangeRate ord) (rx_world s) (rx_world s')"
proof (cases "s' = s")
  case False
  then obtain wei r' where wei: "release_wei (ro_exchangeRate ord) (rj_amount j) = Value wei"
    and run: "runWithSettlementRetry ev ''eth-send'' ETH_SEND_RETRY
      (send_call wl (Some (ev_rpcTimeoutMs ev)) (rj_hash j) \<lparr>et_to = rj_to j, et_value = wei\<rparr>)
      (rj_orderId j) (order_direction ord) Some now s = (s', t, r')"
    using assms by (auto simp: release_send_def split: step_result.splits if_splits prod.splits sum.splits)
  from retried_send [OF run] show ?thesis using wei settlement_retry_frame(1) [OF run] unfolding pays_def by metis
qed (simp add: pays_nothing)

lemma release_attempt_pays:
  assumes "release_attempt ev j ord now s = (s', t, r)"
  shows "rx_proofs s' = rx_proofs s \<and> pays j (ro_exchangeRate ord) (rx_world s) (rx_world s')"
proof -
  obtain s1 r1 where checks: "settlement_checks ev ord now s = (s1, r1)" by (cases "settlement_checks ev ord now s")
  then obtain c where c: "s1 = s\<lparr>rx_coord := c\<rparr>" by (rule settlement_checks_frame)
  consider "s' = s1" | wl s2 t2 r2 where
      "runWithSettlementRetry ev ''eth-balance'' ETH_BALANCE_RETRY (balance_call wl (Some (ev_rpcTimeoutMs ev)))
         (rj_orderId j) (order_direction ord) (\<lambda>_. None) now s1 = (s2, t2, r2)"
      "s' = s2 \<or> (\<exists>balance. release_send ev wl j ord balance t2 s2 = (s', t, r))"
    using assms checks by (auto simp: release_attempt_def split: step_result.splits sum.splits prod.splits) blast
  then show ?thesis
  proof cases
    case 1
    then show ?thesis using c by (simp add: pays_nothing)
  next
    case 2
    have "rx_proofs s2 = rx_proofs s" "cw_sends (rx_world s2) = cw_sends (rx_world s)"
      using settlement_retry_frame(1) [OF 2(1)] retried_balance [OF 2(1)] c by simp_all
    then show ?thesis using 2(2) release_send_pays [of ev wl j ord _ t2 s2 s' t r]
      by (auto simp: pays_nothing) (auto simp: pays_def)
  qed
qed

lemma release_eth_pays:
  assumes "release_eth ev j addr net ord now s = (s', r)"
  shows "rx_proofs s' = rx_proofs s \<and> pays j (ro_exchangeRate ord) (rx_world s) (rx_world s')"
proof -
  obtain s1 t res where run: "release_attempt ev j ord now s = (s1, t, res)" by (cases "release_attempt ev j ord now s")
  then have "rx_proofs s' = rx_proofs s1" "rx_world s' = rx_world s1"
    using assms by (auto simp: release_eth_def split: step_result.splits)
  then show ?thesis using release_attempt_pays [OF run] by simp
qed

lemma process_send_pays:
  assumes "process_send ev wl j ord wei now s = (s', r)" and "release_wei (ro_exchangeRate ord) (rj_amount j) = Value wei"
  shows "rx_proofs s' = rx_proofs s \<and> pays j (ro_exchangeRate ord) (rx_world s) (rx_world s')"
proof -
  obtain s1 t r1 where bal: "runWithSettlementRetry ev ''eth-balance'' ETH_BALANCE_RETRY (balance_call wl None) (rj_orderId j)
      (order_direction ord) (\<lambda>_. None) now s = (s1, t, r1)"
    by (cases "runWithSettlementRetry ev ''eth-balance'' ETH_BALANCE_RETRY (balance_call wl None) (rj_orderId j)
      (order_direction ord) (\<lambda>_. None :: string option) now s") auto
  obtain s2 t2 r2 where snd: "runWithSettlementRetry ev ''eth-send'' ETH_SEND_RETRY
      (send_call wl None (rj_hash j) \<lparr>et_to = rj_to j, et_value = wei\<rparr>) (rj_orderId j) (order_direction ord) Some t s1 = (s2, t2, r2)"
    by (cases "runWithSettlementRetry ev ''eth-send'' ETH_SEND_RETRY
      (send_call wl None (rj_hash j) \<lparr>et_to = rj_to j, et_value = wei\<rparr>) (rj_orderId j) (order_direction ord) Some t s1") auto
  obtain s3 t3 r3 where wait: "runWithSettlementRetry ev ''eth-confirm'' ETH_CONFIRM_RETRY (wait_call wl) (rj_orderId j)
      (order_direction ord) (\<lambda>_. None) t2 s2 = (s3, t3, r3)"
    by (cases "runWithSettlementRetry ev ''eth-confirm'' ETH_CONFIRM_RETRY (wait_call wl) (rj_orderId j)
      (order_direction ord) (\<lambda>_. None :: string option) t2 s2") auto
  have "s' = s1 \<or> s' = s2 \<or> s' = s3"
    using assms(1) bal snd wait by (auto simp: process_send_def Let_def split: sum.splits if_splits)
  moreover have "pays j (ro_exchangeRate ord) (rx_world s) (rx_world s2)"
    using retried_send [OF snd] assms(2) retried_balance [OF bal] unfolding pays_def by metis
  ultimately show ?thesis
    using settlement_retry_frame(1) [OF bal] settlement_retry_frame(1) [OF snd] settlement_retry_frame(1) [OF wait]
      retried_balance [OF bal] retried_wait [OF wait] by (auto simp: pays_nothing) (auto simp: pays_def)
qed

lemma process_release_pays:
  assumes "process_release ev j ord now s = (s', r)"
  shows "rx_proofs s' = rx_proofs s \<and> pays j (ro_exchangeRate ord) (rx_world s) (rx_world s')"
proof -
  obtain s1 r1 where checks: "settlement_checks ev ord now s = (s1, r1)" by (cases "settlement_checks ev ord now s")
  then obtain c where c: "s1 = s\<lparr>rx_coord := c\<rparr>" by (rule settlement_checks_frame)
  have "s' = s \<or> s' = s1 \<or> (\<exists>wl wei. release_wei (ro_exchangeRate ord) (rj_amount j) = Value wei
      \<and> process_send ev wl j ord wei now s1 = (s', r))"
    using assms checks by (auto simp: process_release_def split: step_result.splits sum.splits)
  then show ?thesis using process_send_pays [of ev _ j ord _ now s1 s' r] c by (auto simp: pays_nothing)
qed


section \<open>One release per payment\<close>

text \<open>The ledger's writes succeed, and Horizon knows transactions only by their 64 hexadecimal digits.\<close>

definition env_ok :: "route_env \<Rightarrow> bool" where
  "env_ok ev \<longleftrightarrow> ev_written ev \<and> (\<forall>net h tx. ph_transaction (ev_payments ev net) h = Inr tx \<longrightarrow> hex_hash h)"

definition releases :: "route_sys \<Rightarrow> route_sys \<Rightarrow> bool" where
  "releases s s' \<longleftrightarrow> (\<exists>j rate now seq. hex_hash (rj_hash j) \<and> \<not> isConsumed (rj_hash j) (rx_proofs s)
     \<and> rx_proofs s' = fst (pl_consume True now (rj_hash j) (rj_orderId j) (rj_amount j) seq (rx_proofs s))
     \<and> pays j rate (rx_world s) (rx_world s'))"

definition request_effect :: "route_sys \<Rightarrow> route_sys \<Rightarrow> bool" where
  "request_effect s s' \<longleftrightarrow>
     (rx_proofs s' = rx_proofs s \<and> cw_sends (rx_world s') = cw_sends (rx_world s)) \<or> releases s s'"

lemma no_release [intro]:
  "rx_proofs s' = rx_proofs s \<Longrightarrow> cw_sends (rx_world s') = cw_sends (rx_world s) \<Longrightarrow> request_effect s s'"
  by (simp add: request_effect_def)

lemma verified_hash: "env_ok ev \<Longrightarrow> verifyIncomingStellarPayment (ev_payments ev net) h relayer src = Inr v \<Longrightarrow> hex_hash h"
  by (erule verified_payment_sound) (auto simp: env_ok_def)

lemma verified_release_effect:
  assumes "env_ok ev" and "verified_release ev q net pk relayer ord now s = (s', r)"
  shows "request_effect s s'"
proof (cases "rx_proofs s' = rx_proofs s \<and> rx_world s' = rx_world s")
  case False
  then obtain v l where v: "verifyIncomingStellarPayment (ev_payments ev net) (xq_stellarTxHash q) relayer (xq_stellarAddress q) = Inr v"
    and l: "pl_consume True now (xq_stellarTxHash q) (xq_orderId q) (vp_amount v) (vp_ledgerSequence v) (rx_proofs s) = (l, True)"
    and rel: "release_eth ev \<lparr>rj_orderId = xq_orderId q, rj_hash = xq_stellarTxHash q, rj_to = xq_ethAddress q,
        rj_amount = vp_amount v, rj_rpcUrl = resolveEthereumRpcUrl (net \<noteq> ''testnet'') (ev_env ev), rj_privateKey = pk\<rparr>
        (xq_stellarAddress q) net ord now (s\<lparr>rx_proofs := l\<rparr>) = (s', r)"
    using assms by (auto simp: verified_release_def env_ok_def split: sum.splits prod.splits bool.splits)
  have "\<not> isConsumed (xq_stellarTxHash q) (rx_proofs s)" using l consume_simps(1) by (metis snd_conv)
  then have "releases s s'"
    using release_eth_pays [OF rel] l verified_hash [OF assms(1) v] unfolding releases_def
    by (intro exI [of _ "\<lparr>rj_orderId = xq_orderId q, rj_hash = xq_stellarTxHash q, rj_to = xq_ethAddress q,
        rj_amount = vp_amount v, rj_rpcUrl = resolveEthereumRpcUrl (net \<noteq> ''testnet'') (ev_env ev), rj_privateKey = pk\<rparr>"]
        exI [of _ "ro_exchangeRate ord"] exI [of _ now] exI [of _ "vp_ledgerSequence v"]) simp
  then show ?thesis by (simp add: request_effect_def)
qed auto

lemma settle_order_effect:
  assumes "env_ok ev" and "settle_order ev q ord now s = (s', r)"
  shows "request_effect s s'"
proof -
  have "s' = s \<or> (\<exists>net pk relayer. verified_release ev q net pk relayer ord now s = (s', r))"
    using assms(2) by (auto simp: settle_order_def Let_def split: if_splits sum.splits)
  then show ?thesis using verified_release_effect [OF assms(1)] no_release by blast
qed

lemma xlm_to_eth_effect:
  assumes "env_ok ev" and "xlm_to_eth ev q now s = (s', r)"
  shows "request_effect s s'"
proof -
  have "s' = s \<or> (\<exists>ord. settle_order ev q ord now (put_relay_order (xq_orderId q) ord s) = (s', r))"
    using assms(2) by (auto simp: xlm_to_eth_def Let_def split: if_splits option.splits)
  moreover have "request_effect s s'" if "request_effect (put_relay_order (xq_orderId q) ord s) s'" for ord
    using that by (simp add: request_effect_def releases_def)
  ultimately show ?thesis using settle_order_effect [OF assms(1)] by blast
qed

lemma process_verified_effect:
  assumes "env_ok ev" and "process_verified ev j net relayer userStellar ord now s = (s', r)"
  shows "request_effect s s'"
proof (cases "rx_proofs s' = rx_proofs s \<and> rx_world s' = rx_world s")
  case False
  then obtain v l s1 res where v: "verifyIncomingStellarPayment (ev_payments ev net) (rj_hash j) relayer userStellar = Inr v"
    and l: "pl_consume True now (rj_hash j) (rj_orderId j) (vp_amount v) (vp_ledgerSequence v) (rx_proofs s) = (l, True)"
    and rel: "process_release ev (j\<lparr>rj_amount := vp_amount v\<rparr>) ord now (s\<lparr>rx_proofs := l\<rparr>) = (s1, res)"
    and s1: "rx_proofs s' = rx_proofs s1" "rx_world s' = rx_world s1"
    using assms by (auto simp: process_verified_def env_ok_def
        split: sum.splits prod.splits bool.splits if_splits step_result.splits)
  have "\<not> isConsumed (rj_hash j) (rx_proofs s)" using l consume_simps(1) by (metis snd_conv)
  then have "releases s s'"
    using process_release_pays [OF rel] l s1 verified_hash [OF assms(1) v] unfolding releases_def
    by (intro exI [of _ "j\<lparr>rj_amount := vp_amount v\<rparr>"] exI [of _ "ro_exchangeRate ord"] exI [of _ now]
        exI [of _ "vp_ledgerSequence v"]) simp
  then show ?thesis by (simp add: request_effect_def)
qed auto

lemma stellar_pay_sends: "stellar_pay ev net destination amount memo w = (w', r) \<Longrightarrow> cw_sends w' = cw_sends w"
  by (auto simp: stellar_pay_def pay_xlm_def counted_def Let_def split: if_splits sum.splits option.splits)

lemma process_effect:
  assumes "env_ok ev" and "process ev q now s = (s', r)"
  shows "request_effect s s'"
proof (cases "rx_proofs s' = rx_proofs s \<and> cw_sends (rx_world s') = cw_sends (rx_world s)")
  case False
  have escrow: "cw_sends w' = cw_sends w" if "processEscrowToStellar ev oid ord w = (w', ord')" for oid ord w w' ord'
    using that stellar_pay_sends [of ev "''mainnet''"] by (auto simp: processEscrowToStellar_def split: prod.splits sum.splits)
  have xlm: "rx_proofs s1 = rx_proofs s \<and> cw_sends (rx_world s1) = cw_sends (rx_world s)"
    if "process_eth_to_xlm ev oid u ord s = (s1, r1)" for oid u ord s1 r1
    using that stellar_pay_sends [of ev] by (auto simp: process_eth_to_xlm_def split: prod.splits sum.splits)
  obtain ord u1 u2 where "process_xlm_to_eth ev (pq_orderId q) (the (pq_stellarTxHash q)) u1 u2 ord now s = (s', r)"
    using assms(2) False escrow xlm
    by (auto simp: process_def Let_def split: if_splits option.splits prod.splits)
  with False obtain j net relayer where "process_verified ev j net relayer u1 ord now s = (s', r)"
    by (auto simp: process_xlm_to_eth_def Let_def split: if_splits sum.splits)
  then show ?thesis by (rule process_verified_effect [OF assms(1)])
qed auto

text \<open>One request, anything the rest of the relayer does to its other state, or a restart of the process,
  which reads the ledger's directory in any order.\<close>

inductive route_step :: "route_sys \<Rightarrow> route_sys \<Rightarrow> bool" where
  xlm_to_eth: "env_ok ev \<Longrightarrow> route_step s (fst (xlm_to_eth ev q now s))"
| process: "env_ok ev \<Longrightarrow> route_step s (fst (process ev q now s))"
| other: "route_step s (s\<lparr>rx_orders := os, rx_refunds := l, rx_failures := fs, rx_engine := eng, rx_coord := c, rx_out := out\<rparr>)"
| restart: "pl_disk (rx_proofs s) = Some d \<Longrightarrow> mset files = mset d \<Longrightarrow>
    route_step s (s\<lparr>rx_proofs := new_ProofLedger (Some files)\<rparr>)"

abbreviation route_steps :: "route_sys \<Rightarrow> route_sys \<Rightarrow> bool" where
  "route_steps \<equiv> route_step\<^sup>*\<^sup>*"

abbreviation sends_of :: "string \<Rightarrow> route_sys \<Rightarrow> eth_send list" where
  "sends_of h s \<equiv> filter (\<lambda>e. es_proof e = h) (cw_sends (rx_world s))"

definition release_inv :: "route_sys \<Rightarrow> bool" where
  "release_inv s \<longleftrightarrow> proofs_ok {h. hex_hash h} (rx_proofs s)
     \<and> (\<forall>h. sends_of h s \<noteq> [] \<longrightarrow> length (sends_of h s) \<le> 3
          \<and> (\<exists>e rate tx. pl_getEntry h (rx_proofs s) = Some e \<and> (\<forall>x \<in> set (sends_of h s). es_tx x = tx)
               \<and> release_wei rate (pe_verifiedAmount e) = Value (et_value tx)))"

lemma consumed_entry: "isConsumed h l \<longleftrightarrow> pl_getEntry h l \<noteq> None"
  by (simp add: isConsumed_def jm_has_def pl_getEntry_def map_of_eq_None_iff)

lemma consume_entry:
  "\<not> isConsumed h l \<Longrightarrow> pl_getEntry k (fst (pl_consume w now h oid amount seq l)) =
     (if k = h then Some \<lparr>pe_stellarTxHash = h, pe_orderId = oid, pe_verifiedAmount = amount, pe_ledgerSequence = seq, pe_consumedAt = now\<rparr>
      else pl_getEntry k l)"
  by (auto simp: pl_consume_def isConsumed_def pl_getEntry_def pl_persist_def Let_def jm_get_set)

lemma releases_inv:
  assumes "release_inv s" and "releases s s'"
  shows "release_inv s'"
proof -
  obtain j rate now seq where j: "hex_hash (rj_hash j)" "\<not> isConsumed (rj_hash j) (rx_proofs s)"
    "rx_proofs s' = fst (pl_consume True now (rj_hash j) (rj_orderId j) (rj_amount j) seq (rx_proofs s))"
    "pays j rate (rx_world s) (rx_world s')"
    using assms(2) by (auto simp: releases_def)
  obtain wei bs where bs: "length bs \<le> 3" "bs \<noteq> [] \<longrightarrow> release_wei rate (rj_amount j) = Value wei"
    "cw_sends (rx_world s') = cw_sends (rx_world s)
       @ map (\<lambda>b. \<lparr>es_proof = rj_hash j, es_tx = \<lparr>et_to = rj_to j, et_value = wei\<rparr>, es_reached = b\<rparr>) bs"
    using j(4) by (auto simp: pays_def)
  have none: "sends_of (rj_hash j) s = []" using assms(1) j(2) by (auto simp: release_inv_def consumed_entry)
  then have mine: "sends_of (rj_hash j) s'
      = map (\<lambda>b. \<lparr>es_proof = rj_hash j, es_tx = \<lparr>et_to = rj_to j, et_value = wei\<rparr>, es_reached = b\<rparr>) bs"
    by (simp add: bs(3) filter_map comp_def)
  have rest: "sends_of h s' = sends_of h s" if "h \<noteq> rj_hash j" for h
    using that by (simp add: bs(3) filter_map comp_def)
  have ok: "proofs_ok {h. hex_hash h} (rx_proofs s')"
    using assms(1) j(1,3) proofs_ok_consume by (simp add: release_inv_def)
  have "length (sends_of h s') \<le> 3 \<and> (\<exists>e rate tx. pl_getEntry h (rx_proofs s') = Some e \<and> (\<forall>x \<in> set (sends_of h s'). es_tx x = tx)
      \<and> release_wei rate (pe_verifiedAmount e) = Value (et_value tx))" if "sends_of h s' \<noteq> []" for h
  proof (cases "h = rj_hash j")
    case True
    then show ?thesis using that bs(1,2) mine consume_entry [OF j(2)] j(3)
      by (auto intro!: exI [of _ rate] exI [of _ "\<lparr>et_to = rj_to j, et_value = wei\<rparr>"])
  next
    case False
    then show ?thesis using that assms(1) rest [OF False] consume_entry [OF j(2)] j(3) by (auto simp: release_inv_def)
  qed
  then show ?thesis using ok by (auto simp: release_inv_def)
qed

lemma effect_inv: "request_effect s s' \<Longrightarrow> release_inv s \<Longrightarrow> release_inv s'"
  unfolding request_effect_def
proof (elim disjE conjE)
  assume "rx_proofs s' = rx_proofs s" "cw_sends (rx_world s') = cw_sends (rx_world s)" "release_inv s"
  then show ?thesis unfolding release_inv_def by simp
qed (rule releases_inv)

lemma route_step_inv: "route_step s s' \<Longrightarrow> release_inv s \<Longrightarrow> release_inv s'"
proof (induction rule: route_step.induct)
  case (restart s d files)
  have "proofs_ok {h. hex_hash h} (rx_proofs s)" using restart by (simp add: release_inv_def)
  from proofs_ok_restart [OF this hex_hash_inj restart(1,2)] show ?case
    using restart(3) by (simp add: release_inv_def)
next
  case (xlm_to_eth ev s q now)
  then show ?case using xlm_to_eth_effect [OF xlm_to_eth(1)] effect_inv by (metis prod.collapse)
next
  case (process ev s q now)
  then show ?case using process_effect [OF process(1)] effect_inv by (metis prod.collapse)
qed (simp add: release_inv_def)

lemma route_steps_inv: "route_steps s s' \<Longrightarrow> release_inv s \<Longrightarrow> release_inv s'"
  by (induction rule: rtranclp_induct) (auto intro: route_step_inv)


lemma consumed_stays:
  assumes "route_step s s'" and "release_inv s" and "isConsumed h (rx_proofs s)"
  shows "isConsumed h (rx_proofs s') \<and> sends_of h s' = sends_of h s"
proof -
  have effect: "isConsumed h (rx_proofs s1) \<and> sends_of h s1 = sends_of h s" if eff: "request_effect s s1" for s1
  proof (cases "releases s s1")
    case True
    then obtain j rate now seq where "\<not> isConsumed (rj_hash j) (rx_proofs s)"
      "rx_proofs s1 = fst (pl_consume True now (rj_hash j) (rj_orderId j) (rj_amount j) seq (rx_proofs s))"
      "pays j rate (rx_world s) (rx_world s1)" by (auto simp: releases_def)
    moreover from this(1) have "h \<noteq> rj_hash j" using assms(3) by auto
    ultimately show ?thesis using assms(3) by (auto simp: pays_def consume_simps filter_map comp_def)
  qed (use eff assms(3) in \<open>simp add: request_effect_def\<close>)
  show ?thesis
    using assms(1)
  proof cases
    case (restart d files)
    have "proofs_ok {h. hex_hash h} (rx_proofs s)" using assms(2) by (simp add: release_inv_def)
    from proofs_ok_restart(1) [OF this hex_hash_inj restart(2,3)]
    have "isConsumed h (new_ProofLedger (Some files))"
      using assms(3) by (simp add: consumed_entry)
    then show ?thesis using restart(1) by simp
  next
    case (xlm_to_eth ev q now)
    then show ?thesis using effect xlm_to_eth_effect [OF xlm_to_eth(2)] by (metis prod.collapse)
  next
    case (process ev q now)
    then show ?thesis using effect process_effect [OF process(2)] by (metis prod.collapse)
  next
    case other
    then show ?thesis using assms(3) by simp
  qed
qed

lemma consumed_stays_run:
  assumes "route_steps s s'" and "release_inv s" and "isConsumed h (rx_proofs s)"
  shows "isConsumed h (rx_proofs s') \<and> sends_of h s' = sends_of h s"
  using assms
proof (induction rule: rtranclp_induct)
  case (step y z)
  then show ?case using consumed_stays [OF step(2)] route_steps_inv [OF step(1)] by simp
qed simp

lemma initial_inv: "rx_proofs s = new_ProofLedger (Some []) \<Longrightarrow> cw_sends (rx_world s) = [] \<Longrightarrow> release_inv s"
  by (auto simp: release_inv_def proofs_ok_def new_ProofLedger_def mirrors_def)

section \<open>Refusals after the proof is consumed\<close>

lemma settlement_checks_status:
  "settlement_checks ev ord now s = (s', Respond (Reply c m)) \<Longrightarrow> c \<in> {400, 403, 503}"
  by (auto simp: settlement_checks_def route_check_def coordinator_check_def permission_check_def Let_def split_beta
      split: option.splits sum.splits authorization.splits)

lemma release_wei_status: "release_wei rate amount = Respond (Reply c m) \<Longrightarrow> c = 400"
  by (auto simp: release_wei_def Let_def split: option.splits js_num.splits if_splits)

text \<open>A reply that no exception led to: nothing was handed to the wallet, and no refund was tried.\<close>

lemma release_attempt_refused:
  assumes "release_attempt ev j ord now s = (s', t, Respond (Reply c m))"
  shows "cw_sends (rx_world s') = cw_sends (rx_world s) \<and> rx_refunds s' = rx_refunds s \<and> rx_out s' = rx_out s
    \<and> c \<in> {400, 403, 503}"
proof -
  obtain s1 r1 where checks: "settlement_checks ev ord now s = (s1, r1)" by (cases "settlement_checks ev ord now s")
  then obtain k where k: "s1 = s\<lparr>rx_coord := k\<rparr>" by (rule settlement_checks_frame)
  consider "s' = s1" "r1 = Respond (Reply c m)" | wl t2 balance where
      "runWithSettlementRetry ev ''eth-balance'' ETH_BALANCE_RETRY (balance_call wl (Some (ev_rpcTimeoutMs ev)))
         (rj_orderId j) (order_direction ord) (\<lambda>_. None) now s1 = (s', t2, Inr balance)" "c = 400"
    using assms checks release_wei_status
    by (auto simp: release_attempt_def release_send_def split: step_result.splits sum.splits prod.splits if_splits)
  then show ?thesis
  proof cases
    case 1
    then show ?thesis using k settlement_checks_status checks by auto
  next
    case 2
    then show ?thesis using settlement_retry_frame [OF 2(1)] retried_balance [OF 2(1)] k by simp
  qed
qed

lemma xlm_to_eth_refused:
  assumes "xlm_to_eth ev q now s = (s', Reply c m)" and "c \<notin> {200, 500}"
  shows "cw_sends (rx_world s') = cw_sends (rx_world s) \<and> rx_refunds s' = rx_refunds s \<and> rx_out s' = rx_out s"
proof -
  have release: "cw_sends (rx_world s2) = cw_sends (rx_world s1) \<and> rx_refunds s2 = rx_refunds s1 \<and> rx_out s2 = rx_out s1"
    if "release_eth ev j addr net ord now s1 = (s2, Reply c m)" for j addr net ord s1 s2
    using that assms(2) release_attempt_refused [of ev j ord now s1 s2 _ c m]
    by (auto simp: release_eth_def split: step_result.splits prod.splits)
  have verified: "cw_sends (rx_world s2) = cw_sends (rx_world s1) \<and> rx_refunds s2 = rx_refunds s1 \<and> rx_out s2 = rx_out s1"
    if "verified_release ev q net pk relayer ord now s1 = (s2, Reply c m)" for net pk relayer ord s1 s2
    using that release by (fastforce simp: verified_release_def split: sum.splits prod.splits bool.splits)
  have "s' = s \<or> (\<exists>ord. settle_order ev q ord now (put_relay_order (xq_orderId q) ord s) = (s', Reply c m))"
    using assms(1) by (auto simp: xlm_to_eth_def Let_def split: if_splits option.splits)
  moreover have "s2 = s1 \<or> (\<exists>net pk relayer. verified_release ev q net pk relayer ord now s1 = (s2, Reply c m))"
    if "settle_order ev q ord now s1 = (s2, Reply c m)" for ord s1 s2
    using that by (auto simp: settle_order_def Let_def split: if_splits sum.splits)
  ultimately show ?thesis using verified by (metis put_relay_order_frame(2,3,5))
qed


section \<open>A payment that settles\<close>

lemma engine_run_first:
  assumes "br_state (getBreaker action eng) = Breaker_closed" and "fn now w = (w', dt, Inr a)"
    and "ro_maxAttempts opts = Some m" and "1 \<le> m"
  shows "engine_run message action fn opts random now eng w
    = (onSuccess action (fst (checkCircuit now action eng)), w', now + int dt, Inr a)"
  using assms by (simp add: engine_run_def checkCircuit_def check_breaker_def run_loop.simps)

lemma other_breaker:
  "a \<noteq> b \<Longrightarrow> getBreaker a (onSuccess b eng) = getBreaker a eng"
  "a \<noteq> b \<Longrightarrow> getBreaker a (fst (checkCircuit now b eng)) = getBreaker a eng"
  by (simp_all add: getBreaker_def onSuccess_def checkCircuit_def set_breaker_def jm_get_set split_beta)

lemma retry_first:
  assumes "br_state (getBreaker action (rx_engine s)) = Breaker_closed" and "fn now (rx_world s) = (w', dt, Inr a)"
    and "ro_maxAttempts opts = Some m" and "1 \<le> m"
  obtains s' where "runWithSettlementRetry ev action opts fn oid direction txHash now s = (s', now + int dt, Inr a)"
    and "rx_world s' = w'" and "rx_engine s' = onSuccess action (fst (checkCircuit now action (rx_engine s)))"
proof -
  have "engine_run th_message action fn opts (ev_random ev) now (rx_engine s) (rx_world s)
      = (onSuccess action (fst (checkCircuit now action (rx_engine s))), w', now + int dt, Inr a)"
    by (rule engine_run_first) (rule assms)+
  then have "\<exists>s'. runWithSettlementRetry ev action opts fn oid direction txHash now s = (s', now + int dt, Inr a)
      \<and> rx_world s' = w' \<and> rx_engine s' = onSuccess action (fst (checkCircuit now action (rx_engine s)))"
    by (cases "hasFailed oid (rx_failures s)") (simp_all add: runWithSettlementRetry_def Let_def)
  then show thesis using that by blast
qed

text \<open>A wallet that answers in time and is rich enough for a transfer of \<open>wei\<close>, and calls that may be made.\<close>

definition wallet_works :: "wallet \<Rightarrow> nat \<Rightarrow> int \<Rightarrow> string \<Rightarrow> bool" where
  "wallet_works wl ms wei hash \<longleftrightarrow>
     (\<forall>n. fst (wl_balance wl n) < ms \<and> (\<exists>b. snd (wl_balance wl n) = Inr b \<and> wei + GAS_COST \<le> b))
     \<and> (\<forall>n tx. fst (wl_send wl n tx) < ms \<and> snd (wl_send wl n tx) = (True, Inr hash))"

definition circuits_closed :: "route_sys \<Rightarrow> bool" where
  "circuits_closed s \<longleftrightarrow> br_state (getBreaker ''eth-balance'' (rx_engine s)) = Breaker_closed
     \<and> br_state (getBreaker ''eth-send'' (rx_engine s)) = Breaker_closed"

lemma release_works:
  assumes checks: "settlement_checks ev ord now s = (s1, Value ())"
    and wl: "ev_wallet ev (rj_rpcUrl j) (rj_privateKey j) = Inr wl" "wallet_works wl (ev_rpcTimeoutMs ev) wei hash"
    and wei: "release_wei (ro_exchangeRate ord) (rj_amount j) = Value wei" and closed: "circuits_closed s"
  obtains s' t where "release_attempt ev j ord now s = (s', t, Value hash)" and "rx_proofs s' = rx_proofs s"
    and "cw_sends (rx_world s') = cw_sends (rx_world s)
      @ [\<lparr>es_proof = rj_hash j, es_tx = \<lparr>et_to = rj_to j, et_value = wei\<rparr>, es_reached = True\<rparr>]"
proof -
  let ?ms = "Some (ev_rpcTimeoutMs ev)" and ?w = "rx_world s" and ?tx = "\<lparr>et_to = rj_to j, et_value = wei\<rparr>"
  obtain c where s1: "s1 = s\<lparr>rx_coord := c\<rparr>" using checks by (rule settlement_checks_frame)
  obtain d b where db: "wl_balance wl (cw_calls ?w) = (d, Inr b)" "d < ev_rpcTimeoutMs ev" "wei + GAS_COST \<le> b"
    using wl(2) unfolding wallet_works_def by (metis prod.collapse)
  have bal: "balance_call wl ?ms now (rx_world s1) = (counted ?w, d, Inr b)"
    by (simp add: balance_call_def with_timeout_def db s1)
  have "br_state (getBreaker ''eth-balance'' (rx_engine s1)) = Breaker_closed" using closed by (simp add: circuits_closed_def s1)
  from retry_first [OF this, where ev = ev and opts = ETH_BALANCE_RETRY and fn = "balance_call wl ?ms" and now = now and m = 4 and oid = "rj_orderId j"
      and direction = "order_direction ord" and txHash = "\<lambda>_. None", OF bal]
  obtain s2 where s2: "runWithSettlementRetry ev ''eth-balance'' ETH_BALANCE_RETRY (balance_call wl ?ms) (rj_orderId j)
      (order_direction ord) (\<lambda>_. None) now s1 = (s2, now + int d, Inr b)" "rx_world s2 = counted ?w"
    "rx_engine s2 = onSuccess ''eth-balance'' (fst (checkCircuit now ''eth-balance'' (rx_engine s1)))"
    by (auto simp: ETH_BALANCE_RETRY_def)
  obtain e where e: "wl_send wl (cw_calls ?w + 1) ?tx = (e, True, Inr hash)" "e < ev_rpcTimeoutMs ev"
    using wl(2) unfolding wallet_works_def by (metis prod.collapse)
  define w' where "w' = counted (counted ?w\<lparr>cw_sends := cw_sends ?w @ [\<lparr>es_proof = rj_hash j, es_tx = ?tx, es_reached = True\<rparr>]\<rparr>)"
  have send: "send_call wl ?ms (rj_hash j) ?tx (now + int d) (rx_world s2) = (w', e, Inr hash)"
    using e s2(2) by (simp add: send_call_def with_timeout_def counted_def w'_def)
  have "br_state (getBreaker ''eth-send'' (rx_engine s2)) = Breaker_closed"
    using closed by (simp add: circuits_closed_def s1 s2(3) other_breaker)
  from retry_first [OF this, where ev = ev and opts = ETH_SEND_RETRY and fn = "send_call wl ?ms (rj_hash j) ?tx" and now = "now + int d" and m = 3
      and oid = "rj_orderId j" and direction = "order_direction ord" and txHash = Some, OF send]
  obtain s3 where s3: "runWithSettlementRetry ev ''eth-send'' ETH_SEND_RETRY (send_call wl ?ms (rj_hash j) ?tx) (rj_orderId j)
      (order_direction ord) Some (now + int d) s2 = (s3, now + int d + int e, Inr hash)" "rx_world s3 = w'"
    by (auto simp: ETH_SEND_RETRY_def)
  have "release_attempt ev j ord now s = (s3, now + int d + int e, Value hash)"
    using checks wl(1) s2(1) s3(1) wei db(3) by (simp add: release_attempt_def release_send_def)
  moreover have "rx_proofs s3 = rx_proofs s"
    using settlement_retry_frame(1) [OF s2(1)] settlement_retry_frame(1) [OF s3(1)] s1 by simp
  ultimately show thesis using that s3(2) by (simp add: w'_def counted_def)
qed


text \<open>What order creation leaves behind for the direction XLM to ETH.\<close>

lemma created_xlm_to_eth:
  assumes "create ev ce oid t0 c s = (s1, CREATED)" and "cq_direction c = Some ''xlm_to_eth''" and "\<not> ce_mockMode ce"
  obtains rate f t tok req where "ce_rate ce = Inr rate"
    and "s1 = put_relay_order oid (created_order ''xlm_to_eth'' ''awaiting_xlm_payment'' (the (cq_stellarAddress c))
           (ce_isoString ce t0) None (the (cq_ethAddress c)) rate None (Some ''XLM_TO_ETH_PENDING'')) s"
    and "decideOrderRoute (ev_policy ev) req = Route_accepted f t tok" and "orq_direction req = Text ''xlm_to_eth''"
    and "checkOrderSettleable (ev_policy ev) (ev_accounts ev) ''xlm_to_eth'' = None"
proof -
  let ?req = "\<lparr>orq_direction = text_field (cq_direction c), orq_fromChain = text_field (cq_fromChain c),
      orq_toChain = text_field (cq_toChain c), orq_fromToken = text_field (cq_fromToken c)\<rparr>"
  note codes = CREATED_def CREATION_FAILED_def
  obtain f t tok where dec: "decideOrderRoute (ev_policy ev) ?req = Route_accepted f t tok"
    and none: "checkOrderSettleable (ev_policy ev) (ev_accounts ev) ''xlm_to_eth'' = None"
    and x: "create_xlm_to_eth ce oid t0 c s = (s1, CREATED)"
    using assms(1,2) by (auto simp: create_def Let_def codes split: if_splits order_route_decision.splits option.splits authorization.splits)
  obtain rate where "ce_rate ce = Inr rate" "s1 = put_relay_order oid (created_order ''xlm_to_eth'' ''awaiting_xlm_payment''
      (the (cq_stellarAddress c)) (ce_isoString ce t0) None (the (cq_ethAddress c)) rate None (Some ''XLM_TO_ETH_PENDING'')) s"
    using x assms(3) by (auto simp: create_xlm_to_eth_def codes split: sum.splits option.splits)
  then show thesis using that dec none assms(2) by (simp add: text_field_def)
qed

lemma checks_pass:
  assumes "ev_policy ev = buildRelayerSupportPolicy i"
    and "decideOrderRoute (ev_policy ev) req = Route_accepted f t tok" and "orq_direction req = Text ''xlm_to_eth''"
    and "checkOrderSettleable (ev_policy ev) (ev_accounts ev) ''xlm_to_eth'' = None"
    and "order_direction ord = ''xlm_to_eth''" and "\<not> cc_safeMode (rx_coord s)" and "ev_coordinator ev = Http_ok m"
  obtains s1 where "settlement_checks ev ord now s = (s1, Value ())"
proof -
  have "map_of DIRECTION_ROUTES (js_trim ''xlm_to_eth'') = Some (f, t)"
    by (rule decide_direction(1) [OF assms(2,3)])
  then have "f = Ch_stellar" "t = Ch_ethereum" by (simp_all add: trim_direction DIRECTION_ROUTES_def)
  then have a: "authorizeSettlementCommand (ev_policy ev) (ev_accounts ev)
        \<lparr>cr_command = ''settle'', cr_direction = ''xlm_to_eth'', cr_chain = Text ''ethereum''\<rparr> = Granted Cmd_settle Ch_ethereum"
    and "\<exists>route. assertSettlementRoute \<lparr>orq_direction = Text ''xlm_to_eth'', orq_fromChain = Text ''stellar'',
        orq_toChain = Text ''ethereum'', orq_fromToken = Undefined\<rparr> = Inr route"
    using accepted_order_checks [of i req f t tok "''xlm_to_eth''" "ev_accounts ev"] assms(1-4) by auto
  then have route: "route_check ord = None" and perm: "permission_check ev ord = Value ()"
    using assms(5) by (auto simp: route_check_def permission_check_def)
  obtain k md where g: "getOrderMetadata now (ev_coordinator ev) (rx_coord s) = (k, md)"
    by (cases "getOrderMetadata now (ev_coordinator ev) (rx_coord s)")
  then have "assertCoordinatorSafe now k md = None"
    using coordinator_gate_iff [OF g, of now] assms(6,7) by (simp add: STALE_THRESHOLD_MS_def)
  then have "coordinator_check ev now s = (s\<lparr>rx_coord := k\<rparr>, None)" by (simp add: coordinator_check_def g)
  then show thesis using that route perm by (simp add: settlement_checks_def)
qed


lemma created_order_works:
  assumes policy: "ev_policy ev = buildRelayerSupportPolicy i"
    and created: "create ev ce oid t0 c s = (s1, CREATED)" "cq_direction c = Some ''xlm_to_eth''" "\<not> ce_mockMode ce"
      "ce_rate ce = Inr rate"
    and request: "xq_orderId q = oid" "oid \<noteq> []" "xq_stellarTxHash q \<noteq> []" "xq_ethAddress q \<noteq> []"
      "xq_networkMode q = Some net" "known_network net"
    and keys: "ev_env ev ''RELAYER_PRIVATE_KEY'' = Some pk" "pk \<noteq> []" "truthy (relayer_secret ev net)"
      "ev_fromSecret ev (the (relayer_secret ev net)) = Inr relayer"
    and fresh: "\<not> isConsumed (xq_stellarTxHash q) (rx_proofs s)"
    and paid: "verifyIncomingStellarPayment (ev_payments ev net) (xq_stellarTxHash q) relayer (xq_stellarAddress q) = Inr v"
      "release_wei (Some rate) (vp_amount v) = Value wei"
    and coordinator: "\<not> cc_safeMode (rx_coord s)" "ev_coordinator ev = Http_ok m"
    and wallet: "ev_wallet ev (resolveEthereumRpcUrl (net \<noteq> ''testnet'') (ev_env ev)) pk = Inr wl"
      "wallet_works wl (ev_rpcTimeoutMs ev) wei hash" "circuits_closed s"
  shows "\<exists>s2 ord. xlm_to_eth ev q now s1 = (s2, Reply 200 hash)
    \<and> cw_sends (rx_world s2) = cw_sends (rx_world s)
        @ [\<lparr>es_proof = xq_stellarTxHash q, es_tx = \<lparr>et_to = xq_ethAddress q, et_value = wei\<rparr>, es_reached = True\<rparr>]
    \<and> isConsumed (xq_stellarTxHash q) (rx_proofs s2)
    \<and> jm_get (rx_orders s2) oid = Some ord \<and> wo_status (ro_base ord) = ''eth_tx_sent'' \<and> ro_ethTxHash ord = Some hash"
proof -
  obtain f t tok req where s1: "s1 = put_relay_order oid (created_order ''xlm_to_eth'' ''awaiting_xlm_payment''
      (the (cq_stellarAddress c)) (ce_isoString ce t0) None (the (cq_ethAddress c)) rate None (Some ''XLM_TO_ETH_PENDING'')) s"
    and acc: "decideOrderRoute (ev_policy ev) req = Route_accepted f t tok" "orq_direction req = Text ''xlm_to_eth''"
      "checkOrderSettleable (ev_policy ev) (ev_accounts ev) ''xlm_to_eth'' = None"
    using created_xlm_to_eth [OF created(1-3)] created(4) by (metis sum.inject(2))
  define stored where "stored = created_order ''xlm_to_eth'' ''awaiting_xlm_payment'' (the (cq_stellarAddress c))
      (ce_isoString ce t0) None (the (cq_ethAddress c)) rate None (Some ''XLM_TO_ETH_PENDING'')"
  define ord where "ord = touch_order ev q now stored"
  have ord: "wo_direction (ro_base ord) = ''xlm_to_eth''" "wo_status (ro_base ord) = ''awaiting_xlm_payment''"
    "ro_exchangeRate ord = Some rate" "order_direction ord = ''xlm_to_eth''"
    by (simp_all add: ord_def stored_def touch_order_def created_order_def order_direction_def Let_def)
  define s2 where "s2 = put_relay_order oid ord s1"
  have frame: "rx_proofs s2 = rx_proofs s" "rx_world s2 = rx_world s" "rx_coord s2 = rx_coord s" "rx_engine s2 = rx_engine s"
    by (simp_all add: s2_def s1)
  have "net \<noteq> []" using request(6) by (auto simp: known_network_def)
  then have "xlm_to_eth ev q now s1 = verified_release ev q net pk relayer ord now s2"
    using request fresh keys ord s1 stored_def ord_def
    by (simp add: xlm_to_eth_def settle_order_def requested_network_def truthy_def s2_def Let_def jm_get_set)
  moreover obtain l where l: "pl_consume (ev_written ev) now (xq_stellarTxHash q) oid (vp_amount v) (vp_ledgerSequence v) (rx_proofs s) = (l, True)"
    and used: "isConsumed (xq_stellarTxHash q) l"
    using fresh consume_simps(1) consume_simps(2) [where h = "xq_stellarTxHash q" and hash = "xq_stellarTxHash q"]
    by (metis prod.collapse)
  moreover define j where "j = \<lparr>rj_orderId = oid, rj_hash = xq_stellarTxHash q, rj_to = xq_ethAddress q,
      rj_amount = vp_amount v, rj_rpcUrl = resolveEthereumRpcUrl (net \<noteq> ''testnet'') (ev_env ev), rj_privateKey = pk\<rparr>"
  ultimately have route: "xlm_to_eth ev q now s1 = release_eth ev j (xq_stellarAddress q) net ord now (s2\<lparr>rx_proofs := l\<rparr>)"
    using paid(1) request(1) frame by (simp add: verified_release_def)
  let ?s3 = "s2\<lparr>rx_proofs := l\<rparr>"
  obtain s4 where checks: "settlement_checks ev ord now ?s3 = (s4, Value ())"
    using checks_pass [OF policy acc ord(4), of ?s3 m] coordinator frame by auto
  obtain s5 t5 where att: "release_attempt ev j ord now ?s3 = (s5, t5, Value hash)" and s5: "rx_proofs s5 = l"
    "cw_sends (rx_world s5) = cw_sends (rx_world s)
       @ [\<lparr>es_proof = xq_stellarTxHash q, es_tx = \<lparr>et_to = xq_ethAddress q, et_value = wei\<rparr>, es_reached = True\<rparr>]"
    using release_works [OF checks, of j wl wei hash] wallet paid(2) ord(3) frame
    by (auto simp: j_def circuits_closed_def)
  show ?thesis
    using route att s5 used by (auto simp: release_eth_def j_def jm_get_set)
qed


section \<open>A transfer that is slow to answer\<close>

lemma timeout_is_transient: "classify_fault th_message (ro_classifier ETH_SEND_RETRY) (plain_error ''sendTransaction timeout'') = Transient"
  by code_simp

lemma engine_run_second:
  assumes "room 2 action eng" and "fn now w = (w1, dt, Inl e)" and "\<And>t. fn t w1 = (w2, dt2, Inr a)"
    and "classify_fault message (ro_classifier opts) e \<noteq> Terminal" and "ro_maxAttempts opts = Some m" and "2 \<le> m"
  obtains eng' t where "engine_run message action fn opts random now eng w = (eng', w2, t, Inr a)"
proof -
  let ?eng1 = "fst (checkCircuit now action eng)"
  obtain k where k: "nat m - 1 = Suc k" using assms(6) by (intro that [of "nat m - 2"]) simp
  have "room 1 action (onFailure (now + int dt) action ?eng1)"
    using room_failure [of 1 action ?eng1 "now + int dt"] room_check [OF assms(1), of now] by simp
  note ok = room_check(1) [OF this]
  have "\<exists>eng' t. run_loop action fn (classify_fault message (ro_classifier opts)) random baseMs maxMs 1 (Suc k) now ?eng1 w
      = (eng', w2, t, Inr a)" for baseMs maxMs
    using assms(2-4) ok by (simp add: run_loop.simps Let_def split_beta)
  then show thesis
    using that assms(1,5,6) k room_check(1) [OF assms(1), of now] by (auto simp: engine_run_def Let_def split_beta)
qed

lemma retry_second:
  assumes "room 2 action (rx_engine s)" and "fn now (rx_world s) = (w1, dt, Inl e)" and "\<And>t. fn t w1 = (w2, dt2, Inr a)"
    and "classify_fault th_message (ro_classifier opts) e \<noteq> Terminal" and "ro_maxAttempts opts = Some m" and "2 \<le> m"
  obtains s' t where "runWithSettlementRetry ev action opts fn oid direction txHash now s = (s', t, Inr a)" and "rx_world s' = w2"
proof -
  obtain eng' t where "engine_run th_message action fn opts (ev_random ev) now (rx_engine s) (rx_world s) = (eng', w2, t, Inr a)"
    using engine_run_second [where random = "ev_random ev" and fn = fn and now = now and w = "rx_world s",
        OF assms(1) assms(2) assms(3) assms(4-6)] by blast
  then have "\<exists>s' t. runWithSettlementRetry ev action opts fn oid direction txHash now s = (s', t, Inr a) \<and> rx_world s' = w2"
    by (cases "hasFailed oid (rx_failures s)") (simp_all add: runWithSettlementRetry_def Let_def)
  then show thesis using that by blast
qed

text \<open>C32. A transfer that reaches the network but answers late is sent twice. When the wallet takes longer than the
  RPC timeout to answer \<open>sendTransaction\<close>, the timeout counts as transient and the whole call is retried: both
  transfers reach the network, both for the same payment, and the request reports success.\<close>

theorem timed_out_send_repeats:
  assumes "release_wei (ro_exchangeRate ord) (rj_amount j) = Value wei" and "wei + GAS_COST \<le> balance"
    and "room 2 ''eth-send'' (rx_engine s)"
    and "wl_send wl (cw_calls (rx_world s)) \<lparr>et_to = rj_to j, et_value = wei\<rparr> = (late, True, Inr hash1)"
    and "ev_rpcTimeoutMs ev \<le> late"
    and "wl_send wl (cw_calls (rx_world s) + 1) \<lparr>et_to = rj_to j, et_value = wei\<rparr> = (soon, True, Inr hash2)"
    and "soon < ev_rpcTimeoutMs ev"
  shows "\<exists>s' t. release_send ev wl j ord balance now s = (s', t, Value hash2)
    \<and> cw_sends (rx_world s') = cw_sends (rx_world s)
        @ replicate 2 \<lparr>es_proof = rj_hash j, es_tx = \<lparr>et_to = rj_to j, et_value = wei\<rparr>, es_reached = True\<rparr>"
proof -
  let ?tx = "\<lparr>et_to = rj_to j, et_value = wei\<rparr>" and ?w = "rx_world s" and ?ms = "ev_rpcTimeoutMs ev"
  let ?e = "\<lparr>es_proof = rj_hash j, es_tx = ?tx, es_reached = True\<rparr>"
  define w1 where "w1 = counted (?w\<lparr>cw_sends := cw_sends ?w @ [?e]\<rparr>)"
  define w2 where "w2 = counted (w1\<lparr>cw_sends := cw_sends w1 @ [?e]\<rparr>)"
  have 1: "send_call wl (Some ?ms) (rj_hash j) ?tx now ?w = (w1, ?ms, Inl (plain_error ''sendTransaction timeout''))"
    using assms(4,5) by (simp add: send_call_def with_timeout_def w1_def)
  have 2: "send_call wl (Some ?ms) (rj_hash j) ?tx t w1 = (w2, soon, Inr hash2)" for t
    using assms(6,7) by (simp add: send_call_def with_timeout_def w2_def w1_def counted_def)
  obtain s' t where "runWithSettlementRetry ev ''eth-send'' ETH_SEND_RETRY (send_call wl (Some ?ms) (rj_hash j) ?tx)
      (rj_orderId j) (order_direction ord) Some now s = (s', t, Inr hash2)" "rx_world s' = w2"
    by (rule retry_second [where fn = "send_call wl (Some ?ms) (rj_hash j) ?tx" and m = 3, OF assms(3) 1 2])
      (auto simp: timeout_is_transient, simp add: ETH_SEND_RETRY_def)
  moreover have "cw_sends w2 = cw_sends ?w @ replicate 2 ?e" by (simp add: w2_def w1_def counted_def numeral_2_eq_2)
  ultimately show ?thesis using assms(1,2) by (simp add: release_send_def)
qed

section \<open>Who paid is not asked\<close>

definition with_payers :: "(payment_op \<Rightarrow> string option) \<Rightarrow> route_env \<Rightarrow> route_env" where
  "with_payers f ev = ev\<lparr>ev_payments := \<lambda>net. (ev_payments ev net)\<lparr>ph_operations :=
     \<lambda>h. map_option (map (\<lambda>op. op\<lparr>po_from := f op\<rparr>)) (ph_operations (ev_payments ev net) h)\<rparr>\<rparr>"

lemma with_payers_release:
  "release_eth (with_payers f ev) j addr net ord now s = release_eth ev j addr net ord now s"
proof -
  have fields: "ev_env (with_payers f ev) = ev_env ev" "ev_wallet (with_payers f ev) = ev_wallet ev"
    "ev_refunds (with_payers f ev) = ev_refunds ev" "ev_coordinator (with_payers f ev) = ev_coordinator ev"
    "ev_policy (with_payers f ev) = ev_policy ev" "ev_accounts (with_payers f ev) = ev_accounts ev"
    "ev_rpcTimeoutMs (with_payers f ev) = ev_rpcTimeoutMs ev" "ev_random (with_payers f ev) = ev_random ev"
    "ev_feeBumpCap (with_payers f ev) = ev_feeBumpCap ev"
    by (simp_all add: with_payers_def)
  have retry: "runWithSettlementRetry (with_payers f ev) = runWithSettlementRetry ev"
    by (simp add: fun_eq_iff runWithSettlementRetry_def fields)
  have "release_attempt (with_payers f ev) j ord now s = release_attempt ev j ord now s"
    unfolding release_attempt_def release_send_def settlement_checks_def coordinator_check_def permission_check_def fields retry
    by (rule refl)
  then show ?thesis unfolding release_eth_def release_failed_def fields by simp
qed

lemma find_map_from: "find (pays_relayer relayer) (map (\<lambda>op. op\<lparr>po_from := f op\<rparr>) ops)
    = map_option (\<lambda>op. op\<lparr>po_from := f op\<rparr>) (find (pays_relayer relayer) ops)"
  by (induction ops) (auto simp: pays_relayer_def)

lemma same_but_payer: "v\<lparr>vp_from := []\<rparr> = v'\<lparr>vp_from := []\<rparr> \<Longrightarrow> vp_amount v = vp_amount v' \<and> vp_ledgerSequence v = vp_ledgerSequence v'"
  by (cases v; cases v') simp

text \<open>What the verification gives, up to the payer.\<close>

lemma verify_any_payer:
  assumes "\<not> truthy src"
  shows "map_sum id (\<lambda>v. v\<lparr>vp_from := []\<rparr>)
      (verifyIncomingStellarPayment (ev_payments (with_payers f ev) net) h relayer src)
    = map_sum id (\<lambda>v. v\<lparr>vp_from := []\<rparr>) (verifyIncomingStellarPayment (ev_payments ev net) h relayer src)"
  using assms
  by (auto simp: verifyIncomingStellarPayment_def defaultFetch_def with_payers_def find_map_from
      split: sum.split option.split) (auto simp: or_default_def find_map_from split: option.splits)

text \<open>C33. Whoever names a payment first gets the ETH for it. When a request to \<open>xlm-to-eth\<close> leaves out its Stellar
  address, the account that made the payment has no influence on the outcome: the reply, the transfers and the
  state are the same whoever paid, and the ETH goes to the address of the request.\<close>

theorem payer_not_checked:
  assumes "\<not> truthy (xq_stellarAddress q)"
  shows "xlm_to_eth (with_payers f ev) q now s = xlm_to_eth ev q now s"
proof -
  have fields: "ev_env (with_payers f ev) = ev_env ev" "ev_fromSecret (with_payers f ev) = ev_fromSecret ev"
    "ev_defaultNetwork (with_payers f ev) = ev_defaultNetwork ev" "ev_written (with_payers f ev) = ev_written ev"
    by (simp_all add: with_payers_def)
  have verified: "verified_release (with_payers f ev) q net pk relayer ord now s = verified_release ev q net pk relayer ord now s"
    for net pk relayer ord s
    using verify_any_payer [OF assms, of f ev net "xq_stellarTxHash q" relayer]
    by (cases "verifyIncomingStellarPayment (ev_payments (with_payers f ev) net) (xq_stellarTxHash q) relayer (xq_stellarAddress q)";
        cases "verifyIncomingStellarPayment (ev_payments ev net) (xq_stellarTxHash q) relayer (xq_stellarAddress q)")
      (auto simp: verified_release_def with_payers_release fields dest!: same_but_payer)
  show ?thesis
    unfolding xlm_to_eth_def settle_order_def touch_order_def requested_network_def relayer_secret_def fields verified
    by (rule refl)
qed


section \<open>Requests without a check\<close>

text \<open>A relayer account that can pay \<open>xlm\<close> from the network of the order.\<close>

definition can_pay :: "route_env \<Rightarrow> string \<Rightarrow> string \<Rightarrow> string \<Rightarrow> bool" where
  "can_pay ev net xlm hash \<longleftrightarrow>
     (\<exists>secret key. relayer_secret ev net = Some secret \<and> secret \<noteq> [] \<and> \<not> startsWith secret ''SAXXX''
        \<and> ev_fromSecret ev secret = Inr key
        \<and> (\<forall>n. \<exists>b. sa_balance (ev_stellar ev net key) n = Inr b \<and> \<not> ev_less ev b xlm)
        \<and> (\<forall>p. sa_build (ev_stellar ev net key) p = None) \<and> (\<forall>n p. sa_submit (ev_stellar ev net key) n p = Inr hash))"

lemma stellar_pay_works:
  assumes "can_pay ev net xlm hash"
  obtains w' where "stellar_pay ev net destination (Some xlm) memo w = (w', Inr hash)"
    and "cw_xlm w' = cw_xlm w @ [(\<lparr>p_destination = or_default destination [], p_amount = xlm, p_fee = ev_baseFee ev, p_memo = memo\<rparr>, Inr hash)]"
proof -
  obtain secret key where k: "relayer_secret ev net = Some secret" "secret \<noteq> []" "\<not> startsWith secret ''SAXXX''"
    "ev_fromSecret ev secret = Inr key" "\<forall>n. \<exists>b. sa_balance (ev_stellar ev net key) n = Inr b \<and> \<not> ev_less ev b xlm"
    "\<forall>p. sa_build (ev_stellar ev net key) p = None" "\<forall>n p. sa_submit (ev_stellar ev net key) n p = Inr hash"
    using assms unfolding can_pay_def by blast
  obtain b where "sa_balance (ev_stellar ev net key) (cw_calls w) = Inr b" "\<not> ev_less ev b xlm" using k(5) by blast
  then show thesis using that k by (simp add: stellar_pay_def pay_xlm_def truthy_def counted_def Let_def)
qed

definition eth_claim :: "string \<Rightarrow> string \<Rightarrow> process_request" where
  "eth_claim oid txHash = \<lparr>pq_orderId = oid, pq_txHash = Some txHash, pq_stellarTxHash = None, pq_stellarAddress = None, pq_ethAddress = None\<rparr>"

text \<open>An order that \<open>process\<close> would pay out in XLM, with everything the payment depends on.\<close>

definition payable :: "route_env \<Rightarrow> string \<Rightarrow> string \<Rightarrow> string \<Rightarrow> string \<Rightarrow> route_sys \<Rightarrow> bool" where
  "payable ev oid addr xlm hash s \<longleftrightarrow> oid \<noteq> [] \<and>
     (\<exists>ord. jm_get (rx_orders s) oid = Some ord \<and> ro_contractType ord \<noteq> Some ''ONEINCH_ESCROW_FACTORY''
        \<and> wo_stellarAddress (ro_base ord) = Some addr
        \<and> ev_xlmAmount ev (or_default (wo_amount (ro_base ord)) ''1000000000000000'') (or_default (ro_exchangeRate ord) (Finite 10000)) = Some xlm
        \<and> can_pay ev (if str_includes (or_default (ro_contractType ord) []) ''ONEINCH'' then ''mainnet'' else ''testnet'') xlm hash)"

lemma process_pays_xlm:
  assumes "payable ev oid addr xlm hash s" and "txHash \<noteq> []"
  obtains s' where "process ev (eth_claim oid txHash) now s = (s', Reply 200 hash)" and "payable ev oid addr xlm hash s'"
    and "cw_xlm (rx_world s') = cw_xlm (rx_world s)
      @ [(\<lparr>p_destination = addr, p_amount = xlm, p_fee = ev_baseFee ev, p_memo = ''Bridge:'' @ take 20 oid\<rparr>, Inr hash)]"
proof -
  obtain ord where o1: "oid \<noteq> []" "jm_get (rx_orders s) oid = Some ord" "ro_contractType ord \<noteq> Some ''ONEINCH_ESCROW_FACTORY''"
    "wo_stellarAddress (ro_base ord) = Some addr"
    "ev_xlmAmount ev (or_default (wo_amount (ro_base ord)) ''1000000000000000'') (or_default (ro_exchangeRate ord) (Finite 10000)) = Some xlm"
    and pay: "can_pay ev (if str_includes (or_default (ro_contractType ord) []) ''ONEINCH'' then ''mainnet'' else ''testnet'') xlm hash"
    using assms(1) by (auto simp: payable_def)
  define net where "net = (if str_includes (or_default (ro_contractType ord) []) ''ONEINCH'' then ''mainnet'' else ''testnet'')"
  obtain w' where w': "stellar_pay ev net (Some addr) (Some xlm) (''Bridge:'' @ take 20 oid) (rx_world s) = (w', Inr hash)"
    "cw_xlm w' = cw_xlm (rx_world s) @ [(\<lparr>p_destination = addr, p_amount = xlm, p_fee = ev_baseFee ev, p_memo = ''Bridge:'' @ take 20 oid\<rparr>, Inr hash)]"
    by (rule stellar_pay_works [OF pay [folded net_def], of "Some addr" "''Bridge:'' @ take 20 oid" "rx_world s"]) simp
  let ?ord = "ord\<lparr>ro_base := (ro_base ord)\<lparr>wo_status := ''completed'', wo_stellarTxHash := Some hash\<rparr>\<rparr>"
  let ?s = "put_relay_order oid ?ord (s\<lparr>rx_world := w'\<rparr>)"
  have "process ev (eth_claim oid txHash) now s = (?s, Reply 200 hash)"
    using o1 assms(2) w'(1) net_def by (simp add: process_def eth_claim_def process_eth_to_xlm_def truthy_def)
  moreover have "payable ev oid addr xlm hash ?s" using o1 pay by (simp add: payable_def jm_get_set)
  ultimately show thesis using that w'(2) by simp
qed

text \<open>C31. \<open>process\<close> pays out XLM for any Ethereum hash, as often as it is asked. For an order with a funded
  relayer account behind it, every request that names the order and some hash, whether or not a transaction with
  that hash exists, makes the relayer send the order's full amount again, and each is answered with success.\<close>

theorem eth_to_xlm_pays_every_time:
  assumes "payable ev oid addr xlm hash s" and "\<forall>h \<in> set hs. h \<noteq> []"
  shows "cw_xlm (rx_world (fold (\<lambda>h s. fst (process ev (eth_claim oid h) now s)) hs s)) = cw_xlm (rx_world s)
      @ replicate (length hs) (\<lparr>p_destination = addr, p_amount = xlm, p_fee = ev_baseFee ev, p_memo = ''Bridge:'' @ take 20 oid\<rparr>, Inr hash)"
  using assms
proof (induction hs arbitrary: s)
  case (Cons h hs)
  then obtain s' where "process ev (eth_claim oid h) now s = (s', Reply 200 hash)" "payable ev oid addr xlm hash s'"
    "cw_xlm (rx_world s') = cw_xlm (rx_world s)
      @ [(\<lparr>p_destination = addr, p_amount = xlm, p_fee = ev_baseFee ev, p_memo = ''Bridge:'' @ take 20 oid\<rparr>, Inr hash)]"
    by (auto elim: process_pays_xlm [where now = now])
  then show ?case using Cons.IH [of s'] Cons.prems(2) by simp
qed simp

section \<open>The amount released\<close>

lemma div_bounds:
  fixes a b :: int
  assumes "0 < b"
  shows "a div b * b \<le> a \<and> a < (a div b + 1) * b"
  using div_mult_mod_eq [of a b] pos_mod_bound [OF assms, of a] pos_mod_sign [OF assms, of a] unfolding distrib_right by linarith



section \<open>The guarantees\<close>


text \<open>C30. A payment that is accepted and then refused is lost. When \<open>xlm-to-eth\<close> consumes the proof of a payment and
  answers with a refusal (an unavailable coordinator, a denied permission, a missing rate or too little balance),
  no transfer was made and no refund was started, and after any further run no transfer has been made for the
  payment and every new request for it is refused as a replay.\<close>

theorem refused_payment_stranded:
  assumes "route_steps s0 s" and "rx_proofs s0 = new_ProofLedger (Some [])" and "cw_sends (rx_world s0) = []"
    and "env_ok ev" and "xlm_to_eth ev q now s = (s', Reply c m)" and "c \<notin> {200, 500}"
    and "\<not> isConsumed (xq_stellarTxHash q) (rx_proofs s)" and "isConsumed (xq_stellarTxHash q) (rx_proofs s')"
    and "route_steps s' s''"
  shows "sends_of (xq_stellarTxHash q) s'' = [] \<and> rx_refunds s' = rx_refunds s \<and> rx_out s' = rx_out s
    \<and> (xq_stellarTxHash q' = xq_stellarTxHash q \<and> xq_orderId q' \<noteq> [] \<and> xq_stellarTxHash q' \<noteq> [] \<and> xq_ethAddress q' \<noteq> []
        \<longrightarrow> xlm_to_eth ev' q' now' s'' = (s'', Reply 409 ''Stellar transaction already consumed''))"
proof -
  have inv: "release_inv s" using route_steps_inv [OF assms(1) initial_inv [OF assms(2,3)]] .
  moreover have "route_step s s'" using route_step.xlm_to_eth [OF assms(4), of s q now] assms(5) by simp
  ultimately have inv': "release_inv s'" by (blast intro: route_step_inv)
  have "sends_of (xq_stellarTxHash q) s = []" using inv assms(7) by (auto simp: release_inv_def consumed_entry)
  moreover note refused = xlm_to_eth_refused [OF assms(5,6)]
  moreover note later = consumed_stays_run [OF assms(9) inv' assms(8)]
  ultimately show ?thesis by (simp add: xlm_to_eth_def)
qed

text \<open>C5. An order that was created can be settled. For an order the relayer accepted under its own policy, a request
  to \<open>xlm-to-eth\<close> that names a verified payment not used before ends with one transfer of the payment's worth, the
  payment in the ledger and the order in \<open>eth_tx_sent\<close>, when the keys are configured, the coordinator and the wallet
  answer, the wallet has the funds and the circuits are closed.\<close>

theorem created_order_settles:
  assumes "ev_policy ev = buildRelayerSupportPolicy i"
    and "create ev ce oid t0 c s = (s1, CREATED)" and "cq_direction c = Some ''xlm_to_eth''" and "\<not> ce_mockMode ce"
    and "ce_rate ce = Inr rate"
    and "xq_orderId q = oid" and "oid \<noteq> []" and "xq_stellarTxHash q \<noteq> []" and "xq_ethAddress q \<noteq> []"
    and "xq_networkMode q = Some net" and "known_network net"
    and "ev_env ev ''RELAYER_PRIVATE_KEY'' = Some pk" and "pk \<noteq> []" and "truthy (relayer_secret ev net)"
    and "ev_fromSecret ev (the (relayer_secret ev net)) = Inr relayer"
    and "\<not> isConsumed (xq_stellarTxHash q) (rx_proofs s)"
    and "verifyIncomingStellarPayment (ev_payments ev net) (xq_stellarTxHash q) relayer (xq_stellarAddress q) = Inr v"
    and "release_wei (Some rate) (vp_amount v) = Value wei"
    and "\<not> cc_safeMode (rx_coord s)" and "ev_coordinator ev = Http_ok m"
    and "ev_wallet ev (resolveEthereumRpcUrl (net \<noteq> ''testnet'') (ev_env ev)) pk = Inr wl"
    and "wallet_works wl (ev_rpcTimeoutMs ev) wei hash" and "circuits_closed s"
  shows "\<exists>s2 ord. xlm_to_eth ev q now s1 = (s2, Reply 200 hash)
    \<and> cw_sends (rx_world s2) = cw_sends (rx_world s)
        @ [\<lparr>es_proof = xq_stellarTxHash q, es_tx = \<lparr>et_to = xq_ethAddress q, et_value = wei\<rparr>, es_reached = True\<rparr>]
    \<and> isConsumed (xq_stellarTxHash q) (rx_proofs s2)
    \<and> jm_get (rx_orders s2) oid = Some ord \<and> wo_status (ro_base ord) = ''eth_tx_sent'' \<and> ro_ethTxHash ord = Some hash"
  using assms by (rule created_order_works)

section \<open>A concrete relayer\<close>

definition example_hash :: string where "example_hash = replicate 64 (CHR ''a'')"

definition example_op :: payment_op where
  "example_op = \<lparr>po_type = ''payment'', po_from = Some ''GUSER'', po_to = Some ''GRELAY'', po_amount = Some ''10.0000000'',
     po_asset_type = Some ''native''\<rparr>"

definition example_payments :: payment_horizon where
  "example_payments = \<lparr>ph_transaction = \<lambda>h. if h = example_hash then Inr \<lparr>pt_successful = True, pt_ledger = 7, pt_memo = None\<rparr> else Inl 404,
     ph_operations = \<lambda>_. Some [example_op]\<rparr>"

text \<open>The second call on this wallet takes 5 seconds.\<close>

definition example_wallet :: wallet where
  "example_wallet = \<lparr>wl_balance = \<lambda>_. (1, Inr 1000000000000000000000), wl_send = \<lambda>n _. (if n = 1 then 5000 else 2, True, Inr ''0xdead''),
     wl_wait = \<lambda>_. (1, Inr (Some ''0xdead''))\<rparr>"

definition example_env :: "order_metadata http_answer \<Rightarrow> nat \<Rightarrow> route_env" where
  "example_env answer timeout =
     \<lparr>ev_env = \<lambda>k. if k = ''RELAYER_PRIVATE_KEY'' then Some ''0xabc'' else if k = ''RELAYER_STELLAR_SECRET'' then Some ''SABC'' else None,
      ev_wallet = \<lambda>_ _. Inr example_wallet, ev_fromSecret = \<lambda>_. Inr ''GRELAY'', ev_payments = \<lambda>_. example_payments,
      ev_refunds = \<lambda>_. \<lparr>hz_operations = \<lambda>_ _. Inr [], hz_loadAccount = \<lambda>_. None, hz_submit = \<lambda>_ _. Inr (''r'', None),
        hz_transactions = \<lambda>_. Inr [], hz_relayer = ''GRELAY'', hz_base_fee = 100\<rparr>,
      ev_stellar = \<lambda>_ _. \<lparr>sa_balance = \<lambda>_. Inr ''500.0000000'', sa_build = \<lambda>_. None, sa_submit = \<lambda>_ _. Inr ''5te11ar''\<rparr>,
      ev_coordinator = answer, ev_policy = buildRelayerSupportPolicy example_relayer, ev_accounts = example_accounts,
      ev_defaultNetwork = ''testnet'', ev_rpcTimeoutMs = timeout, ev_random = \<lambda>_. 1 / 2, ev_written = True,
      ev_feeBumpCap = 10000, ev_baseFee = 100, ev_xlmAmount = \<lambda>_ _. Some ''10.0000000'', ev_less = \<lambda>_ _. False\<rparr>"

definition example_answer :: "order_metadata http_answer" where
  "example_answer = Http_ok \<lparr>om_orderId = ''order_1'', om_status = ''announced''\<rparr>"

definition example_sys :: route_sys where
  "example_sys = \<lparr>rx_orders = [], rx_proofs = new_ProofLedger (Some []), rx_refunds = new_RefundLedger (Some []),
     rx_failures = new_FailureStore (Some []), rx_engine = new_RetryEngine default_config,
     rx_coord = new_CoordinatorClient None, rx_world = \<lparr>cw_calls = 0, cw_sends = [], cw_xlm = []\<rparr>,
     rx_out = \<lparr>ob_calls = 0, ob_sent = []\<rparr>\<rparr>"

definition example_order :: create_request where
  "example_order = \<lparr>cq_fromChain = Some ''stellar'', cq_toChain = Some ''ethereum'', cq_fromToken = Some ''XLM'', cq_toToken = Some ''ETH'',
     cq_amount = Some ''10'', cq_ethAddress = Some ''0xE'', cq_stellarAddress = Some ''GUSER'', cq_direction = Some ''xlm_to_eth'',
     cq_exchangeRate = None, cq_network = None, cq_networkMode = Some ''testnet'', cq_queryNetwork = None\<rparr>"

definition example_prices :: create_env where
  "example_prices = \<lparr>ce_mockMode = False, ce_rate = Inr (Finite 10000), ce_parseEther = \<lambda>_. Some 1000000000000000000,
     ce_deposit = \<lambda>_. Some 1, ce_encodes = True, ce_stroops = \<lambda>_. Some 100000000, ce_isoString = \<lambda>_. ''2026-01-01T00:00:00Z''\<rparr>"

definition example_release :: eth_request where
  "example_release = \<lparr>xq_orderId = ''order_1'', xq_stellarTxHash = example_hash, xq_stellarAddress = None, xq_ethAddress = ''0xE'',
     xq_networkMode = Some ''testnet'', xq_queryNetwork = None\<rparr>"

text \<open>The system after the order was created.\<close>

definition example_created :: route_sys where
  "example_created = put_relay_order ''order_1'' (created_order ''xlm_to_eth'' ''awaiting_xlm_payment'' ''GUSER'' ''2026-01-01T00:00:00Z''
     None ''0xE'' (Finite 10000) None (Some ''XLM_TO_ETH_PENDING'')) example_sys"

lemma example_is_created: "create (example_env answer timeout) example_prices ''order_1'' 0 example_order example_sys = (example_created, CREATED)"
proof -
  let ?q = "\<lparr>orq_direction = Text ''xlm_to_eth'', orq_fromChain = Text ''stellar'', orq_toChain = Text ''ethereum'', orq_fromToken = Text ''XLM''\<rparr>"
  have "decideOrderRoute (buildRelayerSupportPolicy example_relayer) ?q = Route_accepted Ch_stellar Ch_ethereum Native"
    by code_simp
  moreover have "checkOrderSettleable (buildRelayerSupportPolicy example_relayer) example_accounts ''xlm_to_eth'' = None"
    by code_simp
  ultimately show ?thesis
    by (simp add: create_def create_xlm_to_eth_def example_order_def example_env_def example_prices_def example_created_def
        truthy_def text_field_def)
qed

lemma example_verified:
  "verifyIncomingStellarPayment (ev_payments (example_env answer timeout) net) example_hash ''GRELAY'' None
     = Inr \<lparr>vp_amount = ''10.0000000'', vp_from = ''GUSER'', vp_to = ''GRELAY'', vp_ledgerSequence = 7, vp_memo = None\<rparr>"
proof -
  have "\<not> parseFloat_nonpos ''10.0000000''" by code_simp
  then show ?thesis
    by (simp add: example_env_def example_payments_def example_op_def verifyIncomingStellarPayment_def defaultFetch_def
        pays_relayer_def truthy_def)
qed

lemma example_stroops: "payment_stroops ''10.0000000'' = Some 100000000"
  by code_simp

lemma example_wei: "release_wei (Some (Finite 10000)) ''10.0000000'' = Value 1000000000000000"
  using js_round_int [of 10000] by (simp add: release_wei_def example_stroops isSafeInteger_def bigint_quot_def)

lemma example_env_ok: "env_ok (example_env answer timeout)"
proof -
  have "hex_hash example_hash" by code_simp
  then show ?thesis by (simp add: env_ok_def example_env_def example_payments_def)
qed


lemma example_calls:
  "room 2 ''eth-send'' (rx_engine example_created)" "circuits_closed example_sys" "\<not> cc_safeMode (rx_coord example_sys)"
  by (simp_all add: room_def circuits_closed_def example_created_def example_sys_def getBreaker_def new_RetryEngine_def default_config_def
      new_breaker_def new_CoordinatorClient_def)

lemma example_fields:
  "ev_policy (example_env answer timeout) = buildRelayerSupportPolicy example_relayer"
  "ev_env (example_env answer timeout) ''RELAYER_PRIVATE_KEY'' = Some ''0xabc''"
  "relayer_secret (example_env answer timeout) net = Some ''SABC''" "ev_fromSecret (example_env answer timeout) x = Inr ''GRELAY''"
  "ev_coordinator (example_env answer timeout) = answer" "ev_wallet (example_env answer timeout) url pk = Inr example_wallet"
  "ev_rpcTimeoutMs (example_env answer timeout) = timeout" "cq_direction example_order = Some ''xlm_to_eth''"
  "\<not> ce_mockMode example_prices" "ce_rate example_prices = Inr (Finite 10000)" "xq_orderId example_release = ''order_1''"
  "xq_stellarTxHash example_release = example_hash" "xq_ethAddress example_release = ''0xE''" "xq_stellarAddress example_release = None"
  "xq_networkMode example_release = Some ''testnet''" "known_network ''testnet''" "example_hash \<noteq> []"
  "rx_proofs example_sys = new_ProofLedger (Some [])" "cw_sends (rx_world example_sys) = []"
  "\<not> isConsumed h (new_ProofLedger (Some []))" "truthy (Some ''SABC'')"
  "ev_written (example_env answer timeout)"
  by (simp_all add: example_env_def example_order_def example_prices_def example_release_def known_network_def relayer_secret_def truthy_def
      example_hash_def example_sys_def new_ProofLedger_def isConsumed_def jm_has_def)

lemma example_works: "5000 < timeout \<Longrightarrow> wallet_works example_wallet timeout 1000000000000000 ''0xdead''"
  by (simp add: wallet_works_def example_wallet_def GAS_COST_def)

lemma example_release_runs:
  "\<exists>s2 ord. xlm_to_eth (example_env example_answer 10000) example_release 5 example_created = (s2, Reply 200 ''0xdead'')
    \<and> cw_sends (rx_world s2) = [] @ [\<lparr>es_proof = example_hash, es_tx = \<lparr>et_to = ''0xE'', et_value = 1000000000000000\<rparr>, es_reached = True\<rparr>]
    \<and> isConsumed example_hash (rx_proofs s2)
    \<and> jm_get (rx_orders s2) ''order_1'' = Some ord \<and> wo_status (ro_base ord) = ''eth_tx_sent'' \<and> ro_ethTxHash ord = Some ''0xdead''"
  using created_order_works [where ev = "example_env example_answer 10000" and wl = example_wallet and q = example_release and now = 5 and net = "''testnet''"
        and pk = "''0xabc''" and relayer = "''GRELAY''" and wei = 1000000000000000 and hash = "''0xdead''"
        and m = "\<lparr>om_orderId = ''order_1'', om_status = ''announced''\<rparr>"
        and v = "\<lparr>vp_amount = ''10.0000000'', vp_from = ''GUSER'', vp_to = ''GRELAY'', vp_ledgerSequence = 7, vp_memo = None\<rparr>",
      OF example_fields(1) example_is_created example_fields(8-10)] example_verified example_wei example_calls(2,3) example_works
  by (simp add: example_fields example_answer_def)

lemma example_creation_step: "route_steps example_sys example_created"
proof -
  have "example_created = example_sys\<lparr>rx_orders := rx_orders example_created, rx_refunds := rx_refunds example_sys,
      rx_failures := rx_failures example_sys, rx_engine := rx_engine example_sys, rx_coord := rx_coord example_sys,
      rx_out := rx_out example_sys\<rparr>"
    by (simp add: example_created_def put_relay_order_def)
  then show ?thesis by (metis route_step.other r_into_rtranclp)
qed


lemma example_refused:
  "\<exists>s'. xlm_to_eth (example_env Http_unreachable 10000) example_release 5 example_created = (s', Reply 503 ''coordinator_unavailable'')
     \<and> isConsumed example_hash (rx_proofs s')"
proof -
  let ?ev = "example_env Http_unreachable 10000"
  define stored where "stored = created_order ''xlm_to_eth'' ''awaiting_xlm_payment'' ''GUSER'' ''2026-01-01T00:00:00Z'' None ''0xE''
      (Finite 10000) None (Some ''XLM_TO_ETH_PENDING'')"
  define ord where "ord = touch_order ?ev example_release 5 stored"
  have ord: "wo_direction (ro_base ord) = ''xlm_to_eth''" "wo_status (ro_base ord) = ''awaiting_xlm_payment''"
    "order_direction ord = ''xlm_to_eth''"
    by (simp_all add: ord_def stored_def touch_order_def created_order_def order_direction_def Let_def)
  have "assertSettlementRoute \<lparr>orq_direction = Text ''xlm_to_eth'', orq_fromChain = Text ''stellar'',
      orq_toChain = Text ''ethereum'', orq_fromToken = Undefined\<rparr> = Inr (hd (tl SUPPORTED_SETTLEMENT_ROUTES))" by code_simp
  then have route: "route_check ord = None" by (auto simp: route_check_def ord)
  have gate: "\<exists>c. coordinator_check ?ev 5 s = (s\<lparr>rx_coord := c\<rparr>, Some (Reply 503 ''coordinator_unavailable''))" for s
  proof -
    obtain k md where g: "getOrderMetadata 5 Http_unreachable (rx_coord s) = (k, md)"
      by (cases "getOrderMetadata 5 Http_unreachable (rx_coord s)")
    then have "assertCoordinatorSafe 5 k md \<noteq> None" using coordinator_gate_iff [OF g, of 5] by simp
    then show ?thesis by (auto simp: coordinator_check_def example_fields g)
  qed
  obtain l where l: "pl_consume True 5 example_hash ''order_1'' ''10.0000000'' 7 (new_ProofLedger (Some [])) = (l, True)"
    and used: "isConsumed example_hash l"
    using example_fields(20) [of example_hash] consume_simps(1) [of True 5 example_hash "''order_1''" "''10.0000000''" 7 "new_ProofLedger (Some [])"]
      consume_simps(2) [of example_hash True 5 example_hash "''order_1''" "''10.0000000''" 7 "new_ProofLedger (Some [])"]
    by (cases "pl_consume True 5 example_hash ''order_1'' ''10.0000000'' 7 (new_ProofLedger (Some []))") auto
  have stored': "jm_get (rx_orders example_created) ''order_1'' = Some stored" "rx_proofs example_created = new_ProofLedger (Some [])"
    by (simp_all add: example_created_def stored_def jm_get_set example_fields)
  let ?s = "put_relay_order ''order_1'' ord example_created"
  have "xlm_to_eth ?ev example_release 5 example_created = settle_order ?ev example_release ord 5 ?s"
    by (simp add: xlm_to_eth_def example_fields stored' ord_def Let_def)
  also have "\<dots> = verified_release ?ev example_release ''testnet'' ''0xabc'' ''GRELAY'' ord 5 ?s"
    by (simp add: settle_order_def requested_network_def example_fields ord truthy_def)
  also have "\<dots> = release_eth ?ev \<lparr>rj_orderId = ''order_1'', rj_hash = example_hash, rj_to = ''0xE'', rj_amount = ''10.0000000'',
      rj_rpcUrl = resolveEthereumRpcUrl False (ev_env ?ev), rj_privateKey = ''0xabc''\<rparr> None ''testnet'' ord 5 (?s\<lparr>rx_proofs := l\<rparr>)"
    using l by (simp add: verified_release_def example_fields example_verified stored')
  finally have whole: "xlm_to_eth ?ev example_release 5 example_created = release_eth ?ev \<lparr>rj_orderId = ''order_1'', rj_hash = example_hash,
      rj_to = ''0xE'', rj_amount = ''10.0000000'', rj_rpcUrl = resolveEthereumRpcUrl False (ev_env ?ev), rj_privateKey = ''0xabc''\<rparr>
      None ''testnet'' ord 5 (?s\<lparr>rx_proofs := l\<rparr>)" .
  obtain c where "coordinator_check ?ev 5 (?s\<lparr>rx_proofs := l\<rparr>)
      = (?s\<lparr>rx_proofs := l\<rparr>\<lparr>rx_coord := c\<rparr>, Some (Reply 503 ''coordinator_unavailable''))"
    using gate by blast
  then show ?thesis unfolding whole using used by (simp add: release_eth_def release_attempt_def settlement_checks_def route)
qed

theorem refused_payment_stranded_witness:
  "\<exists>s'. xlm_to_eth (example_env Http_unreachable 10000) example_release 5 example_created = (s', Reply 503 ''coordinator_unavailable'')
     \<and> sends_of example_hash s' = []
     \<and> xlm_to_eth (example_env example_answer 10000) example_release 90 s' = (s', Reply 409 ''Stellar transaction already consumed'')"
proof -
  obtain s' where run: "xlm_to_eth (example_env Http_unreachable 10000) example_release 5 example_created = (s', Reply 503 ''coordinator_unavailable'')"
    and used: "isConsumed (xq_stellarTxHash example_release) (rx_proofs s')"
    using example_refused by (auto simp: example_fields)
  have fresh: "\<not> isConsumed (xq_stellarTxHash example_release) (rx_proofs example_created)"
    by (simp add: example_created_def example_fields)
  show ?thesis
    using refused_payment_stranded [OF example_creation_step example_fields(18,19) example_env_ok run _ fresh used rtranclp.rtrancl_refl,
        of example_release "example_env example_answer 10000" 90] run
    by (simp add: example_fields)
qed

theorem created_order_settles_witness:
  "\<exists>s2 ord. create (example_env example_answer 10000) example_prices ''order_1'' 0 example_order example_sys = (example_created, CREATED)
    \<and> xlm_to_eth (example_env example_answer 10000) example_release 5 example_created = (s2, Reply 200 ''0xdead'')
    \<and> jm_get (rx_orders s2) ''order_1'' = Some ord \<and> wo_status (ro_base ord) = ''eth_tx_sent''"
  using created_order_settles [where ev = "example_env example_answer 10000" and wl = example_wallet and q = example_release and now = 5
        and net = "''testnet''" and pk = "''0xabc''" and relayer = "''GRELAY''" and wei = 1000000000000000 and hash = "''0xdead''"
        and m = "\<lparr>om_orderId = ''order_1'', om_status = ''announced''\<rparr>"
        and v = "\<lparr>vp_amount = ''10.0000000'', vp_from = ''GUSER'', vp_to = ''GRELAY'', vp_ledgerSequence = 7, vp_memo = None\<rparr>",
      OF example_fields(1) example_is_created example_fields(8-10)]
    example_is_created [of example_answer 10000] example_verified example_wei example_calls(2,3) example_works
  by (auto simp: example_fields example_answer_def)

text \<open>The system when the balance has been read.\<close>

definition example_sending :: route_sys where
  "example_sending = example_created\<lparr>rx_world := \<lparr>cw_calls = 1, cw_sends = [], cw_xlm = []\<rparr>\<rparr>"

definition example_job :: release_job where
  "example_job = \<lparr>rj_orderId = ''order_1'', rj_hash = example_hash, rj_to = ''0xE'', rj_amount = ''10.0000000'',
     rj_rpcUrl = ''https://rpc'', rj_privateKey = ''0xabc''\<rparr>"

theorem timed_out_send_repeats_witness:
  "\<exists>s' t. release_send (example_env example_answer 1000) example_wallet example_job
       (created_order ''xlm_to_eth'' ''awaiting_xlm_payment'' ''GUSER'' ''t'' None ''0xE'' (Finite 10000) None None)
       1000000000000000000000 5 example_sending = (s', t, Value ''0xdead'')
     \<and> cw_sends (rx_world s')
       = replicate 2 \<lparr>es_proof = example_hash, es_tx = \<lparr>et_to = ''0xE'', et_value = 1000000000000000\<rparr>, es_reached = True\<rparr>"
  using timed_out_send_repeats [where ev = "example_env example_answer 1000" and wl = example_wallet and j = example_job and s = example_sending
      and ord = "created_order ''xlm_to_eth'' ''awaiting_xlm_payment'' ''GUSER'' ''t'' None ''0xE'' (Finite 10000) None None"
      and balance = 1000000000000000000000 and now = 5 and wei = 1000000000000000 and late = 5000 and soon = 2 and ?hash1.0 = "''0xdead''"
      and ?hash2.0 = "''0xdead''"] example_wei example_calls(1)
  by (simp add: created_order_def example_job_def example_sending_def example_wallet_def example_fields GAS_COST_def)

theorem payer_not_checked_witness:
  "\<exists>s2. xlm_to_eth (with_payers (\<lambda>_. Some ''GOTHER'') (example_env example_answer 10000)) example_release 5 example_created
      = (s2, Reply 200 ''0xdead'')"
  using payer_not_checked [of example_release "\<lambda>_. Some ''GOTHER''" "example_env example_answer 10000" 5 example_created] example_release_runs
  by (auto simp: example_fields truthy_def)

theorem eth_to_xlm_pays_every_time_witness:
  "map (p_destination \<circ> fst) (cw_xlm (rx_world (fold (\<lambda>h s. fst (process (example_env example_answer 10000) (eth_claim ''order_1'' h) 5 s))
       [''0x1'', ''0x1''] example_created))) = [''GUSER'', ''GUSER'']"
proof -
  have "can_pay (example_env example_answer 10000) ''testnet'' ''10.0000000'' ''5te11ar''"
    unfolding can_pay_def by (simp add: example_fields startsWith_def) (simp add: example_env_def)
  then have "payable (example_env example_answer 10000) ''order_1'' ''GUSER'' ''10.0000000'' ''5te11ar'' example_created"
    by (simp add: payable_def example_created_def created_order_def jm_get_set startsWith_def) (simp add: example_env_def)
  from eth_to_xlm_pays_every_time [OF this, of "[''0x1'', ''0x1'']" 5] show ?thesis
    by (simp add: example_created_def example_sys_def)
qed


section \<open>Further deviations\<close>

text \<open>The amount of \<open>processEscrowToStellar\<close> is a number of XLM that the rest of the code takes for stroops: it pays
  the ten millionth part of what the order is worth.\<close>

lemma escrow_pays_too_little:
  assumes "wo_amount (ro_base ord) = Some a" and "bigint_of_string a = Some wei" and "0 \<le> wei" and "0 \<le> r"
    and "ro_exchangeRate ord = Some (Finite (of_int r))" and "escrow_stroops ord = Some n"
  shows "n * 10 ^ 7 \<le> wei * r * 10 ^ 7 div 10 ^ 18"
proof -
  have "n = wei * r div 10 ^ 18"
    using assms by (auto simp: escrow_stroops_def js_round_int bigint_quot_def sgn_if abs_mult split: if_splits)
  moreover have "wei * r div 10 ^ 18 * 10 ^ 18 \<le> wei * r" using div_bounds [of "10 ^ 18" "wei * r"] by simp
  ultimately have "n * 10 ^ 7 * 10 ^ 18 \<le> wei * r * 10 ^ 7" by (simp add: mult.commute)
  then have "n * 10 ^ 7 * 10 ^ 18 div 10 ^ 18 \<le> wei * r * 10 ^ 7 div 10 ^ 18" by (rule zdiv_mono1) simp
  then show ?thesis by simp
qed

text \<open>The history compares the direction with \<open>eth-to-xlm\<close>, which no order has: every row of a created order
  reads as a swap from XLM to ETH.\<close>

lemma history_direction_fixed:
  assumes "ro_base ord = b" and "wo_direction b \<in> {[], ''eth_to_xlm'', ''xlm_to_eth''}"
  shows "hr_fromToken (history_of net now oid ord) = ''XLM'' \<and> hr_toToken (history_of net now oid ord) = ''ETH''"
  using assms by (auto simp: history_of_def Let_def)

end
