(* ===== verification/Idempotency.thy ===== *)
theory Idempotency
  imports File_Store
begin

text \<open>
  \<open>IdempotencyManager\<close> and \<open>IdempotencyGuard\<close> of \<open>relayer/src/idempotency.ts\<close>: attempts of an action on an
  order, kept in memory and in one file per record. Time and the generated attempt ids are
  arguments; file operations succeed. Logs, and the explanation texts of a recovery context, are not
  modelled.
\<close>

datatype action_type = Claim | Refund | Create_escrow | Reveal_preimage | Register_resolver | Increase_stake

datatype attempt_state = Pending | Submitted | Completed | Failed | Abandoned

record idem_record =
  ir_key :: string
  ir_orderId :: string
  ir_actionType :: action_type
  ir_state :: attempt_state
  ir_attemptId :: string
  ir_txHash :: "string option"
  ir_minedBlock :: "nat option"
  ir_failureReason :: "string option"
  ir_retryCount :: nat
  ir_createdAt :: int
  ir_updatedAt :: int
  ir_correlationId :: "string option"

record recovery_context =
  rx_originalAttemptId :: string
  rx_orderId :: string
  rx_actionType :: action_type
  rx_state :: attempt_state
  rx_canRetry :: bool

record idem_manager =
  im_records :: "(string, idem_record) jsmap"
  im_disk :: "(string, idem_record) jsmap option"
  im_maxRetryCount :: nat
  im_pendingTimeoutMs :: int

datatype idem_error = ALREADY_COMPLETED | PERMANENTLY_FAILED | NOT_FOUND | CANNOT_RETRY | NOT_COMPLETED | NOT_SUBMITTED

fun action_name :: "action_type \<Rightarrow> string" where
  "action_name Claim = ''claim''"
| "action_name Refund = ''refund''"
| "action_name Create_escrow = ''create_escrow''"
| "action_name Reveal_preimage = ''reveal_preimage''"
| "action_name Register_resolver = ''register_resolver''"
| "action_name Increase_stake = ''increase_stake''"

definition makeKey :: "string \<Rightarrow> action_type \<Rightarrow> string" where
  "makeKey oid act = oid @ '':'' @ action_name act"

section \<open>Persistence\<close>

definition im_filePath :: "string \<Rightarrow> string" where
  "im_filePath key = take 100 (safe_name key) @ ''.json''"

definition im_persist :: "idem_record \<Rightarrow> idem_manager \<Rightarrow> idem_manager" where
  "im_persist r m = m\<lparr>im_disk := map_option (jm_set (im_filePath (ir_key r)) r) (im_disk m)\<rparr>"

definition im_deletePersisted :: "string \<Rightarrow> idem_manager \<Rightarrow> idem_manager" where
  "im_deletePersisted key m = m\<lparr>im_disk := map_option (jm_delete (im_filePath key)) (im_disk m)\<rparr>"

fun im_load :: "(string \<times> idem_record) list \<Rightarrow> (string, idem_record) jsmap \<Rightarrow> (string, idem_record) jsmap" where
  "im_load [] m = m"
| "im_load ((f, r) # fs) m =
     im_load fs (if ir_key r \<noteq> [] \<and> \<not> jm_has m (ir_key r) then jm_set (ir_key r) r m else m)"

definition new_IdempotencyManager ::
    "(string, idem_record) jsmap option \<Rightarrow> nat option \<Rightarrow> int option \<Rightarrow> idem_manager" where
  "new_IdempotencyManager dir maxRetry timeout =
     \<lparr>im_records = (case dir of None \<Rightarrow> [] | Some fs \<Rightarrow> im_load fs []), im_disk = dir,
      im_maxRetryCount = or_default maxRetry 10, im_pendingTimeoutMs = or_default timeout (15 * 60 * 1000)\<rparr>"

section \<open>Core API\<close>

definition im_get :: "string \<Rightarrow> action_type \<Rightarrow> idem_manager \<Rightarrow> idem_record option" where
  "im_get oid act m = jm_get (im_records m) (makeKey oid act)"

definition hasAttempted :: "string \<Rightarrow> action_type \<Rightarrow> idem_manager \<Rightarrow> bool" where
  "hasAttempted oid act m = jm_has (im_records m) (makeKey oid act)"

definition im_put :: "idem_record \<Rightarrow> idem_manager \<Rightarrow> idem_manager" where
  "im_put r m = im_persist r (m\<lparr>im_records := jm_set (ir_key r) r (im_records m)\<rparr>)"

definition fresh_attempt :: "int \<Rightarrow> string \<Rightarrow> string \<Rightarrow> action_type \<Rightarrow> string option \<Rightarrow> idem_record" where
  "fresh_attempt now attemptId oid act cid =
     \<lparr>ir_key = makeKey oid act, ir_orderId = oid, ir_actionType = act, ir_state = Pending,
      ir_attemptId = attemptId, ir_txHash = None, ir_minedBlock = None, ir_failureReason = None,
      ir_retryCount = 0, ir_createdAt = now, ir_updatedAt = now, ir_correlationId = cid\<rparr>"

definition im_record ::
    "int \<Rightarrow> string \<Rightarrow> string \<Rightarrow> action_type \<Rightarrow> string option \<Rightarrow> bool \<Rightarrow> idem_manager
     \<Rightarrow> idem_error + (idem_manager \<times> idem_record)" where
  "im_record now attemptId oid act cid forceNew m =
     (let fresh = fresh_attempt now attemptId oid act cid
      in case im_get oid act m of
           None \<Rightarrow> Inr (im_put fresh m, fresh)
         | Some r \<Rightarrow>
             if forceNew then Inr (im_put fresh m, fresh)
             else if ir_state r = Submitted \<and> truthy (ir_txHash r) then Inr (m, r)
             else if ir_state r = Completed \<or> ir_state r = Failed then Inl ALREADY_COMPLETED
             else if ir_state r = Pending then
               let r' = r\<lparr>ir_retryCount := ir_retryCount r + 1, ir_updatedAt := now\<rparr> in Inr (im_put r' m, r')
             else Inr (im_put fresh m, fresh))"

text \<open>\<open>_getOrThrow\<close> followed by \<open>_update\<close>; no state is checked.\<close>

definition im_update ::
    "int \<Rightarrow> string \<Rightarrow> action_type \<Rightarrow> attempt_state \<Rightarrow> (idem_record \<Rightarrow> idem_record) \<Rightarrow> idem_manager
     \<Rightarrow> idem_error + (idem_manager \<times> idem_record)" where
  "im_update now oid act st patch m =
     (case im_get oid act m of
        None \<Rightarrow> Inl NOT_FOUND
      | Some r \<Rightarrow> let r' = patch (r\<lparr>ir_state := st, ir_updatedAt := now\<rparr>) in Inr (im_put r' m, r'))"

definition im_submitted :: "int \<Rightarrow> string \<Rightarrow> action_type \<Rightarrow> string \<Rightarrow> idem_manager \<Rightarrow> idem_error + (idem_manager \<times> idem_record)" where
  "im_submitted now oid act hash m = im_update now oid act Submitted (\<lambda>r. r\<lparr>ir_txHash := Some hash\<rparr>) m"

definition im_complete ::
    "int \<Rightarrow> string \<Rightarrow> action_type \<Rightarrow> string \<Rightarrow> nat option \<Rightarrow> idem_manager \<Rightarrow> idem_error + (idem_manager \<times> idem_record)" where
  "im_complete now oid act hash blk m =
     im_update now oid act Completed
       (\<lambda>r. r\<lparr>ir_txHash := Some hash, ir_minedBlock := (if blk = None then ir_minedBlock r else blk)\<rparr>) m"

definition im_fail ::
    "int \<Rightarrow> string \<Rightarrow> action_type \<Rightarrow> string \<Rightarrow> bool \<Rightarrow> idem_manager \<Rightarrow> idem_error + (idem_manager \<times> idem_record)" where
  "im_fail now oid act why terminal m =
     im_update now oid act (if terminal then Failed else Abandoned) (\<lambda>r. r\<lparr>ir_failureReason := Some why\<rparr>) m"

definition unmined :: "idem_record \<Rightarrow> bool" where
  "unmined r = (ir_minedBlock r = None \<or> ir_minedBlock r = Some 0)"

definition im_canRetry :: "int \<Rightarrow> string \<Rightarrow> action_type \<Rightarrow> idem_manager \<Rightarrow> bool" where
  "im_canRetry now oid act m =
     (case im_get oid act m of
        None \<Rightarrow> True
      | Some r \<Rightarrow>
          if ir_state r = Pending \<or> ir_state r = Abandoned then ir_retryCount r < im_maxRetryCount m
          else if ir_state r = Submitted \<and> unmined r then now - ir_updatedAt r < im_pendingTimeoutMs m
          else False)"

definition getRecoveryContext :: "string \<Rightarrow> action_type \<Rightarrow> idem_manager \<Rightarrow> recovery_context" where
  "getRecoveryContext oid act m =
     (case im_get oid act m of
        None \<Rightarrow> \<lparr>rx_originalAttemptId = [], rx_orderId = oid, rx_actionType = act, rx_state = Pending, rx_canRetry = True\<rparr>
      | Some r \<Rightarrow>
          \<lparr>rx_originalAttemptId = ir_attemptId r, rx_orderId = ir_orderId r, rx_actionType = ir_actionType r,
           rx_state = ir_state r,
           rx_canRetry = (case ir_state r of
              Completed \<Rightarrow> False
            | Failed \<Rightarrow> False
            | Pending \<Rightarrow> ir_retryCount r < im_maxRetryCount m
            | Submitted \<Rightarrow> unmined r
            | Abandoned \<Rightarrow> ir_retryCount r < im_maxRetryCount m)\<rparr>)"

section \<open>Recovery API\<close>

record idem_summary =
  is_scanned :: nat
  is_recovered :: nat
  is_failed :: nat
  is_skipped :: nat

definition stale :: "int \<Rightarrow> int \<Rightarrow> idem_record \<Rightarrow> bool" where
  "stale now timeout r =
     (ir_state r = Pending \<and> now - ir_createdAt r > timeout
      \<or> ir_state r = Submitted \<and> unmined r \<and> now - ir_updatedAt r > timeout)"

text \<open>The body of the loop for the record at a key; the records are visited in the order of the map.\<close>

definition reconcile_one :: "int \<Rightarrow> string \<Rightarrow> idem_manager \<times> idem_summary \<Rightarrow> idem_manager \<times> idem_summary" where
  "reconcile_one now key = (\<lambda>(m, sm).
     case jm_get (im_records m) key of
       None \<Rightarrow> (m, sm)
     | Some r \<Rightarrow>
         let sm1 = sm\<lparr>is_scanned := is_scanned sm + 1\<rparr>
         in if ir_state r = Completed then (m, sm1\<lparr>is_skipped := is_skipped sm1 + 1\<rparr>)
            else if stale now (im_pendingTimeoutMs m) r then
              (im_put (r\<lparr>ir_state := Abandoned, ir_updatedAt := now\<rparr>) m, sm1\<lparr>is_failed := is_failed sm1 + 1\<rparr>)
            else (m, sm1\<lparr>is_recovered := is_recovered sm1 + 1\<rparr>))"

definition im_reconcile :: "int \<Rightarrow> idem_manager \<Rightarrow> idem_manager \<times> idem_summary" where
  "im_reconcile now m =
     fold (reconcile_one now) (map fst (im_records m))
       (m, \<lparr>is_scanned = 0, is_recovered = 0, is_failed = 0, is_skipped = 0\<rparr>)"

definition im_byState :: "attempt_state \<Rightarrow> idem_manager \<Rightarrow> idem_record list" where
  "im_byState st m = filter (\<lambda>r. ir_state r = st) (map snd (im_records m))"

definition byOrderId :: "string \<Rightarrow> idem_manager \<Rightarrow> idem_record list" where
  "byOrderId oid m = filter (\<lambda>r. ir_orderId r = oid) (map snd (im_records m))"

definition im_stateCounts :: "idem_manager \<Rightarrow> attempt_state \<Rightarrow> nat" where
  "im_stateCounts m st = length (im_byState st m)"

definition im_remove :: "string \<Rightarrow> action_type \<Rightarrow> idem_manager \<Rightarrow> idem_manager" where
  "im_remove oid act m =
     im_deletePersisted (makeKey oid act) (m\<lparr>im_records := jm_delete (makeKey oid act) (im_records m)\<rparr>)"

definition im_clear :: "idem_manager \<Rightarrow> idem_manager" where
  "im_clear m = m\<lparr>im_records := [], im_disk := map_option (\<lambda>_. []) (im_disk m)\<rparr>"

section \<open>The guard\<close>

definition assertCanAttempt :: "string \<Rightarrow> action_type \<Rightarrow> idem_manager \<Rightarrow> idem_error option" where
  "assertCanAttempt oid act m =
     (case im_get oid act m of
        Some r \<Rightarrow> if ir_state r = Completed then Some ALREADY_COMPLETED
                  else if ir_state r = Failed then Some PERMANENTLY_FAILED else None
      | None \<Rightarrow> None)"

definition assertCanRetry :: "int \<Rightarrow> string \<Rightarrow> action_type \<Rightarrow> idem_manager \<Rightarrow> idem_error option" where
  "assertCanRetry now oid act m = (if im_canRetry now oid act m then None else Some CANNOT_RETRY)"

definition assertCompleted :: "string \<Rightarrow> action_type \<Rightarrow> idem_manager \<Rightarrow> idem_error option" where
  "assertCompleted oid act m =
     (case im_get oid act m of
        Some r \<Rightarrow> if ir_state r = Completed then None else Some NOT_COMPLETED
      | None \<Rightarrow> Some NOT_COMPLETED)"

definition assertSubmitted :: "string \<Rightarrow> action_type \<Rightarrow> idem_manager \<Rightarrow> idem_error option" where
  "assertSubmitted oid act m =
     (case im_get oid act m of
        Some r \<Rightarrow> if ir_state r = Submitted \<and> truthy (ir_txHash r) then None else Some NOT_SUBMITTED
      | None \<Rightarrow> Some NOT_SUBMITTED)"


section \<open>Well-formed records\<close>

lemma makeKey_inject [simp]: "makeKey oid act = makeKey oid' act' \<longleftrightarrow> oid = oid' \<and> act = act'"
proof
  assume e: "makeKey oid act = makeKey oid' act'"
  have n: "CHR '':'' \<notin> set (action_name a)" for a by (cases a) simp_all
  have "takeWhile (\<lambda>c. c \<noteq> CHR '':'') (rev (makeKey o1 a)) = rev (action_name a)" for o1 a
    using n [of a] by (simp add: makeKey_def takeWhile_append)
  then have "action_name act = action_name act'" using e by (metis rev_rev_ident)
  then show "oid = oid' \<and> act = act'" using e by (cases act; cases act') (simp_all add: makeKey_def)
qed simp

definition typed :: "idem_record \<Rightarrow> bool" where
  "typed r \<longleftrightarrow> ir_key r = makeKey (ir_orderId r) (ir_actionType r)
     \<and> (ir_state r = Pending \<longrightarrow> ir_txHash r = None \<and> ir_minedBlock r = None \<and> ir_failureReason r = None)
     \<and> (ir_state r \<in> {Submitted, Completed} \<longrightarrow> ir_txHash r \<noteq> None)
     \<and> (ir_state r = Failed \<longrightarrow> ir_failureReason r \<noteq> None)
     \<and> (ir_minedBlock r \<noteq> None \<longrightarrow> ir_txHash r \<noteq> None)"

definition idem_ok :: "idem_manager \<Rightarrow> bool" where
  "idem_ok m \<longleftrightarrow> jm_wf (im_records m) \<and> (\<forall>k r. jm_get (im_records m) k = Some r \<longrightarrow> typed r \<and> ir_key r = k)
     \<and> (\<forall>d f r. im_disk m = Some d \<longrightarrow> jm_get d f = Some r \<longrightarrow> typed r)"

inductive im_step :: "idem_manager \<Rightarrow> idem_manager \<Rightarrow> bool" where
  attempt: "im_record now attemptId oid act cid forceNew m = Inr (m', r) \<Longrightarrow> im_step m m'"
| submitted: "im_submitted now oid act hash m = Inr (m', r) \<Longrightarrow> im_step m m'"
| complete: "im_complete now oid act hash blk m = Inr (m', r) \<Longrightarrow> im_step m m'"
| fail: "im_fail now oid act why terminal m = Inr (m', r) \<Longrightarrow> im_step m m'"
| reconcile: "im_step m (fst (im_reconcile now m))"
| remove: "im_step m (im_remove oid act m)"
| clear: "im_step m (im_clear m)"
| restart: "im_disk m = Some d \<Longrightarrow> jm_wf d \<Longrightarrow> set files = set d \<Longrightarrow> jm_wf files \<Longrightarrow>
    im_step m (new_IdempotencyManager (Some files) maxRetry timeout)"

lemma im_put_simps [simp]:
  "im_records (im_put r m) = jm_set (ir_key r) r (im_records m)"
  "im_disk (im_put r m) = map_option (jm_set (im_filePath (ir_key r)) r) (im_disk m)"
  "im_pendingTimeoutMs (im_put r m) = im_pendingTimeoutMs m" "im_maxRetryCount (im_put r m) = im_maxRetryCount m"
  by (simp_all add: im_put_def im_persist_def)

lemma idem_ok_put: "idem_ok m \<Longrightarrow> typed r \<Longrightarrow> idem_ok (im_put r m)"
  by (auto simp: idem_ok_def jm_get_set split: if_splits)

lemma idem_okD: "idem_ok m \<Longrightarrow> im_get oid act m = Some r \<Longrightarrow> typed r \<and> ir_orderId r = oid \<and> ir_actionType r = act"
  unfolding idem_ok_def im_get_def typed_def by (metis makeKey_inject)

lemma fresh_typed [simp]: "typed (fresh_attempt now attemptId oid act cid)"
  by (simp add: typed_def fresh_attempt_def)

lemma im_record_ok:
  assumes "idem_ok m" and "im_record now attemptId oid act cid forceNew m = Inr (m', r)"
  shows "idem_ok m'"
proof -
  have "typed (q\<lparr>ir_retryCount := n, ir_updatedAt := now\<rparr>)" if "im_get oid act m = Some q" for q n
    using idem_okD [OF assms(1) that] by (simp add: typed_def)
  then show ?thesis
    using assms by (auto simp: im_record_def Let_def intro!: idem_ok_put split: option.splits if_splits)
qed

lemma im_update_ok:
  assumes "idem_ok m" and "im_update now oid act st patch m = Inr (m', r)"
    and "\<And>q. typed q \<Longrightarrow> typed (patch (q\<lparr>ir_state := st, ir_updatedAt := now\<rparr>))"
  shows "idem_ok m'"
  using assms idem_okD [OF assms(1)] by (auto simp: im_update_def Let_def intro!: idem_ok_put split: option.splits)

lemma reconcile_one_ok:
  assumes "idem_ok (fst p)"
  shows "idem_ok (fst (reconcile_one now key p))"
proof -
  have "typed (r\<lparr>ir_state := Abandoned, ir_updatedAt := now\<rparr>)" if "jm_get (im_records (fst p)) key = Some r" for r
    using assms that by (auto simp: idem_ok_def typed_def)
  then show ?thesis
    using assms by (auto simp: reconcile_one_def split_beta Let_def intro!: idem_ok_put split: option.split)
qed

lemma im_reconcile_ok: "idem_ok m \<Longrightarrow> idem_ok (fst (im_reconcile now m))"
proof -
  have "idem_ok (fst (fold (reconcile_one now) keys p))" if "idem_ok (fst p)" for keys p
    using that
  proof (induction keys arbitrary: p)
    case (Cons k keys)
    then show ?case using Cons.IH [OF reconcile_one_ok [OF Cons.prems]] by simp
  qed simp
  then show "idem_ok m \<Longrightarrow> idem_ok (fst (im_reconcile now m))" by (simp add: im_reconcile_def)
qed

lemma im_load_typed:
  assumes "\<And>f r. (f, r) \<in> set fs \<Longrightarrow> typed r" and "\<And>k r. jm_get m k = Some r \<Longrightarrow> typed r \<and> ir_key r = k"
    and "jm_get (im_load fs m) k = Some r"
  shows "typed r \<and> ir_key r = k"
  using assms
proof (induction fs m rule: im_load.induct)
  case (2 f q fs m)
  let ?m = "if ir_key q \<noteq> [] \<and> \<not> jm_has m (ir_key q) then jm_set (ir_key q) q m else m"
  have "typed q" using "2.prems"(1) [of f q] by simp
  then have inv: "typed r' \<and> ir_key r' = k'" if "jm_get ?m k' = Some r'" for k' r'
    using that "2.prems"(2) [of k' r'] by (auto simp: jm_get_set split: if_splits)
  have rest: "typed r'" if "(f', r') \<in> set fs" for f' r' using that "2.prems"(1) [of f' r'] by simp
  have "jm_get (im_load fs ?m) k = Some r" using "2.prems"(3) by simp
  with rest inv show ?case by (rule "2.IH")
qed auto

lemma im_load_wf: "jm_wf m \<Longrightarrow> jm_wf (im_load fs m)"
  by (induction fs m rule: im_load.induct) auto

lemma restart_ok:
  assumes "idem_ok m" and "im_disk m = Some d" "jm_wf d" "set files = set d" "jm_wf files"
  shows "idem_ok (new_IdempotencyManager (Some files) maxRetry timeout)"
proof -
  have saved: "typed r" if "(f, r) \<in> set files" for f r
    using that assms(1,2,4) jm_get_in_set [OF assms(3), of f r] unfolding idem_ok_def by simp
  have disk: "typed r" if "jm_get files f = Some r" for f r
    using that saved jm_get_in_set [OF assms(5)] by blast
  have mem: "typed r \<and> ir_key r = k" if "jm_get (im_load files []) k = Some r" for k r
    by (rule im_load_typed [OF saved _ that]) simp_all
  show ?thesis
    unfolding idem_ok_def using disk mem by (simp add: new_IdempotencyManager_def im_load_wf)
qed

lemma im_step_ok: "im_step m m' \<Longrightarrow> idem_ok m \<Longrightarrow> idem_ok m'"
proof (induction rule: im_step.induct)
  case (submitted now oid act hash m m' r)
  show ?case by (rule im_update_ok [OF submitted(2) submitted(1) [unfolded im_submitted_def]]) (auto simp: typed_def)
next
  case (complete now oid act hash blk m m' r)
  show ?case by (rule im_update_ok [OF complete(2) complete(1) [unfolded im_complete_def]]) (auto simp: typed_def)
next
  case (fail now oid act why terminal m m' r)
  show ?case by (rule im_update_ok [OF fail(2) fail(1) [unfolded im_fail_def]]) (auto simp: typed_def)
next
  case (remove m oid act)
  then show ?case
    by (auto simp: im_remove_def im_deletePersisted_def idem_ok_def jm_get_delete split: if_splits)
next
  case (clear m)
  then show ?case by (auto simp: im_clear_def idem_ok_def)
qed (auto intro: im_record_ok im_reconcile_ok restart_ok)

lemma run_idem_ok:
  assumes "im_step\<^sup>*\<^sup>* (new_IdempotencyManager (map_option (\<lambda>_. []) dir) maxRetry timeout) m"
  shows "idem_ok m"
proof -
  have "idem_ok (new_IdempotencyManager (map_option (\<lambda>_. []) dir) maxRetry timeout)"
    by (auto simp: idem_ok_def new_IdempotencyManager_def split: option.splits)
  with assms show ?thesis by (induction rule: rtranclp_induct) (auto intro: im_step_ok)
qed

text \<open>C17. In every run of the idempotency manager, restarts included, the record under an order and an
  action is a record of that order and action, and has the data its state promises: a pending attempt
  has no transaction, block or failure, a submitted or completed one has a transaction hash, a failed
  one a reason, and a mined block comes with a hash.\<close>

theorem idem_records_typed:
  assumes "im_step\<^sup>*\<^sup>* (new_IdempotencyManager (map_option (\<lambda>_. []) dir) maxRetry timeout) m"
    and "im_get oid act m = Some r"
  shows "ir_orderId r = oid \<and> ir_actionType r = act \<and> ir_key r = makeKey oid act
    \<and> (case ir_state r of
         Pending \<Rightarrow> ir_txHash r = None \<and> ir_minedBlock r = None \<and> ir_failureReason r = None
       | Submitted \<Rightarrow> ir_txHash r \<noteq> None
       | Completed \<Rightarrow> ir_txHash r \<noteq> None
       | Failed \<Rightarrow> ir_failureReason r \<noteq> None
       | Abandoned \<Rightarrow> True)
    \<and> (ir_minedBlock r \<noteq> None \<longrightarrow> ir_txHash r \<noteq> None)"
proof -
  from idem_okD [OF run_idem_ok [OF assms(1)] assms(2)] show ?thesis by (auto simp: typed_def split: attempt_state.split)
qed


definition sample_submitted :: idem_record where
  "sample_submitted = (fresh_attempt 0 ''a1'' ''o1'' Claim None)
     \<lparr>ir_state := Submitted, ir_updatedAt := 5, ir_txHash := Some ''0xab''\<rparr>"

definition sample_manager :: idem_manager where
  "sample_manager = im_put sample_submitted (im_put (fresh_attempt 0 ''a1'' ''o1'' Claim None)
     (new_IdempotencyManager (map_option (\<lambda>_. []) (Some ())) None None))"

lemma sample_run: "im_step\<^sup>*\<^sup>* (new_IdempotencyManager (map_option (\<lambda>_. []) (Some ())) None None) sample_manager"
proof -
  let ?m0 = "new_IdempotencyManager (map_option (\<lambda>_. []) (Some ())) None None"
  let ?r1 = "fresh_attempt 0 ''a1'' ''o1'' Claim None"
  have "im_record 0 ''a1'' ''o1'' Claim None False ?m0 = Inr (im_put ?r1 ?m0, ?r1)"
    by (simp add: im_record_def im_get_def new_IdempotencyManager_def Let_def)
  then have s1: "im_step ?m0 (im_put ?r1 ?m0)" by (rule im_step.attempt)
  have "im_submitted 5 ''o1'' Claim ''0xab'' (im_put ?r1 ?m0) = Inr (sample_manager, sample_submitted)"
    by (simp add: im_submitted_def im_update_def im_get_def sample_manager_def sample_submitted_def Let_def jm_get_set)
       (simp add: fresh_attempt_def)
  then have s2: "im_step (im_put ?r1 ?m0) sample_manager" by (rule im_step.submitted)
  have "im_step\<^sup>*\<^sup>* ?m0 (im_put ?r1 ?m0)" by (rule r_into_rtranclp) (rule s1)
  then show ?thesis using s2 by (rule rtranclp.rtrancl_into_rtrancl)
qed

lemma sample_get: "im_get ''o1'' Claim sample_manager = Some sample_submitted"
  by (simp add: im_get_def sample_manager_def jm_get_set) (simp add: sample_submitted_def fresh_attempt_def)

theorem idem_records_typed_witness:
  "im_get ''o1'' Claim sample_manager = Some sample_submitted \<and> ir_txHash sample_submitted \<noteq> None"
  using idem_records_typed [OF sample_run sample_get] sample_get by (simp add: sample_submitted_def)

section \<open>A submission that is given up too early\<close>

lemma reconcile_one_other:
  assumes "idem_ok (fst p)" and "k \<noteq> key"
  shows "jm_get (im_records (fst (reconcile_one now key p))) k = jm_get (im_records (fst p)) k
    \<and> im_pendingTimeoutMs (fst (reconcile_one now key p)) = im_pendingTimeoutMs (fst p)
    \<and> im_maxRetryCount (fst (reconcile_one now key p)) = im_maxRetryCount (fst p)"
proof (cases "jm_get (im_records (fst p)) key")
  case (Some r)
  then have "ir_key r = key" using assms(1) by (simp add: idem_ok_def)
  then show ?thesis using Some assms(2) by (cases p) (auto simp: reconcile_one_def Let_def jm_get_set)
qed (cases p; simp add: reconcile_one_def)

lemma reconcile_others:
  assumes "idem_ok (fst p)" and "k \<notin> set keys"
  shows "jm_get (im_records (fst (fold (reconcile_one now) keys p))) k = jm_get (im_records (fst p)) k
    \<and> im_pendingTimeoutMs (fst (fold (reconcile_one now) keys p)) = im_pendingTimeoutMs (fst p)
    \<and> im_maxRetryCount (fst (fold (reconcile_one now) keys p)) = im_maxRetryCount (fst p)
    \<and> idem_ok (fst (fold (reconcile_one now) keys p))"
  using assms
proof (induction keys arbitrary: p)
  case (Cons x keys)
  have ok: "idem_ok (fst (reconcile_one now x p))" by (rule reconcile_one_ok [OF Cons.prems(1)])
  have "k \<noteq> x" "k \<notin> set keys" using Cons.prems(2) by auto
  then show ?case
    using Cons.IH [OF ok] reconcile_one_other [OF Cons.prems(1)] by simp
qed simp

lemma reconcile_one_abandons:
  assumes "idem_ok (fst p)" and "jm_get (im_records (fst p)) k = Some r"
    and "ir_state r \<noteq> Completed" "stale now (im_pendingTimeoutMs (fst p)) r"
  shows "jm_get (im_records (fst (reconcile_one now k p))) k = Some (r\<lparr>ir_state := Abandoned, ir_updatedAt := now\<rparr>)
    \<and> im_maxRetryCount (fst (reconcile_one now k p)) = im_maxRetryCount (fst p)"
proof -
  have "ir_key r = k" using assms(1,2) by (simp add: idem_ok_def)
  then show ?thesis using assms(2-4) by (cases p) (simp add: reconcile_one_def Let_def jm_get_set)
qed

lemma fold_reconcile_abandons:
  assumes "idem_ok (fst p)" and "distinct keys" and "k \<in> set keys" and "jm_get (im_records (fst p)) k = Some r"
    and "ir_state r \<noteq> Completed" "stale now (im_pendingTimeoutMs (fst p)) r"
  shows "jm_get (im_records (fst (fold (reconcile_one now) keys p))) k
      = Some (r\<lparr>ir_state := Abandoned, ir_updatedAt := now\<rparr>)
    \<and> im_maxRetryCount (fst (fold (reconcile_one now) keys p)) = im_maxRetryCount (fst p)"
  using assms
proof (induction keys arbitrary: p)
  case (Cons x keys)
  define q where "q = reconcile_one now x p"
  have ok: "idem_ok (fst q)" unfolding q_def by (rule reconcile_one_ok [OF Cons.prems(1)])
  have f: "fold (reconcile_one now) (x # keys) p = fold (reconcile_one now) keys q" by (simp add: q_def)
  show ?case
  proof (cases "x = k")
    case True
    then have "k \<notin> set keys" using Cons.prems(2) by simp
    from reconcile_others [OF ok this, of now] reconcile_one_abandons [OF Cons.prems(1,4-6)] True
    show ?thesis unfolding f q_def by simp
  next
    case False
    then have "k \<in> set keys" "distinct keys" using Cons.prems(2,3) by auto
    moreover have "jm_get (im_records (fst q)) k = Some r" "im_pendingTimeoutMs (fst q) = im_pendingTimeoutMs (fst p)"
      "im_maxRetryCount (fst q) = im_maxRetryCount (fst p)"
      using reconcile_one_other [OF Cons.prems(1), of k x now] False Cons.prems(4) by (simp_all add: q_def)
    ultimately show ?thesis using Cons.IH [OF ok] Cons.prems(5,6) unfolding f by simp
  qed
qed simp

lemma reconcile_abandons:
  assumes ok: "idem_ok m" and r: "jm_get (im_records m) k = Some r"
    and st: "ir_state r \<noteq> Completed" "stale now (im_pendingTimeoutMs m) r"
  shows "jm_get (im_records (fst (im_reconcile now m))) k = Some (r\<lparr>ir_state := Abandoned, ir_updatedAt := now\<rparr>)
    \<and> im_maxRetryCount (fst (im_reconcile now m)) = im_maxRetryCount m"
proof -
  have d: "distinct (map fst (im_records m))" using ok by (simp add: idem_ok_def jm_wf_def)
  have k: "k \<in> set (map fst (im_records m))"
    unfolding set_map by (rule image_eqI [of _ _ "(k, r)"]) (simp, rule map_of_SomeD [OF r])
  show ?thesis
    unfolding im_reconcile_def
    using fold_reconcile_abandons [of "(m, s)" for s, unfolded fst_conv, OF ok d k r st] by blast
qed


text \<open>A submitted transaction that has not been seen mined within the timeout is given up by the
  next reconciliation, although it may still be mined: the guard then allows another attempt, and
  recording it replaces the record by a fresh one that no longer knows the transaction hash and
  counts its retries from zero.\<close>

theorem submitted_hash_forgotten:
  assumes "im_step\<^sup>*\<^sup>* (new_IdempotencyManager (map_option (\<lambda>_. []) dir) maxRetry timeout) m"
    and "im_get oid act m = Some r" and "ir_state r = Submitted" and "unmined r"
    and "now - ir_updatedAt r > im_pendingTimeoutMs m" and "m1 = fst (im_reconcile now m)"
  shows "assertCanAttempt oid act m1 = None
    \<and> (\<exists>m2 r2. im_record later attemptId oid act cid False m1 = Inr (m2, r2) \<and> im_get oid act m2 = Some r2
        \<and> ir_state r2 = Pending \<and> ir_txHash r2 = None \<and> ir_retryCount r2 = 0
        \<and> assertSubmitted oid act m2 = Some NOT_SUBMITTED
        \<and> (0 < im_maxRetryCount m \<longrightarrow> im_canRetry later oid act m2))"
proof -
  let ?r1 = "r\<lparr>ir_state := Abandoned, ir_updatedAt := now\<rparr>" and ?f = "fresh_attempt later attemptId oid act cid"
  have "idem_ok m" by (rule run_idem_ok [OF assms(1)])
  then have get: "im_get oid act m1 = Some ?r1" and mx: "im_maxRetryCount m1 = im_maxRetryCount m"
    using reconcile_abandons [of m "makeKey oid act" r now] assms(2-5)
    by (simp_all add: assms(6) im_get_def stale_def)
  have rec: "im_record later attemptId oid act cid False m1 = Inr (im_put ?f m1, ?f)"
    by (simp add: im_record_def get Let_def)
  have get2: "im_get oid act (im_put ?f m1) = Some ?f"
    by (simp add: im_get_def jm_get_set fresh_attempt_def)
  have "assertSubmitted oid act (im_put ?f m1) = Some NOT_SUBMITTED" "0 < im_maxRetryCount m \<longrightarrow> im_canRetry later oid act (im_put ?f m1)"
    by (simp_all add: assertSubmitted_def im_canRetry_def get2 mx) (simp_all add: fresh_attempt_def)
  moreover have "ir_state ?f = Pending" "ir_txHash ?f = None" "ir_retryCount ?f = 0"
    by (simp_all add: fresh_attempt_def)
  ultimately show ?thesis using rec get2 by (auto simp: assertCanAttempt_def get)
qed

theorem submitted_hash_forgotten_witness:
  "ir_txHash sample_submitted = Some ''0xab''
   \<and> assertCanAttempt ''o1'' Claim (fst (im_reconcile 1000000 sample_manager)) = None"
proof -
  have r: "ir_state sample_submitted = Submitted" "unmined sample_submitted" "ir_txHash sample_submitted = Some ''0xab''"
    by (simp_all add: sample_submitted_def unmined_def fresh_attempt_def)
  have "1000000 - ir_updatedAt sample_submitted > im_pendingTimeoutMs sample_manager"
    by (simp add: sample_submitted_def sample_manager_def new_IdempotencyManager_def)
  from submitted_hash_forgotten [OF sample_run sample_get r(1,2) this refl] r(3) show ?thesis by blast
qed

end
