(* ===== verification/Settlement.thy ===== *)
theory Settlement
  imports Retry_Engine Idempotency Tx_Store_Properties
begin

text \<open>
  \<open>SettlementService\<close> of \<open>relayer/src/services/settlement-service.ts\<close>: the composition of the transaction
  store, the retry engine and the idempotency manager around one settlement action.

  The action is an argument: for the number of actions performed so far and the order it gives the
  duration and the outcome, a transaction hash or an error message. While an action or a back-off is
  awaited other calls may change the store; what they do is an argument too. The
  log of performed actions is part of the state. Metrics are not modelled.
\<close>

record settle_sys =
  ss_store :: tx_store
  ss_engine :: retry_engine
  ss_index :: "(string, string) jsmap"
  ss_idem :: idem_manager
  ss_calls :: "(string \<times> (string + string)) list"
  ss_defaultMaxAttempts :: int
  ss_defaultBaseDelayMs :: int
  ss_defaultMaxDelayMs :: int

record settle_options =
  so_orderId :: string
  so_direction :: string
  so_correlationId :: string
  so_route :: "string option"
  so_contractKey :: "string option"
  so_classifier :: "(string \<Rightarrow> fault_class option) option"
  so_maxAttempts :: "int option"
  so_baseDelayMs :: "int option"

record settle_env =
  env_action :: "nat \<Rightarrow> string \<Rightarrow> nat \<times> (string + string)"
  env_others :: "nat \<Rightarrow> tx_store \<Rightarrow> tx_store"
  env_onTxHash :: "string \<Rightarrow> string option"
  env_random :: "nat \<Rightarrow> rat"

record settle_result =
  sr_txHash :: "string option"
  sr_attempts :: nat
  sr_lastFaultClass :: "fault_class option"

datatype settle_error = SettlementFailed fault_class nat | StoreError tx_error

section \<open>The settlement action\<close>

type_synonym settle_world = "tx_store \<times> (string \<times> (string + string)) list \<times> string option"

text \<open>The function given to the engine; the last component keeps the last error.\<close>

definition settle_action :: "settle_env \<Rightarrow> string \<Rightarrow> (settle_world, string, string) effect" where
  "settle_action env oid now = (\<lambda>(st, calls, lastErr).
     let (dt, out) = env_action env (length calls) oid; st1 = env_others env (length calls) st;
         calls' = calls @ [(oid, out)]
     in case out of
          Inl e \<Rightarrow> ((st1, calls', Some e), dt, Inl e)
        | Inr hash \<Rightarrow>
            let st2 = (case ackSubmission (now + int dt) oid hash st1 of Inl _ \<Rightarrow> st1 | Inr (st', _) \<Rightarrow> st')
            in (case env_onTxHash env hash of
                  Some e \<Rightarrow> ((st2, calls', Some e), dt, Inl e)
                | None \<Rightarrow> ((st2, calls', lastErr), dt, Inr hash)))"

fun class_name :: "fault_class \<Rightarrow> string" where
  "class_name Transient = ''transient''"
| "class_name Confirmation_delay = ''confirmation_delay''"
| "class_name Terminal = ''terminal''"

fun run_error_message :: "string \<Rightarrow> string run_error \<Rightarrow> string" where
  "run_error_message action (RetryExhausted fc n _) = ''[retry-engine] '' @ [char_of (39::nat)] @ action @ [char_of (39::nat)]
     @ '' exhausted '' @ number_string n @ '' attempts (last fault: '' @ class_name fc @ '')''"
| "run_error_message action (CircuitOpen a) = ''[retry-engine] Circuit for '' @ [char_of (39::nat)] @ a @ [char_of (39::nat)]
     @ '' is open - fast-failing''"
| "run_error_message action (Thrown e) = e"

fun failure_category :: "string run_error \<Rightarrow> fault_class" where
  "failure_category (RetryExhausted fc _ _) = fc"
| "failure_category (CircuitOpen _) = Transient"
| "failure_category (Thrown e) = defaultClassifier e"

text \<open>The \<open>catch\<close> block.\<close>

definition settle_failed ::
    "int \<Rightarrow> string \<Rightarrow> string \<Rightarrow> string run_error \<Rightarrow> nat \<Rightarrow> settle_sys \<Rightarrow> settle_sys \<times> (settle_error + settle_result)" where
  "settle_failed now oid action err attempts s =
     (let st = ss_store s;
          st' = (case tx_get oid st of
                   None \<Rightarrow> st
                 | Some r \<Rightarrow> if isTerminalState (state r) then st
                             else (case markFailed now oid (run_error_message action err) st of
                                     Inl _ \<Rightarrow> st | Inr (st', _) \<Rightarrow> st'))
      in (s\<lparr>ss_store := st'\<rparr>, Inl (SettlementFailed (failure_category err) attempts)))"

definition settle_done ::
    "settle_options \<Rightarrow> string \<Rightarrow> nat \<Rightarrow> string option \<Rightarrow> settle_sys \<Rightarrow> settle_sys \<times> (settle_error + settle_result)" where
  "settle_done opts hash attempts lastErr s =
     (s\<lparr>ss_index := (if truthy (so_contractKey opts) then jm_set (the (so_contractKey opts)) (so_orderId opts) (ss_index s)
                    else ss_index s)\<rparr>,
      Inr \<lparr>sr_txHash = Some hash, sr_attempts = attempts,
           sr_lastFaultClass = (if attempts > 1 then Some (case lastErr of None \<Rightarrow> Transient
              | Some e \<Rightarrow> classify_fault (\<lambda>e. e) (so_classifier opts) e) else None)\<rparr>)"

text \<open>After the engine has run; the acknowledgement is only tried in a state that allows it.\<close>

definition settle_finish ::
    "settle_options \<Rightarrow> int \<Rightarrow> string \<Rightarrow> nat \<Rightarrow> string option \<Rightarrow> string run_error + string \<Rightarrow> settle_sys
     \<Rightarrow> settle_sys \<times> (settle_error + settle_result)" where
  "settle_finish opts t action attempts lastErr res s =
     (let oid = so_orderId opts
      in case res of
           Inl err \<Rightarrow> settle_failed t oid action err attempts s
         | Inr hash \<Rightarrow>
             (case tx_get oid (ss_store s) of
                None \<Rightarrow> settle_done opts hash attempts lastErr s
              | Some r \<Rightarrow>
                  if state r = Pending_submission then
                    (case ackSubmission t oid hash (ss_store s) of
                       Inl _ \<Rightarrow> settle_failed t oid action (Thrown ''invalid transition'') attempts s
                     | Inr (st, _) \<Rightarrow> settle_done opts hash attempts lastErr (s\<lparr>ss_store := st\<rparr>))
                  else settle_done opts hash attempts lastErr s))"

definition settle_run_options :: "settle_options \<Rightarrow> settle_sys \<Rightarrow> string run_options" where
  "settle_run_options opts s =
     \<lparr>ro_classifier = Some (\<lambda>e. Some (classify_fault (\<lambda>e. e) (so_classifier opts) e)),
      ro_maxAttempts = Some (or_default (so_maxAttempts opts) (ss_defaultMaxAttempts s)),
      ro_baseDelayMs = Some (or_default (so_baseDelayMs opts) (ss_defaultBaseDelayMs s)),
      ro_maxDelayMs = Some (ss_defaultMaxDelayMs s)\<rparr>"

definition settle_submit ::
    "settle_env \<Rightarrow> int \<Rightarrow> settle_options \<Rightarrow> settle_sys \<Rightarrow> settle_sys \<times> (settle_error + settle_result)" where
  "settle_submit env now opts s =
     (let action = ''settlement:'' @ so_direction opts;
          (eng, (st, calls, lastErr), t, res) =
            engine_run (\<lambda>e. e) action (settle_action env (so_orderId opts)) (settle_run_options opts s)
              (env_random env) now (ss_engine s) (ss_store s, ss_calls s, None)
      in settle_finish opts t action (length calls - length (ss_calls s)) lastErr res
           (s\<lparr>ss_engine := eng, ss_store := env_others env (length calls) st, ss_calls := calls\<rparr>))"

definition known_hash :: "settle_options \<Rightarrow> settle_sys \<Rightarrow> string option" where
  "known_hash opts s =
     (if \<not> truthy (so_contractKey opts) then None
      else case jm_get (ss_index s) (the (so_contractKey opts)) of
        None \<Rightarrow> None
      | Some known \<Rightarrow>
          if known = [] then None
          else (case tx_get known (ss_store s) of
                  None \<Rightarrow> None
                | Some r \<Rightarrow> if truthy (tx_txHash r) then tx_txHash r else None))"

definition without_attempt :: "string option \<Rightarrow> settle_result" where
  "without_attempt hash = \<lparr>sr_txHash = hash, sr_attempts = 0, sr_lastFaultClass = None\<rparr>"

definition settle ::
    "settle_env \<Rightarrow> int \<Rightarrow> settle_options \<Rightarrow> settle_sys \<Rightarrow> settle_sys \<times> (settle_error + settle_result)" where
  "settle env now opts s =
     (let oid = so_orderId opts; existing = tx_get oid (ss_store s)
      in if known_hash opts s \<noteq> None then (s, Inr (without_attempt (known_hash opts s)))
         else case existing of
           Some r \<Rightarrow>
             if state r = Complete \<or> state r = Chain_mined then (s, Inr (without_attempt (tx_txHash r)))
             else if state r = Terminal_failure then (s, Inl (SettlementFailed Terminal 0))
             else if truthy (tx_txHash r) then (s, Inr (without_attempt (tx_txHash r)))
             else (s, Inl (StoreError ALREADY_EXISTS))
         | None \<Rightarrow>
             (case tx_create now oid (so_correlationId opts) (or_default (so_route opts) (so_direction opts)) (ss_store s) of
                Inl e \<Rightarrow> (s, Inl (StoreError e))
              | Inr (st, _) \<Rightarrow> settle_submit env now opts (s\<lparr>ss_store := st\<rparr>)))"

section \<open>The other operations\<close>

definition sett_recordCoordinatorAck :: "int \<Rightarrow> string \<Rightarrow> string \<Rightarrow> settle_sys \<Rightarrow> settle_sys" where
  "sett_recordCoordinatorAck now oid ref s =
     (case recordCoordinatorAck now oid ref (ss_store s) of Inl _ \<Rightarrow> s | Inr (st, _) \<Rightarrow> s\<lparr>ss_store := st\<rparr>)"

definition sett_recordReceipt :: "int \<Rightarrow> string \<Rightarrow> tx_receipt \<Rightarrow> settle_sys \<Rightarrow> settle_sys \<times> bool" where
  "sett_recordReceipt now oid rc s =
     (case recordReceipt now oid rc (ss_store s) of
        Inl _ \<Rightarrow> (s, False) | Inr (st, _, accepted) \<Rightarrow> (s\<lparr>ss_store := st\<rparr>, accepted))"

definition sett_markComplete :: "int \<Rightarrow> string \<Rightarrow> settle_sys \<Rightarrow> settle_sys" where
  "sett_markComplete now oid s =
     (case markComplete now oid (ss_store s) of Inl _ \<Rightarrow> s | Inr (st, _) \<Rightarrow> s\<lparr>ss_store := st\<rparr>)"

definition getStatus :: "string \<Rightarrow> settle_sys \<Rightarrow> tx_record option" where
  "getStatus oid s = tx_get oid (ss_store s)"

definition canAttempt :: "string \<Rightarrow> action_type \<Rightarrow> settle_sys \<Rightarrow> bool" where
  "canAttempt oid act s =
     (case im_get oid act (ss_idem s) of
        None \<Rightarrow> True | Some r \<Rightarrow> ir_state r \<noteq> Completed \<and> ir_state r \<noteq> Failed)"

definition sett_reconcile :: "int \<Rightarrow> chain_provider option \<Rightarrow> settle_sys \<Rightarrow> settle_sys \<times> reconcile_summary" where
  "sett_reconcile now provider s =
     (let (st, sm) = reconcile now provider (ss_store s) in (s\<lparr>ss_store := st\<rparr>, sm))"

definition new_SettlementService ::
    "tx_store \<Rightarrow> retry_engine \<Rightarrow> idem_manager \<Rightarrow> int option \<Rightarrow> int option \<Rightarrow> int option \<Rightarrow> settle_sys" where
  "new_SettlementService st eng idem maxAttempts baseMs maxMs =
     \<lparr>ss_store = st, ss_engine = eng, ss_index = [], ss_idem = idem, ss_calls = [],
      ss_defaultMaxAttempts = or_default maxAttempts 5, ss_defaultBaseDelayMs = or_default baseMs 1000,
      ss_defaultMaxDelayMs = or_default maxMs 30000\<rparr>"

section \<open>What a settlement does to the store and the chain\<close>

lemma tx_run_trans: "tx_run s' s'' \<Longrightarrow> tx_run s s' \<Longrightarrow> tx_run s s''"
  by (induction rule: tx_run.induct) (auto intro: tx_run.more)

lemma tx_run_one: "tx_step s s' \<Longrightarrow> tx_run s s'"
  by (rule tx_run.more [OF tx_run.none])

text \<open>Others change the store only through its own operations, and the caller's callback does not throw.\<close>

definition calm :: "settle_env \<Rightarrow> bool" where
  "calm env \<longleftrightarrow> (\<forall>n st. tx_run st (env_others env n st)) \<and> (\<forall>h. env_onTxHash env h = None)"

definition act_step :: "string \<Rightarrow> string + string \<Rightarrow> settle_world \<Rightarrow> settle_world \<Rightarrow> bool" where
  "act_step oid out w w' \<longleftrightarrow> tx_run (fst w) (fst w') \<and> fst (snd w') = fst (snd w) @ [(oid, out)]"

lemma settle_action_step:
  assumes "settle_action env oid now w = (w', dt, r)" and "calm env"
  shows "act_step oid r w w'"
proof -
  obtain st calls le where w: "w = (st, calls, le)" by (cases w)
  obtain d out where a: "env_action env (length calls) oid = (d, out)" by (cases "env_action env (length calls) oid")
  have o1: "tx_run st (env_others env (length calls) st)" using assms(2) by (simp add: calm_def)
  have "tx_run st st'" if "ackSubmission t oid h (env_others env (length calls) st) = Inr (st', r)" for t h st' r
    using tx_run.more [OF o1 tx_step.ack [OF that]] .
  then show ?thesis
    using assms o1 by (cases out) (auto simp: settle_action_def w a act_step_def calm_def Let_def split: sum.splits)
qed

definition acted :: "string \<Rightarrow> settle_world \<Rightarrow> settle_world \<Rightarrow> bool" where
  "acted oid w w' \<longleftrightarrow> tx_run (fst w) (fst w')
     \<and> (\<exists>new. fst (snd w') = fst (snd w) @ new \<and> list_all (\<lambda>(q, _). q = oid) new
          \<and> length (filter (\<lambda>(_, out). \<not> isl out) new) \<le> 1)"

lemma failed_actions:
  assumes "(\<lambda>w w'. \<exists>e. act_step oid (Inl e) w w')\<^sup>*\<^sup>* w w'"
  shows "tx_run (fst w) (fst w') \<and> (\<exists>new. fst (snd w') = fst (snd w) @ new \<and> list_all (\<lambda>(q, out). q = oid \<and> isl out) new)"
  using assms
proof (induction rule: rtranclp_induct)
  case base
  show ?case by (auto intro: tx_run.none exI [of _ "[]"])
next
  case (step v v')
  then obtain e new where e: "act_step oid (Inl e) v v'" and new: "tx_run (fst w) (fst v)"
    "fst (snd v) = fst (snd w) @ new" "list_all (\<lambda>(q, out). q = oid \<and> isl out) new" by blast
  have "fst (snd v') = fst (snd w) @ (new @ [(oid, Inl e)])" using e new(2) by (simp add: act_step_def)
  moreover have "list_all (\<lambda>(q, out). q = oid \<and> isl out) (new @ [(oid, Inl e)])" using new(3) by simp
  moreover have "tx_run (fst w) (fst v')" using e new(1) tx_run_trans by (auto simp: act_step_def)
  ultimately show ?case by blast
qed

lemma no_success: "list_all (\<lambda>(q, out). q = oid \<and> isl out) new \<Longrightarrow> filter (\<lambda>(_, out). \<not> isl out) new = []"
  by (auto simp: list_all_iff filter_empty_conv)

lemma engine_acted:
  assumes "engine_run message action (settle_action env oid) ro random now eng w = (eng', w', t, res)" and "calm env"
  shows "acted oid w w'"
proof -
  let ?F = "\<lambda>w w'. \<exists>e. act_step oid (Inl e) w w'" and ?G = "\<lambda>h w w'. act_step oid (Inr h) w w'"
  have cs: "case res of Inl _ \<Rightarrow> ?F\<^sup>*\<^sup>* w w' | Inr h \<Rightarrow> \<exists>v. ?F\<^sup>*\<^sup>* w v \<and> ?G h v w'"
    by (rule engine_run_steps [OF assms(1)]) (use settle_action_step [OF _ assms(2)] in blast)+
  show ?thesis
  proof (cases res)
    case (Inl e)
    then have "?F\<^sup>*\<^sup>* w w'" using cs by simp
    from failed_actions [OF this] show ?thesis
      using no_success by (fastforce simp: acted_def list_all_iff)
  next
    case (Inr h)
    then obtain v where v: "?F\<^sup>*\<^sup>* w v" "act_step oid (Inr h) v w'" using cs by auto
    from failed_actions [OF v(1)] obtain new where new: "tx_run (fst w) (fst v)"
      "fst (snd v) = fst (snd w) @ new" "list_all (\<lambda>(q, out). q = oid \<and> isl out) new" by blast
    have "fst (snd w') = fst (snd w) @ (new @ [(oid, Inr h)])" using v(2) new(2) by (simp add: act_step_def)
    moreover have "list_all (\<lambda>(q, _). q = oid) (new @ [(oid, Inr h)])" using new(3) by (auto simp: list_all_iff)
    moreover have "tx_run (fst w) (fst w')" using v(2) new(1) tx_run_trans by (auto simp: act_step_def)
    ultimately show ?thesis using no_success [OF new(3)] by (auto simp: acted_def)
  qed
qed


definition sys_acted :: "string \<Rightarrow> settle_sys \<Rightarrow> settle_sys \<Rightarrow> bool" where
  "sys_acted oid s s' \<longleftrightarrow> tx_run (ss_store s) (ss_store s')
     \<and> (\<exists>new. ss_calls s' = ss_calls s @ new \<and> list_all (\<lambda>(q, _). q = oid) new
          \<and> length (filter (\<lambda>(_, out). \<not> isl out) new) \<le> 1)"

lemma settle_failed_run:
  "tx_run (ss_store s) (ss_store (fst (settle_failed now oid action err attempts s)))"
  "ss_calls (fst (settle_failed now oid action err attempts s)) = ss_calls s"
  by (auto simp: settle_failed_def Let_def split: option.split sum.split intro: tx_run.none tx_run_one tx_step.fail)

lemma settle_done_run [simp]:
  "ss_store (fst (settle_done opts hash attempts lastErr s)) = ss_store s"
  "ss_calls (fst (settle_done opts hash attempts lastErr s)) = ss_calls s"
  by (simp_all add: settle_done_def)

lemma sys_acted_after:
  assumes "sys_acted oid s s1" and "tx_run (ss_store s1) (ss_store s2)" and "ss_calls s2 = ss_calls s1"
  shows "sys_acted oid s s2"
  using assms tx_run_trans by (auto simp: sys_acted_def)

lemma settle_finish_run:
  "tx_run (ss_store s) (ss_store (fst (settle_finish opts t action n lastErr res s)))"
  "ss_calls (fst (settle_finish opts t action n lastErr res s)) = ss_calls s"
  using settle_failed_run tx_run.none tx_run_one tx_step.ack
  by (auto simp: settle_finish_def Let_def split: sum.split option.split)

lemma settle_submit_acted:
  assumes "calm env"
  shows "sys_acted (so_orderId opts) s (fst (settle_submit env now opts s))"
proof -
  let ?action = "''settlement:'' @ so_direction opts"
  obtain eng w t res where w: "engine_run (\<lambda>e. e) ?action (settle_action env (so_orderId opts))
      (settle_run_options opts s) (env_random env) now (ss_engine s) (ss_store s, ss_calls s, None) = (eng, w, t, res)"
    by (rule prod_cases4)
  obtain st calls lastErr where "w = (st, calls, lastErr)" by (cases w)
  note run = w [unfolded this]
  define s1 where "s1 = s\<lparr>ss_engine := eng, ss_store := env_others env (length calls) st, ss_calls := calls\<rparr>"
  have "acted (so_orderId opts) (ss_store s, ss_calls s, None) (st, calls, lastErr)"
    by (rule engine_acted [OF run assms])
  moreover have "tx_run st (env_others env (length calls) st)" using assms by (simp add: calm_def)
  ultimately have s1: "sys_acted (so_orderId opts) s s1"
    using tx_run_trans by (auto simp: acted_def sys_acted_def s1_def)
  have "settle_submit env now opts s
      = settle_finish opts t ?action (length calls - length (ss_calls s)) lastErr res s1"
    unfolding settle_submit_def Let_def run s1_def by simp
  then show ?thesis using sys_acted_after [OF s1] settle_finish_run by simp
qed

lemma settle_cases:
  assumes "calm env"
  obtains "fst (settle env now opts s) = s"
  | st r where "tx_get (so_orderId opts) (ss_store s) = None"
      "tx_create now (so_orderId opts) (so_correlationId opts) (or_default (so_route opts) (so_direction opts)) (ss_store s)
        = Inr (st, r)"
      "sys_acted (so_orderId opts) (s\<lparr>ss_store := st\<rparr>) (fst (settle env now opts s))"
proof (cases "known_hash opts s = None \<and> tx_get (so_orderId opts) (ss_store s) = None")
  case False
  then have "fst (settle env now opts s) = s" by (auto simp: settle_def Let_def split: option.split)
  then show ?thesis by (rule that(1))
next
  case True
  then obtain st r where c: "tx_create now (so_orderId opts) (so_correlationId opts)
      (or_default (so_route opts) (so_direction opts)) (ss_store s) = Inr (st, r)"
    by (auto simp: tx_create_def tx_get_def jm_has_iff_get Let_def)
  then have "fst (settle env now opts s) = fst (settle_submit env now opts (s\<lparr>ss_store := st\<rparr>))"
    using True by (simp add: settle_def Let_def)
  then show ?thesis using that(2) True c settle_submit_acted [OF assms] by metis
qed

section \<open>Runs of the service\<close>

text \<open>A settlement, any other use of the store (receipts, acknowledgements, sweeps), or a new process
  that reads the store back from its files in some order; the log of performed actions is the chain's and
  survives.\<close>

inductive settle_step :: "settle_sys \<Rightarrow> settle_sys \<Rightarrow> bool" where
  settle: "calm env \<Longrightarrow> settle_step s (fst (settle env now opts s))"
| store: "tx_run (ss_store s) st \<Longrightarrow> settle_step s (s\<lparr>ss_store := st\<rparr>)"
| restart: "disk (ss_store s) = Some d \<Longrightarrow> mset files = mset d \<Longrightarrow>
    inj_on filePath {k. jm_has (records (ss_store s)) k} \<Longrightarrow>
    settle_step s ((new_SettlementService (new_TxStateStore (Some files) timeout maxRec) eng idem a b c)
      \<lparr>ss_calls := ss_calls s\<rparr>)"

abbreviation settle_steps :: "settle_sys \<Rightarrow> settle_sys \<Rightarrow> bool" where
  "settle_steps \<equiv> settle_step\<^sup>*\<^sup>*"

definition actions :: "string \<Rightarrow> settle_sys \<Rightarrow> (string + string) list" where
  "actions oid s = map snd (filter (\<lambda>(q, _). q = oid) (ss_calls s))"

definition served :: "settle_sys \<Rightarrow> bool" where
  "served s \<longleftrightarrow> store_ok (ss_store s) \<and> (\<forall>oid. actions oid s \<noteq> [] \<longrightarrow> tx_get oid (ss_store s) \<noteq> None)
     \<and> (\<forall>oid. length (filter (\<lambda>out. \<not> isl out) (actions oid s)) \<le> 1)"


lemma tx_run_keeps: "tx_run s s' \<Longrightarrow> store_ok s \<Longrightarrow> tx_get k s \<noteq> None \<Longrightarrow> tx_get k s' \<noteq> None"
  using tx_run_moves_on by (fastforce simp: tx_get_def)

lemma actions_append:
  assumes "ss_calls s' = ss_calls s @ new" and "list_all (\<lambda>(q, _). q = oid) new"
  shows "actions q s' = actions q s @ (if q = oid then map snd new else [])"
proof -
  have "filter (\<lambda>(p, _). p = q) new = (if q = oid then new else [])"
    using assms(2) by (induction new) auto
  then show ?thesis using assms(1) by (simp add: actions_def)
qed

lemma settle_served:
  assumes "served s" and "calm env"
  shows "served (fst (settle env now opts s))"
  using assms(2)
proof (rule settle_cases [of env now opts s])
  let ?s' = "fst (settle env now opts s)" and ?oid = "so_orderId opts"
  fix st r
  assume none: "tx_get ?oid (ss_store s) = None"
    and c: "tx_create now ?oid (so_correlationId opts) (or_default (so_route opts) (so_direction opts)) (ss_store s) = Inr (st, r)"
    and acted: "sys_acted ?oid (s\<lparr>ss_store := st\<rparr>) ?s'"
  have ok: "store_ok st" using create_ok [OF _ c] assms(1) by (simp add: served_def)
  have create: "tx_run (ss_store s) st" by (rule tx_run_one [OF tx_step.create [OF c]])
  have st: "tx_get ?oid st \<noteq> None"
    using c by (auto simp: tx_create_def tx_get_def Let_def jm_get_set split: if_splits)
  obtain new where new: "ss_calls ?s' = ss_calls s @ new" "list_all (\<lambda>(q, _). q = ?oid) new"
    "length (filter (\<lambda>(_, out). \<not> isl out) new) \<le> 1" and run: "tx_run st (ss_store ?s')"
    using acted by (auto simp: sys_acted_def)
  note act = actions_append [OF new(1,2)]
  have none': "actions ?oid s = []" using assms(1) none by (auto simp: served_def)
  have len: "length (filter (\<lambda>out. \<not> isl out) (map snd new)) \<le> 1"
    using new(3) by (simp add: filter_map comp_def case_prod_unfold)
  have all: "tx_run (ss_store s) (ss_store ?s')" by (rule tx_run_trans [OF run create])
  have ok0: "store_ok (ss_store s)" using assms(1) by (simp add: served_def)
  show "served ?s'"
    unfolding served_def
  proof (intro conjI allI impI)
    show "store_ok (ss_store ?s')" using tx_run_ok [OF run ok] .
    show "tx_get q (ss_store ?s') \<noteq> None" if "actions q ?s' \<noteq> []" for q
    proof (cases "q = ?oid")
      case True
      then show ?thesis using tx_run_keeps [OF run ok st] by simp
    next
      case False
      then have "tx_get q (ss_store s) \<noteq> None" using that act [of q] assms(1) by (auto simp: served_def)
      then show ?thesis by (rule tx_run_keeps [OF all ok0])
    qed
    show "length (filter (\<lambda>out. \<not> isl out) (actions q ?s')) \<le> 1" for q
      using act [of q] none' len assms(1) by (auto simp: served_def)
  qed
qed (use assms(1) in simp)

lemma restart_store:
  assumes ok: "store_ok s" and d: "disk s = Some d" and files: "mset files = mset d"
    and inj: "inj_on filePath {k. jm_has (records s) k}"
  shows "store_ok (new_TxStateStore (Some files) timeout maxRec)"
    and "tx_get k (new_TxStateStore (Some files) timeout maxRec) = tx_get k s"
proof -
  have m: "mirrors tx_orderId filePath (\<lambda>_. True) d (records s)" using ok d by (simp add: store_ok_def)
  have inj': "inj_on filePath {k. \<exists>r. jm_get (records s) k = Some r \<and> True}"
    using inj by (simp add: jm_has_iff_get)
  have get: "jm_get (load_files files []) k = jm_get (records s) k" for k
    using tx_files.reload [OF m mset_eq_setD [OF files] inj'] by (simp split: option.split)
  show "tx_get k (new_TxStateStore (Some files) timeout maxRec) = tx_get k s"
    by (simp add: tx_get_def new_TxStateStore_def get)
  have "mirrors tx_orderId filePath (\<lambda>_. True) files (load_files files [])"
    by (rule tx_files.reload_mirrors [OF m files inj'])
  moreover have "jm_wf (load_files files [])" by (rule tx_files.load_wf) simp
  ultimately show "store_ok (new_TxStateStore (Some files) timeout maxRec)"
    using ok by (simp add: store_ok_def new_TxStateStore_def get)
qed

lemma settle_step_served:
  assumes "settle_step s s'" and "served s"
  shows "served s'"
  using assms(1)
proof (cases rule: settle_step.cases)
  case (settle env now opts)
  then show ?thesis using settle_served [OF assms(2)] by simp
next
  case (store st)
  have "actions q (s\<lparr>ss_store := st\<rparr>) = actions q s" for q by (simp add: actions_def)
  then show ?thesis
    using store assms(2) tx_run_ok [OF store(2)] tx_run_keeps [OF store(2)] by (auto simp: served_def)
next
  case (restart d files timeout maxRec eng idem a b c)
  have ok: "store_ok (ss_store s)" using assms(2) by (simp add: served_def)
  have "actions q s' = actions q s" for q by (simp add: actions_def restart(1))
  moreover have "ss_store s' = new_TxStateStore (Some files) timeout maxRec"
    by (simp add: restart(1) new_SettlementService_def)
  ultimately show ?thesis
    using restart_store [OF ok restart(2-4)] assms(2) by (simp add: served_def)
qed

lemma settle_steps_served:
  assumes "settle_steps s s'" and "served s"
  shows "served s'"
  using assms by (induction rule: rtranclp_induct) (auto intro: settle_step_served)

lemma new_served: "store_ok st \<Longrightarrow> served (new_SettlementService st eng idem a b c)"
  by (simp add: served_def new_SettlementService_def actions_def)



definition sample_settle_env :: settle_env where
  "sample_settle_env = \<lparr>env_action = (\<lambda>n _. (1, Inr ''0xaa'')), env_others = (\<lambda>_ st. st),
     env_onTxHash = (\<lambda>_. None), env_random = (\<lambda>_. 0)\<rparr>"

definition sample_settle_options :: settle_options where
  "sample_settle_options = \<lparr>so_orderId = ''o1'', so_direction = ''xlm_to_eth'', so_correlationId = ''c1'', so_route = None,
     so_contractKey = None, so_classifier = None, so_maxAttempts = None, so_baseDelayMs = None\<rparr>"

definition sample_service :: settle_sys where
  "sample_service = new_SettlementService (fresh_store True None None) (new_RetryEngine default_config)
     (new_IdempotencyManager None None None) None None None"

definition sample_settled :: settle_sys where
  "sample_settled = fst (settle sample_settle_env 1 sample_settle_options
     (fst (settle sample_settle_env 0 sample_settle_options sample_service)))"

lemma sample_calm: "calm sample_settle_env"
  by (simp add: calm_def sample_settle_env_def tx_run.none)


section \<open>An order that meets an open circuit\<close>

definition given_up :: "string \<Rightarrow> settle_sys \<Rightarrow> bool" where
  "given_up oid s \<longleftrightarrow> served s \<and> actions oid s = [] \<and> (\<exists>r. tx_get oid (ss_store s) = Some r \<and> state r = Terminal_failure)"

lemma given_up_run:
  assumes "given_up oid s" and "tx_run (ss_store s) (ss_store s')"
  shows "\<exists>r. tx_get oid (ss_store s') = Some r \<and> state r = Terminal_failure"
  using assms tx_run_moves_on [OF assms(2), of oid]
  by (fastforce simp: given_up_def served_def tx_get_def moves_on_def isTerminalState_def)

lemma given_up_step:
  assumes "settle_step s s'" and g: "given_up oid s"
  shows "given_up oid s'"
  using assms(1)
proof (cases rule: settle_step.cases)
  case (settle env now opts)
  from settle(2) show ?thesis
  proof (rule settle_cases [of env now opts s])
    assume "fst (settle env now opts s) = s"
    then show ?thesis using g settle by simp
  next
    fix st r
    assume none: "tx_get (so_orderId opts) (ss_store s) = None"
      and c: "tx_create now (so_orderId opts) (so_correlationId opts) (or_default (so_route opts) (so_direction opts)) (ss_store s) = Inr (st, r)"
      and a: "sys_acted (so_orderId opts) (s\<lparr>ss_store := st\<rparr>) (fst (settle env now opts s))"
    have other: "so_orderId opts \<noteq> oid" using none g by (auto simp: given_up_def)
    obtain new where new: "ss_calls s' = ss_calls s @ new" "list_all (\<lambda>(q, _). q = so_orderId opts) new"
      and run: "tx_run st (ss_store s')" using a settle(1) by (auto simp: sys_acted_def)
    have "actions oid s' = []" using actions_append [OF new, of oid] other g by (simp add: given_up_def)
    moreover have "tx_run (ss_store s) (ss_store s')"
      by (rule tx_run_trans [OF run tx_run_one [OF tx_step.create [OF c]]])
    ultimately show ?thesis
      using given_up_run [OF g] settle_step_served [OF assms(1)] g unfolding given_up_def by blast
  qed
next
  case (store st)
  then have "actions oid s' = []" using g by (simp add: given_up_def actions_def)
  then show ?thesis
    using given_up_run [OF g, of s'] settle_step_served [OF assms(1)] g store unfolding given_up_def by simp
next
  case (restart d files timeout maxRec eng idem a b c)
  have "store_ok (ss_store s)" using g by (simp add: given_up_def served_def)
  then have "tx_get oid (ss_store s') = tx_get oid (ss_store s)"
    using restart_store(2) [OF _ restart(2-4)] by (simp add: restart(1) new_SettlementService_def)
  moreover have "actions oid s' = []" using g restart(1) by (simp add: given_up_def actions_def)
  ultimately show ?thesis using g settle_step_served [OF assms(1)] unfolding given_up_def by simp
qed

lemma given_up_steps: "settle_steps s s' \<Longrightarrow> given_up oid s \<Longrightarrow> given_up oid s'"
  by (induction rule: rtranclp_induct) (auto intro: given_up_step)

lemma open_circuit_run:
  assumes "br_state (getBreaker action eng) = Breaker_open"
    and "now - lastFailureAt (getBreaker action eng) < circuitBreakerResetMs (re_cfg eng)"
  shows "\<exists>eng'. engine_run message action fn opts random now eng w = (eng', w, now, Inl (CircuitOpen action))"
  using assms by (simp add: engine_run_def Let_def checkCircuit_def check_breaker_def)

lemma settle_open_circuit:
  assumes "br_state (getBreaker (''settlement:'' @ so_direction opts) (ss_engine s)) = Breaker_open"
    and "now - lastFailureAt (getBreaker (''settlement:'' @ so_direction opts) (ss_engine s))
      < circuitBreakerResetMs (re_cfg (ss_engine s))"
    and "tx_get (so_orderId opts) (ss_store s) = None" "known_hash opts s = None" "env_others env = (\<lambda>_ st. st)"
  shows "snd (settle env now opts s) = Inl (SettlementFailed Transient 0)
    \<and> ss_calls (fst (settle env now opts s)) = ss_calls s
    \<and> (\<exists>r. tx_get (so_orderId opts) (ss_store (fst (settle env now opts s))) = Some r \<and> state r = Terminal_failure)"
proof -
  let ?oid = "so_orderId opts" and ?action = "''settlement:'' @ so_direction opts"
  obtain st r where c: "tx_create now ?oid (so_correlationId opts) (or_default (so_route opts) (so_direction opts)) (ss_store s)
      = Inr (st, r)" and st: "tx_get ?oid st = Some r" and r: "state r = Pending_submission" "tx_orderId r = ?oid"
    using assms(3) by (auto simp: tx_create_def tx_get_def jm_has_iff_get Let_def jm_get_set)
  obtain eng' where e: "engine_run (\<lambda>e. e) ?action (settle_action env ?oid) (settle_run_options opts (s\<lparr>ss_store := st\<rparr>))
      (env_random env) now (ss_engine s) (st, ss_calls s, None) = (eng', (st, ss_calls s, None), now, Inl (CircuitOpen ?action))"
    using open_circuit_run [OF assms(1,2)] by metis
  define s1 where "s1 = s\<lparr>ss_engine := eng', ss_store := st\<rparr>"
  have eq: "settle env now opts s = settle_failed now ?oid ?action (CircuitOpen ?action) 0 s1"
    using assms(3-5) c e
    by (simp add: settle_def Let_def settle_submit_def settle_finish_def s1_def del: append_Cons append_Nil)
  obtain r' where "markFailed now ?oid (run_error_message ?action (CircuitOpen ?action)) st = Inr (put_record r' st, r')"
    "tx_orderId r' = ?oid" "state r' = Terminal_failure"
    using markFailed_works [of st ?oid r] st r by (auto simp: tx_get_def isTerminalState_def)
  then show ?thesis
    unfolding eq using st r
    by (simp add: settle_failed_def s1_def isTerminalState_def Let_def) (simp add: tx_get_def jm_get_set)
qed


text \<open>C29. An order that arrives while the circuit of its direction is open is lost: it is rejected as a
  transient failure without any attempt, and its record becomes a terminal failure, so that no
  later call, sweep or restart ever performs its settlement action.\<close>

theorem open_circuit_loses_order:
  assumes "settle_steps (new_SettlementService (fresh_store persistent timeout maxRec) eng idem a b c) s"
    and "br_state (getBreaker (''settlement:'' @ so_direction opts) (ss_engine s)) = Breaker_open"
    and "now - lastFailureAt (getBreaker (''settlement:'' @ so_direction opts) (ss_engine s))
      < circuitBreakerResetMs (re_cfg (ss_engine s))"
    and "getStatus (so_orderId opts) s = None" "known_hash opts s = None" "env_others env = (\<lambda>_ st. st)"
    and "settle env now opts s = (s1, res)" and "settle_steps s1 s2"
  shows "res = Inl (SettlementFailed Transient 0)
    \<and> (\<forall>out. (so_orderId opts, out) \<notin> set (ss_calls s2))
    \<and> (\<exists>r. getStatus (so_orderId opts) s2 = Some r \<and> state r = Terminal_failure)"
proof -
  let ?oid = "so_orderId opts"
  have s: "served s" by (rule settle_steps_served [OF assms(1) new_served [OF fresh_ok]])
  note one = settle_open_circuit [OF assms(2,3) assms(4) [unfolded getStatus_def] assms(5,6)]
  have same: "fst (settle env now opts s) = fst (settle (env\<lparr>env_onTxHash := \<lambda>_. None\<rparr>) now opts s)"
  proof -
    let ?env = "env\<lparr>env_onTxHash := \<lambda>_. None\<rparr>" and ?action = "''settlement:'' @ so_direction opts"
    have run: "engine_run (\<lambda>e. e) ?action (settle_action ?env ?oid) ro (env_random ?env) now (ss_engine s) w
        = engine_run (\<lambda>e. e) ?action (settle_action env ?oid) ro (env_random env) now (ss_engine s) w" for ro w
      using assms(2,3) by (simp add: engine_run_def Let_def checkCircuit_def check_breaker_def)
    have sub: "settle_submit env now opts (s\<lparr>ss_store := st\<rparr>) = settle_submit ?env now opts (s\<lparr>ss_store := st\<rparr>)" for st
      unfolding settle_submit_def Let_def using run [of "settle_run_options opts (s\<lparr>ss_store := st\<rparr>)"] by simp
    show ?thesis unfolding settle_def Let_def sub by simp
  qed
  have "calm (env\<lparr>env_onTxHash := \<lambda>_. None\<rparr>)" using assms(6) by (simp add: calm_def tx_run.none)
  then have "served s1" using settle_served [OF s] same assms(7) by (metis fst_conv)
  moreover have "actions ?oid s1 = []"
    using s one assms(4,7) by (auto simp: served_def getStatus_def actions_def)
  ultimately have "given_up ?oid s1" using one assms(7) by (simp add: given_up_def)
  then have "given_up ?oid s2" by (rule given_up_steps [OF assms(8)])
  then show ?thesis using one assms(7) by (auto simp: given_up_def getStatus_def actions_def filter_empty_conv)
qed

definition tripped_engine :: retry_engine where
  "tripped_engine = (new_RetryEngine default_config)\<lparr>breakers := [(''settlement:xlm_to_eth'',
     \<lparr>br_state = Breaker_open, consecutiveFailures = 5, lastFailureAt = 100, halfOpenAllowed = False\<rparr>)]\<rparr>"

definition tripped_service :: settle_sys where
  "tripped_service = new_SettlementService (fresh_store True None None) tripped_engine
     (new_IdempotencyManager None None None) None None None"

theorem open_circuit_loses_order_witness:
  "snd (settle sample_settle_env 200 sample_settle_options tripped_service) = Inl (SettlementFailed Transient 0)
   \<and> (\<exists>r. getStatus ''o1'' (fst (settle sample_settle_env 900000 sample_settle_options
          (fst (settle sample_settle_env 200 sample_settle_options tripped_service)))) = Some r \<and> state r = Terminal_failure)"
proof -
  let ?e = sample_settle_env and ?o = sample_settle_options
  let ?s1 = "fst (settle ?e 200 ?o tripped_service)"
  have "settle ?e 200 ?o tripped_service = (?s1, snd (settle ?e 200 ?o tripped_service))" by simp
  moreover have "settle_steps ?s1 (fst (settle ?e 900000 ?o ?s1))"
    by (rule r_into_rtranclp) (rule settle_step.settle [OF sample_calm])
  moreover have "settle_steps tripped_service tripped_service" by (rule rtranclp.rtrancl_refl)
  ultimately have
    "br_state (getBreaker (''settlement:'' @ so_direction ?o) (ss_engine tripped_service)) = Breaker_open \<Longrightarrow>
     200 - lastFailureAt (getBreaker (''settlement:'' @ so_direction ?o) (ss_engine tripped_service))
       < circuitBreakerResetMs (re_cfg (ss_engine tripped_service)) \<Longrightarrow>
     getStatus (so_orderId ?o) tripped_service = None \<Longrightarrow> known_hash ?o tripped_service = None \<Longrightarrow>
     env_others ?e = (\<lambda>_ st. st) \<Longrightarrow>
     snd (settle ?e 200 ?o tripped_service) = Inl (SettlementFailed Transient 0)
     \<and> (\<exists>r. getStatus (so_orderId ?o) (fst (settle ?e 900000 ?o ?s1)) = Some r \<and> state r = Terminal_failure)"
    using open_circuit_loses_order [of True None None tripped_engine "new_IdempotencyManager None None None" None None None
        tripped_service ?o 200 ?e ?s1 "snd (settle ?e 200 ?o tripped_service)" "fst (settle ?e 900000 ?o ?s1)"]
    unfolding tripped_service_def [symmetric] by blast
  then show ?thesis
    by (simp add: tripped_service_def new_SettlementService_def tripped_engine_def new_RetryEngine_def default_config_def
        sample_settle_options_def sample_settle_env_def getBreaker_def getStatus_def tx_get_def fresh_store_def
        new_TxStateStore_def known_hash_def truthy_def)
qed


section \<open>A callback that throws\<close>

definition throwing_env :: settle_env where
  "throwing_env = \<lparr>env_action = (\<lambda>n _. (1, Inr (if n = 0 then ''0xaa'' else ''0xbb''))), env_others = (\<lambda>_ st. st),
     env_onTxHash = (\<lambda>h. if h = ''0xaa'' then Some ''x'' else None), env_random = (\<lambda>_. 0)\<rparr>"

text \<open>When the hash callback of a settlement throws after the transaction was sent, the engine takes that for a
  failed attempt and sends a second transaction; the caller gets the hash of the second, the record keeps
  the first.\<close>

lemma callback_error_resubmits:
  "ss_calls (fst (settle throwing_env 0 sample_settle_options sample_service))
     = [(''o1'', Inr ''0xaa''), (''o1'', Inr ''0xbb'')]"
  "map_option tx_txHash (getStatus ''o1'' (fst (settle throwing_env 0 sample_settle_options sample_service)))
     = Some (Some ''0xaa'')"
  by code_simp+

end
