(* ===== verification/Secret_Cipher.thy ===== *)
theory Secret_Cipher
  imports Js_Numbers File_Store "HOL-Library.Word"
begin

text \<open>
  \<open>coordinator/src/crypto/secret-cipher.ts\<close>: the byte layout of an encrypted preimage, its base64url text,
  and the keys. AES-256-GCM itself comes from the platform; its two directions are an
  argument, with the law that decryption with the same key and nonce gives the plaintext back, and the
  random nonce of every call is an argument too.
\<close>

type_synonym byte = "8 word"

section \<open>base64url\<close>

definition b64_char :: "nat \<Rightarrow> char" where
  "b64_char n = (if n < 26 then char_of (65 + n) else if n < 52 then char_of (71 + n)
     else if n < 62 then char_of (n - 4) else if n = 62 then CHR ''-'' else CHR ''_'')"

text \<open>The decoder accepts both alphabets, skips any other character and stops at the padding.\<close>

definition b64_value :: "char \<Rightarrow> nat option" where
  "b64_value c = (let n = (of_char c :: nat)
     in if 65 \<le> n \<and> n \<le> 90 then Some (n - 65) else if 97 \<le> n \<and> n \<le> 122 then Some (n - 71)
        else if 48 \<le> n \<and> n \<le> 57 then Some (n + 4)
        else if c = CHR ''-'' \<or> c = CHR ''+'' then Some 62 else if c = CHR ''_'' \<or> c = CHR ''/'' then Some 63 else None)"

fun b64_sextets :: "byte list \<Rightarrow> nat list" where
  "b64_sextets [] = []"
| "b64_sextets [a] = (let n = unat a * 16 in [n div 64, n mod 64])"
| "b64_sextets [a, b] = (let n = (unat a * 256 + unat b) * 4 in [n div 4096, n div 64 mod 64, n mod 64])"
| "b64_sextets (a # b # c # bs) =
     (let n = (unat a * 256 + unat b) * 256 + unat c
      in [n div 262144, n div 4096 mod 64, n div 64 mod 64, n mod 64] @ b64_sextets bs)"

fun b64_bytes :: "nat list \<Rightarrow> byte list" where
  "b64_bytes (w # x # y # z # ds) =
     (let n = ((w * 64 + x) * 64 + y) * 64 + z
      in [of_nat (n div 65536), of_nat (n div 256), of_nat n] @ b64_bytes ds)"
| "b64_bytes [w, x, y] = (let n = (w * 64 + x) * 64 + y in [of_nat (n div 1024), of_nat (n div 4)])"
| "b64_bytes [w, x] = [of_nat ((w * 64 + x) div 16)]"
| "b64_bytes _ = []"

definition to_base64url :: "byte list \<Rightarrow> string" where
  "to_base64url bs = map b64_char (b64_sextets bs)"

definition from_base64 :: "string \<Rightarrow> byte list" where
  "from_base64 s = b64_bytes (List.map_filter b64_value (takeWhile (\<lambda>c. c \<noteq> CHR ''='') s))"

definition string_bytes :: "string \<Rightarrow> byte list" where
  "string_bytes s = map (\<lambda>c. of_nat (of_char c)) s"

definition bytes_string :: "byte list \<Rightarrow> string" where
  "bytes_string bs = map (\<lambda>b. char_of (unat b)) bs"

section \<open>The cipher\<close>

record gcm =
  gcm_encrypt :: "byte list \<Rightarrow> byte list \<Rightarrow> byte list \<Rightarrow> byte list \<times> byte list"
  gcm_decrypt :: "byte list \<Rightarrow> byte list \<Rightarrow> byte list \<Rightarrow> byte list \<Rightarrow> byte list option"

datatype cipher_error = BadKeyLength | BlobTooShort | UnknownVersion | DecryptionFailed | BadKeyText

definition VERSION_AES256GCM :: byte where "VERSION_AES256GCM = 1"
definition IV_BYTES :: nat where "IV_BYTES = 12"
definition TAG_BYTES :: nat where "TAG_BYTES = 16"
definition KEY_BYTES :: nat where "KEY_BYTES = 32"

definition replace_char :: "char \<Rightarrow> char \<Rightarrow> string \<Rightarrow> string" where
  "replace_char a b s = map (\<lambda>c. if c = a then b else c) s"

definition deriveKey :: "string \<Rightarrow> cipher_error + byte list" where
  "deriveKey rawKey =
     (let stripped = js_trim rawKey
      in if length stripped = 64 \<and> list_all (\<lambda>c. hex_value c \<noteq> None) stripped
         then Inr (map of_nat (hex_bytes stripped))
         else let decoded = from_base64 (replace_char (CHR ''_'') (CHR ''/'') (replace_char (CHR ''-'') (CHR ''+'') stripped))
              in if length decoded = KEY_BYTES then Inr decoded else Inl BadKeyText)"

definition encryptSecret :: "gcm \<Rightarrow> byte list \<Rightarrow> string \<Rightarrow> byte list \<Rightarrow> cipher_error + string" where
  "encryptSecret g iv plaintext key =
     (if length key \<noteq> KEY_BYTES then Inl BadKeyLength
      else let (encrypted, authTag) = gcm_encrypt g key iv (string_bytes plaintext)
           in Inr (to_base64url ([VERSION_AES256GCM] @ iv @ authTag @ encrypted)))"

definition decryptSecret :: "gcm \<Rightarrow> string \<Rightarrow> byte list \<Rightarrow> cipher_error + string" where
  "decryptSecret g blob key =
     (if length key \<noteq> KEY_BYTES then Inl BadKeyLength
      else let buf = from_base64 blob
           in if length buf < 1 + IV_BYTES + TAG_BYTES + 1 then Inl BlobTooShort
              else if hd buf \<noteq> VERSION_AES256GCM then Inl UnknownVersion
              else let iv = take IV_BYTES (drop 1 buf); authTag = take TAG_BYTES (drop (1 + IV_BYTES) buf);
                       ciphertext = drop (1 + IV_BYTES + TAG_BYTES) buf
                   in case gcm_decrypt g key iv authTag ciphertext of
                        None \<Rightarrow> Inl DecryptionFailed
                      | Some bs \<Rightarrow> Inr (bytes_string bs))"

definition isEncryptedBlob :: "string \<Rightarrow> bool" where
  "isEncryptedBlob v = (\<not> startsWith v ''0x'' \<and> v \<noteq> [] \<and> list_all safe_char v)"

text \<open>What the platform's cipher promises.\<close>

definition gcm_ok :: "gcm \<Rightarrow> bool" where
  "gcm_ok g \<longleftrightarrow> (\<forall>key iv p. length key = KEY_BYTES \<longrightarrow> length iv = IV_BYTES \<longrightarrow>
     (let (c, t) = gcm_encrypt g key iv p
      in length t = TAG_BYTES \<and> length c = length p \<and> gcm_decrypt g key iv t c = Some p))"


section \<open>Round trips\<close>

lemma unat_byte: "unat (b :: byte) < 256"
  using unsigned_less [of b] by simp

lemma b64_value_char: "n < 64 \<Longrightarrow> b64_value (b64_char n) = Some n"
  by (auto simp: b64_value_def b64_char_def Let_def of_char_of)

lemma b64_char_safe: "n < 64 \<Longrightarrow> safe_char (b64_char n) \<and> b64_char n \<noteq> CHR ''=''"
  by (auto simp: b64_char_def safe_char_def Let_def of_char_of dest: arg_cong [of _ _ "of_char :: char \<Rightarrow> nat"])

lemma sextets_small: "x \<in> set (b64_sextets bs) \<Longrightarrow> x < 64"
proof (induction bs rule: b64_sextets.induct)
  case (2 a)
  then show ?case using unat_byte [of a] by (auto simp: Let_def)
next
  case (3 a b)
  then show ?case using unat_byte [of a] unat_byte [of b] by (auto simp: Let_def)
next
  case (4 a b c bs)
  then show ?case using unat_byte [of a] unat_byte [of b] unat_byte [of c] by (auto simp: Let_def)
qed simp

lemma byte_256 [simp]: "(256 :: byte) = 0" "(65536 :: byte) = 0"
  by (transfer, simp add: take_bit_eq_mod)+

lemma of_nat_byte [simp]: "(of_nat (n * 256 + m) :: byte) = of_nat m"
  by simp

lemma group4: "((n div 262144 * 64 + n div 4096 mod 64) * 64 + n div 64 mod 64) * 64 + n mod 64 = (n :: nat)"
proof -
  have "n div 262144 * 64 + n div 4096 mod 64 = n div 4096"
    using div_mult_mod_eq [of "n div 4096" 64] by (simp add: div_mult2_eq [symmetric])
  moreover have "n div 4096 * 64 + n div 64 mod 64 = n div 64"
    using div_mult_mod_eq [of "n div 64" 64] by (simp add: div_mult2_eq [symmetric])
  ultimately show ?thesis using div_mult_mod_eq [of n 64] by simp
qed

lemma group3: "(n div 4096 * 64 + n div 64 mod 64) * 64 + n mod 64 = (n :: nat)"
proof -
  have "n div 4096 * 64 + n div 64 mod 64 = n div 64"
    using div_mult_mod_eq [of "n div 64" 64] by (simp add: div_mult2_eq [symmetric])
  then show ?thesis using div_mult_mod_eq [of n 64] by simp
qed

lemma bytes_of_sextets: "b64_bytes (b64_sextets bs) = bs"
proof (induction bs rule: b64_sextets.induct)
  case (2 a)
  then show ?case using div_mult_mod_eq [of "unat a * 16" 64] by (simp add: Let_def)
next
  case (3 a b)
  have "(unat a * 256 + unat b) * 4 div 1024 = unat a" using unat_byte [of b] by simp
  then show ?case using group3 [of "(unat a * 256 + unat b) * 4"] by (simp add: Let_def)
next
  case (4 a b c bs)
  define n where "n = (unat a * 256 + unat b) * 256 + unat c"
  have "n div 65536 = unat a" "n div 256 = unat a * 256 + unat b"
    using unat_byte [of b] unat_byte [of c] by (simp_all add: n_def)
  then have "of_nat (n div 65536) = a" "of_nat (n div 256) = b" "of_nat n = c" by (simp_all add: n_def)
  moreover have "b64_sextets (a # b # c # bs)
      = [n div 262144, n div 4096 mod 64, n div 64 mod 64, n mod 64] @ b64_sextets bs"
    by (simp add: Let_def n_def)
  ultimately show ?case using 4 group4 [of n] by (simp add: Let_def)
qed simp

lemma base64url_roundtrip: "from_base64 (to_base64url bs) = bs"
proof -
  have tw: "takeWhile (\<lambda>c. c \<noteq> CHR ''='') (map b64_char (b64_sextets bs)) = map b64_char (b64_sextets bs)"
    using sextets_small b64_char_safe by (auto simp: takeWhile_eq_all_conv)
  have "List.map_filter b64_value (map b64_char ds) = ds" if "\<forall>d\<in>set ds. d < 64" for ds
    using that by (induction ds) (simp_all add: List.map_filter_simps b64_value_char)
  then have "List.map_filter b64_value (map b64_char (b64_sextets bs)) = b64_sextets bs"
    using sextets_small by blast
  then show ?thesis by (simp only: from_base64_def to_base64url_def tw bytes_of_sextets)
qed

lemma string_bytes_roundtrip: "bytes_string (string_bytes s) = s"
proof -
  have "unat (of_nat (of_char c) :: byte) = of_char c" for c
    by (simp add: unsigned_of_nat take_bit_eq_mod)
  then show ?thesis by (induction s) (simp_all add: bytes_string_def string_bytes_def)
qed


lemma to_base64url_ConsE:
  "to_base64url (b # bs) \<noteq> []" "list_all safe_char (to_base64url bs)" "hd (to_base64url (VERSION_AES256GCM # bs)) = CHR ''A''"
proof -
  have "b64_sextets (b # bs) \<noteq> []" by (cases bs; cases "tl bs") (auto simp: Let_def)
  then show "to_base64url (b # bs) \<noteq> []" by (simp add: to_base64url_def)
  show "list_all safe_char (to_base64url bs)"
    using sextets_small b64_char_safe by (auto simp: to_base64url_def list_all_iff)
  have "hd (b64_sextets (1 # bs)) = 0"
  proof (cases bs)
    case (Cons y ys)
    then show ?thesis using unat_byte [of y] unat_byte [of "hd ys"] by (cases ys) (simp_all add: Let_def)
  qed (simp add: Let_def)
  moreover have "b64_sextets (1 # bs) \<noteq> []" by (cases bs; cases "tl bs") (auto simp: Let_def)
  moreover have "b64_char 0 = CHR ''A''" by code_simp
  ultimately show "hd (to_base64url (VERSION_AES256GCM # bs)) = CHR ''A''"
    by (simp add: to_base64url_def hd_map VERSION_AES256GCM_def)
qed

lemma encrypted_is_blob:
  assumes "encryptSecret g iv p key = Inr blob"
  shows "isEncryptedBlob blob"
proof -
  obtain bs where b: "blob = to_base64url (VERSION_AES256GCM # bs)"
    using assms by (auto simp: encryptSecret_def split: if_splits prod.splits)
  then obtain c s where "blob = c # s" "c = CHR ''A''"
    using to_base64url_ConsE(1,3) by (metis list.collapse)
  then show ?thesis using to_base64url_ConsE(2) [of "VERSION_AES256GCM # bs"]
    by (simp add: isEncryptedBlob_def startsWith_def flip: b)
qed

text \<open>An encrypted preimage is decrypted with its key to exactly the text that was encrypted, and
  is told apart from a plaintext preimage; the empty text is encrypted but cannot be decrypted.\<close>

lemma decrypt_encrypt:
  assumes "gcm_ok g" and "length key = KEY_BYTES" and "length iv = IV_BYTES" and "p \<noteq> []"
  shows "\<exists>blob. encryptSecret g iv p key = Inr blob \<and> decryptSecret g blob key = Inr p"
proof -
  obtain c t where e: "gcm_encrypt g key iv (string_bytes p) = (c, t)" by (cases "gcm_encrypt g key iv (string_bytes p)")
  have ct: "length t = 16" "length c = length p" "gcm_decrypt g key iv t c = Some (string_bytes p)"
    using assms(1) [unfolded gcm_ok_def, rule_format, OF assms(2,3), of "string_bytes p"] e
    by (simp_all add: TAG_BYTES_def string_bytes_def)
  let ?buf = "VERSION_AES256GCM # iv @ t @ c"
  have "encryptSecret g iv p key = Inr (to_base64url ?buf)" using assms(2) e by (simp add: encryptSecret_def)
  moreover have "decryptSecret g (to_base64url ?buf) key = Inr p"
    using assms(2-4) ct
    by (simp add: decryptSecret_def base64url_roundtrip Let_def IV_BYTES_def TAG_BYTES_def string_bytes_roundtrip
        flip: length_greater_0_conv)
  ultimately show ?thesis by blast
qed

end
