(* ===== verification/Secret_Service.thy ===== *)
theory Secret_Service
  imports Secret_Cipher Secret_Recovery Service_Properties
begin

text \<open>
  \<open>SecretService\<close> of \<open>coordinator/src/services/secret-service.ts\<close>, with the failure classes of
  \<open>secret-errors.ts\<close>: it validates a revealed preimage, encrypts it and records it through the order
  service, and gives it back to whoever asks, decrypting with a ring of keys. The hash functions,
  AES-GCM and the random nonces are arguments. Logs are not modelled.
\<close>

section \<open>Configuration\<close>

datatype key_value = KeyText string | KeyTexts "string list"

record key_config =
  kc_current :: "string option"
  kc_primary :: "string option"
  kc_previous :: "key_value option"
  kc_fallback :: "key_value option"
  kc_additional :: "key_value option"

datatype key_input = KeyInput string | KeyConfig key_config

datatype network = Testnet | Mainnet

record secret_service =
  sec_keys :: "byte list list"
  sec_network :: network

datatype startup_error = InvalidStorageKey cipher_error | StorageKeyRequired

definition trimmed :: "key_value option \<Rightarrow> string list" where
  "trimmed v = (case v of
      None \<Rightarrow> []
    | Some (KeyText s) \<Rightarrow> filter (\<lambda>t. t \<noteq> []) [js_trim s]
    | Some (KeyTexts ss) \<Rightarrow> filter (\<lambda>t. t \<noteq> []) (map js_trim ss))"

text \<open>\<open>Array.from(new Set(values))\<close> keeps the first of equal values.\<close>

definition normalizeKeys :: "key_input option \<Rightarrow> string list" where
  "normalizeKeys inp =
     (case inp of
        None \<Rightarrow> []
      | Some (KeyInput s) \<Rightarrow> filter (\<lambda>t. t \<noteq> []) [js_trim s]
      | Some (KeyConfig c) \<Rightarrow>
          rev (remdups (rev
            (trimmed (map_option KeyText (if kc_current c = None then kc_primary c else kc_current c))
             @ trimmed (kc_previous c) @ trimmed (kc_fallback c) @ trimmed (kc_additional c)))))"

fun derive_all :: "string list \<Rightarrow> cipher_error + byte list list" where
  "derive_all [] = Inr []"
| "derive_all (k # ks) =
     (case deriveKey k of
        Inl e \<Rightarrow> Inl e
      | Inr b \<Rightarrow> (case derive_all ks of Inl e \<Rightarrow> Inl e | Inr bs \<Rightarrow> Inr (b # bs)))"

definition new_SecretService :: "key_input option \<Rightarrow> network \<Rightarrow> startup_error + secret_service" where
  "new_SecretService inp net =
     (case normalizeKeys inp of
        [] \<Rightarrow> if net = Mainnet then Inl StorageKeyRequired else Inr \<lparr>sec_keys = [], sec_network = net\<rparr>
      | ks \<Rightarrow> (case derive_all ks of
                 Inl e \<Rightarrow> Inl (InvalidStorageKey e)
               | Inr keys \<Rightarrow> Inr \<lparr>sec_keys = keys, sec_network = net\<rparr>))"

section \<open>Revealing\<close>

datatype secret_error =
    UnknownOrderError
  | InvalidPreimageError
  | RevealConflictError
  | SecretStorageError
  | CipherFailure cipher_error

fun http_status :: "secret_error \<Rightarrow> nat" where
  "http_status UnknownOrderError = 404"
| "http_status InvalidPreimageError = 400"
| "http_status RevealConflictError = 409"
| "http_status _ = 500"

fun classifyStorageFailure :: "svc_error \<Rightarrow> secret_error" where
  "classifyStorageFailure (UnknownOrder _) = UnknownOrderError"
| "classifyStorageFailure (RepoFailure _) = SecretStorageError"
| "classifyStorageFailure _ = RevealConflictError"

definition value_to_store :: "gcm \<Rightarrow> byte list \<Rightarrow> secret_service \<Rightarrow> string \<Rightarrow> cipher_error + string" where
  "value_to_store g iv ss pre =
     (case sec_keys ss of [] \<Rightarrow> Inr pre | writeKey # _ \<Rightarrow> encryptSecret g iv pre writeKey)"

definition sec_reveal ::
    "gcm \<Rightarrow> byte list \<Rightarrow> digests \<Rightarrow> secret_service \<Rightarrow> call_ctx \<Rightarrow> string \<Rightarrow> string \<Rightarrow> string \<Rightarrow> svc
     \<Rightarrow> secret_error + svc" where
  "sec_reveal g iv dg ss ctx pid pre tx s =
     (case svc_get pid s of
        None \<Rightarrow> Inl UnknownOrderError
      | Some order \<Rightarrow>
          let buf = bufferFromHex pre
          in if sha256Hex dg buf \<noteq> hashlock order \<and> keccak256Hex dg buf \<noteq> hashlock order
             then Inl InvalidPreimageError
             else (case value_to_store g iv ss pre of
                     Inl e \<Rightarrow> Inl (CipherFailure e)
                   | Inr v \<Rightarrow>
                       (case svc_recordSecret ctx pid v tx (if sec_keys ss = [] then None else Some 1) ''system'' s of
                          Inl e \<Rightarrow> Inl (classifyStorageFailure e)
                        | Inr s' \<Rightarrow> Inr s')))"

section \<open>Looking up\<close>

datatype lookup_error = NoDecryptionKey | CannotDecrypt cipher_error

text \<open>The failures of a re-encryption are logged and dropped.\<close>

definition reencryptStoredSecret ::
    "gcm \<Rightarrow> byte list \<Rightarrow> secret_service \<Rightarrow> call_ctx \<Rightarrow> string \<Rightarrow> string \<Rightarrow> order_row \<Rightarrow> string \<Rightarrow> svc \<Rightarrow> svc" where
  "reencryptStoredSecret g iv ss ctx pid plaintext order stored s =
     (case sec_keys ss of
        [] \<Rightarrow> s
      | writeKey # _ \<Rightarrow>
          if stored = [] \<or> \<not> isEncryptedBlob stored then s
          else (case encryptSecret g iv plaintext writeKey of
                  Inl _ \<Rightarrow> s
                | Inr v \<Rightarrow>
                    (case svc_recordSecret ctx pid v (or_default (secretRevealedTx order) ''0xrekey'') (Some 1) ''system'' s of
                       Inl _ \<Rightarrow> s
                     | Inr s' \<Rightarrow> s')))"

text \<open>The loop over the keys; \<open>first\<close> says whether the key is the write key.\<close>

fun decrypt_with ::
    "gcm \<Rightarrow> byte list \<Rightarrow> secret_service \<Rightarrow> call_ctx \<Rightarrow> string \<Rightarrow> order_row \<Rightarrow> string \<Rightarrow> byte list list \<Rightarrow> bool
     \<Rightarrow> cipher_error \<Rightarrow> svc \<Rightarrow> svc \<times> (lookup_error + string option)" where
  "decrypt_with g iv ss ctx pid order stored [] first lastError s = (s, Inl (CannotDecrypt lastError))"
| "decrypt_with g iv ss ctx pid order stored (key # keys) first lastError s =
     (case decryptSecret g stored key of
        Inr plaintext \<Rightarrow>
          (if first then s else reencryptStoredSecret g iv ss ctx pid plaintext order stored s, Inr (Some plaintext))
      | Inl e \<Rightarrow> decrypt_with g iv ss ctx pid order stored keys False e s)"

definition sec_get ::
    "gcm \<Rightarrow> byte list \<Rightarrow> secret_service \<Rightarrow> call_ctx \<Rightarrow> string \<Rightarrow> svc \<Rightarrow> svc \<times> (lookup_error + string option)" where
  "sec_get g iv ss ctx pid s =
     (case svc_get pid s of
        None \<Rightarrow> (s, Inr None)
      | Some order \<Rightarrow>
          if \<not> truthy (preimage order) then (s, Inr None)
          else let stored = the (preimage order)
               in if \<not> isEncryptedBlob stored then (s, Inr (Some stored))
                  else if sec_keys ss = [] then (s, Inl NoDecryptionKey)
                  else decrypt_with g iv ss ctx pid order stored (sec_keys ss) True DecryptionFailed s)"

section \<open>Lookups do not write\<close>

lemma record_known_secret:
  assumes "svc_get pid s = Some order" and "preimage order \<noteq> None"
    and "svc_recordSecret ctx pid v tx enc act s = Inr s'"
  shows "s' = s"
  using assms by (auto simp: svc_recordSecret_def secret_guard_def svc_get_def split: if_splits)

lemma reencrypt_unchanged:
  assumes "svc_get pid s = Some order" and "preimage order \<noteq> None"
  shows "reencryptStoredSecret g iv ss ctx pid plaintext order stored s = s"
  using record_known_secret [OF assms]
  by (auto simp: reencryptStoredSecret_def split: list.split sum.split)

lemma decrypt_with_unchanged:
  assumes "svc_get pid s = Some order" and "preimage order \<noteq> None"
  shows "fst (decrypt_with g iv ss ctx pid order stored keys first lastError s) = s"
  using assms reencrypt_unchanged [OF assms] by (induction keys arbitrary: first lastError) (auto split: sum.split)

lemma sec_get_unchanged: "fst (sec_get g iv ss ctx pid s) = s"
  using decrypt_with_unchanged by (auto simp: sec_get_def Let_def truthy_def split: option.split)


section \<open>A revealed secret can be looked up\<close>

lemma recordSecret_stores:
  assumes "svc_recordSecret ctx pid v tx enc act s = Inr s'"
  shows "\<exists>q. svc_get pid s' = Some q \<and> preimage q = Some v"
proof (cases "secret_guard pid v (repo s)")
  case (Inr g)
  show ?thesis
  proof (cases g)
    case None
    then have "s' = s" using assms Inr by (simp add: svc_recordSecret_def)
    then show ?thesis
      using Inr None by (auto simp: secret_guard_def svc_get_def split: option.splits if_splits)
  next
    case (Some order)
    then have g: "secret_guard pid v (repo s) = Inr (Some order)" using Inr by simp
    obtain d where d: "repo_recordSecretRevealed (ctx_seconds ctx) pid v tx enc ''system'' (repo s) = Inr d"
      and s': "repo s' = d"
      using assms g by (auto simp: svc_recordSecret_def Let_def split: sum.splits)
    have "select_by_public_id pid (repo s) = Some order"
      using g by (auto simp: secret_guard_def repo_findByPublicId_def split: option.splits if_splits)
    then show ?thesis
      using recordSecretRevealed_effect [OF g d] by (simp add: db_effect_def svc_get_def repo_findByPublicId_def s')
  qed
qed (use assms in \<open>simp add: svc_recordSecret_def\<close>)

lemma reveal_stores:
  assumes "sec_reveal g iv dg ss ctx pid pre tx s = Inr s'"
  shows "\<exists>v q. value_to_store g iv ss pre = Inr v \<and> svc_get pid s' = Some q \<and> preimage q = Some v"
  using assms recordSecret_stores
  by (fastforce simp: sec_reveal_def Let_def split: option.splits if_splits sum.splits)

lemma decrypt_with_finds:
  assumes "decryptSecret g stored key = Inr p" and "\<forall>k\<in>set before. \<exists>e. decryptSecret g stored k = Inl e"
  shows "snd (decrypt_with g iv ss ctx pid order stored (before @ key # after) first lastError s) = Inr (Some p)"
  using assms by (induction before arbitrary: first lastError) (auto split: sum.split)

text \<open>C18. A secret that was revealed successfully is given back exactly, after any further calls of the order
  service and to any later instance of the secret service: in plaintext mode, or when the key it was
  encrypted with is still in the key ring and no key before it decrypts the stored value.\<close>

theorem revealed_secret_found:
  assumes "gcm_ok g" and "length iv = IV_BYTES" and "list_all (\<lambda>k. length k = KEY_BYTES) (sec_keys ss)"
    and "startsWith pre ''0x''"
    and "sec_reveal g iv dg ss ctx pid pre tx s = Inr s1" and "svc_steps codec s1 s2"
    and "sec_keys ss = [] \<or> (\<exists>before after. sec_keys ss2 = before @ hd (sec_keys ss) # after
        \<and> (\<forall>k\<in>set before. \<forall>blob. encryptSecret g iv pre (hd (sec_keys ss)) = Inr blob \<longrightarrow> (\<exists>e. decryptSecret g blob k = Inl e)))"
  shows "snd (sec_get g iv2 ss2 ctx2 pid s2) = Inr (Some pre)"
proof -
  from reveal_stores [OF assms(5)] obtain v q where v: "value_to_store g iv ss pre = Inr v"
    and q: "svc_get pid s1 = Some q" "preimage q = Some v" by blast
  from svc_steps_stable [OF assms(6) q(1)] q(2) obtain r where r: "svc_get pid s2 = Some r" "preimage r = Some v"
    by (auto simp: row_stable_def)
  have ne: "pre \<noteq> []" using assms(4) by (auto simp: startsWith_def)
  show ?thesis
  proof (cases "sec_keys ss")
    case Nil
    then have "v = pre" using v by (simp add: value_to_store_def)
    then show ?thesis using r ne assms(4) by (simp add: sec_get_def truthy_def isEncryptedBlob_def)
  next
    case (Cons key keys)
    then have enc: "encryptSecret g iv pre key = Inr v" using v by (simp add: value_to_store_def)
    have "length key = KEY_BYTES" using assms(3) Cons by simp
    from decrypt_encrypt [OF assms(1) this assms(2) ne] have dec: "decryptSecret g v key = Inr pre" using enc by auto
    obtain before after where ring: "sec_keys ss2 = before @ key # after"
      "\<forall>k\<in>set before. \<exists>e. decryptSecret g v k = Inl e" using assms(7) Cons enc by auto
    have blob: "isEncryptedBlob v" by (rule encrypted_is_blob [OF enc])
    then have "v \<noteq> []" by (simp add: isEncryptedBlob_def)
    then show ?thesis
      using r ring blob decrypt_with_finds [OF dec ring(2)] by (simp add: sec_get_def truthy_def)
  qed
qed

definition toy_gcm :: gcm where
  "toy_gcm = \<lparr>gcm_encrypt = (\<lambda>key iv p. (p, take TAG_BYTES key)),
     gcm_decrypt = (\<lambda>key iv t c. if t = take TAG_BYTES key then Some c else None)\<rparr>"

lemma toy_gcm_ok: "gcm_ok toy_gcm"
  by (simp add: gcm_ok_def toy_gcm_def KEY_BYTES_def TAG_BYTES_def)

lemma toy_wrong_key:
  assumes "encryptSecret toy_gcm (replicate 12 7) ''0xab'' (replicate 32 1) = Inr blob"
  shows "decryptSecret toy_gcm blob (replicate 32 2) = Inl DecryptionFailed"
  using assms
  by (auto simp: encryptSecret_def decryptSecret_def toy_gcm_def KEY_BYTES_def TAG_BYTES_def IV_BYTES_def
      base64url_roundtrip string_bytes_def Let_def replicate_eq_replicate)

text \<open>The key is rotated between the reveal and the lookup.\<close>

theorem revealed_secret_found_witness:
  "\<exists>s1. sec_reveal toy_gcm (replicate 12 7) \<lparr>sha256Hex = \<lambda>_. ''0x'' @ replicate 64 (CHR ''a''), keccak256Hex = \<lambda>_. []\<rparr>
       \<lparr>sec_keys = [replicate 32 1], sec_network = Mainnet\<rparr> sample_ctx sample_id ''0xab'' ''0xt'' sample_svc = Inr s1
     \<and> snd (sec_get toy_gcm (replicate 12 9) \<lparr>sec_keys = [replicate 32 2, replicate 32 1], sec_network = Mainnet\<rparr>
         sample_ctx sample_id s1) = Inr (Some ''0xab'')"
proof -
  let ?dg = "\<lparr>sha256Hex = \<lambda>_. ''0x'' @ replicate 64 (CHR ''a''), keccak256Hex = \<lambda>_. []\<rparr>"
  let ?ss = "\<lparr>sec_keys = [replicate 32 1], sec_network = Mainnet\<rparr>"
  obtain blob where e: "encryptSecret toy_gcm (replicate 12 7) ''0xab'' (replicate 32 1) = Inr blob"
    using decrypt_encrypt [OF toy_gcm_ok, of "replicate 32 1" "replicate 12 7" "''0xab''"]
    by (auto simp: KEY_BYTES_def IV_BYTES_def)
  have "map_option (\<lambda>r. (hashlock r, preimage r, status r)) (svc_get sample_id sample_svc)
      = Some (''0x'' @ replicate 64 (CHR ''a''), None, Src_locked)" by code_simp
  then obtain r where r: "svc_get sample_id sample_svc = Some r" "hashlock r = ''0x'' @ replicate 64 (CHR ''a'')"
    "preimage r = None" "status r = Src_locked" by auto
  then have g: "secret_guard sample_id blob (repo sample_svc) = Inr (Some r)"
    by (simp add: secret_guard_def svc_get_def isTerminal_iff canTransition_def)
  then have "\<exists>d. repo_recordSecretRevealed (ctx_seconds sample_ctx) sample_id blob ''0xt'' (Some 1) ''system''
      (repo sample_svc) = Inr d"
    using r by (simp add: repo_recordSecretRevealed_def Let_def svc_get_def repo_findByPublicId_def isTerminal_iff)
  then obtain s1 where "svc_recordSecret sample_ctx sample_id blob ''0xt'' (Some 1) ''system'' sample_svc = Inr s1"
    using g by (auto simp: svc_recordSecret_def Let_def)
  then have s1: "sec_reveal toy_gcm (replicate 12 7) ?dg ?ss sample_ctx sample_id ''0xab'' ''0xt'' sample_svc = Inr s1"
    using r e by (simp add: sec_reveal_def value_to_store_def Let_def)
  have "snd (sec_get toy_gcm (replicate 12 9) \<lparr>sec_keys = [replicate 32 2, replicate 32 1], sec_network = Mainnet\<rparr>
         sample_ctx sample_id s1) = Inr (Some ''0xab'')"
  proof (rule revealed_secret_found [OF toy_gcm_ok _ _ _ s1 svc_steps.none])
    show "sec_keys ?ss = [] \<or> (\<exists>before after.
        sec_keys \<lparr>sec_keys = [replicate 32 2, replicate 32 1], sec_network = Mainnet\<rparr> = before @ hd (sec_keys ?ss) # after
        \<and> (\<forall>k\<in>set before. \<forall>blob. encryptSecret toy_gcm (replicate 12 7) ''0xab'' (hd (sec_keys ?ss)) = Inr blob
              \<longrightarrow> (\<exists>e. decryptSecret toy_gcm blob k = Inl e)))"
      using toy_wrong_key by (intro disjI2 exI [of _ "[replicate 32 2]"] exI [of _ "[]"]) auto
  qed (simp_all add: IV_BYTES_def KEY_BYTES_def startsWith_def)
  with s1 show ?thesis by blast
qed

text \<open>Looking a secret up never changes the service, whatever keys it is configured with: the
  re-encryption under a new write key is always refused by the order service, which takes the new
  ciphertext for a conflicting preimage, so a rotated key never replaces the old one.\<close>

theorem key_rotation_never_happens:
  "fst (sec_get g iv ss ctx pid s) = s"
  by (rule sec_get_unchanged)

text \<open>For the same reason a repeated reveal of the right preimage is a conflict when encryption is on.\<close>

lemma repeated_reveal_conflicts:
  assumes "sec_reveal g iv dg ss ctx pid pre tx s = Inr s1" and "sec_keys ss \<noteq> []"
    and "value_to_store g iv2 ss pre = Inr v2" and "value_to_store g iv ss pre \<noteq> Inr v2"
  shows "sec_reveal g iv2 dg ss ctx2 pid pre tx2 s1 \<in> {Inl RevealConflictError, Inl InvalidPreimageError}"
proof -
  from reveal_stores [OF assms(1)] obtain v q where v: "value_to_store g iv ss pre = Inr v"
    and q: "svc_get pid s1 = Some q" "preimage q = Some v" by blast
  have "svc_recordSecret ctx2 pid v2 tx2 (Some 1) ''system'' s1 = Inl (ConflictingPreimage pid)"
    using q assms(4) v by (simp add: svc_recordSecret_def secret_guard_def svc_get_def)
  then show ?thesis using q assms(2,3) by (auto simp: sec_reveal_def Let_def)
qed

end
